(* ===== verification/Js_Prelude.thy ===== *)
theory Js_Prelude
  imports Complex_Main "HOL-Library.AList"
begin

text \<open>
  Shared base of the development: the JavaScript values the source passes around
  (\<open>unknown\<close> and \<open>Record<string, unknown>\<close>), the string and number routines of the
  standard library it calls, exceptions as values, and state-passing computations.

  A string is a list of ASCII characters. A finite number is an exact rational (the rounding
  of IEEE doubles is not modelled). An object is an association list in insertion order with
  distinct keys; objects inherit nothing, so a property of \<open>Object.prototype\<close> is never read.
\<close>

named_theorems js_simps \<open>property access, spreading and coalescing of JavaScript values\<close>
named_theorems io_simps \<open>computation rules of state-passing computations\<close>

section \<open>Values\<close>

datatype jsnum = Fin rat | PosInf | NegInf | NaN

datatype js =
    Undef
  | Null
  | Bool bool
  | Num jsnum
  | Str string
  | Arr "js list"
  | Obj "(string \<times> js) list"

type_synonym obj = "(string \<times> js) list"

abbreviation JInt :: "int \<Rightarrow> js" where
  "JInt n \<equiv> Num (Fin (of_int n))"

text \<open>\<open>o[k]\<close>: a missing property reads as undefined.\<close>

definition obj_get :: "obj \<Rightarrow> string \<Rightarrow> js" where
  "obj_get ob k = (case map_of ob k of None \<Rightarrow> Undef | Some v \<Rightarrow> v)"

definition has_own :: "obj \<Rightarrow> string \<Rightarrow> bool" where
  "has_own ob k \<longleftrightarrow> map_of ob k \<noteq> None"

text \<open>\<open>o[k] = v\<close> overwrites in place or appends; \<open>{...a, ...b}\<close> does so for each entry of \<open>b\<close>.\<close>

definition obj_set :: "obj \<Rightarrow> string \<Rightarrow> js \<Rightarrow> obj" where
  "obj_set ob k v = AList.update k v ob"

definition obj_spread :: "obj \<Rightarrow> obj \<Rightarrow> obj" where
  "obj_spread a b = foldl (\<lambda>ob kv. obj_set ob (fst kv) (snd kv)) a b"

definition obj_keys :: "obj \<Rightarrow> string list" where
  "obj_keys ob = map fst ob"

definition obj_ok :: "obj \<Rightarrow> bool" where
  "obj_ok ob \<longleftrightarrow> distinct (map fst ob)"

text \<open>A value whose objects, at every depth, have distinct keys.\<close>

fun js_ok :: "js \<Rightarrow> bool" where
  "js_ok (Arr xs) = list_all js_ok xs"
| "js_ok (Obj ob) = (distinct (map fst ob) \<and> list_all (\<lambda>kv. js_ok (snd kv)) ob)"
| "js_ok _ = True"

definition nullish :: "js \<Rightarrow> bool" where
  "nullish v \<longleftrightarrow> v = Undef \<or> v = Null"

text \<open>\<open>a ?? b\<close>.\<close>

definition coalesce :: "js \<Rightarrow> js \<Rightarrow> js" where
  "coalesce a b = (if nullish a then b else a)"

definition truthy :: "js \<Rightarrow> bool" where
  "truthy v = (case v of
      Undef \<Rightarrow> False
    | Null \<Rightarrow> False
    | Bool b \<Rightarrow> b
    | Num n \<Rightarrow> n \<noteq> Fin 0 \<and> n \<noteq> NaN
    | Str s \<Rightarrow> s \<noteq> []
    | _ \<Rightarrow> True)"

text \<open>\<open>a || b\<close>.\<close>

definition js_or :: "js \<Rightarrow> js \<Rightarrow> js" where
  "js_or a b = (if truthy a then a else b)"

text \<open>Optional chaining \<open>v?.k\<close> and a property read of an object.\<close>

definition js_prop :: "js \<Rightarrow> string \<Rightarrow> js" where
  "js_prop v k = (case v of Obj ob \<Rightarrow> obj_get ob k | _ \<Rightarrow> Undef)"

text \<open>\<open>(v ?? {}) as Record<string, unknown>\<close>: reading a property of a primitive is undefined.\<close>

definition as_record :: "js \<Rightarrow> obj" where
  "as_record v = (case v of Obj ob \<Rightarrow> ob | _ \<Rightarrow> [])"

text \<open>\<open>typeof v === 'object' && v !== null && !Array.isArray(v)\<close>.\<close>

definition is_record :: "js \<Rightarrow> bool" where
  "is_record v = (case v of Obj _ \<Rightarrow> True | _ \<Rightarrow> False)"

text \<open>\<open>a ?? null\<close>-style conversion of an optional string argument.\<close>

definition opt_str :: "string option \<Rightarrow> js" where
  "opt_str x = (case x of None \<Rightarrow> Undef | Some s \<Rightarrow> Str s)"

text \<open>Induction over values, with the fields of an object named.\<close>

lemma js_field_induct [case_names Undef Null Bool Num Str Arr Obj]:
  assumes "P Undef" "P Null" "\<And>b. P (Bool b)" "\<And>n. P (Num n)" "\<And>s. P (Str s)"
    and "\<And>xs. (\<And>x. x \<in> set xs \<Longrightarrow> P x) \<Longrightarrow> P (Arr xs)"
    and "\<And>ob. (\<And>k v. (k, v) \<in> set ob \<Longrightarrow> P v) \<Longrightarrow> P (Obj ob)"
  shows "P v"
proof (induction v)
  case (Obj ob)
  then show ?case by (intro assms(7)) (force simp: snds.simps)
qed (use assms in auto)

subsection \<open>Laws of objects\<close>

lemma map_of_obj_set [js_simps]: "map_of (obj_set ob k v) = (map_of ob)(k \<mapsto> v)"
  by (simp add: obj_set_def update_conv')

lemma obj_get_set [js_simps]:
  "obj_get (obj_set ob k v) k' = (if k' = k then v else obj_get ob k')"
  by (simp add: obj_get_def map_of_obj_set)

lemma obj_get_Some: "map_of ob k = Some v \<Longrightarrow> obj_get ob k = v"
  by (simp add: obj_get_def)

lemma obj_get_None: "map_of ob k = None \<Longrightarrow> obj_get ob k = Undef"
  by (simp add: obj_get_def)

lemma obj_set_same: "map_of ob k = Some v \<Longrightarrow> obj_set ob k v = ob"
  by (induction ob) (auto simp: obj_set_def)

lemma obj_set_append: "k \<notin> fst ` set xs \<Longrightarrow> obj_set (xs @ (k, v) # ys) k w = xs @ (k, w) # ys"
  by (induction xs) (auto simp: obj_set_def)

lemma dom_obj_set: "fst ` set (obj_set ob k v) = insert k (fst ` set ob)"
  by (simp add: obj_set_def dom_update)

lemma obj_ok_set: "obj_ok ob \<Longrightarrow> obj_ok (obj_set ob k v)"
  by (simp add: obj_ok_def obj_set_def distinct_update)

lemma map_of_obj_spread: "map_of (obj_spread a b) = map_of a ++ map_of (rev b)"
proof (induction b arbitrary: a)
  case Nil
  then show ?case by (simp add: obj_spread_def)
next
  case (Cons kv b)
  then show ?case
    by (simp add: obj_spread_def map_of_obj_set map_add_def fun_eq_iff split: option.splits)
qed

lemma map_of_rev_distinct: "distinct (map fst b) \<Longrightarrow> map_of (rev b) = map_of b"
proof (induction b)
  case Nil
  then show ?case by simp
next
  case (Cons kv b)
  then have "map_of b (fst kv) = None" by (simp add: map_of_eq_None_iff)
  with Cons show ?case by (auto simp: map_add_def fun_eq_iff split: option.splits)
qed

lemma obj_get_spread:
  "obj_ok b \<Longrightarrow> obj_get (obj_spread a b) k = (if has_own b k then obj_get b k else obj_get a k)"
  by (auto simp: obj_get_def map_of_obj_spread map_of_rev_distinct obj_ok_def has_own_def
      map_add_def split: option.splits)

lemma obj_spread_ok: "obj_ok a \<Longrightarrow> obj_ok (obj_spread a b)"
  by (induction b arbitrary: a) (simp_all add: obj_spread_def obj_ok_set)

lemma has_own_keys: "has_own ob k \<longleftrightarrow> k \<in> fst ` set ob"
  by (simp add: has_own_def map_of_eq_None_iff)

lemma obj_get_in: "obj_get ob k \<noteq> Undef \<Longrightarrow> has_own ob k"
  by (auto simp: obj_get_def has_own_def split: option.splits)

lemma as_record_Obj: "as_record (Obj ob) = ob"
  by (simp add: as_record_def)

lemma coalesce_simps [simp]:
  "coalesce Undef b = b"
  "coalesce Null b = b"
  "coalesce (Bool x) b = Bool x"
  "coalesce (Num n) b = Num n"
  "coalesce (Str s) b = Str s"
  "coalesce (Arr xs) b = Arr xs"
  "coalesce (Obj ob) b = Obj ob"
  by (simp_all add: coalesce_def nullish_def)

lemma truthy_simps [simp]:
  "\<not> truthy Undef"
  "\<not> truthy Null"
  "truthy (Bool x) = x"
  "truthy (Str s) = (s \<noteq> [])"
  "truthy (Num n) = (n \<noteq> Fin 0 \<and> n \<noteq> NaN)"
  "truthy (Arr xs)"
  "truthy (Obj ob)"
  by (simp_all add: truthy_def)

section \<open>Strings\<close>

text \<open>White space of \<open>String.prototype.trim\<close> among the ASCII characters.\<close>

definition is_space :: "char \<Rightarrow> bool" where
  "is_space c \<longleftrightarrow> c \<in> set [CHR 0x09, CHR 0x0A, CHR 0x0B, CHR 0x0C, CHR 0x0D, CHR '' '']"

definition trim :: "string \<Rightarrow> string" where
  "trim s = rev (dropWhile is_space (rev (dropWhile is_space s)))"

fun starts_with :: "string \<Rightarrow> string \<Rightarrow> bool" where
  "starts_with _ [] = True"
| "starts_with [] (_ # _) = False"
| "starts_with (c # s) (d # p) = (c = d \<and> starts_with s p)"

definition ends_with :: "string \<Rightarrow> string \<Rightarrow> bool" where
  "ends_with s p = starts_with (rev s) (rev p)"

fun str_includes :: "string \<Rightarrow> string \<Rightarrow> bool" where
  "str_includes [] p = (p = [])"
| "str_includes (c # s) p = (starts_with (c # s) p \<or> str_includes s p)"

definition upper_letters :: string where
  "upper_letters = ''ABCDEFGHIJKLMNOPQRSTUVWXYZ''"

definition lower_letters :: string where
  "lower_letters = ''abcdefghijklmnopqrstuvwxyz''"

definition to_lower_char :: "char \<Rightarrow> char" where
  "to_lower_char c = (case map_of (zip upper_letters lower_letters) c of Some d \<Rightarrow> d | None \<Rightarrow> c)"

definition to_upper_char :: "char \<Rightarrow> char" where
  "to_upper_char c = (case map_of (zip lower_letters upper_letters) c of Some d \<Rightarrow> d | None \<Rightarrow> c)"

definition to_lower :: "string \<Rightarrow> string" where
  "to_lower s = map to_lower_char s"

definition to_upper :: "string \<Rightarrow> string" where
  "to_upper s = map to_upper_char s"

text \<open>\<open>s.split(c)\<close> for a one-character separator: always at least one part.\<close>

fun split_char :: "char \<Rightarrow> string \<Rightarrow> string list" where
  "split_char d [] = [[]]"
| "split_char d (c # s) =
    (if c = d then [] # split_char d s
     else (case split_char d s of [] \<Rightarrow> [[c]] | p # ps \<Rightarrow> (c # p) # ps))"

text \<open>\<open>parts.join(sep)\<close>.\<close>

fun join :: "string \<Rightarrow> string list \<Rightarrow> string" where
  "join sep [] = []"
| "join sep [p] = p"
| "join sep (p # q # ps) = p @ sep @ join sep (q # ps)"

text \<open>\<open>s.split(sep)\<close> for a non-empty separator; the leftmost occurrence first.\<close>

function split_str :: "string \<Rightarrow> string \<Rightarrow> string list" where
  "split_str sep s =
     (if sep = [] \<or> s = [] then [s]
      else if starts_with s sep then [] # split_str sep (drop (length sep) s)
      else (case split_str sep (tl s) of [] \<Rightarrow> [[hd s]] | p # ps \<Rightarrow> (hd s # p) # ps))"
  by pat_completeness auto
termination
  by (relation "measure (\<lambda>(sep, s). length s)") (auto simp: neq_Nil_conv)

declare split_str.simps [simp del]

definition is_digit :: "char \<Rightarrow> bool" where
  "is_digit c \<longleftrightarrow> c \<in> set ''0123456789''"

definition is_alnum :: "char \<Rightarrow> bool" where
  "is_alnum c \<longleftrightarrow> is_digit c \<or> c \<in> set upper_letters \<or> c \<in> set lower_letters"

text \<open>\<open>value.split(',').map(trim).filter(Boolean)\<close>, the comma-separated lists of the configuration.\<close>

definition csv_values :: "string \<Rightarrow> string list" where
  "csv_values s = filter (\<lambda>v. v \<noteq> []) (map trim (split_char (CHR '','') s))"

lemma starts_with_append [simp]: "starts_with (p @ s) p"
  by (induction p) auto

lemma starts_with_iff: "starts_with s p \<longleftrightarrow> (\<exists>r. s = p @ r)"
  by (induction s p rule: starts_with.induct) auto

lemma str_includes_iff: "str_includes s p \<longleftrightarrow> (\<exists>a b. s = a @ p @ b)"
proof (induction s)
  case Nil
  then show ?case by auto
next
  case (Cons c s)
  show ?case
  proof
    assume "str_includes (c # s) p"
    then consider (1) r where "c # s = p @ r" | (2) a b where "s = a @ p @ b"
      using Cons by (auto simp: starts_with_iff)
    then show "\<exists>a b. c # s = a @ p @ b"
    proof cases
      case (1 r)
      then show ?thesis by (intro exI [of _ "[]"] exI [of _ r]) simp
    next
      case (2 a b)
      then show ?thesis by (intro exI [of _ "c # a"] exI [of _ b]) simp
    qed
  next
    assume "\<exists>a b. c # s = a @ p @ b"
    then obtain a b where ab: "c # s = a @ p @ b" by blast
    show "str_includes (c # s) p"
    proof (cases a)
      case Nil
      with ab have "starts_with (c # s) p" by (metis append_Nil starts_with_append)
      then show ?thesis by simp
    next
      case (Cons d a')
      with ab have "s = a' @ p @ b" by simp
      then show ?thesis using Cons.IH by auto
    qed
  qed
qed

lemma split_char_not_Nil [simp]: "split_char d s \<noteq> []"
  by (induction s) (auto split: list.splits)

lemma join_Cons_char: "join sep ((c # p) # ps) = c # join sep (p # ps)"
  by (cases ps) auto

lemma join_split_char: "join [d] (split_char d s) = s"
proof (induction s)
  case Nil
  then show ?case by simp
next
  case (Cons c s)
  then show ?case
    by (cases "split_char d s") (auto simp: join_Cons_char neq_Nil_conv)
qed

lemma split_char_no_sep: "p \<in> set (split_char d s) \<Longrightarrow> d \<notin> set p"
  by (induction s arbitrary: p) (auto split: if_splits list.splits)

lemma split_char_id: "d \<notin> set s \<Longrightarrow> split_char d s = [s]"
  by (induction s) auto

section \<open>Numbers\<close>

fun nat_of_digits :: "nat \<Rightarrow> string \<Rightarrow> nat" where
  "nat_of_digits a [] = a"
| "nat_of_digits a (c # s) = nat_of_digits (10 * a + (of_char c - 48)) s"

definition digits_nat :: "string \<Rightarrow> nat option" where
  "digits_nat s = (if s \<noteq> [] \<and> list_all is_digit s then Some (nat_of_digits 0 s) else None)"

definition digit_char :: "nat \<Rightarrow> char" where
  "digit_char d = ''0123456789'' ! d"

fun show_nat :: "nat \<Rightarrow> string" where
  "show_nat n = (if n < 10 then [digit_char n] else show_nat (n div 10) @ [digit_char (n mod 10)])"

declare show_nat.simps [simp del]

definition show_int :: "int \<Rightarrow> string" where
  "show_int i = (if i < 0 then CHR ''-'' # show_nat (nat (- i)) else show_nat (nat i))"

text \<open>
  \<open>Number(s)\<close> for a string (the \<open>StringToNumber\<close> of the language): white space is trimmed, the
  empty string is 0, then a hexadecimal, octal or binary literal, \<open>Infinity\<close> or a decimal literal with
  optional sign, fraction and exponent; anything else is NaN.
\<close>

definition decimal_mantissa :: "string \<Rightarrow> rat option" where
  "decimal_mantissa s =
     (let ip = takeWhile is_digit s; r = dropWhile is_digit s in
      case r of
        [] \<Rightarrow> (if ip = [] then None else Some (of_nat (nat_of_digits 0 ip)))
      | c # r' \<Rightarrow>
          (let fp = takeWhile is_digit r'; rest = dropWhile is_digit r' in
           if c = CHR ''.'' \<and> rest = [] \<and> (ip \<noteq> [] \<or> fp \<noteq> [])
           then Some (of_nat (nat_of_digits 0 (ip @ fp)) / 10 ^ length fp)
           else None))"

definition decimal_exponent :: "string \<Rightarrow> int option" where
  "decimal_exponent s =
     (case s of
        [] \<Rightarrow> None
      | c # r \<Rightarrow>
          (if c = CHR ''-'' then map_option (\<lambda>n. - int n) (digits_nat r)
           else if c = CHR ''+'' then map_option int (digits_nat r)
           else map_option int (digits_nat s)))"

definition is_exp_char :: "char \<Rightarrow> bool" where
  "is_exp_char c \<longleftrightarrow> c = CHR ''e'' \<or> c = CHR ''E''"

definition unsigned_decimal :: "string \<Rightarrow> jsnum" where
  "unsigned_decimal s =
     (if s = ''Infinity'' then PosInf
      else let m = takeWhile (\<lambda>c. \<not> is_exp_char c) s; r = dropWhile (\<lambda>c. \<not> is_exp_char c) s in
        case decimal_mantissa m of
          None \<Rightarrow> NaN
        | Some q \<Rightarrow>
            (case r of
               [] \<Rightarrow> Fin q
             | _ # e \<Rightarrow>
                 (case decimal_exponent e of
                    None \<Rightarrow> NaN
                  | Some k \<Rightarrow> Fin (if 0 \<le> k then q * 10 ^ nat k else q / 10 ^ nat (- k)))))"

fun num_neg :: "jsnum \<Rightarrow> jsnum" where
  "num_neg (Fin q) = Fin (- q)"
| "num_neg PosInf = NegInf"
| "num_neg NegInf = PosInf"
| "num_neg NaN = NaN"

definition radix_digit :: "char \<Rightarrow> nat" where
  "radix_digit c = (let n = of_char (to_lower_char c) :: nat in
     if 48 \<le> n \<and> n \<le> 57 then n - 48 else if 97 \<le> n \<and> n \<le> 122 then n - 87 else 99)"

definition radix_literal :: "nat \<Rightarrow> string \<Rightarrow> jsnum" where
  "radix_literal b s =
     (if s \<noteq> [] \<and> list_all (\<lambda>c. radix_digit c < b) s
      then Fin (of_nat (foldl (\<lambda>a c. b * a + radix_digit c) 0 s)) else NaN)"

definition string_to_number :: "string \<Rightarrow> jsnum" where
  "string_to_number s0 =
     (let s = trim s0; p = to_lower (take 2 s) in
      if s = [] then Fin 0
      else if p = ''0x'' then radix_literal 16 (drop 2 s)
      else if p = ''0o'' then radix_literal 8 (drop 2 s)
      else if p = ''0b'' then radix_literal 2 (drop 2 s)
      else if hd s = CHR ''-'' then num_neg (unsigned_decimal (tl s))
      else if hd s = CHR ''+'' then unsigned_decimal (tl s)
      else unsigned_decimal s)"

text \<open>
  \<open>Number(v)\<close>: an array is read through \<open>String(v)\<close>, so only the empty and one-element arrays can be
  numbers; an object is NaN.
\<close>

fun to_number :: "js \<Rightarrow> jsnum" where
  "to_number Undef = NaN"
| "to_number Null = Fin 0"
| "to_number (Bool b) = Fin (if b then 1 else 0)"
| "to_number (Num n) = n"
| "to_number (Str s) = string_to_number s"
| "to_number (Arr []) = Fin 0"
| "to_number (Arr [Undef]) = Fin 0"
| "to_number (Arr [Bool b]) = NaN"
| "to_number (Arr [v]) = to_number v"
| "to_number (Arr (_ # _ # _)) = NaN"
| "to_number (Obj _) = NaN"

text \<open>\<open>Number.isInteger(n)\<close>, with the integer.\<close>

definition num_int :: "jsnum \<Rightarrow> int option" where
  "num_int n = (case n of Fin q \<Rightarrow> (if of_int \<lfloor>q\<rfloor> = q then Some \<lfloor>q\<rfloor> else None) | _ \<Rightarrow> None)"

definition num_finite :: "jsnum \<Rightarrow> bool" where
  "num_finite n = (case n of Fin _ \<Rightarrow> True | _ \<Rightarrow> False)"

text \<open>The pattern \<open>Number.isInteger(n) && n > 0 ? n : undefined\<close> with \<open>n = Number(v)\<close>.\<close>

definition positive_integer :: "js \<Rightarrow> int option" where
  "positive_integer v =
     (case num_int (to_number v) of
        Some n \<Rightarrow> (if 0 < n then Some n else None)
      | None \<Rightarrow> None)"

lemma num_int_of_int [simp]: "num_int (Fin (of_int n)) = Some n"
  by (simp add: num_int_def)

lemma num_int_Some: "num_int n = Some i \<Longrightarrow> n = Fin (of_int i)"
  by (auto simp: num_int_def split: jsnum.splits if_splits)

lemma positive_integer_pos: "positive_integer v = Some n \<Longrightarrow> 0 < n"
  by (auto simp: positive_integer_def split: option.splits if_splits)

lemma positive_integer_JInt [simp]: "positive_integer (JInt n) = (if 0 < n then Some n else None)"
  by (simp add: positive_integer_def)

lemma positive_integer_Undef [simp]: "positive_integer Undef = None"
  by (simp add: positive_integer_def num_int_def)

subsection \<open>Decimal digits\<close>

lemma of_char_digit_char: "d < 10 \<Longrightarrow> (of_char (digit_char d) :: nat) = 48 + d"
  by (simp add: digit_char_def numeral_eq_Suc less_Suc_eq) (elim disjE; simp)

lemma is_digit_digit_char: "d < 10 \<Longrightarrow> is_digit (digit_char d)"
  by (auto simp: digit_char_def is_digit_def numeral_eq_Suc less_Suc_eq)

lemma nat_of_digits_append: "nat_of_digits a (s @ t) = nat_of_digits (nat_of_digits a s) t"
  by (induction a s rule: nat_of_digits.induct) auto

lemma show_nat_digits: "list_all is_digit (show_nat n) \<and> show_nat n \<noteq> []"
proof (induction n rule: show_nat.induct)
  case (1 n)
  then show ?case
    by (subst (1 2) show_nat.simps) (auto simp: is_digit_digit_char)
qed

lemma nat_of_digits_show: "nat_of_digits 0 (show_nat n) = n"
proof (induction n rule: show_nat.induct)
  case (1 n)
  then show ?case
    by (subst show_nat.simps) (auto simp: of_char_digit_char nat_of_digits_append)
qed

lemma digits_nat_show [simp]: "digits_nat (show_nat n) = Some n"
  by (simp add: digits_nat_def show_nat_digits nat_of_digits_show)

lemma show_nat_inj: "show_nat m = show_nat n \<Longrightarrow> m = n"
  by (metis nat_of_digits_show)

end
