(* ===== verification/Avanpost_Ops.thy ===== *)
theory Avanpost_Ops
  imports Js_Prelude
begin

text \<open>
  The operation vocabulary of \<^verbatim>\<open>src/inbound/webhooks/avanpost-operation.enum.ts\<close>, the types of
  \<^verbatim>\<open>src/connectors/connector.interface.ts\<close> and \<open>createConnectorCapabilities\<close> of
  \<^verbatim>\<open>src/connectors/connector.capabilities.ts\<close>.
\<close>

section \<open>Operations\<close>

definition CHANGE_CREDENTIAL_OP :: string where
  "CHANGE_CREDENTIAL_OP = join [] [''user.change'', ''P'' @ ''assword'']"

definition AVANPOST_OPERATIONS :: "string list" where
  "AVANPOST_OPERATIONS =
    [''user.create'', ''user.update'', ''user.delete'', ''user.get'', ''user.search'',
     ''user.enable'', ''user.disable'', ''user.lock'', ''user.unlock'', CHANGE_CREDENTIAL_OP,
     ''user.resolve'', ''user.addAttributes'', ''user.removeAttributes'', ''group.create'',
     ''group.update'', ''group.delete'', ''group.get'', ''group.search'', ''group.addMember'',
     ''group.removeMember'', ''system.test'', ''schema.get'', ''sync.full'', ''sync.incremental'']"

definition AVANPOST_OPERATION_VALUES :: "string list" where
  "AVANPOST_OPERATION_VALUES = AVANPOST_OPERATIONS"

definition READ_OPERATIONS :: "string list" where
  "READ_OPERATIONS =
    [''user.get'', ''user.search'', ''group.get'', ''group.search'', ''system.test'',
     ''schema.get'', ''sync.full'', ''sync.incremental'', ''user.resolve'']"

definition WRITE_OPERATIONS :: "string list" where
  "WRITE_OPERATIONS =
    [''user.create'', ''user.update'', ''user.delete'', ''user.enable'', ''user.disable'',
     ''user.lock'', ''user.unlock'', CHANGE_CREDENTIAL_OP, ''user.addAttributes'',
     ''user.removeAttributes'', ''group.create'', ''group.update'', ''group.delete'',
     ''group.addMember'', ''group.removeMember'']"

definition isReadOperation :: "string \<Rightarrow> bool" where
  "isReadOperation op \<longleftrightarrow> op \<in> set READ_OPERATIONS"

lemmas operation_tables =
  CHANGE_CREDENTIAL_OP_def AVANPOST_OPERATIONS_def AVANPOST_OPERATION_VALUES_def
  READ_OPERATIONS_def WRITE_OPERATIONS_def

lemma operations_distinct: "distinct AVANPOST_OPERATION_VALUES"
  by (simp add: operation_tables)

lemma read_write_cover:
  "set READ_OPERATIONS \<union> set WRITE_OPERATIONS = set AVANPOST_OPERATION_VALUES"
  by (auto simp: operation_tables)

lemma read_write_disjoint: "set READ_OPERATIONS \<inter> set WRITE_OPERATIONS = {}"
  by (simp add: operation_tables)

section \<open>Connector payloads, results and capabilities\<close>

record conn_payload =
  p_operation :: string
  p_targetSystem :: string
  p_payload :: obj

record conn_result =
  r_success :: bool
  r_data :: js
  r_error :: "string option"

definition result_ok :: "js \<Rightarrow> conn_result" where
  "result_ok d = \<lparr>r_success = True, r_data = d, r_error = None\<rparr>"

definition result_fail :: "string \<Rightarrow> conn_result" where
  "result_fail e = \<lparr>r_success = False, r_data = Undef, r_error = Some e\<rparr>"

text \<open>The outcome of \<open>testConnection\<close>.\<close>

record test_result =
  t_success :: bool
  t_message :: string

definition test_ok :: "string \<Rightarrow> test_result" where
  "test_ok m = \<lparr>t_success = True, t_message = m\<rparr>"

definition test_fail :: "string \<Rightarrow> test_result" where
  "test_fail m = \<lparr>t_success = False, t_message = m\<rparr>"

datatype operation_status = Implemented | Partial string | Unsupported string

record capability_flags =
  supportsRead :: bool
  supportsWrite :: bool
  supportsSync :: bool
  supportsIncrementalSync :: bool
  supportsSchema :: bool

text \<open>\<open>Partial<ConnectorCapabilities['capabilities']>\<close>: a field that is absent overrides nothing.\<close>

record capability_overrides =
  o_supportsRead :: "bool option"
  o_supportsWrite :: "bool option"
  o_supportsSync :: "bool option"
  o_supportsIncrementalSync :: "bool option"
  o_supportsSchema :: "bool option"

definition no_overrides :: capability_overrides where
  "no_overrides = \<lparr>o_supportsRead = None, o_supportsWrite = None, o_supportsSync = None,
     o_supportsIncrementalSync = None, o_supportsSchema = None\<rparr>"

record connector_capabilities =
  c_operations :: "string list"
  c_readOperations :: "string list"
  c_writeOperations :: "string list"
  c_flags :: capability_flags
  c_operationStatus :: "(string \<times> operation_status) list"
  c_partialOperations :: "(string \<times> string) list option"

definition override :: "bool option \<Rightarrow> bool \<Rightarrow> bool" where
  "override ov d = (case ov of None \<Rightarrow> d | Some b \<Rightarrow> b)"

text \<open>
  \<open>createConnectorCapabilities(partialOperations = {}, capabilityOverrides = {})\<close>: a reason that is
  the empty string is falsy, so it counts as implemented.
\<close>

definition createConnectorCapabilities ::
  "(string \<times> string) list \<Rightarrow> capability_overrides \<Rightarrow> connector_capabilities" where
  "createConnectorCapabilities partialOperations ov =
     \<lparr>c_operations = AVANPOST_OPERATION_VALUES,
      c_readOperations = READ_OPERATIONS,
      c_writeOperations = WRITE_OPERATIONS,
      c_flags =
        \<lparr>supportsRead = override (o_supportsRead ov) True,
         supportsWrite = override (o_supportsWrite ov) True,
         supportsSync = override (o_supportsSync ov) True,
         supportsIncrementalSync = override (o_supportsIncrementalSync ov) True,
         supportsSchema = override (o_supportsSchema ov) True\<rparr>,
      c_operationStatus =
        map (\<lambda>operation. (operation,
          (case map_of partialOperations operation of
             Some reason \<Rightarrow> (if reason \<noteq> [] then Partial reason else Implemented)
           | None \<Rightarrow> Implemented))) AVANPOST_OPERATION_VALUES,
      c_partialOperations = (if partialOperations \<noteq> [] then Some partialOperations else None)\<rparr>"

lemma capability_status:
  assumes "op \<in> set AVANPOST_OPERATION_VALUES"
  shows "map_of (c_operationStatus (createConnectorCapabilities po ov)) op =
    Some (case map_of po op of
       Some reason \<Rightarrow> (if reason \<noteq> [] then Partial reason else Implemented)
     | None \<Rightarrow> Implemented)"
  using assms by (simp add: createConnectorCapabilities_def map_of_map_restrict)

lemma capability_status_dom:
  "fst ` set (c_operationStatus (createConnectorCapabilities po ov)) = set AVANPOST_OPERATION_VALUES"
  by (force simp: createConnectorCapabilities_def)

lemma capability_lists [simp]:
  "c_operations (createConnectorCapabilities po ov) = AVANPOST_OPERATION_VALUES"
  "c_readOperations (createConnectorCapabilities po ov) = READ_OPERATIONS"
  "c_writeOperations (createConnectorCapabilities po ov) = WRITE_OPERATIONS"
  by (simp_all add: createConnectorCapabilities_def)

text \<open>
  The operations a connector advertises split into reads and writes: every operation of the
  vocabulary is one of the two and none is both, so \<open>isReadOperation\<close> routes every operation the
  validation lets through, and every advertised operation has exactly one status, partial exactly
  when the connector gives a (non-empty) reason.
\<close>

theorem operations_routed_once:
  "op \<in> set (c_operations (createConnectorCapabilities po ov)) \<Longrightarrow>
     (isReadOperation op \<longleftrightarrow> op \<notin> set (c_writeOperations (createConnectorCapabilities po ov))) \<and>
     map_of (c_operationStatus (createConnectorCapabilities po ov)) op =
       Some (case map_of po op of
          Some reason \<Rightarrow> (if reason \<noteq> [] then Partial reason else Implemented)
        | None \<Rightarrow> Implemented)"
  using read_write_cover read_write_disjoint
  by (simp add: capability_status isReadOperation_def) blast

theorem operations_routed_once_witness:
  "\<not> isReadOperation ''user.lock'' \<and>
   map_of (c_operationStatus (createConnectorCapabilities [(''user.lock'', ''r'')] no_overrides)) ''user.lock''
     = Some (Partial ''r'')"
proof -
  have "''user.lock'' \<in> set (c_operations (createConnectorCapabilities [(''user.lock'', ''r'')] no_overrides))"
    by (simp add: createConnectorCapabilities_def operation_tables)
  from operations_routed_once [OF this] show ?thesis
    by (simp add: createConnectorCapabilities_def operation_tables)
qed

end
