(* ===== verification/Secret_Redaction.thy ===== *)
theory Secret_Redaction
  imports Js_Prelude
begin

text \<open>
  \<^verbatim>\<open>src/security/secret-redaction.ts\<close>: the recognition of secret keys, the masking of configurations
  before they are shown, and the merge that keeps stored secrets when a masked configuration comes
  back; and the redaction of \<^verbatim>\<open>src/diagnostics/diagnostic-logger.service.ts\<close>, which uses the same keys.
\<close>

section \<open>Secret keys\<close>

definition SECRET_REDACTION_CENSOR :: string where
  "SECRET_REDACTION_CENSOR = ''[REDACTED]''"

definition MASKED_SECRET_VALUE :: string where
  "MASKED_SECRET_VALUE = ''***''"

text \<open>
  The alternatives of \<open>SECRET_KEY_RE\<close>, in lower case (the expression has the flag \<open>i\<close>); \<open>[-_]?\<close> gives
  three spellings of a compound name.
\<close>

definition compound :: "string \<Rightarrow> string \<Rightarrow> string list" where
  "compound a b = [a @ b, a @ ''-'' @ b, a @ ''_'' @ b]"

definition secret_names :: "string list" where
  "secret_names =
    [''password'', ''passwd'', ''pwd'', ''token'', ''secret'', ''authorization'', ''cookie'', ''credential'']
    @ compound ''api'' ''key'' @ compound ''api'' ''token''
    @ compound ''access'' ''token'' @ compound ''refresh'' ''token''
    @ compound ''master'' ''key''
    @ concat (map (\<lambda>mk. compound mk ''hash'') (compound ''master'' ''key''))
    @ compound ''private'' ''key'' @ compound ''wallet'' ''password''
    @ [''cert'', ''ca'', ''pem'', ''key'']
    @ compound ''new'' ''value'' @ compound ''old'' ''value'' @ [''value'']"

text \<open>
  \<open>SECRET_KEY_RE.test(key)\<close>: some suffix of the key is one of the names and is the whole key or
  follows \<open>_\<close>, \<open>-\<close> or \<open>.\<close>
\<close>

fun secret_suffix :: "bool \<Rightarrow> string \<Rightarrow> bool" where
  "secret_suffix at_boundary [] = False"
| "secret_suffix at_boundary (c # s) =
    (at_boundary \<and> c # s \<in> set secret_names \<or> secret_suffix (c \<in> set [CHR ''_'', CHR ''-'', CHR ''.'']) s)"

definition isSecretKey :: "string \<Rightarrow> bool" where
  "isSecretKey key = secret_suffix True (to_lower key)"

definition MASKED_PLACEHOLDERS :: "string list" where
  "MASKED_PLACEHOLDERS = [MASKED_SECRET_VALUE, ''*** preserved ***'', SECRET_REDACTION_CENSOR]"

definition isMaskedSecretValue :: "js \<Rightarrow> bool" where
  "isMaskedSecretValue v = (case v of Str s \<Rightarrow> trim s \<in> set MASKED_PLACEHOLDERS | _ \<Rightarrow> False)"

lemmas secret_key_eval =
  isSecretKey_def to_lower_def to_lower_char_def upper_letters_def lower_letters_def
  secret_names_def compound_def

section \<open>Masking\<close>

text \<open>\<open>redactSecrets\<close>; \<open>Object.fromEntries\<close> of the entries of an object keeps its distinct keys.\<close>

fun redactSecrets :: "js \<Rightarrow> js" where
  "redactSecrets (Arr xs) = Arr (map redactSecrets xs)"
| "redactSecrets (Obj ob) =
     Obj (map (\<lambda>(key, item). (key, if isSecretKey key then Str MASKED_SECRET_VALUE else redactSecrets item)) ob)"
| "redactSecrets v = v"

text \<open>
  No value under a secret key survives: every secret key, at any depth that is reached without
  passing through another secret key, holds the mask.
\<close>

fun secrets_masked :: "js \<Rightarrow> bool" where
  "secrets_masked (Arr xs) = list_all secrets_masked xs"
| "secrets_masked (Obj ob) =
     list_all (\<lambda>(key, item). if isSecretKey key then item = Str MASKED_SECRET_VALUE else secrets_masked item) ob"
| "secrets_masked v = True"

section \<open>Merging a configuration that comes back\<close>

text \<open>
  The loop of \<open>mergeConfigPreservingSecrets\<close> over the entries of \<open>incoming\<close>; \<open>current\<close> is the object
  before the merge, \<open>merged\<close> the accumulator. The recursive call starts from the nested current object.
\<close>

function merge_entries :: "obj \<Rightarrow> obj \<Rightarrow> obj \<Rightarrow> obj" where
  "merge_entries current merged [] = merged"
| "merge_entries current merged ((key, value) # rest) =
     (if isSecretKey key \<and> isMaskedSecretValue value \<and> has_own current key
      then merge_entries current merged rest
      else case (value, obj_get current key) of
        (Obj v, Obj c) \<Rightarrow> merge_entries current (obj_set merged key (Obj (merge_entries c c v))) rest
      | _ \<Rightarrow> merge_entries current (obj_set merged key value) rest)"
  by pat_completeness auto
termination
  by (relation "measure (\<lambda>(current, merged, incoming). size_list (size_prod (\<lambda>_. 0) size) incoming)") auto

definition mergeConfigPreservingSecrets :: "obj \<Rightarrow> obj \<Rightarrow> obj" where
  "mergeConfigPreservingSecrets current incoming = merge_entries current current incoming"

section \<open>Masking: what is shown\<close>

lemma redact_masks: "secrets_masked (redactSecrets v)"
  by (induction v rule: redactSecrets.induct) (auto simp: list_all_iff)

lemma redact_idem: "redactSecrets (redactSecrets v) = redactSecrets v"
  by (induction v rule: redactSecrets.induct) auto

lemma redact_keys: "map fst (map (\<lambda>(key, item). (key, f key item)) ob) = map fst ob"
  by (induction ob) auto

lemma masked_redact_id: "secrets_masked v \<Longrightarrow> redactSecrets v = v"
proof (induction v rule: js_field_induct)
  case (Arr xs)
  then show ?case by (auto simp: list_all_iff intro!: map_idI)
next
  case (Obj ob)
  have "(if isSecretKey k then Str MASKED_SECRET_VALUE else redactSecrets v) = v"
    if "(k, v) \<in> set ob" for k v
    using Obj.IH [OF that] Obj.prems that by (fastforce simp: list_all_iff split: if_splits)
  then show ?case by (auto intro!: map_idI)
qed simp_all

lemma redact_fixed_iff: "redactSecrets v = v \<longleftrightarrow> secrets_masked v"
  by (metis redact_masks masked_redact_id)

lemma not_masked_Obj [simp]: "\<not> isMaskedSecretValue (Obj ob)"
  by (simp add: isMaskedSecretValue_def)

lemma mask_is_masked [simp]: "isMaskedSecretValue (Str MASKED_SECRET_VALUE)"
  by (simp add: isMaskedSecretValue_def MASKED_PLACEHOLDERS_def MASKED_SECRET_VALUE_def trim_def is_space_def)

section \<open>Merging: what one key becomes\<close>

text \<open>The value a key of \<open>incoming\<close> leads to, given the current object.\<close>

definition merged_value :: "obj \<Rightarrow> string \<Rightarrow> js \<Rightarrow> js" where
  "merged_value current key value =
     (if isSecretKey key \<and> isMaskedSecretValue value \<and> has_own current key then obj_get current key
      else case (value, obj_get current key) of
        (Obj v, Obj c) \<Rightarrow> Obj (mergeConfigPreservingSecrets c v)
      | _ \<Rightarrow> value)"

lemma merge_entries_Cons:
  "merge_entries current merged ((key, value) # rest) =
     merge_entries current
       (if isSecretKey key \<and> isMaskedSecretValue value \<and> has_own current key then merged
        else obj_set merged key (merged_value current key value)) rest"
  by (auto simp: merged_value_def mergeConfigPreservingSecrets_def split: js.splits)

declare merge_entries.simps(2) [simp del]

lemma merge_entries_skip:
  "isSecretKey key \<Longrightarrow> isMaskedSecretValue value \<Longrightarrow> has_own current key \<Longrightarrow>
     merge_entries current merged ((key, value) # rest) = merge_entries current merged rest"
  by (simp add: merge_entries_Cons)

lemma merge_entries_set:
  "\<not> isSecretKey key \<Longrightarrow>
     merge_entries current merged ((key, value) # rest) =
       merge_entries current (obj_set merged key (merged_value current key value)) rest"
  by (simp add: merge_entries_Cons)

lemma merged_value_skip:
  "isSecretKey key \<Longrightarrow> isMaskedSecretValue v \<Longrightarrow> has_own current key \<Longrightarrow>
     merged_value current key v = obj_get current key"
  by (simp add: merged_value_def)

lemma merge_entries_get:
  assumes "distinct (map fst inc)"
    and "\<And>k. k \<in> fst ` set inc \<Longrightarrow> obj_get merged k = obj_get current k"
  shows "obj_get (merge_entries current merged inc) k =
    (case map_of inc k of None \<Rightarrow> obj_get merged k | Some v \<Rightarrow> merged_value current k v)"
  using assms
proof (induction inc arbitrary: merged)
  case Nil
  then show ?case by simp
next
  case (Cons kv rest)
  obtain key v where kv: "kv = (key, v)" by (cases kv)
  have fresh: "map_of rest key = None"
    using Cons.prems(1) by (simp add: kv map_of_eq_None_iff)
  let ?skip = "isSecretKey key \<and> isMaskedSecretValue v \<and> has_own current key"
  let ?m = "if ?skip then merged else obj_set merged key (merged_value current key v)"
  have "obj_get ?m j = obj_get current j" if "j \<in> fst ` set rest" for j
  proof -
    have "j \<noteq> key" using that Cons.prems(1) by (auto simp: kv)
    with that Cons.prems(2) [of j] show ?thesis by (simp add: js_simps)
  qed
  with Cons.prems(1) have "obj_get (merge_entries current ?m rest) k =
      (case map_of rest k of None \<Rightarrow> obj_get ?m k | Some v \<Rightarrow> merged_value current k v)"
    by (intro Cons.IH) (simp_all add: kv)
  moreover have "obj_get merged key = obj_get current key"
    by (rule Cons.prems(2)) (simp add: kv)
  moreover have "obj_get ?m key = merged_value current key v"
    using calculation(2) by (auto simp: js_simps merged_value_skip)
  moreover have "obj_get ?m k = obj_get merged k" if "k \<noteq> key"
    using that by (simp add: js_simps)
  ultimately show ?case
    using fresh by (cases "k = key") (simp_all only: kv merge_entries_Cons map_of.simps
        fun_upd_apply fst_conv snd_conv option.case simp_thms if_True if_False)
qed

text \<open>
  The merge of an update into a stored configuration, key by key: a key the update leaves out
  keeps its stored value; a secret key sent back masked keeps the stored secret; two objects merge
  recursively; any other value replaces the stored one.
\<close>

theorem merge_value_of_key:
  "obj_ok incoming \<Longrightarrow>
     obj_get (mergeConfigPreservingSecrets current incoming) k =
       (if has_own incoming k then merged_value current k (obj_get incoming k) else obj_get current k)"
  by (cases "map_of incoming k")
    (simp_all add: mergeConfigPreservingSecrets_def merge_entries_get obj_ok_def has_own_def obj_get_Some)

theorem merge_value_of_key_witness:
  "obj_get (mergeConfigPreservingSecrets [(''apiToken'', Str ''s3''), (''url'', Str ''a'')]
      [(''url'', Str ''b''), (''apiToken'', Str '' *** '')]) ''apiToken'' = Str ''s3''"
proof -
  have "obj_ok [(''url'', Str ''b''), (''apiToken'', Str '' *** '')]"
    by (simp add: obj_ok_def)
  from merge_value_of_key [OF this, of "[(''apiToken'', Str ''s3''), (''url'', Str ''a'')]" "''apiToken''"]
  show ?thesis
    by (simp add: has_own_def obj_get_Some merged_value_def isMaskedSecretValue_def trim_def
        is_space_def MASKED_PLACEHOLDERS_def MASKED_SECRET_VALUE_def secret_key_eval)
qed

section \<open>The round trip through the admin interface\<close>

text \<open>
  What an administrator who reads a configuration (masked by \<open>redactSecrets\<close>) and sends it back
  unchanged leaves in the database: secrets that sit in objects are kept, arrays are replaced by
  their masked copies.
\<close>

fun returned_config :: "js \<Rightarrow> js" where
  "returned_config (Arr xs) = redactSecrets (Arr xs)"
| "returned_config (Obj ob) =
     Obj (map (\<lambda>(key, item). (key, if isSecretKey key then item else returned_config item)) ob)"
| "returned_config v = v"

text \<open>No array of the configuration holds an unmasked secret.\<close>

fun arrays_masked :: "js \<Rightarrow> bool" where
  "arrays_masked (Arr xs) = secrets_masked (Arr xs)"
| "arrays_masked (Obj ob) = list_all (\<lambda>(key, item). isSecretKey key \<or> arrays_masked item) ob"
| "arrays_masked v = True"

lemma returned_config_id: "arrays_masked v \<Longrightarrow> returned_config v = v"
proof (induction v rule: js_field_induct)
  case (Arr xs)
  then show ?case by (simp only: returned_config.simps arrays_masked.simps masked_redact_id)
next
  case (Obj ob)
  have "(if isSecretKey k then v else returned_config v) = v" if "(k, v) \<in> set ob" for k v
    using Obj.IH [OF that] Obj.prems that by (auto simp: list_all_iff)
  then show ?case by (auto intro!: map_idI)
qed simp_all

text \<open>
  Every entry of the masked configuration sets its key of the accumulator to the value
  \<open>returned_config\<close> gives.
\<close>

lemma merged_value_redacted:
  assumes "map_of c k = Some v"
    and "\<And>b. v = Obj b \<Longrightarrow>
      Obj (mergeConfigPreservingSecrets b (as_record (redactSecrets (Obj b)))) = returned_config (Obj b)"
  shows "merged_value c k (if isSecretKey k then Str MASKED_SECRET_VALUE else redactSecrets v) =
    (if isSecretKey k then v else returned_config v)"
  using assms
  by (cases v) (auto simp: merged_value_def has_own_def obj_get_Some as_record_def)

lemma merge_redacted_entries:
  assumes "ob = pre @ post" and "distinct (map fst ob)"
    and "\<And>k b. (k, Obj b) \<in> set post \<Longrightarrow>
      Obj (mergeConfigPreservingSecrets b (as_record (redactSecrets (Obj b)))) = returned_config (Obj b)"
  shows "merge_entries ob (as_record (returned_config (Obj pre)) @ post)
      (as_record (redactSecrets (Obj post))) = as_record (returned_config (Obj ob))"
  using assms
proof (induction post arbitrary: pre)
  case Nil
  then show ?case by (simp add: as_record_def)
next
  case (Cons kv rest)
  obtain k v where kv: "kv = (k, v)" by (cases kv)
  let ?shown = "if isSecretKey k then Str MASKED_SECRET_VALUE else redactSecrets v"
  let ?ret = "if isSecretKey k then v else returned_config v"
  let ?acc = "as_record (returned_config (Obj pre)) @ (k, v) # rest"
  have at: "map_of ob k = Some v"
    using Cons.prems(1,2) by (intro map_of_is_SomeI) (simp_all add: kv)
  have fresh: "k \<notin> fst ` set (as_record (returned_config (Obj pre)))"
    using Cons.prems(1,2) by (force simp: kv as_record_def)
  have "merge_entries ob ?acc ((k, ?shown) # as_record (redactSecrets (Obj rest))) =
      merge_entries ob (as_record (returned_config (Obj (pre @ [kv]))) @ rest)
        (as_record (redactSecrets (Obj rest)))"
  proof -
    have "merged_value ob k ?shown = ?ret"
      using at Cons.prems(3) by (intro merged_value_redacted) (auto simp: kv)
    moreover have "obj_set ?acc k ?ret = as_record (returned_config (Obj (pre @ [kv]))) @ rest"
      unfolding obj_set_append [OF fresh] by (simp add: as_record_def kv)
    moreover have "?acc = as_record (returned_config (Obj (pre @ [kv]))) @ rest" if "isSecretKey k"
      using that by (simp add: as_record_def kv)
    moreover have "has_own ob k" using at by (simp add: has_own_def)
    ultimately show ?thesis
      by (cases "isSecretKey k") (simp_all only: if_True if_False merge_entries_skip
          merge_entries_set mask_is_masked simp_thms)
  qed
  also have "\<dots> = as_record (returned_config (Obj ob))"
    using Cons.prems by (intro Cons.IH) auto
  finally show ?case by (simp add: kv as_record_def)
qed

lemma merge_redacted:
  "js_ok v \<Longrightarrow> v = Obj ob \<Longrightarrow>
     Obj (mergeConfigPreservingSecrets ob (as_record (redactSecrets (Obj ob)))) = returned_config (Obj ob)"
proof (induction v arbitrary: ob rule: js_field_induct)
  case (Obj fields)
  have "Obj (mergeConfigPreservingSecrets b (as_record (redactSecrets (Obj b)))) = returned_config (Obj b)"
    if "(k, Obj b) \<in> set ob" for k b
  proof -
    from Obj.prems have "\<forall>kv \<in> set ob. js_ok (snd kv)" by (simp add: list_all_iff)
    with that have "js_ok (Obj b)" by fastforce
    with Obj.prems that show ?thesis by (intro Obj.IH) auto
  qed
  then have "merge_entries ob (as_record (returned_config (Obj [])) @ ob)
      (as_record (redactSecrets (Obj ob))) = as_record (returned_config (Obj ob))"
    using Obj.prems by (intro merge_redacted_entries) auto
  then show ?case by (simp add: mergeConfigPreservingSecrets_def as_record_def)
qed simp_all

lemma masked_config_restored:
  assumes "js_ok (Obj config)" "arrays_masked (Obj config)"
  shows "mergeConfigPreservingSecrets config (as_record (redactSecrets (Obj config))) = config"
  using arg_cong [OF merge_redacted [OF assms(1) refl], of as_record] returned_config_id [OF assms(2)]
  by (simp only: as_record_Obj)

text \<open>
  An administrator who loads a target system (its configuration masked by \<open>redactSecrets\<close>) and
  saves it back unchanged: the merge restores every secret that sits in nested objects, and puts the
  masked copy in place of every array. So when no array holds an unmasked secret the stored
  configuration is unchanged.
\<close>

theorem masked_config_round_trip:
  "js_ok (Obj config) \<Longrightarrow>
     mergeConfigPreservingSecrets config (as_record (redactSecrets (Obj config))) =
       as_record (returned_config (Obj config)) \<and>
     (arrays_masked (Obj config) \<longrightarrow>
       mergeConfigPreservingSecrets config (as_record (redactSecrets (Obj config))) = config)"
proof -
  assume ok: "js_ok (Obj config)"
  have eq: "mergeConfigPreservingSecrets config (as_record (redactSecrets (Obj config))) =
      as_record (returned_config (Obj config))"
    using arg_cong [OF merge_redacted [OF ok refl], of as_record] by (simp only: as_record_Obj)
  have "as_record (returned_config (Obj config)) = config" if "arrays_masked (Obj config)"
    using returned_config_id [OF that] by (simp only: as_record_def js.case)
  with eq show ?thesis by simp
qed

text \<open>A configuration with a nested secret is restored; a secret in an array of objects is lost.\<close>

theorem masked_config_round_trip_witness:
  "let c = [(''baseUrl'', Str ''u''), (''tls'', Obj [(''key'', Str ''k'')])];
       d = [(''hosts'', Arr [Obj [(''token'', Str ''t'')]])]
   in mergeConfigPreservingSecrets c (as_record (redactSecrets (Obj c))) = c \<and>
      mergeConfigPreservingSecrets d (as_record (redactSecrets (Obj d))) =
        [(''hosts'', Arr [Obj [(''token'', Str ''***'')]])]"
proof -
  have keys: "isSecretKey ''token''" "isSecretKey ''key''" "\<not> isSecretKey ''hosts''"
    "\<not> isSecretKey ''tls''" "\<not> isSecretKey ''baseUrl''"
    by (simp_all add: secret_key_eval)
  have c: "js_ok (Obj [(''baseUrl'', Str ''u''), (''tls'', Obj [(''key'', Str ''k'')])])"
    and d: "js_ok (Obj [(''hosts'', Arr [Obj [(''token'', Str ''t'')]])])"
    by simp_all
  from masked_config_round_trip [OF c] masked_config_round_trip [OF d] keys
  show ?thesis by (simp add: as_record_def MASKED_SECRET_VALUE_def)
qed

end
