(* ===== verification/Js_Io.thy ===== *)
theory Js_Io
  imports Js_Prelude
begin

text \<open>
  Exceptions and effects. An \<open>async\<close> method is a function from the state to either the thrown
  error or the returned value, together with the state it leaves. \<open>await\<close> is sequencing.
\<close>

section \<open>Exceptions\<close>

text \<open>
  The error objects the source throws and tells apart: plain \<open>Error\<close>, the
  \<open>ProcessingFailureError\<close> of \<^verbatim>\<open>src/core/processing.service.ts\<close> (message, \<open>durableAccepted\<close>,
  \<open>cause\<close>), errors of the Prisma client with their code, and Nest's HTTP exceptions with status.
\<close>

datatype exn =
    Error string
  | ProcessingFailureError string bool exn
  | PrismaError string string
  | HttpException nat string

text \<open>\<open>error instanceof Error ? error.message : String(error)\<close>.\<close>

primrec exn_message :: "exn \<Rightarrow> string" where
  "exn_message (Error m) = m"
| "exn_message (ProcessingFailureError m d c) = m"
| "exn_message (PrismaError code m) = m"
| "exn_message (HttpException status m) = m"

abbreviation NotFoundException :: "string \<Rightarrow> exn" where
  "NotFoundException m \<equiv> HttpException 404 m"

abbreviation BadRequestException :: "string \<Rightarrow> exn" where
  "BadRequestException m \<equiv> HttpException 400 m"

abbreviation ConflictException :: "string \<Rightarrow> exn" where
  "ConflictException m \<equiv> HttpException 409 m"

abbreviation UnauthorizedException :: "string \<Rightarrow> exn" where
  "UnauthorizedException m \<equiv> HttpException 401 m"

section \<open>Computations\<close>

type_synonym ('s, 'a) io = "'s \<Rightarrow> (exn + 'a) \<times> 's"

definition io_return :: "'a \<Rightarrow> ('s, 'a) io" where
  "io_return x = (\<lambda>s. (Inr x, s))"

definition io_throw :: "exn \<Rightarrow> ('s, 'a) io" where
  "io_throw e = (\<lambda>s. (Inl e, s))"

definition io_bind :: "('s, 'a) io \<Rightarrow> ('a \<Rightarrow> ('s, 'b) io) \<Rightarrow> ('s, 'b) io" where
  "io_bind m k = (\<lambda>s. case m s of (Inl e, s') \<Rightarrow> (Inl e, s') | (Inr x, s') \<Rightarrow> k x s')"

definition io_seq :: "('s, 'a) io \<Rightarrow> ('s, 'b) io \<Rightarrow> ('s, 'b) io" where
  "io_seq m k = io_bind m (\<lambda>_. k)"

text \<open>\<open>try { m } catch (error) { h(error) }\<close>.\<close>

definition io_catch :: "('s, 'a) io \<Rightarrow> (exn \<Rightarrow> ('s, 'a) io) \<Rightarrow> ('s, 'a) io" where
  "io_catch m h = (\<lambda>s. case m s of (Inl e, s') \<Rightarrow> h e s' | (Inr x, s') \<Rightarrow> (Inr x, s'))"

text \<open>\<open>try { m } finally { f }\<close>: an error of the finaliser replaces the outcome.\<close>

definition io_finally :: "('s, 'a) io \<Rightarrow> ('s, unit) io \<Rightarrow> ('s, 'a) io" where
  "io_finally m f = (\<lambda>s. case m s of (r, s') \<Rightarrow>
     (case f s' of (Inl e, s'') \<Rightarrow> (Inl e, s'') | (Inr _, s'') \<Rightarrow> (r, s'')))"

definition io_get :: "('s \<Rightarrow> 'a) \<Rightarrow> ('s, 'a) io" where
  "io_get f = (\<lambda>s. (Inr (f s), s))"

definition io_modify :: "('s \<Rightarrow> 's) \<Rightarrow> ('s, unit) io" where
  "io_modify f = (\<lambda>s. (Inr (), f s))"

definition io_of_sum :: "exn + 'a \<Rightarrow> ('s, 'a) io" where
  "io_of_sum r = (\<lambda>s. (r, s))"

text \<open>\<open>for (const x of xs) { await f(x); }\<close>: the first error ends the loop.\<close>

fun io_foreach :: "('a \<Rightarrow> ('s, unit) io) \<Rightarrow> 'a list \<Rightarrow> ('s, unit) io" where
  "io_foreach f [] = io_return ()"
| "io_foreach f (x # xs) = io_seq (f x) (io_foreach f xs)"

text \<open>
  \<open>Promise.all([m, n])\<close>: both computations run, and the first error is the outcome. They are run one
  after the other.
\<close>

definition io_both :: "('s, 'a) io \<Rightarrow> ('s, 'b) io \<Rightarrow> ('s, 'a \<times> 'b) io" where
  "io_both m n = (\<lambda>s. case m s of (r, s') \<Rightarrow> (case n s' of (q, s'') \<Rightarrow>
     ((case r of Inl e \<Rightarrow> Inl e | Inr x \<Rightarrow> (case q of Inl e \<Rightarrow> Inl e | Inr y \<Rightarrow> Inr (x, y))), s'')))"

text \<open>Sequencing of calls that may throw but have no effect.\<close>

definition res_bind :: "exn + 'a \<Rightarrow> ('a \<Rightarrow> exn + 'b) \<Rightarrow> exn + 'b" where
  "res_bind m k = (case m of Inl e \<Rightarrow> Inl e | Inr x \<Rightarrow> k x)"

lemma res_bind_simps [simp]: "res_bind (Inl e) k = Inl e" "res_bind (Inr x) k = k x"
  by (simp_all add: res_bind_def)

lemma res_bind_Inr: "res_bind m k = Inr y \<longleftrightarrow> (\<exists>x. m = Inr x \<and> k x = Inr y)"
  by (cases m) auto

section \<open>Computation rules\<close>

lemma io_run [io_simps]:
  "io_return x s = (Inr x, s)"
  "io_throw e s = (Inl e, s)"
  "io_get f s = (Inr (f s), s)"
  "io_modify g s = (Inr (), g s)"
  "io_of_sum r s = (r, s)"
  by (simp_all add: io_return_def io_throw_def io_get_def io_modify_def io_of_sum_def)

lemma io_bind_run [io_simps]:
  "io_bind m k s = (case m s of (Inl e, s') \<Rightarrow> (Inl e, s') | (Inr x, s') \<Rightarrow> k x s')"
  "io_seq m n s = (case m s of (Inl e, s') \<Rightarrow> (Inl e, s') | (Inr _, s') \<Rightarrow> n s')"
  "io_catch m h s = (case m s of (Inl e, s') \<Rightarrow> h e s' | (Inr x, s') \<Rightarrow> (Inr x, s'))"
  by (simp_all add: io_bind_def io_seq_def io_catch_def)

lemma io_bind_Inr:
  "io_bind m k s = (Inr y, s') \<longleftrightarrow> (\<exists>x s1. m s = (Inr x, s1) \<and> k x s1 = (Inr y, s'))"
  by (cases "m s"; cases "fst (m s)") (auto simp: io_bind_def)

lemma io_seq_Inr:
  "io_seq m n s = (Inr y, s') \<longleftrightarrow> (\<exists>x s1. m s = (Inr x, s1) \<and> n s1 = (Inr y, s'))"
  unfolding io_seq_def by (rule io_bind_Inr)

lemma io_rethrow_Inr:
  "io_catch m (\<lambda>e. io_seq (h e) (io_throw e)) s = (Inr y, s') \<longleftrightarrow> m s = (Inr y, s')"
  by (cases "m s"; cases "fst (m s)") (auto simp: io_catch_def io_seq_Inr io_throw_def)

lemma io_foreach_Cons:
  "io_foreach f (x # xs) s = (case f x s of (Inl e, s') \<Rightarrow> (Inl e, s') | (Inr _, s') \<Rightarrow> io_foreach f xs s')"
  by (simp add: io_seq_def io_bind_def)

lemma io_finally_run [io_simps]:
  "io_finally m f s = (case m s of (r, s') \<Rightarrow>
     (case f s' of (Inl e, s'') \<Rightarrow> (Inl e, s'') | (Inr _, s'') \<Rightarrow> (r, s'')))"
  by (simp add: io_finally_def)

lemma io_bind_value:
  "io_bind (io_of_sum (Inr x)) k = k x" "io_bind (io_of_sum (Inl e)) k = io_throw e" "io_bind (io_return x) k = k x"
  by (simp_all add: io_bind_def io_of_sum_def io_return_def io_throw_def)

text \<open>
  A relation between the state before and after a computation, kept by sequencing: used for
  frame facts (what a computation leaves alone).
\<close>

definition io_keeps :: "('s \<Rightarrow> 'b) \<Rightarrow> ('s, 'a) io \<Rightarrow> bool" where
  "io_keeps f m \<longleftrightarrow> (\<forall>s. f (snd (m s)) = f s)"

named_theorems io_frames \<open>what a computation leaves unchanged\<close>

lemma io_keepsD: "io_keeps f m \<Longrightarrow> m s = (r, s') \<Longrightarrow> f s' = f s"
  by (metis io_keeps_def snd_conv)

lemma io_keeps_return [io_frames]: "io_keeps f (io_return x)"
  by (simp add: io_keeps_def io_simps)

lemma io_keeps_throw [io_frames]: "io_keeps f (io_throw e)"
  by (simp add: io_keeps_def io_simps)

lemma io_keeps_get [io_frames]: "io_keeps f (io_get g)"
  by (simp add: io_keeps_def io_simps)

lemma io_keeps_of_sum [io_frames]: "io_keeps f (io_of_sum r)"
  by (simp add: io_keeps_def io_simps)

lemma io_keeps_modify: "(\<And>s. f (g s) = f s) \<Longrightarrow> io_keeps f (io_modify g)"
  by (simp add: io_keeps_def io_simps)

lemma io_keeps_bind [io_frames]:
  assumes "io_keeps f m" "\<And>x. io_keeps f (k x)"
  shows "io_keeps f (io_bind m k)"
  unfolding io_keeps_def
proof
  fix s
  show "f (snd (io_bind m k s)) = f s"
    using assms by (auto simp: io_keeps_def io_simps split: prod.splits sum.splits)
      (metis snd_conv)+
qed

lemma io_keeps_seq [io_frames]: "io_keeps f m \<Longrightarrow> io_keeps f n \<Longrightarrow> io_keeps f (io_seq m n)"
  unfolding io_seq_def by (intro io_keeps_bind)

lemma io_keeps_catch [io_frames]:
  assumes "io_keeps f m" "\<And>e. io_keeps f (h e)"
  shows "io_keeps f (io_catch m h)"
  unfolding io_keeps_def
proof
  fix s
  show "f (snd (io_catch m h s)) = f s"
    using assms by (auto simp: io_keeps_def io_simps split: prod.splits sum.splits)
      (metis snd_conv)+
qed

lemma io_keeps_foreach [io_frames]:
  "(\<And>x. x \<in> set xs \<Longrightarrow> io_keeps f (g x)) \<Longrightarrow> io_keeps f (io_foreach g xs)"
  by (induction xs) (auto intro: io_frames)

lemma io_keeps_both [io_frames]: "io_keeps f m \<Longrightarrow> io_keeps f n \<Longrightarrow> io_keeps f (io_both m n)"
  by (auto simp: io_keeps_def io_both_def split: prod.splits) (metis snd_conv)+

lemma io_keeps_finally [io_frames]: "io_keeps f m \<Longrightarrow> io_keeps f n \<Longrightarrow> io_keeps f (io_finally m n)"
  by (auto simp: io_keeps_def io_finally_def split: prod.splits sum.splits) (metis snd_conv)+

lemma io_keeps_if [io_frames]:
  "(b \<Longrightarrow> io_keeps f m) \<Longrightarrow> (\<not> b \<Longrightarrow> io_keeps f n) \<Longrightarrow> io_keeps f (if b then m else n)"
  by simp

lemma io_keeps_comp: "io_keeps f m \<Longrightarrow> io_keeps (\<lambda>s. h (f s)) m"
  by (simp add: io_keeps_def)

text \<open>An invariant of the state that a computation preserves, whatever it returns.\<close>

definition io_inv :: "('s \<Rightarrow> bool) \<Rightarrow> ('s, 'a) io \<Rightarrow> bool" where
  "io_inv P m \<longleftrightarrow> (\<forall>s. P s \<longrightarrow> P (snd (m s)))"

named_theorems io_invs \<open>computations that preserve an invariant\<close>

lemma io_invD: "io_inv P m \<Longrightarrow> P s \<Longrightarrow> m s = (r, s') \<Longrightarrow> P s'"
  by (metis io_inv_def snd_conv)

lemma io_inv_basic [io_invs]:
  "io_inv P (io_return x)" "io_inv P (io_throw e)" "io_inv P (io_get g)" "io_inv P (io_of_sum r)"
  by (simp_all add: io_inv_def io_simps)

lemma io_inv_modify: "(\<And>s. P s \<Longrightarrow> P (g s)) \<Longrightarrow> io_inv P (io_modify g)"
  by (simp add: io_inv_def io_simps)

lemma io_inv_bind [io_invs]:
  assumes "io_inv P m" "\<And>x. io_inv P (k x)"
  shows "io_inv P (io_bind m k)"
  using assms unfolding io_inv_def by (fastforce simp: io_simps split: prod.splits sum.splits)

lemma io_inv_both [io_invs]:
  assumes "io_inv P m" "io_inv P n"
  shows "io_inv P (io_both m n)"
  using assms unfolding io_inv_def io_both_def by (fastforce split: prod.splits)

lemma io_inv_pure: "(\<And>y. r = Inr y \<Longrightarrow> io_inv P (k y)) \<Longrightarrow> io_inv P (io_bind (io_of_sum r) k)"
  by (cases r) (simp_all add: io_bind_value io_inv_basic)

lemma io_inv_seq [io_invs]: "io_inv P m \<Longrightarrow> io_inv P n \<Longrightarrow> io_inv P (io_seq m n)"
  unfolding io_seq_def by (intro io_inv_bind)

lemma io_inv_catch [io_invs]:
  assumes "io_inv P m" "\<And>e. io_inv P (h e)"
  shows "io_inv P (io_catch m h)"
  using assms unfolding io_inv_def by (fastforce simp: io_simps split: prod.splits sum.splits)

lemma io_inv_foreach [io_invs]:
  "(\<And>x. x \<in> set xs \<Longrightarrow> io_inv P (g x)) \<Longrightarrow> io_inv P (io_foreach g xs)"
  by (induction xs) (auto intro: io_invs)

lemma io_inv_if [io_invs]:
  "(b \<Longrightarrow> io_inv P m) \<Longrightarrow> (\<not> b \<Longrightarrow> io_inv P n) \<Longrightarrow> io_inv P (if b then m else n)"
  by simp

lemma io_keeps_inv: "io_keeps f m \<Longrightarrow> io_inv (\<lambda>s. P (f s)) m"
  by (simp add: io_keeps_def io_inv_def)

end
