(* ===== verification/Retry_Service.thy ===== *)
theory Retry_Service
  imports Js_Io
begin

text \<open>
  \<^verbatim>\<open>src/core/retry/retry.service.ts\<close>: the retry loop with capped exponential backoff and jitter. Timers
  and \<open>Math.random\<close> are operations of the runtime, given as functions of the state.
\<close>

section \<open>Options and delays\<close>

record retry_options =
  maxRetries :: int
  baseDelayMs :: int
  maxDelayMs :: int
  jitter :: bool

definition defaultOptions :: retry_options where
  "defaultOptions = \<lparr>maxRetries = 3, baseDelayMs = 1000, maxDelayMs = 30000, jitter = True\<rparr>"

text \<open>\<open>setTimeout\<close> and \<open>Math.random\<close> (a number \<open>r\<close> with \<open>0 \<le> r < 1\<close>).\<close>

record 's runtime =
  rt_sleep :: "int \<Rightarrow> 's \<Rightarrow> 's"
  rt_random :: "'s \<Rightarrow> rat \<times> 's"

definition capped_delay :: "int \<Rightarrow> retry_options \<Rightarrow> int" where
  "capped_delay attempt opts = min (baseDelayMs opts * 2 ^ nat attempt) (maxDelayMs opts)"

definition calculateDelay :: "'s runtime \<Rightarrow> int \<Rightarrow> retry_options \<Rightarrow> 's \<Rightarrow> int \<times> 's" where
  "calculateDelay rt attempt opts s =
     (let capped = capped_delay attempt opts in
      if \<not> jitter opts then (capped, s)
      else case rt_random rt s of (r, s') \<Rightarrow> (\<lfloor>of_int capped * (1 / 2 + r * (1 / 2))\<rfloor>, s'))"

section \<open>The loop\<close>

function retry_loop ::
  "'s runtime \<Rightarrow> retry_options \<Rightarrow> ('s, 'a) io \<Rightarrow> int \<Rightarrow> exn option \<Rightarrow> ('s, 'a) io" where
  "retry_loop rt opts fn attempt lastError s =
     (if attempt \<le> maxRetries opts then
        (case fn s of
           (Inr x, s') \<Rightarrow> (Inr x, s')
         | (Inl error, s') \<Rightarrow>
             (if attempt = maxRetries opts then (Inl error, s')
              else case calculateDelay rt attempt opts s' of
                (delay, s'') \<Rightarrow> retry_loop rt opts fn (attempt + 1) (Some error) (rt_sleep rt delay s'')))
      else (Inl (case lastError of Some e \<Rightarrow> e | None \<Rightarrow> Error ''Retry exhausted''), s))"
  by pat_completeness auto
termination
  by (relation "measure (\<lambda>(rt, opts, fn, attempt, lastError, s). nat (maxRetries opts + 1 - attempt))") auto

declare retry_loop.simps [simp del]

text \<open>\<open>execute(fn, options = {})\<close>, with the caller's options already spread over the defaults.\<close>

definition retry_execute :: "'s runtime \<Rightarrow> ('s, 'a) io \<Rightarrow> retry_options \<Rightarrow> ('s, 'a) io" where
  "retry_execute rt fn opts = retry_loop rt opts fn 0 None"

section \<open>Delays are bounded\<close>

lemma capped_delay_bounds:
  "0 < baseDelayMs opts \<Longrightarrow> 0 < maxDelayMs opts \<Longrightarrow>
     0 < capped_delay k opts \<and> capped_delay k opts \<le> maxDelayMs opts"
  by (simp add: capped_delay_def)

lemma capped_delay_mono:
  "0 < baseDelayMs opts \<Longrightarrow> j \<le> k \<Longrightarrow> capped_delay j opts \<le> capped_delay k opts"
  by (simp add: capped_delay_def min.coboundedI1 power_increasing nat_mono mult_left_mono)

lemma jitter_floor_bounds:
  fixes c :: int and r :: rat
  assumes "0 < c" "0 \<le> r" "r < 1"
  shows "c div 2 \<le> \<lfloor>of_int c * (1 / 2 + r * (1 / 2))\<rfloor> \<and> \<lfloor>of_int c * (1 / 2 + r * (1 / 2))\<rfloor> < c"
proof
  have "c div 2 = \<lfloor>of_int c / (2 :: rat)\<rfloor>"
    using floor_divide_of_int_eq [of c 2, where ?'a = rat] by simp
  also have "\<dots> \<le> \<lfloor>of_int c * (1 / 2 + r * (1 / 2))\<rfloor>"
    using assms by (intro floor_mono) (simp add: field_simps)
  finally show "c div 2 \<le> \<lfloor>of_int c * (1 / 2 + r * (1 / 2))\<rfloor>" .
  have "of_int c * (1 / 2 + r * (1 / 2)) < of_int c"
    using assms by (simp add: field_simps)
  then show "\<lfloor>of_int c * (1 / 2 + r * (1 / 2))\<rfloor> < c"
    by (simp add: floor_less_iff)
qed

text \<open>
  C40: every wait between two attempts is at most \<open>maxDelayMs\<close> and at least half the capped
  exponential delay (rounded down); without jitter it is exactly the capped delay.
\<close>

theorem delay_bounds:
  assumes "0 < baseDelayMs opts" "0 < maxDelayMs opts"
    and "rt_random rt s = (r, s1)" "0 \<le> r" "r < 1"
    and "calculateDelay rt attempt opts s = (delay, s2)"
  shows "capped_delay attempt opts div 2 \<le> delay \<and> delay \<le> capped_delay attempt opts \<and>
    capped_delay attempt opts \<le> maxDelayMs opts \<and>
    (\<not> jitter opts \<longrightarrow> delay = capped_delay attempt opts)"
proof -
  have "0 < capped_delay attempt opts" "capped_delay attempt opts \<le> maxDelayMs opts"
    using capped_delay_bounds [OF assms(1,2)] by simp_all
  with assms(3,6) jitter_floor_bounds [OF _ assms(4,5), of "capped_delay attempt opts"]
  show ?thesis by (auto simp: calculateDelay_def Let_def split: if_splits)
qed

theorem delay_bounds_witness:
  "15000 \<le> fst (calculateDelay \<lparr>rt_sleep = (\<lambda>_ s. s), rt_random = (\<lambda>s. (1 / 2, s))\<rparr> 5 defaultOptions ())"
  using delay_bounds [of defaultOptions "\<lparr>rt_sleep = (\<lambda>_ s. s), rt_random = (\<lambda>s. (1 / 2, s))\<rparr>" "()"
      "1 / 2" "()" 5 22500 "()"]
  by (simp add: defaultOptions_def calculateDelay_def capped_delay_def)

section \<open>Which attempt decides\<close>

text \<open>
  A function that is called once per attempt, its \<open>k\<close>-th call giving \<open>f k\<close>, over a state that counts
  the calls and records the waits.
\<close>

definition scripted :: "(nat \<Rightarrow> exn + 'a) \<Rightarrow> (nat \<times> int list, 'a) io" where
  "scripted f = (\<lambda>(n, ds). (f n, (Suc n, ds)))"

definition recorder :: "(nat \<times> int list) runtime" where
  "recorder = \<lparr>rt_sleep = (\<lambda>d (n, ds). (n, ds @ [d])), rt_random = (\<lambda>s. (0, s))\<rparr>"

text \<open>The abstract specification: the first success among the calls \<open>n, \<dots>, n + m\<close>, else the last error.\<close>

fun first_success :: "(nat \<Rightarrow> exn + 'a) \<Rightarrow> nat \<Rightarrow> nat \<Rightarrow> (exn + 'a) \<times> nat" where
  "first_success f n 0 = (f n, Suc n)"
| "first_success f n (Suc m) = (case f n of Inr x \<Rightarrow> (Inr x, Suc n) | Inl e \<Rightarrow> first_success f (Suc n) m)"

lemma first_success_bounds:
  "first_success f n m = (r, c) \<Longrightarrow>
     n < c \<and> c \<le> Suc (n + m) \<and> r = f (c - 1) \<and> (c < Suc (n + m) \<longrightarrow> \<not> isl r)"
proof (induction f n m rule: first_success.induct)
  case (1 f n)
  then show ?case by auto
next
  case (2 f n m)
  show ?case
  proof (cases "f n")
    case (Inl e)
    with 2(2) have "first_success f (Suc n) m = (r, c)" by simp
    with 2(1) [OF Inl] show ?thesis by auto
  next
    case (Inr x)
    with 2(2) have "r = Inr x" "c = Suc n" by simp_all
    with Inr show ?thesis by simp
  qed
qed

lemma first_success_failed:
  "first_success f n m = (r, c) \<Longrightarrow> n \<le> k \<Longrightarrow> Suc k < c \<Longrightarrow> isl (f k)"
proof (induction f n m arbitrary: k rule: first_success.induct)
  case (1 f n)
  then show ?case by simp
next
  case (2 f n m)
  show ?case
  proof (cases "f n")
    case (Inl e)
    with 2 show ?thesis by (cases "k = n") simp_all
  next
    case (Inr x)
    with 2 show ?thesis by simp
  qed
qed

lemma retry_loop_scripted:
  assumes "0 \<le> attempt" "attempt \<le> maxRetries opts"
  shows "\<exists>ds'. retry_loop recorder opts (scripted f) attempt e (n, ds) =
    (case first_success f n (nat (maxRetries opts - attempt)) of (r, m) \<Rightarrow> (r, (m, ds @ ds'))) \<and>
    length ds' = snd (first_success f n (nat (maxRetries opts - attempt))) - Suc n"
  using assms
proof (induction "nat (maxRetries opts - attempt)" arbitrary: attempt e n ds)
  case 0
  then have "attempt = maxRetries opts" by simp
  then show ?case
    by (subst retry_loop.simps) (auto simp: scripted_def split: sum.splits)
next
  case (Suc m)
  then have lt: "attempt < maxRetries opts" and m: "nat (maxRetries opts - attempt) = Suc m"
    and m': "m = nat (maxRetries opts - (attempt + 1))" by simp_all
  show ?case
  proof (cases "f n")
    case (Inr x)
    with lt m show ?thesis
      by (subst retry_loop.simps) (auto simp: scripted_def)
  next
    case (Inl err)
    obtain d where d: "calculateDelay recorder attempt opts (Suc n, ds) = (d, (Suc n, ds))"
      by (cases "jitter opts") (auto simp: calculateDelay_def recorder_def Let_def)
    obtain r k where fs: "first_success f (Suc n) m = (r, k)" by fastforce
    obtain ds' where ds': "retry_loop recorder opts (scripted f) (attempt + 1) (Some err) (Suc n, ds @ [d]) =
        (r, (k, (ds @ [d]) @ ds'))" "length ds' = k - Suc (Suc n)"
      using Suc.hyps(1) [OF m', of "Some err" "Suc n" "ds @ [d]"] Suc.prems lt fs
      unfolding m' [symmetric] by auto
    have "retry_loop recorder opts (scripted f) attempt e (n, ds) =
        retry_loop recorder opts (scripted f) (attempt + 1) (Some err) (Suc n, ds @ [d])"
      using Inl lt d by (subst retry_loop.simps) (simp add: scripted_def, simp add: recorder_def)
    moreover have "length (d # ds') = k - Suc n"
      using ds'(2) first_success_bounds [OF fs] by (auto simp: Suc_diff_Suc)
    ultimately show ?thesis
      using ds'(1) Inl fs unfolding m by (intro exI [of _ "d # ds'"]) simp
  qed
qed

text \<open>
  The retry loop stops at the first successful attempt and returns its value; it makes at least
  one and at most \<open>maxRetries + 1\<close> attempts, waits once between two attempts, and fails, with the error
  of the last attempt, only when all \<open>maxRetries + 1\<close> attempts failed.
\<close>

theorem retry_stops_at_first_success:
  assumes "0 \<le> maxRetries opts"
    and "retry_execute recorder (scripted f) opts (0, []) = (r, (calls, waits))"
  shows "1 \<le> calls \<and> int calls \<le> maxRetries opts + 1 \<and> length waits = calls - 1 \<and>
    (\<forall>k. Suc k < calls \<longrightarrow> isl (f k)) \<and> r = f (calls - 1) \<and>
    (int calls < maxRetries opts + 1 \<longrightarrow> \<not> isl r)"
proof -
  obtain r' c where fs: "first_success f 0 (nat (maxRetries opts - 0)) = (r', c)" by fastforce
  from retry_loop_scripted [OF order_refl assms(1), of f None 0 "[]"] assms(2) fs
  have "r = r'" "calls = c" "length waits = c - Suc 0"
    by (auto simp: retry_execute_def)
  moreover have "\<forall>k. Suc k < c \<longrightarrow> isl (f k)"
    using first_success_failed [OF fs] by blast
  ultimately show ?thesis
    using first_success_bounds [OF fs] assms(1) by (auto simp: le_nat_iff)
qed

theorem retry_stops_at_first_success_witness:
  "fst (retry_execute recorder (scripted (\<lambda>k. if k < 2 then Inl (Error ''down'') else Inr k))
      \<lparr>maxRetries = 3, baseDelayMs = 10, maxDelayMs = 50, jitter = False\<rparr> (0, [])) = Inr 2"
proof -
  let ?f = "\<lambda>k :: nat. if k < 2 then Inl (Error ''down'') else Inr k"
  let ?o = "\<lparr>maxRetries = 3, baseDelayMs = 10, maxDelayMs = 50, jitter = False\<rparr>"
  obtain r calls waits where run: "retry_execute recorder (scripted ?f) ?o (0, []) = (r, (calls, waits))"
    using prod_cases3 by blast
  note spec = retry_stops_at_first_success [OF _ run, simplified]
  have "isl (?f k)" if "Suc k < calls" for k using spec that by blast
  from this [of 2] have "\<not> 3 < calls" by auto
  moreover have "calls \<noteq> 1" "calls \<noteq> 2" using spec by auto
  ultimately have "calls = 3" using spec by arith
  with run spec show ?thesis by simp
qed

end
