(* ===== verification/Metrics_Service.thy ===== *)
theory Metrics_Service
  imports Js_Prelude
begin

text \<open>
  \<^verbatim>\<open>src/metrics/metrics.service.ts\<close>: the counters and gauges the pipeline writes, and the sliding
  five-minute window of processed events. A counter or gauge of the metrics client is the map from
  label tuples to values it keeps. \<^verbatim>\<open>src/core/dlq/dlq.service.ts\<close> writes the gauge \<open>dlqSize\<close>.
\<close>

section \<open>State\<close>

record sample =
  s_timestamp :: int
  s_status :: string
  s_targetSystem :: string

record metrics =
  connectorErrors :: "(string \<times> string) \<Rightarrow> nat"
  dlqSize :: "string \<Rightarrow> int option"
  eventsProcessed :: "(string \<times> string) \<Rightarrow> nat"
  eventsProcessedLast5m :: "(string \<times> string) \<Rightarrow> nat option"
  processedWindow :: "sample list"

definition init_metrics :: metrics where
  "init_metrics = \<lparr>connectorErrors = (\<lambda>_. 0), dlqSize = (\<lambda>_. None), eventsProcessed = (\<lambda>_. 0),
     eventsProcessedLast5m = (\<lambda>_. None), processedWindow = []\<rparr>"

text \<open>\<open>private readonly windowMs = 5 * 60 * 1000\<close>.\<close>

definition windowMs :: int where
  "windowMs = 5 * 60 * 1000"

section \<open>Operations\<close>

definition inc_counter :: "('l \<Rightarrow> nat) \<Rightarrow> 'l \<Rightarrow> ('l \<Rightarrow> nat)" where
  "inc_counter c l = c(l := Suc (c l))"

definition recordConnectorError :: "string \<Rightarrow> string \<Rightarrow> metrics \<Rightarrow> metrics" where
  "recordConnectorError connector operation m =
     m\<lparr>connectorErrors := inc_counter (connectorErrors m) (connector, operation)\<rparr>"

definition setDlqSize :: "string \<Rightarrow> int \<Rightarrow> metrics \<Rightarrow> metrics" where
  "setDlqSize status n m = m\<lparr>dlqSize := (dlqSize m)(status := Some n)\<rparr>"

text \<open>
  The count of the samples of one target system and status: the entry of the nested records that
  \<open>processedLast5MinutesRaw\<close> and \<open>processedLast5Minutes\<close> build by incrementing.
\<close>

fun count_samples :: "((string \<times> string) \<times> nat) list \<Rightarrow> sample list \<Rightarrow> ((string \<times> string) \<times> nat) list" where
  "count_samples acc [] = acc"
| "count_samples acc (s # ss) =
     (let l = (s_status s, s_targetSystem s);
          n = (case map_of acc l of None \<Rightarrow> 0 | Some n \<Rightarrow> n)
      in count_samples (AList.update l (n + 1) acc) ss)"

definition processedLast5MinutesRaw :: "metrics \<Rightarrow> ((string \<times> string) \<times> nat) list" where
  "processedLast5MinutesRaw m = count_samples [] (processedWindow m)"

definition refreshProcessedWindow :: "int \<Rightarrow> metrics \<Rightarrow> metrics" where
  "refreshProcessedWindow now m =
     (let cutoff = now - windowMs;
          m' = m\<lparr>processedWindow := dropWhile (\<lambda>s. s_timestamp s < cutoff) (processedWindow m)\<rparr>
      in m'\<lparr>eventsProcessedLast5m := map_of (processedLast5MinutesRaw m')\<rparr>)"

definition recordEvent :: "int \<Rightarrow> string \<Rightarrow> string \<Rightarrow> metrics \<Rightarrow> metrics" where
  "recordEvent now status targetSystem m =
     refreshProcessedWindow now
       (m\<lparr>eventsProcessed := inc_counter (eventsProcessed m) (status, targetSystem),
          processedWindow := processedWindow m @
            [\<lparr>s_timestamp = now, s_status = status, s_targetSystem = targetSystem\<rparr>]\<rparr>)"

record last5 =
  l_total :: nat
  l_byStatus :: "(string \<times> nat) list"
  l_byTargetSystem :: "((string \<times> string) \<times> nat) list"

fun count_status :: "(string \<times> nat) list \<Rightarrow> sample list \<Rightarrow> (string \<times> nat) list" where
  "count_status acc [] = acc"
| "count_status acc (s # ss) =
     (let n = (case map_of acc (s_status s) of None \<Rightarrow> 0 | Some n \<Rightarrow> n)
      in count_status (AList.update (s_status s) (n + 1) acc) ss)"

definition processedLast5Minutes :: "int \<Rightarrow> metrics \<Rightarrow> last5 \<times> metrics" where
  "processedLast5Minutes now m =
     (let m' = refreshProcessedWindow now m; w = processedWindow m' in
      (\<lparr>l_total = length w, l_byStatus = count_status [] w, l_byTargetSystem = count_samples [] w\<rparr>, m'))"

section \<open>Counting\<close>

definition label_of :: "sample \<Rightarrow> string \<times> string" where
  "label_of s = (s_status s, s_targetSystem s)"

lemma count_samples_map_of:
  "map_of (count_samples acc ss) l =
     (let n = length (filter (\<lambda>s. label_of s = l) ss) in
      case map_of acc l of None \<Rightarrow> (if n = 0 then None else Some n) | Some k \<Rightarrow> Some (k + n))"
  by (induction acc ss rule: count_samples.induct)
    (auto simp: Let_def label_of_def update_conv' split: option.splits)

lemma count_status_map_of:
  "map_of (count_status acc ss) l =
     (let n = length (filter (\<lambda>s. s_status s = l) ss) in
      case map_of acc l of None \<Rightarrow> (if n = 0 then None else Some n) | Some k \<Rightarrow> Some (k + n))"
  by (induction acc ss rule: count_status.induct)
    (auto simp: Let_def update_conv' split: option.splits)

section \<open>The window\<close>

text \<open>The clock does not go back: the samples are in the order of their time and none is later than \<open>now\<close>.\<close>

definition window_ok :: "int \<Rightarrow> metrics \<Rightarrow> bool" where
  "window_ok now m \<longleftrightarrow> sorted (map s_timestamp (processedWindow m)) \<and>
     (\<forall>s \<in> set (processedWindow m). s_timestamp s \<le> now)"

lemma dropWhile_sorted_filter:
  "sorted (map f xs) \<Longrightarrow> dropWhile (\<lambda>x. f x < c) xs = filter (\<lambda>x. c \<le> (f x :: int)) xs"
proof (induction xs)
  case Nil
  then show ?case by simp
next
  case (Cons x xs)
  show ?case
  proof (cases "f x < c")
    case True
    with Cons show ?thesis by simp
  next
    case False
    with Cons.prems have "\<forall>y \<in> set xs. c \<le> f y" by force
    with False show ?thesis by (simp add: filter_id_conv)
  qed
qed

lemma refresh_window:
  "window_ok now m \<Longrightarrow>
     processedWindow (refreshProcessedWindow now m) =
       filter (\<lambda>s. now - windowMs \<le> s_timestamp s) (processedWindow m)"
  by (simp add: refreshProcessedWindow_def Let_def window_ok_def dropWhile_sorted_filter)

lemma window_ok_init: "window_ok now init_metrics"
  by (simp add: window_ok_def init_metrics_def)

lemma window_ok_later: "window_ok now m \<Longrightarrow> now \<le> now' \<Longrightarrow> window_ok now' m"
  by (force simp: window_ok_def)

lemma window_ok_refresh: "window_ok now m \<Longrightarrow> window_ok now (refreshProcessedWindow now m)"
  by (simp add: window_ok_def refresh_window [unfolded window_ok_def] sorted_filter)

lemma window_ok_record: "window_ok now m \<Longrightarrow> window_ok now (recordEvent now status ts m)"
  unfolding recordEvent_def
  by (rule window_ok_refresh) (auto simp: window_ok_def sorted_append)

text \<open>A run: events recorded at non-decreasing times.\<close>

fun record_all :: "(int \<times> string \<times> string) list \<Rightarrow> metrics \<Rightarrow> metrics" where
  "record_all [] m = m"
| "record_all ((t, status, ts) # es) m = record_all es (recordEvent t status ts m)"

definition sample_of :: "int \<times> string \<times> string \<Rightarrow> sample" where
  "sample_of e = \<lparr>s_timestamp = fst e, s_status = fst (snd e), s_targetSystem = snd (snd e)\<rparr>"

lemma sample_of_fields [simp]:
  "s_timestamp (sample_of e) = fst e" "s_status (sample_of e) = fst (snd e)"
  "s_targetSystem (sample_of e) = snd (snd e)"
  by (simp_all add: sample_of_def)

lemma record_window:
  "window_ok t m \<Longrightarrow> processedWindow (recordEvent t status ts m) =
     filter (\<lambda>s. t - windowMs \<le> s_timestamp s) (processedWindow m) @ [sample_of (t, status, ts)]"
  unfolding recordEvent_def
  by (subst refresh_window) (auto simp: window_ok_def sorted_append sample_of_def windowMs_def)

lemma record_all_window:
  assumes "sorted (map fst es)" "\<forall>e \<in> set es. t0 \<le> fst e" "\<forall>e \<in> set es. fst e \<le> now" "t0 \<le> now"
    and "window_ok t0 m"
  shows "window_ok now (record_all es m) \<and>
    filter (\<lambda>s. now - windowMs \<le> s_timestamp s) (processedWindow (record_all es m)) =
    filter (\<lambda>s. now - windowMs \<le> s_timestamp s) (processedWindow m @ map sample_of es)"
  using assms
proof (induction es arbitrary: t0 m)
  case Nil
  then show ?case by (auto intro: window_ok_later)
next
  case (Cons e es)
  obtain t status ts where e: "e = (t, status, ts)" by (cases e) auto
  have ok: "window_ok t m" using Cons.prems by (auto simp: e intro: window_ok_later)
  have "window_ok now (record_all es (recordEvent t status ts m)) \<and>
    filter (\<lambda>s. now - windowMs \<le> s_timestamp s) (processedWindow (record_all es (recordEvent t status ts m))) =
    filter (\<lambda>s. now - windowMs \<le> s_timestamp s) (processedWindow (recordEvent t status ts m) @ map sample_of es)"
    using Cons.prems ok by (intro Cons.IH [of t]) (auto simp: e window_ok_record)
  moreover have "filter (\<lambda>s. t - windowMs \<le> s_timestamp s \<and> now - windowMs \<le> s_timestamp s) (processedWindow m) =
      filter (\<lambda>s. now - windowMs \<le> s_timestamp s) (processedWindow m)"
    using Cons.prems by (intro filter_cong) (auto simp: e)
  ultimately show ?case
    by (simp add: e record_window [OF ok])
qed

text \<open>
  The statistics of the last five minutes are exact: after any sequence of events recorded at
  non-decreasing times, the count reported at a later time \<open>now\<close> for a status and target system is the
  number of those events that are at most five minutes old, and absent exactly when there is none.
\<close>

theorem last5_counts_exact:
  assumes "sorted (map fst es)" "\<forall>e \<in> set es. fst e \<le> now"
  shows "map_of (l_byTargetSystem (fst (processedLast5Minutes now (record_all es init_metrics)))) (status, ts) =
    (let n = length (filter (\<lambda>e. now - windowMs \<le> fst e \<and> snd e = (status, ts)) es)
     in if n = 0 then None else Some n)"
proof -
  define t0 where "t0 = (case es of [] \<Rightarrow> now | e # _ \<Rightarrow> fst e)"
  have t0: "\<forall>e \<in> set es. t0 \<le> fst e" "t0 \<le> now"
    using assms by (cases es; force simp: t0_def)+
  let ?m = "record_all es init_metrics"
  from record_all_window [OF assms(1) t0(1) assms(2) t0(2) window_ok_init]
  have ok: "window_ok now ?m"
    and w: "filter (\<lambda>s. now - windowMs \<le> s_timestamp s) (processedWindow ?m) =
      filter (\<lambda>s. now - windowMs \<le> s_timestamp s) (map sample_of es)"
    by (simp_all add: init_metrics_def)
  have "processedWindow (refreshProcessedWindow now ?m) =
      map sample_of (filter (\<lambda>e. now - windowMs \<le> fst e) es)"
    using w by (simp add: refresh_window [OF ok] filter_map o_def)
  then have "map_of (l_byTargetSystem (fst (processedLast5Minutes now ?m))) (status, ts) =
      (let n = length (filter (\<lambda>e. label_of (sample_of e) = (status, ts)) (filter (\<lambda>e. now - windowMs \<le> fst e) es))
       in if n = 0 then None else Some n)"
    by (simp add: processedLast5Minutes_def Let_def count_samples_map_of filter_map o_def)
  also have "(\<lambda>e. label_of (sample_of e) = (status, ts)) = (\<lambda>e. snd e = (status, ts))"
    by (auto simp: label_of_def fun_eq_iff prod_eq_iff)
  finally show ?thesis by (simp only: filter_filter)
qed

theorem last5_counts_exact_witness:
  "map_of (l_byTargetSystem (fst (processedLast5Minutes 400000
     (record_all [(0, ''success'', ''z''), (200000, ''success'', ''z''), (300000, ''failed'', ''z'')] init_metrics))))
     (''success'', ''z'') = Some 1"
  by (subst last5_counts_exact) (simp_all add: windowMs_def)

end
