(* ===== verification/Json_Text.thy ===== *)
theory Json_Text
  imports Js_Prelude
begin

text \<open>
  \<open>JSON.stringify\<close> and \<open>JSON.parse\<close> of the language: the text form of the values the source stores,
  encrypts and sends. A fraction is printed as it is exactly (the source only stores integers); a
  \<open>\u\<close> escape outside the modelled characters is refused.
\<close>

section \<open>Printing\<close>

text \<open>The characters a string literal escapes, with what follows the backslash.\<close>

definition json_escapes :: "(char \<times> string) list" where
  "json_escapes =
    [
     (CHR 0x00, ''u0000''), (CHR 0x01, ''u0001''), (CHR 0x02, ''u0002''), (CHR 0x03, ''u0003''),
     (CHR 0x04, ''u0004''), (CHR 0x05, ''u0005''), (CHR 0x06, ''u0006''), (CHR 0x07, ''u0007''),
     (CHR 0x08, ''b''), (CHR 0x09, ''t''), (CHR 0x0A, ''n''), (CHR 0x0B, ''u000b''),
     (CHR 0x0C, ''f''), (CHR 0x0D, ''r''), (CHR 0x0E, ''u000e''), (CHR 0x0F, ''u000f''),
     (CHR 0x10, ''u0010''), (CHR 0x11, ''u0011''), (CHR 0x12, ''u0012''), (CHR 0x13, ''u0013''),
     (CHR 0x14, ''u0014''), (CHR 0x15, ''u0015''), (CHR 0x16, ''u0016''), (CHR 0x17, ''u0017''),
     (CHR 0x18, ''u0018''), (CHR 0x19, ''u0019''), (CHR 0x1A, ''u001a''), (CHR 0x1B, ''u001b''),
     (CHR 0x1C, ''u001c''), (CHR 0x1D, ''u001d''), (CHR 0x1E, ''u001e''), (CHR 0x1F, ''u001f''),
     (CHR 0x22, [CHR 0x22]), (CHR 0x5C, [CHR 0x5C])
    ]"

definition json_char :: "char \<Rightarrow> string" where
  "json_char c = (case map_of json_escapes c of None \<Rightarrow> [c] | Some e \<Rightarrow> CHR 0x5C # e)"

definition json_quote :: "string \<Rightarrow> string" where
  "json_quote s = CHR 0x22 # concat (map json_char s) @ [CHR 0x22]"

text \<open>The fraction digits of \<open>p / q\<close>, at most \<open>n\<close> of them.\<close>

fun fraction_digits :: "nat \<Rightarrow> int \<Rightarrow> int \<Rightarrow> string" where
  "fraction_digits 0 p q = []"
| "fraction_digits (Suc n) p q =
     (if p = 0 then [] else digit_char (nat (10 * p div q)) # fraction_digits n (10 * p mod q) q)"

definition json_number :: "jsnum \<Rightarrow> string" where
  "json_number n = (case n of
      Fin r \<Rightarrow>
        (case num_int n of
           Some i \<Rightarrow> show_int i
         | None \<Rightarrow>
             (let (p, q) = quotient_of \<bar>r\<bar> in
              (if r < 0 then ''-'' else []) @ show_int (p div q) @ ''.'' @ fraction_digits 1100 (p mod q) q))
    | _ \<Rightarrow> ''null'')"

fun json_text :: "js \<Rightarrow> string" where
  "json_text Undef = ''null''"
| "json_text Null = ''null''"
| "json_text (Bool b) = (if b then ''true'' else ''false'')"
| "json_text (Num n) = json_number n"
| "json_text (Str s) = json_quote s"
| "json_text (Arr xs) = ''['' @ join '','' (map json_text xs) @ '']''"
| "json_text (Obj ob) =
     ''{'' @ join '','' (map (\<lambda>(k, v). json_quote k @ '':'' @ json_text v) (filter (\<lambda>(k, v). v \<noteq> Undef) ob)) @ ''}''"

text \<open>\<open>JSON.stringify(undefined)\<close> is undefined.\<close>

definition JSON_stringify :: "js \<Rightarrow> js" where
  "JSON_stringify v = (if v = Undef then Undef else Str (json_text v))"

section \<open>Parsing\<close>

definition json_space :: "char \<Rightarrow> bool" where
  "json_space c \<longleftrightarrow> c \<in> set [CHR '' '', CHR 0x09, CHR 0x0A, CHR 0x0D]"

definition skip_ws :: "string \<Rightarrow> string" where
  "skip_ws s = dropWhile json_space s"

definition hex_value :: "string \<Rightarrow> nat" where
  "hex_value s = foldl (\<lambda>a c. 16 * a + radix_digit c) 0 s"

definition simple_unescapes :: "(char \<times> char) list" where
  "simple_unescapes = [(CHR 0x22, CHR 0x22), (CHR 0x5C, CHR 0x5C), (CHR ''/'', CHR ''/''), (CHR ''b'', CHR 0x08),
     (CHR ''f'', CHR 0x0C), (CHR ''n'', CHR 0x0A), (CHR ''r'', CHR 0x0D), (CHR ''t'', CHR 0x09)]"

text \<open>The rest of a string literal after its opening quote.\<close>

fun parse_string :: "string \<Rightarrow> (string \<times> string) option" where
  "parse_string [] = None"
| "parse_string (c # s) =
     (if c = CHR 0x22 then Some ([], s)
      else if c = CHR 0x5C then
        (case s of
           CHR ''u'' # h1 # h2 # h3 # h4 # r \<Rightarrow>
             (if list_all (\<lambda>d. radix_digit d < 16) [h1, h2, h3, h4] \<and> hex_value [h1, h2, h3, h4] < 256
              then map_option (\<lambda>(t, r'). (char_of (hex_value [h1, h2, h3, h4]) # t, r')) (parse_string r)
              else None)
         | d # r \<Rightarrow>
             (case map_of simple_unescapes d of
                Some e \<Rightarrow> map_option (\<lambda>(t, r'). (e # t, r')) (parse_string r)
              | None \<Rightarrow> None)
         | [] \<Rightarrow> None)
      else if map_of json_escapes c \<noteq> None then None
      else map_option (\<lambda>(t, r'). (c # t, r')) (parse_string s))"

definition number_char :: "char \<Rightarrow> bool" where
  "number_char c \<longleftrightarrow> is_digit c \<or> c \<in> set ''+-.eE''"

text \<open>The number grammar of JSON: no leading zero, no bare dot, no plus sign.\<close>

definition json_digits_frac :: "string \<Rightarrow> bool" where
  "json_digits_frac m =
     (let ip = takeWhile is_digit m; r = dropWhile is_digit m in
      ip \<noteq> [] \<and> (hd ip = CHR ''0'' \<longrightarrow> ip = ''0'') \<and>
      (r = [] \<or> hd r = CHR ''.'' \<and> tl r \<noteq> [] \<and> list_all is_digit (tl r)))"

definition json_number_ok :: "string \<Rightarrow> bool" where
  "json_number_ok t =
     (let u = (if t \<noteq> [] \<and> hd t = CHR ''-'' then tl t else t);
          m = takeWhile (\<lambda>c. \<not> is_exp_char c) u; e = dropWhile (\<lambda>c. \<not> is_exp_char c) u in
      json_digits_frac m \<and> (e = [] \<or> decimal_exponent (tl e) \<noteq> None))"

definition parse_number :: "string \<Rightarrow> (js \<times> string) option" where
  "parse_number s =
     (let t = takeWhile number_char s in
      if json_number_ok t then Some (Num (string_to_number t), dropWhile number_char s) else None)"

definition parse_literal :: "string \<Rightarrow> js \<Rightarrow> string \<Rightarrow> (js \<times> string) option" where
  "parse_literal lit v s = (if starts_with s lit then Some (v, drop (length lit) s) else None)"

text \<open>The rest of the text after a given punctuation character, white space before it skipped.\<close>

definition expect :: "char \<Rightarrow> string \<Rightarrow> string option" where
  "expect d s = (case skip_ws s of [] \<Rightarrow> None | c # r \<Rightarrow> if c = d then Some r else None)"

text \<open>
  Values, elements of an array and members of an object. The first argument bounds the depth of the
  recursion; the length of the text is always enough.
\<close>

fun parse_value :: "nat \<Rightarrow> string \<Rightarrow> (js \<times> string) option"
  and parse_elems :: "nat \<Rightarrow> string \<Rightarrow> (js list \<times> string) option"
  and parse_members :: "nat \<Rightarrow> string \<Rightarrow> (obj \<times> string) option" where
  "parse_value 0 s = None"
| "parse_value (Suc n) s =
     (case skip_ws s of
        [] \<Rightarrow> None
      | c # r \<Rightarrow>
          if c = CHR 0x22 then map_option (\<lambda>(t, r'). (Str t, r')) (parse_string r)
          else if c = CHR ''['' then
            (case expect (CHR '']'') r of
               Some r' \<Rightarrow> Some (Arr [], r')
             | None \<Rightarrow> map_option (\<lambda>(xs, r'). (Arr xs, r')) (parse_elems n r))
          else if c = CHR ''{'' then
            (case expect (CHR ''}'') r of
               Some r' \<Rightarrow> Some (Obj [], r')
             | None \<Rightarrow> map_option (\<lambda>(ms, r'). (Obj (obj_spread [] ms), r')) (parse_members n r))
          else if c = CHR ''t'' then parse_literal ''true'' (Bool True) (c # r)
          else if c = CHR ''f'' then parse_literal ''false'' (Bool False) (c # r)
          else if c = CHR ''n'' then parse_literal ''null'' Null (c # r)
          else parse_number (c # r))"
| "parse_elems 0 s = None"
| "parse_elems (Suc n) s =
     (case parse_value n s of
        None \<Rightarrow> None
      | Some (v, r) \<Rightarrow>
          (case expect (CHR '']'') r of
             Some r' \<Rightarrow> Some ([v], r')
           | None \<Rightarrow>
               (case expect (CHR '','') r of
                  Some r' \<Rightarrow> map_option (\<lambda>(xs, r''). (v # xs, r'')) (parse_elems n r')
                | None \<Rightarrow> None)))"
| "parse_members 0 s = None"
| "parse_members (Suc n) s =
     (case Option.bind (expect (CHR 0x22) s) parse_string of
        None \<Rightarrow> None
      | Some (k, r1) \<Rightarrow>
          (case Option.bind (expect (CHR '':'') r1) (parse_value n) of
             None \<Rightarrow> None
           | Some (v, r2) \<Rightarrow>
               (case expect (CHR ''}'') r2 of
                  Some r3 \<Rightarrow> Some ([(k, v)], r3)
                | None \<Rightarrow>
                    (case expect (CHR '','') r2 of
                       Some r3 \<Rightarrow> map_option (\<lambda>(ms, r4). ((k, v) # ms, r4)) (parse_members n r3)
                     | None \<Rightarrow> None))))"

text \<open>\<open>JSON.parse\<close>; none stands for the \<open>SyntaxError\<close>.\<close>

definition JSON_parse :: "string \<Rightarrow> js option" where
  "JSON_parse s =
     (case parse_value (Suc (length s)) s of
        None \<Rightarrow> None
      | Some (v, r) \<Rightarrow> (if skip_ws r = [] then Some v else None))"

section \<open>The round trip\<close>

text \<open>Values made of null, booleans, integers, strings, arrays and objects with distinct keys.\<close>

fun json_ok :: "js \<Rightarrow> bool" where
  "json_ok Undef = False"
| "json_ok Null = True"
| "json_ok (Bool b) = True"
| "json_ok (Num n) = (num_int n \<noteq> None)"
| "json_ok (Str s) = True"
| "json_ok (Arr xs) = list_all json_ok xs"
| "json_ok (Obj ob) = (distinct (map fst ob) \<and> list_all (\<lambda>kv. json_ok (snd kv)) ob)"

subsection \<open>Strings\<close>

lemma radix_digit_eval:
  "radix_digit (CHR ''0'') = 0"
  "radix_digit (CHR ''1'') = 1"
  "radix_digit (CHR ''2'') = 2"
  "radix_digit (CHR ''3'') = 3"
  "radix_digit (CHR ''4'') = 4"
  "radix_digit (CHR ''5'') = 5"
  "radix_digit (CHR ''6'') = 6"
  "radix_digit (CHR ''7'') = 7"
  "radix_digit (CHR ''8'') = 8"
  "radix_digit (CHR ''9'') = 9"
  "radix_digit (CHR ''a'') = 10"
  "radix_digit (CHR ''b'') = 11"
  "radix_digit (CHR ''c'') = 12"
  "radix_digit (CHR ''d'') = 13"
  "radix_digit (CHR ''e'') = 14"
  "radix_digit (CHR ''f'') = 15"
  by (simp_all add: radix_digit_def to_lower_char_def upper_letters_def lower_letters_def)

lemma parse_json_char:
  "parse_string (json_char c @ s) = map_option (\<lambda>(t, r). (c # t, r)) (parse_string s)"
proof (cases "map_of json_escapes c")
  case None
  then have "c \<noteq> CHR 0x22" "c \<noteq> CHR 0x5C" by (auto simp: json_escapes_def)
  with None show ?thesis by (simp add: json_char_def)
next
  case (Some e)
  then have "(c, e) \<in> set json_escapes" by (rule map_of_SomeD)
  moreover have "list_all (\<lambda>(c, e). \<forall>s. parse_string (CHR 0x5C # e @ s) =
      map_option (\<lambda>(t, r). (c # t, r)) (parse_string s)) json_escapes"
    by (simp add: json_escapes_def simple_unescapes_def hex_value_def radix_digit_eval char_of_def bit_0)
  ultimately show ?thesis using Some by (auto simp: json_char_def list_all_iff)
qed

lemma parse_json_quote: "parse_string (concat (map json_char t) @ CHR 0x22 # r) = Some (t, r)"
  by (induction t) (simp_all add: parse_json_char)

subsection \<open>Numbers\<close>

lemma digit_not_special:
  "is_digit c \<Longrightarrow> number_char c \<and> \<not> is_exp_char c \<and> \<not> is_space c \<and> \<not> json_space c \<and> c \<noteq> CHR ''-'' \<and> c \<noteq> CHR ''+'' \<and>
     c \<noteq> CHR 0x22 \<and> c \<noteq> CHR ''['' \<and> c \<noteq> CHR ''{'' \<and> c \<noteq> CHR ''t'' \<and> c \<noteq> CHR ''f'' \<and> c \<noteq> CHR ''n'' \<and> c \<noteq> CHR '']'' \<and> c \<noteq> CHR ''}''"
  by (auto simp: is_digit_def number_char_def is_exp_char_def is_space_def json_space_def)

lemma show_nat_all_digits: "\<forall>c \<in> set (show_nat n). is_digit c" "show_nat n \<noteq> []"
  using show_nat_digits [of n] by (auto simp: list_all_iff)

lemma show_nat_hd_zero: "hd (show_nat n) = CHR ''0'' \<longleftrightarrow> n = 0"
proof (induction n rule: show_nat.induct)
  case (1 n)
  show ?case
  proof (cases "n < 10")
    case True
    then have "n \<in> {0, 1, 2, 3, 4, 5, 6, 7, 8, 9}" by auto
    then show ?thesis by (subst show_nat.simps) (auto simp: digit_char_def)
  next
    case False
    with 1 show_nat_all_digits(2) [of "n div 10"] show ?thesis
      by (subst show_nat.simps) (simp add: hd_append)
  qed
qed

lemma takeWhile_whole: "\<forall>c \<in> set xs. P c \<Longrightarrow> ys = [] \<or> \<not> P (hd ys) \<Longrightarrow>
    takeWhile P (xs @ ys) = xs \<and> dropWhile P (xs @ ys) = ys"
  by (cases ys) auto

lemma takeWhile_all: "\<forall>c \<in> set xs. P c \<Longrightarrow> takeWhile P xs = xs" "\<forall>c \<in> set xs. P c \<Longrightarrow> dropWhile P xs = []"
  using takeWhile_whole [of xs P "[]"] by simp_all

lemma show_nat_parts:
  "takeWhile is_digit (show_nat n) = show_nat n" "dropWhile is_digit (show_nat n) = []"
  "takeWhile (\<lambda>c. \<not> is_exp_char c) (show_nat n) = show_nat n"
  "dropWhile (\<lambda>c. \<not> is_exp_char c) (show_nat n) = []"
  using show_nat_all_digits(1) [of n] digit_not_special by (blast intro: takeWhile_all)+

lemma show_nat_number_ok: "json_digits_frac (show_nat n)"
proof -
  have "show_nat n = ''0''" if "hd (show_nat n) = CHR ''0''"
    using that by (simp add: show_nat_hd_zero) (simp add: show_nat.simps digit_char_def)
  then show ?thesis using show_nat_all_digits(2) [of n]
    by (auto simp add: json_digits_frac_def Let_def show_nat_parts)
qed

lemma show_nat_hd: "is_digit (hd (show_nat n))"
  using show_nat_all_digits [of n] by simp

lemma unsigned_decimal_show: "unsigned_decimal (show_nat n) = Fin (of_nat n)"
proof -
  have "show_nat n \<noteq> ''Infinity''"
    using show_nat_hd [of n] by (auto simp: is_digit_def)
  then show ?thesis
    using show_nat_all_digits(2) [of n]
    by (simp add: unsigned_decimal_def Let_def decimal_mantissa_def nat_of_digits_show show_nat_parts)
qed

lemma trim_no_space: "\<forall>c \<in> set s. \<not> is_space c \<Longrightarrow> trim s = s"
proof -
  have id: "\<forall>c \<in> set t. \<not> is_space c \<Longrightarrow> dropWhile is_space t = t" for t
    by (cases t) auto
  assume "\<forall>c \<in> set s. \<not> is_space c"
  then show ?thesis using id [of s] id [of "rev s"] by (simp add: trim_def)
qed

lemma digits_not_radix: "\<forall>c \<in> set s. is_digit c \<Longrightarrow> to_lower (take 2 s) \<notin> {''0x'', ''0o'', ''0b''}"
proof
  assume *: "\<forall>c \<in> set s. is_digit c" and "to_lower (take 2 s) \<in> {''0x'', ''0o'', ''0b''}"
  then obtain a b t where s: "s = a # b # t" and b: "to_lower_char b \<in> {CHR ''x'', CHR ''o'', CHR ''b''}"
    by (cases s; cases "tl s") (auto simp: to_lower_def)
  from * s have "b \<in> set ''0123456789''" by (simp add: is_digit_def)
  with b show False by (auto simp: to_lower_char_def upper_letters_def lower_letters_def)
qed

lemma string_to_number_show: "string_to_number (show_int i) = Fin (of_int i)"
proof (cases "i < 0")
  case True
  have sp: "\<forall>c \<in> set (show_int i). \<not> is_space c"
    using True show_nat_all_digits(1) [of "nat (- i)"] digit_not_special
    by (auto simp: show_int_def is_space_def)
  obtain d t where d: "show_nat (nat (- i)) = d # t" using show_nat_all_digits(2) [of "nat (- i)"] by (cases "show_nat (nat (- i))") auto
  have "to_lower_char (CHR ''-'') = CHR ''-''" by (simp add: to_lower_char_def upper_letters_def lower_letters_def)
  with True d have p: "to_lower (take 2 (show_int i)) \<notin> {''0x'', ''0o'', ''0b''}" by (simp add: show_int_def to_lower_def)
  from True trim_no_space [OF sp] p show ?thesis
    by (simp add: string_to_number_def Let_def unsigned_decimal_show show_int_def)
next
  case False
  have sp: "\<forall>c \<in> set (show_int i). \<not> is_space c"
    using False show_nat_all_digits(1) [of "nat i"] digit_not_special by (auto simp: show_int_def)
  have "hd (show_nat (nat i)) \<noteq> CHR ''-''" "hd (show_nat (nat i)) \<noteq> CHR ''+''"
    using show_nat_hd digit_not_special by blast+
  with False trim_no_space [OF sp] digits_not_radix [OF show_nat_all_digits(1)] show_nat_all_digits(2) [of "nat i"]
  show ?thesis
    by (simp add: string_to_number_def Let_def unsigned_decimal_show show_int_def)
qed

text \<open>What may follow a value inside a text.\<close>

definition delimited :: "string \<Rightarrow> bool" where
  "delimited r \<longleftrightarrow> r = [] \<or> hd r \<in> set '',]}'' \<or> json_space (hd r)"

lemma delimited_not_number: "delimited r \<Longrightarrow> r = [] \<or> \<not> number_char (hd r)"
  by (auto simp: delimited_def number_char_def is_digit_def json_space_def)

lemma parse_show_int:
  assumes "delimited r"
  shows "parse_number (show_int i @ r) = Some (JInt i, r)"
proof -
  have "\<forall>c \<in> set (show_int i). number_char c"
    using show_nat_all_digits(1) digit_not_special by (auto simp: show_int_def number_char_def)
  from takeWhile_whole [OF this delimited_not_number [OF assms]]
  have t: "takeWhile number_char (show_int i @ r) = show_int i" "dropWhile number_char (show_int i @ r) = r" by auto
  have "hd (show_nat n) \<noteq> CHR ''-''" for n using show_nat_hd digit_not_special by blast
  moreover have "\<forall>c \<in> set (show_nat n). \<not> is_exp_char c" for n
    using show_nat_all_digits(1) digit_not_special by blast
  ultimately have "json_number_ok (show_int i)"
    using show_nat_number_ok show_nat_all_digits(2)
    by (cases "i < 0") (simp_all add: json_number_ok_def Let_def show_int_def show_nat_parts)
  with t show ?thesis by (simp add: parse_number_def Let_def string_to_number_show)
qed

subsection \<open>Values\<close>

lemma json_number_int [simp]: "json_number (Fin (of_int i)) = show_int i"
  by (simp add: json_number_def)

lemma json_ok_head: "json_ok v \<Longrightarrow> \<exists>c t. json_text v = c # t \<and> \<not> json_space c \<and> c \<noteq> CHR '']'' \<and> c \<noteq> CHR ''}''"
proof (cases v)
  case (Num n)
  moreover assume "json_ok v"
  ultimately obtain i where "num_int n = Some i" "json_text v = show_int i"
    by (auto dest!: num_int_Some)
  then show ?thesis using show_nat_all_digits [of "nat i"] digit_not_special
    by (cases "i < 0"; cases "show_nat (nat i)") (auto simp: show_int_def json_space_def)
qed (auto simp: json_quote_def json_space_def)

lemma skip_ws_text: "json_ok v \<Longrightarrow> skip_ws (json_text v @ r) = json_text v @ r"
  using json_ok_head [of v] by (auto simp: skip_ws_def)

lemma json_space_punct [simp]: "\<not> json_space (CHR ''['')" "\<not> json_space (CHR '']'')" "\<not> json_space (CHR ''{'')"
  "\<not> json_space (CHR ''}'')" "\<not> json_space (CHR '','')" "\<not> json_space (CHR '':'')" "\<not> json_space (CHR 0x22)"
  by (simp_all add: json_space_def)

lemma expect_punct [simp]:
  "\<not> json_space c \<Longrightarrow> expect d (c # r) = (if c = d then Some r else None)"
  by (simp add: expect_def skip_ws_def)

definition parses :: "js \<Rightarrow> bool" where
  "parses v \<longleftrightarrow> (\<forall>n r. length (json_text v) \<le> n \<longrightarrow> delimited r \<longrightarrow> parse_value n (json_text v @ r) = Some (v, r))"

lemma parse_elems_text:
  assumes "xs \<noteq> []" "\<forall>x \<in> set xs. parses x \<and> json_ok x" "length (join '','' (map json_text xs)) < n"
  shows "parse_elems n (join '','' (map json_text xs) @ CHR '']'' # r) = Some (xs, r)"
  using assms
proof (induction xs arbitrary: n)
  case Nil
  then show ?case by simp
next
  case (Cons x xs)
  then obtain m where n: "n = Suc m" by (cases n) auto
  show ?case
  proof (cases xs)
    case Nil
    with Cons.prems n have "parse_value m (json_text x @ CHR '']'' # r) = Some (x, CHR '']'' # r)"
      by (auto simp: parses_def delimited_def)
    with Nil n show ?thesis by simp
  next
    case (Cons y ys)
    let ?rest = "join '','' (map json_text xs) @ CHR '']'' # r"
    have "parse_value m (json_text x @ CHR '','' # ?rest) = Some (x, CHR '','' # ?rest)"
      using Cons.prems n Cons by (auto simp: parses_def delimited_def)
    moreover have "parse_elems m ?rest = Some (xs, r)"
      using Cons.prems n Cons by (intro Cons.IH) auto
    ultimately show ?thesis using n Cons by simp
  qed
qed

definition member_text :: "string \<times> js \<Rightarrow> string" where
  "member_text kv = json_quote (fst kv) @ '':'' @ json_text (snd kv)"

lemma parse_members_text:
  assumes "ob \<noteq> []" "\<forall>kv \<in> set ob. parses (snd kv)" "length (join '','' (map member_text ob)) < n"
  shows "parse_members n (join '','' (map member_text ob) @ CHR ''}'' # r) = Some (ob, r)"
  using assms
proof (induction ob arbitrary: n)
  case Nil
  then show ?case by simp
next
  case (Cons kv ob)
  obtain k v where kv: "kv = (k, v)" by (cases kv)
  from Cons.prems obtain m where n: "n = Suc m" by (cases n) auto
  have q: "parse_string (concat (map json_char k) @ CHR 0x22 # s) = Some (k, s)" for s by (rule parse_json_quote)
  have m: "member_text kv = CHR 0x22 # concat (map json_char k) @ CHR 0x22 # CHR '':'' # json_text v"
    by (simp add: kv member_text_def json_quote_def)
  show ?case
  proof (cases ob)
    case Nil
    with Cons.prems n kv have "parse_value m (json_text v @ CHR ''}'' # r) = Some (v, CHR ''}'' # r)"
      by (auto simp: parses_def delimited_def member_text_def)
    with Nil n kv q m show ?thesis by simp
  next
    case (Cons y ys)
    let ?rest = "join '','' (map member_text ob) @ CHR ''}'' # r"
    have "parse_value m (json_text v @ CHR '','' # ?rest) = Some (v, CHR '','' # ?rest)"
      using Cons.prems n Cons kv by (auto simp: parses_def delimited_def member_text_def)
    moreover have "parse_members m ?rest = Some (ob, r)"
      using Cons.prems n Cons by (intro Cons.IH) auto
    moreover have "join '','' (map member_text (kv # ob)) @ CHR ''}'' # r =
        CHR 0x22 # concat (map json_char k) @ CHR 0x22 # CHR '':'' # json_text v @ CHR '','' # ?rest"
      using Cons m by simp
    ultimately show ?thesis using n kv q by simp
  qed
qed

lemma obj_spread_distinct: "distinct (map fst (a @ b)) \<Longrightarrow> obj_spread a b = a @ b"
proof (induction b arbitrary: a)
  case Nil
  then show ?case by (simp add: obj_spread_def)
next
  case (Cons kv b)
  obtain k v where kv: "kv = (k, v)" by (cases kv)
  have "AList.update k v a = a @ [kv]"
    using Cons.prems by (induction a) (auto simp: kv)
  with Cons.IH [of "a @ [kv]"] Cons.prems show ?case by (simp add: obj_spread_def obj_set_def kv)
qed

lemma json_ok_parses: "json_ok v \<Longrightarrow> parses v"
proof (induction v rule: js_field_induct)
  case (Num k)
  then obtain i where i: "num_int k = Some i" by auto
  then have k: "k = Fin (of_int i)" by (rule num_int_Some)
  have "parse_value n (show_int i @ r) = Some (JInt i, r)" if "length (show_int i) \<le> n" "delimited r" for n r
  proof -
    obtain c t where c: "show_int i = c # t" "c = CHR ''-'' \<or> is_digit c"
    proof (cases "i < 0")
      case True
      with that show thesis by (simp add: show_int_def)
    next
      case False
      with that show_nat_all_digits [of "nat i"] show thesis
        by (cases "show_nat (nat i)") (simp_all add: show_int_def)
    qed
    with that obtain m where n: "n = Suc m" by (cases n) auto
    have "\<not> json_space c \<and> c \<noteq> CHR 0x22 \<and> c \<noteq> CHR ''['' \<and> c \<noteq> CHR ''{'' \<and> c \<noteq> CHR ''t'' \<and> c \<noteq> CHR ''f'' \<and> c \<noteq> CHR ''n''"
    proof (cases "c = CHR ''-''")
      case True
      then show ?thesis by (simp add: json_space_def)
    next
      case False
      with c(2) digit_not_special [of c] show ?thesis by blast
    qed
    with c(1) n parse_show_int [OF that(2), of i] show ?thesis by (simp add: skip_ws_def)
  qed
  then show ?case by (simp add: parses_def k)
next
  case (Str s)
  have "parse_value n (json_quote s @ r) = Some (Str s, r)" if "length (json_quote s) \<le> n" for n r
    using that parse_json_quote [of s r] by (cases n) (simp_all add: json_quote_def skip_ws_def)
  then show ?case by (simp add: parses_def)
next
  case (Arr xs)
  have "parse_value n (json_text (Arr xs) @ r) = Some (Arr xs, r)" if "length (json_text (Arr xs)) \<le> n" for n r
  proof -
    from that obtain m where n: "n = Suc m" by (cases n) auto
    show ?thesis
    proof (cases xs)
      case Nil
      with n show ?thesis by (simp add: skip_ws_def)
    next
      case (Cons x ys)
      have "parse_elems m (join '','' (map json_text xs) @ CHR '']'' # r) = Some (xs, r)"
        using Cons Arr that n by (intro parse_elems_text) (auto simp: list_all_iff)
      moreover obtain c t where "join '','' (map json_text xs) = c # t" "\<not> json_space c" "c \<noteq> CHR '']''"
        using Cons Arr.prems json_ok_head [of x] by (cases ys) auto
      ultimately show ?thesis using n by (simp add: skip_ws_def)
    qed
  qed
  then show ?case by (simp add: parses_def)
next
  case (Obj ob)
  have nu: "filter (\<lambda>(k, v). v \<noteq> Undef) ob = ob"
    using Obj.prems by (auto simp: filter_id_conv list_all_iff)
  have obj_text: "json_text (Obj ob) = ''{'' @ join '','' (map member_text ob) @ ''}''"
    unfolding json_text.simps nu by (simp add: member_text_def [abs_def] case_prod_beta')
  have "parse_value n (json_text (Obj ob) @ r) = Some (Obj ob, r)" if "length (json_text (Obj ob)) \<le> n" for n r
  proof -
    from that obtain m where n: "n = Suc m" by (cases n) auto
    show ?thesis
    proof (cases ob)
      case Nil
      with n show ?thesis by (simp add: skip_ws_def)
    next
      case (Cons kv ys)
      have ps: "\<forall>kv \<in> set ob. parses (snd kv)"
        using Obj by (fastforce simp: list_all_iff)
      have "length (join '','' (map member_text ob)) < m" using that n by (simp add: obj_text del: json_text.simps)
      with Cons ps have "parse_members m (join '','' (map member_text ob) @ CHR ''}'' # r) = Some (ob, r)"
        by (intro parse_members_text) simp_all
      moreover obtain t where "join '','' (map member_text ob) = CHR 0x22 # t"
        using Cons by (cases ys) (auto simp: member_text_def json_quote_def)
      moreover have "obj_spread [] ob = ob" using Obj.prems obj_spread_distinct [of "[]" ob] by simp
      ultimately show ?thesis using n by (simp add: obj_text skip_ws_def del: json_text.simps)
    qed
  qed
  then show ?case by (simp add: parses_def)
qed (auto simp: parses_def Suc_le_eq less_eq_nat.simps skip_ws_def json_space_def parse_literal_def split: nat.splits
    elim!: less_natE)

text \<open>The text of a value is parsed back to the value.\<close>

lemma json_round_trip: "json_ok v \<Longrightarrow> JSON_parse (json_text v) = Some v"
proof -
  assume "json_ok v"
  from json_ok_parses [OF this] have "parse_value (Suc (length (json_text v))) (json_text v @ []) = Some (v, [])"
    unfolding parses_def by (rule allE [of _ "Suc (length (json_text v))"]) (simp add: delimited_def)
  then show ?thesis by (simp add: JSON_parse_def skip_ws_def del: parse_value.simps)
qed

end
