(* ===== verification/World.thy ===== *)
theory World
  imports Metrics_Service Retry_Service Json_Text
begin

text \<open>
  The state the services share: the tables of \<^verbatim>\<open>prisma/schema.prisma\<close>, the Redis server, the Kafka
  broker, the metrics, the clock, and the external systems the connectors talk to (a parameter
  type). The outcome of the next calls to the database or the broker is scripted in \<open>w_faults\<close>, so
  every error path of the callers is reachable. Generated identifiers are drawn from a counter.
\<close>

section \<open>Tables\<close>

text \<open>The column \<open>updatedAt\<close> is left out of every table but \<open>TargetSystem\<close>: nothing reads it.\<close>

record dlq_item =
  d_id :: string
  d_eventId :: string
  d_operation :: string
  d_targetSystem :: string
  d_payload :: js
  d_error :: string
  d_retryCount :: int
  d_status :: string
  d_lockedAt :: "int option"
  d_lockedBy :: "string option"
  d_createdAt :: int

record target_system =
  ts_id :: string
  ts_name :: string
  ts_type :: string
  ts_label :: string
  ts_config :: js
  ts_enabled :: bool
  ts_createdAt :: int
  ts_updatedAt :: int

record idempotency_row =
  i_key :: string
  i_lockedAt :: int
  i_expiresAt :: int

record audit_log =
  a_id :: string
  a_eventId :: string
  a_source :: string
  a_operation :: string
  a_targetSystem :: string
  a_payload :: js
  a_response :: js
  a_status :: string
  a_errorMessage :: "string option"
  a_createdAt :: int

record encryption_state =
  es_id :: string
  es_enabled :: bool
  es_activeKeyId :: string
  es_previousKeyIds :: string
  es_rotationStatus :: string
  es_rotatedAt :: "int option"

record 'e world =
  w_now :: int
  w_faults :: "(string \<times> string) option list"
  w_rand :: "rat list"
  w_nextId :: nat
  w_dlq :: "dlq_item list"
  w_targets :: "target_system list"
  w_idem :: "idempotency_row list"
  w_redis :: "(string \<times> int) list"
  w_audit :: "audit_log list"
  w_encState :: "encryption_state option"
  w_metrics :: metrics
  w_kafka :: "(string \<times> string) list"
  w_ext :: 'e

definition init_world :: "int \<Rightarrow> 'e \<Rightarrow> 'e world" where
  "init_world now ext = \<lparr>w_now = now, w_faults = [], w_rand = [], w_nextId = 0, w_dlq = [],
     w_targets = [], w_idem = [], w_redis = [], w_audit = [], w_encState = None,
     w_metrics = init_metrics, w_kafka = [], w_ext = ext\<rparr>"

section \<open>Configuration and services of the runtime\<close>

text \<open>
  \<open>ConfigService.get(name)\<close> is a function from names to values, undefined where nothing is set. The
  JSON helper of \<^verbatim>\<open>src/database/json.helper.ts\<close> and the message codec of the encryption service are
  given by their functions (they draw random bytes, here numbered by \<open>w_nextId\<close>); \<open>en_producer\<close> says
  whether the Kafka producer is connected, \<open>en_pid\<close> is \<open>process.pid\<close>.
\<close>

type_synonym config = "string \<Rightarrow> js"

record env =
  en_cfg :: config
  en_toJson :: "nat \<Rightarrow> js \<Rightarrow> exn + js"
  en_fromJson :: "js \<Rightarrow> exn + js"
  en_encodeKafka :: "nat \<Rightarrow> obj \<Rightarrow> exn + string"
  en_decodeKafka :: "string \<Rightarrow> exn + js"
  en_producer :: bool
  en_pid :: nat

definition cfg_bool :: "config \<Rightarrow> string \<Rightarrow> bool" where
  "cfg_bool cfg k = truthy (coalesce (cfg k) (Bool False))"

text \<open>\<open>config.get<string>(k) ?? d\<close>; only a string is ever set for these names.\<close>

definition cfg_str :: "config \<Rightarrow> string \<Rightarrow> string \<Rightarrow> string" where
  "cfg_str cfg k d = (case cfg k of Str s \<Rightarrow> s | _ \<Rightarrow> d)"

text \<open>
  What the pipeline relies on: a stored value is read back as it was written, and a message is
  decoded to what was encoded. \<open>storable\<close> is the set of values this holds for.
\<close>

locale json_codec =
  fixes toJson :: "nat \<Rightarrow> js \<Rightarrow> exn + js" and fromJson :: "js \<Rightarrow> exn + js" and storable :: "js \<Rightarrow> bool"
  assumes from_to: "storable v \<Longrightarrow> toJson n v = Inr s \<Longrightarrow> fromJson s = Inr v"
begin

lemma toJson_inj:
  "storable a \<Longrightarrow> storable b \<Longrightarrow> toJson n a = Inr s \<Longrightarrow> toJson m b = Inr s \<Longrightarrow> a = b"
  using from_to by (metis sum.inject(2))

end

locale message_codec =
  fixes encode :: "nat \<Rightarrow> obj \<Rightarrow> exn + string" and decode :: "string \<Rightarrow> exn + js" and sendable :: "obj \<Rightarrow> bool"
  assumes decode_encode: "sendable m \<Longrightarrow> encode n m = Inr s \<Longrightarrow> decode s = Inr (Obj m)"

section \<open>Calls that may fail\<close>

text \<open>
  One call to a server (database, Redis, broker): the scripted fault, with its code and message, or
  the effect.
\<close>

definition db_call :: "('e world, 'a) io \<Rightarrow> ('e world, 'a) io" where
  "db_call f = (\<lambda>w. case w_faults w of
      [] \<Rightarrow> f w
    | None # fs \<Rightarrow> f (w\<lparr>w_faults := fs\<rparr>)
    | Some (code, m) # fs \<Rightarrow> (Inl (PrismaError code m), w\<lparr>w_faults := fs\<rparr>))"

lemma db_call_ok [io_simps]: "w_faults w = [] \<Longrightarrow> db_call f w = f w"
  by (simp add: db_call_def)

lemma db_call_cases:
  obtains (ok) fs where "db_call f w = f (w\<lparr>w_faults := fs\<rparr>)"
  | (fault) e fs where "db_call f w = (Inl e, w\<lparr>w_faults := fs\<rparr>)" "\<exists>code m. e = PrismaError code m"
proof (cases "w_faults w")
  case Nil
  then have eq: "w\<lparr>w_faults := []\<rparr> = w" by (cases w) simp
  have "db_call f w = f (w\<lparr>w_faults := []\<rparr>)" by (simp only: db_call_def Nil list.case eq)
  then show ?thesis by (rule ok)
next
  case (Cons a fs)
  then show ?thesis
    by (cases a) (auto simp: db_call_def intro: ok fault)
qed

lemma io_keeps_db_call [io_frames]:
  assumes "io_keeps g f" "\<And>w fs. g (w\<lparr>w_faults := fs\<rparr>) = g w"
  shows "io_keeps g (db_call f)"
  unfolding io_keeps_def
proof
  fix w
  show "g (snd (db_call f w)) = g w"
    using assms by (cases rule: db_call_cases [of f w]) (simp_all add: io_keeps_def)
qed

text \<open>A database that answers goes on answering.\<close>

definition answering :: "'e world \<Rightarrow> bool" where
  "answering w \<longleftrightarrow> w_faults w = []"

lemma io_inv_db_call [io_invs]:
  assumes "io_inv answering f"
  shows "io_inv answering (db_call f)"
  using assms by (simp add: io_inv_def answering_def db_call_def)

text \<open>A fresh identifier (\<open>@default(uuid())\<close>).\<close>

definition fresh_id :: "'e world \<Rightarrow> string \<times> 'e world" where
  "fresh_id w = (show_nat (w_nextId w), w\<lparr>w_nextId := Suc (w_nextId w)\<rparr>)"

definition toJson_io :: "env \<Rightarrow> js \<Rightarrow> ('e world, js) io" where
  "toJson_io env v = (\<lambda>w. (en_toJson env (w_nextId w) v, w\<lparr>w_nextId := Suc (w_nextId w)\<rparr>))"

text \<open>Rows of a table changed by \<open>update\<close> or \<open>updateMany\<close>.\<close>

definition update_rows :: "('a \<Rightarrow> bool) \<Rightarrow> ('a \<Rightarrow> 'a) \<Rightarrow> 'a list \<Rightarrow> 'a list" where
  "update_rows P f rs = map (\<lambda>r. if P r then f r else r) rs"

lemma length_update_rows [simp]: "length (update_rows P f rs) = length rs"
  by (simp add: update_rows_def)

lemma map_update_rows: "(\<And>r. g (f r) = g r) \<Longrightarrow> map g (update_rows P f rs) = map g rs"
  by (simp add: update_rows_def)

lemma set_update_rows: "set (update_rows P f rs) = (\<lambda>r. if P r then f r else r) ` set rs"
  by (simp add: update_rows_def)

text \<open>Tables looked up by a key column.\<close>

lemma find_append: "find P (xs @ ys) = (case find P xs of None \<Rightarrow> find P ys | Some x \<Rightarrow> Some x)"
  by (induction xs) auto

lemma find_update_rows:
  assumes "\<And>r. key (f r) = key r"
  shows "find (\<lambda>r. key r = k) (update_rows P f rs) =
    map_option (\<lambda>r. if P r then f r else r) (find (\<lambda>r. key r = k) rs)"
  using assms by (induction rs) (auto simp: update_rows_def)

lemma find_by_key: "find (\<lambda>r. key r = k) rs = Some r \<Longrightarrow> key r = k \<and> r \<in> set rs"
  by (auto simp: find_Some_iff)

lemma find_by_key_None: "find (\<lambda>r. key r = k) rs = None \<longleftrightarrow> k \<notin> key ` set rs"
  by (auto simp: find_None_iff)

lemma find_filter_distinct:
  "distinct (map key rs) \<Longrightarrow> find (\<lambda>r. key r = k) (filter P rs) =
     (case find (\<lambda>r. key r = k) rs of Some r \<Rightarrow> if P r then Some r else None | None \<Rightarrow> None)"
proof (induction rs)
  case Nil
  then show ?case by simp
next
  case (Cons r rs)
  have "find (\<lambda>s. key s = key r) rs = None"
    using Cons.prems by (simp add: find_by_key_None)
  with Cons show ?case by (auto split: option.splits)
qed

lemma distinct_map_filter: "distinct (map f xs) \<Longrightarrow> distinct (map f (filter P xs))"
  by (induction xs) auto

section \<open>Clock, random numbers and metrics\<close>

definition now_plus :: "int \<Rightarrow> 'e world \<Rightarrow> 'e world" where
  "now_plus d w = w\<lparr>w_now := w_now w + max 0 d\<rparr>"

definition world_runtime :: "'e world runtime" where
  "world_runtime = \<lparr>rt_sleep = now_plus,
     rt_random = (\<lambda>w. case w_rand w of [] \<Rightarrow> (0, w) | r # rs \<Rightarrow> (r, w\<lparr>w_rand := rs\<rparr>))\<rparr>"

definition metrics_io :: "(metrics \<Rightarrow> metrics) \<Rightarrow> ('e world, unit) io" where
  "metrics_io f = io_modify (\<lambda>w. w\<lparr>w_metrics := f (w_metrics w)\<rparr>)"

definition recordEvent_io :: "string \<Rightarrow> string \<Rightarrow> ('e world, unit) io" where
  "recordEvent_io status ts =
     io_modify (\<lambda>w. w\<lparr>w_metrics := recordEvent (w_now w) status ts (w_metrics w)\<rparr>)"

section \<open>Dates\<close>

text \<open>
  \<open>new Date(n)\<close> in milliseconds: the number is truncated towards zero, and numbers that are not finite
  or beyond 8.64e15 give an invalid date.
\<close>

definition trunc_rat :: "rat \<Rightarrow> int" where
  "trunc_rat q = (if 0 \<le> q then \<lfloor>q\<rfloor> else - \<lfloor>- q\<rfloor>)"

definition date_of_num :: "jsnum \<Rightarrow> int option" where
  "date_of_num n = (case n of
      Fin q \<Rightarrow> (if \<bar>q\<bar> \<le> 8640000000000000 then Some (trunc_rat q) else None)
    | _ \<Rightarrow> None)"

lemma date_of_int [simp]:
  "\<bar>i\<bar> \<le> 8640000000000000 \<Longrightarrow> date_of_num (Fin (of_int i)) = Some i"
proof -
  assume *: "\<bar>i\<bar> \<le> 8640000000000000"
  have "\<bar>of_int i :: rat\<bar> = of_int \<bar>i\<bar>" by simp
  also have "\<dots> \<le> of_int 8640000000000000" using * by (simp only: of_int_le_iff)
  finally have "\<bar>of_int i :: rat\<bar> \<le> 8640000000000000" by simp
  moreover have "trunc_rat (of_int i) = i"
    using floor_of_int [of "- i", where ?'a = rat] by (simp add: trunc_rat_def)
  ultimately show ?thesis by (simp add: date_of_num_def)
qed

section \<open>A small world for the examples\<close>

definition demo_env :: env where
  "demo_env = \<lparr>en_cfg = (\<lambda>_. Undef), en_toJson = (\<lambda>_ v. Inr v), en_fromJson = Inr,
     en_encodeKafka = (\<lambda>_ m. Inr (json_text (Obj m))),
     en_decodeKafka = (\<lambda>s. case JSON_parse s of None \<Rightarrow> Inl (Error ''SyntaxError'') | Some v \<Rightarrow> Inr v),
     en_producer = False, en_pid = 7\<rparr>"

definition demo_target :: "string \<Rightarrow> js \<Rightarrow> target_system" where
  "demo_target name c = \<lparr>ts_id = name, ts_name = name, ts_type = ''zabbix'', ts_label = name,
     ts_config = c, ts_enabled = True, ts_createdAt = 0, ts_updatedAt = 0\<rparr>"

end
