(* ===== verification/Retry_Policy.thy ===== *)
theory Retry_Policy
  imports World
begin

text \<open>
  \<^verbatim>\<open>src/core/retry/retry-policy.service.ts\<close>: the retry policy of a target system, read from its stored
  configuration, with defaults.
\<close>

record target_policy =
  tp_options :: retry_options
  tp_dlqLeaseSeconds :: js

text \<open>\<open>TargetRetryPolicy\<close>: what \<open>normalizePolicy\<close> found; a field that is absent overrides nothing.\<close>

record partial_policy =
  pp_maxRetries :: "int option"
  pp_baseDelayMs :: "int option"
  pp_maxDelayMs :: "int option"
  pp_jitter :: "bool option"
  pp_dlqLeaseSeconds :: "int option"

definition DEFAULT_RETRY_POLICY :: target_policy where
  "DEFAULT_RETRY_POLICY =
     \<lparr>tp_options = \<lparr>maxRetries = 3, baseDelayMs = 1000, maxDelayMs = 30000, jitter = True\<rparr>,
      tp_dlqLeaseSeconds = JInt 300\<rparr>"

definition normalizePolicy :: "js \<Rightarrow> partial_policy" where
  "normalizePolicy value =
     (case value of
        Obj raw \<Rightarrow>
          \<lparr>pp_maxRetries = positive_integer (obj_get raw ''maxRetries''),
           pp_baseDelayMs = positive_integer (obj_get raw ''baseDelayMs''),
           pp_maxDelayMs = positive_integer (obj_get raw ''maxDelayMs''),
           pp_jitter = (case obj_get raw ''jitter'' of Bool b \<Rightarrow> Some b | _ \<Rightarrow> None),
           pp_dlqLeaseSeconds = positive_integer (obj_get raw ''dlqLeaseSeconds'')\<rparr>
      | _ \<Rightarrow> \<lparr>pp_maxRetries = None, pp_baseDelayMs = None, pp_maxDelayMs = None, pp_jitter = None,
             pp_dlqLeaseSeconds = None\<rparr>)"

definition or_default :: "'a option \<Rightarrow> 'a \<Rightarrow> 'a" where
  "or_default x d = (case x of None \<Rightarrow> d | Some v \<Rightarrow> v)"

text \<open>\<open>{ ...DEFAULT_RETRY_POLICY, dlqLeaseSeconds: lease, ...policy }\<close>.\<close>

definition spread_policy :: "js \<Rightarrow> partial_policy \<Rightarrow> target_policy" where
  "spread_policy lease p =
     (let d = tp_options DEFAULT_RETRY_POLICY in
      \<lparr>tp_options =
         \<lparr>maxRetries = or_default (pp_maxRetries p) (maxRetries d),
          baseDelayMs = or_default (pp_baseDelayMs p) (baseDelayMs d),
          maxDelayMs = or_default (pp_maxDelayMs p) (maxDelayMs d),
          jitter = or_default (pp_jitter p) (jitter d)\<rparr>,
       tp_dlqLeaseSeconds = or_default (map_option JInt (pp_dlqLeaseSeconds p)) lease\<rparr>)"

definition default_lease :: "env \<Rightarrow> js" where
  "default_lease env =
     coalesce (en_cfg env ''DLQ_RETRY_LEASE_SECONDS'') (tp_dlqLeaseSeconds DEFAULT_RETRY_POLICY)"

text \<open>\<open>prisma.targetSystem.findUnique({ where: { name } })\<close>.\<close>

definition find_target :: "string \<Rightarrow> ('e world, target_system option) io" where
  "find_target name = db_call (io_get (\<lambda>w. find (\<lambda>t. ts_name t = name) (w_targets w)))"

definition forTarget :: "env \<Rightarrow> string \<Rightarrow> ('e world, target_policy) io" where
  "forTarget env targetSystem =
     io_bind (io_catch (find_target targetSystem) (\<lambda>_. io_return None)) (\<lambda>item.
     io_bind (case item of
         None \<Rightarrow> io_return []
       | Some t \<Rightarrow> io_bind (io_of_sum (en_fromJson env (ts_config t)))
                    (\<lambda>c. io_return (as_record (coalesce c (Obj []))))) (\<lambda>config.
     io_return (spread_policy (default_lease env) (normalizePolicy (obj_get config ''retryPolicy'')))))"

lemma forTarget_pid [simp]: "forTarget (env\<lparr>en_pid := pid\<rparr>) ts = forTarget env ts"
  by (simp add: forTarget_def default_lease_def cong: option.case_cong)

section \<open>What the policy guarantees\<close>

text \<open>Numbers the retry loop can run with.\<close>

definition policy_ok :: "retry_options \<Rightarrow> bool" where
  "policy_ok o' \<longleftrightarrow> 0 < maxRetries o' \<and> 0 < baseDelayMs o' \<and> 0 < maxDelayMs o'"

lemma normalized_positive:
  "pp_maxRetries (normalizePolicy v) = Some n \<Longrightarrow> 0 < n"
  "pp_baseDelayMs (normalizePolicy v) = Some n \<Longrightarrow> 0 < n"
  "pp_maxDelayMs (normalizePolicy v) = Some n \<Longrightarrow> 0 < n"
  "pp_dlqLeaseSeconds (normalizePolicy v) = Some n \<Longrightarrow> 0 < n"
  by (auto simp: normalizePolicy_def dest: positive_integer_pos split: js.splits)

lemma spread_policy_ok: "policy_ok (tp_options (spread_policy lease (normalizePolicy v)))"
  using normalized_positive [of v]
  by (auto simp: policy_ok_def spread_policy_def Let_def or_default_def DEFAULT_RETRY_POLICY_def
      split: option.splits)

lemma forTarget_value:
  "forTarget env name w = (Inr p, w') \<Longrightarrow> \<exists>v. p = spread_policy (default_lease env) (normalizePolicy v)"
  by (auto simp: forTarget_def io_simps split: prod.splits sum.splits option.splits)

text \<open>Reading the policy changes nothing but the script of faults.\<close>

lemma io_keeps_find_target [io_frames]:
  "(\<And>w fs. g (w\<lparr>w_faults := fs\<rparr>) = g w) \<Longrightarrow> io_keeps g (find_target name)"
  unfolding find_target_def by (intro io_frames)

lemma io_keeps_forTarget [io_frames]:
  assumes "\<And>w fs. g (w\<lparr>w_faults := fs\<rparr>) = g w"
  shows "io_keeps g (forTarget env name)"
  unfolding forTarget_def
  using assms by (intro io_frames io_keeps_find_target) (auto intro: io_frames split: option.split)

lemma find_target_no_fault [io_simps]:
  "w_faults w = [] \<Longrightarrow> find_target name w = (Inr (find (\<lambda>t. ts_name t = name) (w_targets w)), w)"
  by (simp add: find_target_def io_simps)

text \<open>
  Whatever is stored for a target system, and whether or not the database answers, a policy that
  is returned has a positive number of retries and positive delays, so the retry loop makes at least
  two attempts and every wait is positive and bounded; the only failure is a stored configuration
  that cannot be read.
\<close>

theorem policy_always_usable:
  "forTarget env name w = (Inr p, w') \<Longrightarrow>
     policy_ok (tp_options p) \<and>
     0 < capped_delay k (tp_options p) \<and> capped_delay k (tp_options p) \<le> maxDelayMs (tp_options p)"
  using forTarget_value [of env name w p w'] spread_policy_ok capped_delay_bounds
  by (fastforce simp: policy_ok_def)

theorem policy_always_usable_witness:
  "let w = (init_world 0 ())\<lparr>w_targets := [demo_target ''z'' (Obj [(''retryPolicy'',
        Obj [(''maxRetries'', JInt (- 2)), (''baseDelayMs'', JInt 5)])])]\<rparr>
   in case forTarget demo_env ''z'' w of
        (Inr p, _) \<Rightarrow> maxRetries (tp_options p) = 3 \<and> 0 < capped_delay 2 (tp_options p)
      | _ \<Rightarrow> False"
proof -
  let ?w = "(init_world 0 ())\<lparr>w_targets := [demo_target ''z'' (Obj [(''retryPolicy'',
        Obj [(''maxRetries'', JInt (- 2)), (''baseDelayMs'', JInt 5)])])]\<rparr>"
  obtain p where p: "forTarget demo_env ''z'' ?w = (Inr p, ?w)" "maxRetries (tp_options p) = 3"
    by (simp add: forTarget_def io_simps init_world_def demo_target_def demo_env_def as_record_def
        obj_get_def spread_policy_def normalizePolicy_def or_default_def DEFAULT_RETRY_POLICY_def
        Let_def positive_integer_JInt [of "- 2", simplified])
  from policy_always_usable [OF p(1), of 2] p show ?thesis by (simp add: Let_def)
qed

end
