(* ===== verification/Dlq.thy ===== *)
theory Dlq
  imports Retry_Policy
begin

text \<open>
  \<^verbatim>\<open>src/core/dlq/dlq.service.ts\<close>: the dead letter queue. An item is claimed for a retry with a lease
  (an atomic conditional update), and settled by \<open>resolve\<close>, \<open>markRetryFailed\<close> or \<open>skip\<close>. The step
  relation at the end interleaves the operations of any number of workers.
\<close>

section \<open>Operations\<close>

record dlq_item_data =
  q_eventId :: string
  q_operation :: string
  q_targetSystem :: string
  q_payload :: obj
  q_error :: string
  q_retryCount :: "int option"

definition dlq_statuses :: "string list" where
  "dlq_statuses = [''pending'', ''retrying'', ''skipped'', ''resolved'']"

text \<open>\<open>groupBy\<close> on the status, then the row of one status with 0 for none.\<close>

definition status_count :: "dlq_item list \<Rightarrow> string \<Rightarrow> int" where
  "status_count items status = int (length (filter (\<lambda>d. d_status d = status) items))"

definition groupBy_status :: "dlq_item list \<Rightarrow> (string \<times> int) list" where
  "groupBy_status items =
     map (\<lambda>status. (status, status_count items status)) (remdups (map d_status items))"

definition updateMetrics :: "('e world, unit) io" where
  "updateMetrics =
     io_bind (db_call (io_get (\<lambda>w. groupBy_status (w_dlq w)))) (\<lambda>counts.
     io_foreach (\<lambda>status.
       metrics_io (setDlqSize status (case map_of counts status of Some n \<Rightarrow> n | None \<Rightarrow> 0)))
       dlq_statuses)"

definition dlq_create :: "dlq_item_data \<Rightarrow> js \<Rightarrow> ('e world, unit) io" where
  "dlq_create item payload = io_modify (\<lambda>w.
     case fresh_id w of (i, w') \<Rightarrow>
       w'\<lparr>w_dlq := w_dlq w' @
         [\<lparr>d_id = i, d_eventId = q_eventId item, d_operation = q_operation item,
           d_targetSystem = q_targetSystem item, d_payload = payload, d_error = q_error item,
           d_retryCount = (case q_retryCount item of Some n \<Rightarrow> n | None \<Rightarrow> 0),
           d_status = ''pending'', d_lockedAt = None, d_lockedBy = None, d_createdAt = w_now w'\<rparr>]\<rparr>)"

definition dlq_add :: "env \<Rightarrow> dlq_item_data \<Rightarrow> ('e world, unit) io" where
  "dlq_add env item =
     io_bind (toJson_io env (Obj (q_payload item))) (\<lambda>payload.
     io_seq (db_call (dlq_create item payload)) updateMetrics)"

text \<open>The condition of the claiming \<open>updateMany\<close>, apart from the id.\<close>

definition claimable :: "int \<Rightarrow> dlq_item \<Rightarrow> bool" where
  "claimable expiredBefore d \<longleftrightarrow>
     d_status d \<notin> set [''skipped'', ''resolved''] \<and>
     (d_status d \<noteq> ''retrying'' \<or> d_lockedAt d = None \<or>
      (case d_lockedAt d of None \<Rightarrow> False | Some t \<Rightarrow> t < expiredBefore))"

definition claim_item :: "int \<Rightarrow> nat \<Rightarrow> dlq_item \<Rightarrow> dlq_item" where
  "claim_item now pid d = d\<lparr>d_status := ''retrying'', d_retryCount := d_retryCount d + 1,
     d_lockedAt := Some now, d_lockedBy := Some (show_nat pid)\<rparr>"

definition find_dlq :: "string \<Rightarrow> dlq_item list \<Rightarrow> dlq_item option" where
  "find_dlq i items = find (\<lambda>d. d_id d = i) items"

text \<open>The conditional update; its result is the number of rows changed.\<close>

definition claim_rows :: "string \<Rightarrow> int \<Rightarrow> nat \<Rightarrow> ('e world, nat) io" where
  "claim_rows i expiredBefore pid = (\<lambda>w.
     (let P = (\<lambda>d. d_id d = i \<and> claimable expiredBefore d) in
      (Inr (length (filter P (w_dlq w))),
       w\<lparr>w_dlq := update_rows P (claim_item (w_now w) pid) (w_dlq w)\<rparr>)))"

definition scale_ms :: "int \<Rightarrow> jsnum \<Rightarrow> jsnum" where
  "scale_ms now lease = (case lease of
      Fin q \<Rightarrow> Fin (of_int now - q * 1000) | PosInf \<Rightarrow> NegInf | NegInf \<Rightarrow> PosInf | NaN \<Rightarrow> NaN)"

definition dlq_retry :: "env \<Rightarrow> string \<Rightarrow> ('e world, bool) io" where
  "dlq_retry env i =
     io_bind (db_call (io_get (\<lambda>w. map_option d_targetSystem (find_dlq i (w_dlq w))))) (\<lambda>item.
     io_bind (case item of
         None \<Rightarrow> io_return Undef
       | Some ts \<Rightarrow> io_bind (forTarget env ts) (\<lambda>p. io_return (tp_dlqLeaseSeconds p))) (\<lambda>targetLease.
     let effectiveLeaseSeconds =
       coalesce (coalesce targetLease (en_cfg env ''DLQ_RETRY_LEASE_SECONDS'')) (JInt 300) in
     io_bind (io_get w_now) (\<lambda>now.
     io_bind (case date_of_num (scale_ms now (to_number effectiveLeaseSeconds)) of
         None \<Rightarrow> db_call (io_throw (PrismaError ''validation'' ''Invalid Date''))
       | Some expiredBefore \<Rightarrow> db_call (claim_rows i expiredBefore (en_pid env))) (\<lambda>count.
     if count = 1 then io_seq updateMetrics (io_return True) else io_return False))))"

text \<open>\<open>prisma.dlqItem.update({ where: { id }, data })\<close>: no such row is the error P2025.\<close>

definition update_item :: "string \<Rightarrow> (dlq_item \<Rightarrow> dlq_item) \<Rightarrow> ('e world, unit) io" where
  "update_item i f = (\<lambda>w.
     if find_dlq i (w_dlq w) = None then (Inl (PrismaError ''P2025'' ''Record to update not found.''), w)
     else (Inr (), w\<lparr>w_dlq := update_rows (\<lambda>d. d_id d = i) f (w_dlq w)\<rparr>))"

definition settle_item :: "string \<Rightarrow> dlq_item \<Rightarrow> dlq_item" where
  "settle_item status d = d\<lparr>d_status := status, d_lockedAt := None, d_lockedBy := None\<rparr>"

definition fail_item :: "string \<Rightarrow> dlq_item \<Rightarrow> dlq_item" where
  "fail_item error d = (settle_item ''pending'' d)\<lparr>d_error := error\<rparr>"

definition dlq_skip :: "string \<Rightarrow> ('e world, unit) io" where
  "dlq_skip i = io_seq (db_call (update_item i (settle_item ''skipped''))) updateMetrics"

definition dlq_resolve :: "string \<Rightarrow> ('e world, unit) io" where
  "dlq_resolve i = io_seq (db_call (update_item i (settle_item ''resolved''))) updateMetrics"

definition markRetryFailed :: "string \<Rightarrow> string \<Rightarrow> ('e world, unit) io" where
  "markRetryFailed i error = io_seq (db_call (update_item i (fail_item error))) updateMetrics"

section \<open>The gauges\<close>

lemma map_of_groupBy:
  "map_of (groupBy_status items) s =
     (if s \<in> d_status ` set items then Some (status_count items s) else None)"
  by (simp add: groupBy_status_def map_of_map_restrict restrict_map_def)

lemma groupBy_count:
  "(case map_of (groupBy_status items) s of Some n \<Rightarrow> n | None \<Rightarrow> 0) = status_count items s"
  by (auto simp: map_of_groupBy status_count_def filter_empty_conv)

definition gauges_exact :: "'e world \<Rightarrow> bool" where
  "gauges_exact w \<longleftrightarrow>
     (\<forall>s \<in> set dlq_statuses. dlqSize (w_metrics w) s = Some (status_count (w_dlq w) s))"

lemma updateMetrics_run:
  "updateMetrics w = (r, w') \<Longrightarrow>
     w_dlq w' = w_dlq w \<and> w_nextId w' = w_nextId w \<and> w_now w' = w_now w \<and> (r = Inr () \<longrightarrow> gauges_exact w') \<and> (w_faults w = [] \<longrightarrow> r = Inr ())"
  by (cases "w_faults w" rule: list.exhaust)
    (auto simp: updateMetrics_def db_call_def io_simps metrics_io_def dlq_statuses_def gauges_exact_def
      setDlqSize_def groupBy_count split: option.splits)

lemma updateMetrics_dlq [io_frames]: "io_keeps w_dlq updateMetrics"
  unfolding io_keeps_def using updateMetrics_run by (metis surj_pair snd_conv)

section \<open>What each operation does to the table\<close>

lemma find_dlq_id: "find_dlq i items = Some d \<Longrightarrow> d \<in> set items \<and> d_id d = i"
  unfolding find_dlq_def using find_by_key [of d_id i items d] by simp

lemma find_dlq_None: "find_dlq i items = None \<longleftrightarrow> i \<notin> d_id ` set items"
  by (simp add: find_dlq_def find_by_key_None)

lemma find_dlq_append:
  "find_dlq i (xs @ ys) = (case find_dlq i xs of None \<Rightarrow> find_dlq i ys | Some d \<Rightarrow> Some d)"
  unfolding find_dlq_def by (rule find_append)

lemma find_dlq_update:
  assumes "\<And>d. d_id (f d) = d_id d"
  shows "find_dlq i (update_rows P f items) =
    map_option (\<lambda>d. if P d then f d else d) (find_dlq i items)"
  unfolding find_dlq_def using assms by (rule find_update_rows)

lemma item_ids [simp]:
  "d_id (claim_item now pid d) = d_id d"
  "d_id (settle_item s d) = d_id d"
  "d_id (fail_item e d) = d_id d"
  by (simp_all add: claim_item_def settle_item_def fail_item_def)

lemma find_dlq_claimed:
  "find_dlq j (update_rows P (claim_item now pid) items) =
     map_option (\<lambda>d. if P d then claim_item now pid d else d) (find_dlq j items)"
  by (rule find_dlq_update) simp

lemma distinct_claim_count:
  assumes "distinct (map d_id items)"
  shows "length (filter (\<lambda>d. d_id d = i \<and> P d) items) =
    (case find_dlq i items of None \<Rightarrow> 0 | Some d \<Rightarrow> if P d then 1 else 0)"
  using assms
proof (induction items)
  case Nil
  then show ?case by (simp add: find_dlq_def)
next
  case (Cons d items)
  have "filter (\<lambda>e. d_id e = d_id d \<and> P e) items = []"
    using Cons.prems by (simp add: filter_empty_conv image_iff) metis
  with Cons show ?case by (auto simp: find_dlq_def)
qed

text \<open>Adding and settling, as changes of the table; the only other outcome is an unchanged table.\<close>

lemma dlq_add_run:
  assumes "dlq_add env item w = (r, w')"
  shows "w_dlq w' = w_dlq w \<and> isl r \<or>
    (\<exists>d. w_dlq w' = w_dlq w @ [d] \<and> d_status d = ''pending'' \<and> d_eventId d = q_eventId item \<and>
       d_lockedAt d = None \<and> d_lockedBy d = None \<and> d_id d = show_nat (Suc (w_nextId w)) \<and>
       0 \<le> d_retryCount d - (case q_retryCount item of Some n \<Rightarrow> n | None \<Rightarrow> 0) \<and>
       w_nextId w' = w_nextId w + 2 \<and> (r = Inr () \<longrightarrow> gauges_exact w') \<and>
       en_toJson env (w_nextId w) (Obj (q_payload item)) = Inr (d_payload d))"
proof (cases "en_toJson env (w_nextId w) (Obj (q_payload item))")
  case (Inl e)
  with assms show ?thesis by (auto simp: dlq_add_def toJson_io_def io_simps)
next
  case (Inr p)
  let ?w = "w\<lparr>w_nextId := Suc (w_nextId w)\<rparr>"
  from assms Inr have *: "(case db_call (dlq_create item p) ?w of
      (Inl e, s') \<Rightarrow> (Inl e, s') | (Inr _, s') \<Rightarrow> updateMetrics s') = (r, w')"
    by (simp add: dlq_add_def toJson_io_def io_simps)
  show ?thesis
  proof (cases rule: db_call_cases [of "dlq_create item p" ?w])
    case (ok fs)
    with * obtain w1 where "updateMetrics w1 = (r, w')"
      "w1 = snd (dlq_create item p (?w\<lparr>w_faults := fs\<rparr>))"
      by (auto simp: dlq_create_def io_simps)
    from updateMetrics_run [OF this(1)] this(2) Inr show ?thesis
      by (auto simp: dlq_create_def io_simps fresh_id_def)
  next
    case (fault e fs)
    with * show ?thesis by auto
  qed
qed

lemma update_item_run:
  assumes "io_seq (db_call (update_item i f)) updateMetrics w = (r, w')"
  shows "w_dlq w' = w_dlq w \<and> isl r \<or>
    find_dlq i (w_dlq w) \<noteq> None \<and> w_dlq w' = update_rows (\<lambda>d. d_id d = i) f (w_dlq w) \<and>
    (r = Inr () \<longrightarrow> gauges_exact w')"
proof (cases rule: db_call_cases [of "update_item i f" w])
  case (ok fs)
  show ?thesis
  proof (cases "find_dlq i (w_dlq w) = None")
    case True
    with ok assms show ?thesis by (auto simp: io_simps update_item_def)
  next
    case False
    with ok assms have "updateMetrics (w\<lparr>w_faults := fs, w_dlq := update_rows (\<lambda>d. d_id d = i) f (w_dlq w)\<rparr>) = (r, w')"
      by (simp add: io_simps update_item_def)
    from updateMetrics_run [OF this] False show ?thesis by auto
  qed
next
  case (fault e fs)
  with assms show ?thesis by (auto simp: io_simps)
qed

section \<open>The invariant of the table\<close>

text \<open>
  Identifiers are distinct and were drawn from the counter; an item is locked, with an owner, exactly
  while it is being retried.
\<close>

definition item_ok :: "dlq_item \<Rightarrow> bool" where
  "item_ok d \<longleftrightarrow> d_status d \<in> set dlq_statuses \<and> (d_lockedAt d \<noteq> None \<longleftrightarrow> d_status d = ''retrying'') \<and>
     (d_lockedBy d \<noteq> None \<longleftrightarrow> d_status d = ''retrying'')"

definition ids_below :: "nat \<Rightarrow> dlq_item list \<Rightarrow> bool" where
  "ids_below n items \<longleftrightarrow> (\<forall>d \<in> set items. \<exists>m < n. d_id d = show_nat m)"

definition dlq_ok :: "'e world \<Rightarrow> bool" where
  "dlq_ok w \<longleftrightarrow> distinct (map d_id (w_dlq w)) \<and> ids_below (w_nextId w) (w_dlq w) \<and>
     (\<forall>d \<in> set (w_dlq w). item_ok d)"

lemma ids_below_mono: "ids_below n items \<Longrightarrow> n \<le> m \<Longrightarrow> ids_below m items"
  unfolding ids_below_def by (meson order_less_le_trans)

lemma ids_below_fresh: "ids_below n items \<Longrightarrow> n \<le> m \<Longrightarrow> show_nat m \<notin> d_id ` set items"
  unfolding ids_below_def by (force dest: show_nat_inj)

lemma ids_below_update:
  "ids_below n items \<Longrightarrow> (\<And>d. d_id (f d) = d_id d) \<Longrightarrow> ids_below n (update_rows P f items)"
  by (auto simp: ids_below_def set_update_rows)

lemma dlq_ok_init: "dlq_ok (init_world now ext)"
  by (simp add: dlq_ok_def init_world_def ids_below_def)

lemma dlq_ok_ids: "dlq_ok w \<Longrightarrow> distinct (map d_id (w_dlq w))"
  by (simp add: dlq_ok_def)

lemma dlq_ok_same: "dlq_ok w \<Longrightarrow> w_dlq w' = w_dlq w \<Longrightarrow> w_nextId w \<le> w_nextId w' \<Longrightarrow> dlq_ok w'"
  by (auto simp: dlq_ok_def intro: ids_below_mono)

lemma item_ok_updates [simp]:
  "item_ok (claim_item now pid d)"
  "item_ok (settle_item ''skipped'' d)" "item_ok (settle_item ''resolved'' d)" "item_ok (fail_item e d)"
  by (simp_all add: item_ok_def claim_item_def settle_item_def fail_item_def dlq_statuses_def)

lemma dlq_ok_update:
  assumes "dlq_ok w" "\<And>d. d_id (f d) = d_id d" "\<And>d. item_ok (f d)"
    and "w_dlq w' = update_rows P f (w_dlq w)" "w_nextId w \<le> w_nextId w'"
  shows "dlq_ok w'"
proof -
  have "map d_id (w_dlq w') = map d_id (w_dlq w)" using assms(2,4) by (simp add: map_update_rows)
  moreover have "ids_below (w_nextId w') (w_dlq w')"
    using assms(1,2,4,5) by (auto simp: dlq_ok_def intro: ids_below_update ids_below_mono)
  moreover have "\<forall>d \<in> set (w_dlq w'). item_ok d"
    using assms(1,3,4) by (auto simp: dlq_ok_def set_update_rows)
  ultimately show ?thesis using assms(1) by (simp add: dlq_ok_def)
qed

lemma dlq_ok_add:
  assumes "dlq_ok w" "w_dlq w' = w_dlq w @ [d]" "d_id d = show_nat (Suc (w_nextId w))" "item_ok d"
    and "w_nextId w' = w_nextId w + 2"
  shows "dlq_ok w'"
proof -
  have "d_id d \<notin> d_id ` set (w_dlq w)"
    using assms(1) ids_below_fresh [of "w_nextId w" "w_dlq w" "Suc (w_nextId w)"]
    by (simp add: assms(3) dlq_ok_def)
  moreover have "ids_below (w_nextId w') (w_dlq w')"
    using assms ids_below_mono [of "w_nextId w" "w_dlq w" "w_nextId w'"]
    by (fastforce simp: dlq_ok_def ids_below_def)
  ultimately show ?thesis
    using assms(1,4) by (auto simp: dlq_ok_def assms(2))
qed

section \<open>What a claim does\<close>

lemma claim_rows_run:
  assumes "dlq_ok w"
  shows "claim_rows i eb pid w =
    (case find_dlq i (w_dlq w) of
       None \<Rightarrow> (Inr 0, w\<lparr>w_dlq := w_dlq w\<rparr>)
     | Some d \<Rightarrow> (Inr (if claimable eb d then 1 else 0),
         w\<lparr>w_dlq := update_rows (\<lambda>d. d_id d = i \<and> claimable eb d) (claim_item (w_now w) pid) (w_dlq w)\<rparr>))"
proof (cases "find_dlq i (w_dlq w)")
  case None
  then have "update_rows (\<lambda>d. d_id d = i \<and> claimable eb d) f (w_dlq w) = w_dlq w" for f
    by (auto simp: update_rows_def find_dlq_None intro!: map_idI)
  with None distinct_claim_count [OF dlq_ok_ids [OF assms]] show ?thesis
    by (simp add: claim_rows_def Let_def)
next
  case (Some d)
  with distinct_claim_count [OF dlq_ok_ids [OF assms]] show ?thesis
    by (simp add: claim_rows_def Let_def)
qed

lemma update_rows_none: "(\<And>r. r \<in> set rs \<Longrightarrow> \<not> P r) \<Longrightarrow> update_rows P f rs = rs"
  by (auto simp: update_rows_def intro!: map_idI)

lemma claim_refused_rows:
  assumes "dlq_ok w" "find_dlq i (w_dlq w) = Some d" "\<not> claimable eb d"
  shows "update_rows (\<lambda>d. d_id d = i \<and> claimable eb d) f (w_dlq w) = w_dlq w"
proof (rule update_rows_none)
  fix e assume "e \<in> set (w_dlq w)"
  with find_dlq_id [OF assms(2)] dlq_ok_ids [OF assms(1)] have "d_id e = i \<Longrightarrow> e = d"
    by (metis distinct_map inj_on_def)
  with assms(3) show "\<not> (d_id e = i \<and> claimable eb e)" by blast
qed

text \<open>The lease bound a claim may use: computed from the policy of some target system.\<close>

definition lease_bound :: "env \<Rightarrow> 'e world \<Rightarrow> int \<Rightarrow> bool" where
  "lease_bound env w eb \<longleftrightarrow> (\<exists>ts (w0 :: 'e world) p w1. w_targets w0 = w_targets w \<and> forTarget env ts w0 = (Inr p, w1) \<and>
     date_of_num (scale_ms (w_now w)
       (to_number (coalesce (coalesce (tp_dlqLeaseSeconds p) (en_cfg env ''DLQ_RETRY_LEASE_SECONDS'')) (JInt 300))))
     = Some eb)"

text \<open>The part of a retry after the lease is known.\<close>

lemma claim_step_run:
  assumes "dlq_ok w" "find_dlq i (w_dlq w) = Some d"
    and "io_bind (db_call (claim_rows i eb pid)) (\<lambda>count.
      if count = 1 then io_seq updateMetrics (io_return True) else io_return False) w = (r, w')"
  shows "w_now w' = w_now w \<and> w_nextId w' = w_nextId w \<and>
    (w_dlq w' = w_dlq w \<and> r \<noteq> Inr True \<and> (w_faults w = [] \<longrightarrow> r = Inr False \<and> \<not> claimable eb d) \<or>
     claimable eb d \<and> r \<noteq> Inr False \<and> (r = Inr True \<longrightarrow> gauges_exact w') \<and> (w_faults w = [] \<longrightarrow> r = Inr True) \<and>
     w_dlq w' = update_rows (\<lambda>d. d_id d = i \<and> claimable eb d) (claim_item (w_now w) pid) (w_dlq w))"
proof (cases rule: db_call_cases [of "claim_rows i eb pid" w])
  case (fault e fs)
  then have "w_faults w \<noteq> []"
    using claim_rows_run [OF assms(1)] assms(2) by (auto simp: db_call_def split: list.splits option.splits)
  with fault assms(3) show ?thesis by (auto simp: io_simps)
next
  case (ok fs)
  let ?w = "w\<lparr>w_faults := fs\<rparr>"
  have dok: "dlq_ok ?w" using assms(1) by (simp add: dlq_ok_def)
  have fs: "fs = []" if "w_faults w = []"
  proof -
    have "db_call (claim_rows i eb pid) w = claim_rows i eb pid w" using that by (simp add: db_call_def)
    with ok have "w_faults (snd (claim_rows i eb pid w)) = w_faults (snd (claim_rows i eb pid ?w))" by simp
    with that show ?thesis by (simp add: claim_rows_def Let_def)
  qed
  show ?thesis
  proof (cases "claimable eb d")
    case True
    let ?w1 = "?w\<lparr>w_dlq := update_rows (\<lambda>d. d_id d = i \<and> claimable eb d) (claim_item (w_now w) pid) (w_dlq w)\<rparr>"
    from ok True assms(2,3) have "io_seq updateMetrics (io_return True) ?w1 = (r, w')"
      by (simp add: io_simps claim_rows_run [OF dok])
    then obtain r1 where u: "updateMetrics ?w1 = (r1, w')" "r = (case r1 of Inl e \<Rightarrow> Inl e | Inr _ \<Rightarrow> Inr True)"
      by (auto simp: io_simps split: prod.splits sum.splits)
    from updateMetrics_run [OF u(1)] u(2) True fs show ?thesis by (auto split: sum.splits)
  next
    case False
    with ok assms(2,3) claim_refused_rows [OF assms(1,2) False] show ?thesis
      by (auto simp: io_simps claim_rows_run [OF dok])
  qed
qed

lemma db_call_throw:
  "db_call (io_throw e) v = (r, v') \<Longrightarrow>
     isl r \<and> w_dlq v' = w_dlq v \<and> w_now v' = w_now v \<and> w_nextId v' = w_nextId v"
  by (auto simp: db_call_def io_simps split: list.splits option.splits)

lemma forTarget_frame:
  assumes "forTarget env ts w = (r, w')"
  shows "w_dlq w' = w_dlq w \<and> w_now w' = w_now w \<and> w_nextId w' = w_nextId w \<and> w_targets w' = w_targets w"
  using io_keepsD [OF io_keeps_forTarget assms, of w_dlq] io_keepsD [OF io_keeps_forTarget assms, of w_now]
    io_keepsD [OF io_keeps_forTarget assms, of w_nextId] io_keepsD [OF io_keeps_forTarget assms, of w_targets]
  by simp

lemma claim_missing:
  assumes "dlq_ok w" "find_dlq i (w_dlq w) = None"
    and "io_bind (db_call (claim_rows i eb pid)) (\<lambda>count.
      if count = 1 then io_seq updateMetrics (io_return True) else io_return False) w = (r, w')"
  shows "w_now w' = w_now w \<and> w_nextId w' = w_nextId w \<and> w_dlq w' = w_dlq w \<and> r \<noteq> Inr True"
proof (cases rule: db_call_cases [of "claim_rows i eb pid" w])
  case (fault e fs)
  with assms(3) show ?thesis by (auto simp: io_simps)
next
  case (ok fs)
  have "dlq_ok (w\<lparr>w_faults := fs\<rparr>)" using assms(1) by (simp add: dlq_ok_def)
  with ok assms(2,3) show ?thesis by (auto simp: io_simps claim_rows_run)
qed

lemma dlq_retry_run:
  assumes "dlq_ok w" "dlq_retry env i w = (r, w')"
  shows "w_now w' = w_now w \<and> w_nextId w' = w_nextId w \<and>
    (w_dlq w' = w_dlq w \<and> r \<noteq> Inr True \<or>
     (\<exists>d eb. find_dlq i (w_dlq w) = Some d \<and> lease_bound env w eb \<and> claimable eb d \<and> r \<noteq> Inr False \<and>
       (r = Inr True \<longrightarrow> gauges_exact w') \<and>
       w_dlq w' = update_rows (\<lambda>d. d_id d = i \<and> claimable eb d) (claim_item (w_now w) (en_pid env)) (w_dlq w)))"
proof (cases rule: db_call_cases [of "io_get (\<lambda>w. map_option d_targetSystem (find_dlq i (w_dlq w)))" w])
  case (fault e fs)
  with assms(2) show ?thesis by (auto simp: dlq_retry_def io_simps)
next
  case (ok fs)
  let ?w = "w\<lparr>w_faults := fs\<rparr>"
  let ?bound = "\<lambda>lease. date_of_num (scale_ms (w_now w) (to_number
      (coalesce (coalesce lease (en_cfg env ''DLQ_RETRY_LEASE_SECONDS'')) (JInt 300))))"
  let ?tail = "\<lambda>eb. io_bind (db_call (claim_rows i eb (en_pid env))) (\<lambda>count.
      if count = 1 then io_seq updateMetrics (io_return True) else io_return False)"
  have dok: "dlq_ok ?w" using assms(1) by (simp add: dlq_ok_def)
  show ?thesis
  proof (cases "find_dlq i (w_dlq w)")
    case None
    show ?thesis
    proof (cases "?bound Undef")
      case None': None
      with None ok assms(2) show ?thesis
        using db_call_throw by (fastforce simp: dlq_retry_def io_simps Let_def split: prod.splits sum.splits)
    next
      case (Some eb)
      with None ok assms(2) have "?tail eb ?w = (r, w')"
        by (simp add: dlq_retry_def io_simps Let_def)
      from claim_missing [OF dok _ this] None show ?thesis by simp
    qed
  next
    case (Some d)
    obtain r1 w1 where ft: "forTarget env (d_targetSystem d) ?w = (r1, w1)" by fastforce
    note fr = forTarget_frame [OF ft]
    have ok1: "dlq_ok w1" using fr assms(1) by (simp add: dlq_ok_def)
    show ?thesis
    proof (cases r1)
      case (Inl e)
      with Some ok assms(2) ft fr show ?thesis by (auto simp: dlq_retry_def io_simps Let_def)
    next
      case (Inr p)
      show ?thesis
      proof (cases "?bound (tp_dlqLeaseSeconds p)")
        case None
        with Some ok assms(2) ft fr Inr show ?thesis
          using db_call_throw by (fastforce simp: dlq_retry_def io_simps Let_def split: prod.splits sum.splits)
      next
        case (Some eb)
        with \<open>find_dlq i (w_dlq w) = Some d\<close> ok assms(2) ft fr Inr have tail: "?tail eb w1 = (r, w')"
          by (simp add: dlq_retry_def io_simps Let_def)
        have "lease_bound env w eb"
          unfolding lease_bound_def using ft Inr Some by (intro exI conjI) auto
        with claim_step_run [OF ok1 _ tail, of d] fr \<open>find_dlq i (w_dlq w) = Some d\<close> show ?thesis
          by auto
      qed
    qed
  qed
qed

section \<open>Interleaved workers\<close>

text \<open>
  One operation of one worker (its process id is part of the action), or something else in the
  system that leaves the table alone: time passes, a configuration is edited, identifiers are drawn,
  the database starts or stops failing.
\<close>

datatype dlq_action =
    Add dlq_item_data
  | Claim nat string bool
  | Skip string
  | Resolve string
  | Fail string string
  | Other

inductive dlq_step :: "env \<Rightarrow> 'e world \<Rightarrow> dlq_action \<Rightarrow> 'e world \<Rightarrow> bool" for env where
  step_add: "dlq_add env item w = (r, w') \<Longrightarrow> dlq_step env w (Add item) w'"
| step_claim: "dlq_retry (env\<lparr>en_pid := pid\<rparr>) i w = (r, w') \<Longrightarrow> dlq_step env w (Claim pid i (r = Inr True)) w'"
| step_skip: "dlq_skip i w = (r, w') \<Longrightarrow> dlq_step env w (Skip i) w'"
| step_resolve: "dlq_resolve i w = (r, w') \<Longrightarrow> dlq_step env w (Resolve i) w'"
| step_fail: "markRetryFailed i e w = (r, w') \<Longrightarrow> dlq_step env w (Fail i e) w'"
| step_other: "w_dlq w' = w_dlq w \<Longrightarrow> w_now w \<le> w_now w' \<Longrightarrow> w_nextId w \<le> w_nextId w' \<Longrightarrow>
    dlq_step env w Other w'"

inductive dlq_run :: "env \<Rightarrow> 'e world \<Rightarrow> dlq_action list \<Rightarrow> 'e world \<Rightarrow> bool" for env where
  run_none: "dlq_run env w [] w"
| run_step: "dlq_step env w a w' \<Longrightarrow> dlq_run env w' as w'' \<Longrightarrow> dlq_run env w (a # as) w''"

inductive_cases dlq_stepE: "dlq_step env w a w'"
inductive_simps dlq_run_simps: "dlq_run env w [] w'" "dlq_run env w (a # as) w'"

text \<open>The actions that end a claim on an item.\<close>

fun settles :: "string \<Rightarrow> dlq_action \<Rightarrow> bool" where
  "settles i (Skip j) = (i = j)"
| "settles i (Resolve j) = (i = j)"
| "settles i (Fail j e) = (i = j)"
| "settles i _ = False"

text \<open>Every step as a change of the table: this is all the later proofs use.\<close>

lemma update_item_frame:
  "io_seq (db_call (update_item i f)) updateMetrics w = (r, w') \<Longrightarrow>
     w_now w' = w_now w \<and> w_nextId w' = w_nextId w"
  by (cases rule: db_call_cases [of "update_item i f" w])
    (auto simp: io_simps update_item_def split: if_splits dest!: updateMetrics_run)

lemma dlq_add_now: "dlq_add env item w = (r, w') \<Longrightarrow> w_now w' = w_now w \<and> w_nextId w \<le> w_nextId w'"
  by (cases "en_toJson env (w_nextId w) (Obj (q_payload item))"; cases rule: db_call_cases
      [of "dlq_create item p" "w\<lparr>w_nextId := Suc (w_nextId w)\<rparr>" for p])
    (auto simp: dlq_add_def toJson_io_def io_simps dlq_create_def fresh_id_def db_call_def
      split: list.splits option.splits dest!: updateMetrics_run)

lemma dlq_step_cases [consumes 2, case_names same add claim settle]:
  assumes "dlq_step env w a w'" "dlq_ok w"
  obtains
    (same) "w_dlq w' = w_dlq w" "\<And>pid i. a \<noteq> Claim pid i True" "w_now w \<le> w_now w'" "w_nextId w \<le> w_nextId w'"
  | (add) item d where "a = Add item" "w_dlq w' = w_dlq w @ [d]" "item_ok d"
      "d_id d = show_nat (Suc (w_nextId w))" "w_nextId w' = w_nextId w + 2" "w_now w' = w_now w"
  | (claim) pid i b d eb where "a = Claim pid i b" "find_dlq i (w_dlq w) = Some d" "lease_bound env w eb"
      "claimable eb d" "w_now w' = w_now w" "w_nextId w' = w_nextId w"
      "w_dlq w' = update_rows (\<lambda>d. d_id d = i \<and> claimable eb d) (claim_item (w_now w) pid) (w_dlq w)"
  | (settle) i f where "settles i a" "find_dlq i (w_dlq w) \<noteq> None" "w_now w' = w_now w" "w_nextId w' = w_nextId w"
      "\<And>d. d_id (f d) = d_id d" "\<And>d. item_ok (f d)" "\<And>d. d_status (f d) \<noteq> ''retrying''"
      "\<And>d. d_retryCount (f d) = d_retryCount d" "\<And>d. d_eventId (f d) = d_eventId d"
      "\<And>d. d_payload (f d) = d_payload d"
      "w_dlq w' = update_rows (\<lambda>d. d_id d = i) f (w_dlq w)"
  using assms(1)
proof cases
  case (step_add item r)
  from dlq_add_run [OF step_add(2)] dlq_add_now [OF step_add(2)] step_add(1) show thesis
    by (auto simp: item_ok_def dlq_statuses_def intro: same add)
next
  case (step_claim pid i r)
  have "lease_bound (env\<lparr>en_pid := pid\<rparr>) w eb = lease_bound env w eb" for eb
    by (simp add: lease_bound_def)
  with dlq_retry_run [OF assms(2) step_claim(2)] step_claim(1) show thesis
    by (auto intro: same claim)
next
  case (step_skip i r)
  note run = step_skip(2) [unfolded dlq_skip_def]
  from update_item_run [OF run] consider
    "w_dlq w' = w_dlq w"
  | "find_dlq i (w_dlq w) \<noteq> None" "w_dlq w' = update_rows (\<lambda>d. d_id d = i) (settle_item ''skipped'') (w_dlq w)"
    by blast
  then show thesis
  proof cases
    case 1
    then show thesis using update_item_frame [OF run] step_skip(1) by (intro same) auto
  next
    case 2
    show thesis
      by (rule settle [OF _ 2(1) _ _ _ _ _ _ _ _ 2(2)])
        (use update_item_frame [OF run] step_skip(1) in \<open>simp_all add: settle_item_def fail_item_def item_ok_def dlq_statuses_def\<close>)
  qed
next
  case (step_resolve i r)
  note run = step_resolve(2) [unfolded dlq_resolve_def]
  from update_item_run [OF run] consider
    "w_dlq w' = w_dlq w"
  | "find_dlq i (w_dlq w) \<noteq> None" "w_dlq w' = update_rows (\<lambda>d. d_id d = i) (settle_item ''resolved'') (w_dlq w)"
    by blast
  then show thesis
  proof cases
    case 1
    then show thesis using update_item_frame [OF run] step_resolve(1) by (intro same) auto
  next
    case 2
    show thesis
      by (rule settle [OF _ 2(1) _ _ _ _ _ _ _ _ 2(2)])
        (use update_item_frame [OF run] step_resolve(1) in \<open>simp_all add: settle_item_def fail_item_def item_ok_def dlq_statuses_def\<close>)
  qed
next
  case (step_fail i e r)
  note run = step_fail(2) [unfolded markRetryFailed_def]
  from update_item_run [OF run] consider
    "w_dlq w' = w_dlq w"
  | "find_dlq i (w_dlq w) \<noteq> None" "w_dlq w' = update_rows (\<lambda>d. d_id d = i) (fail_item e) (w_dlq w)"
    by blast
  then show thesis
  proof cases
    case 1
    then show thesis using update_item_frame [OF run] step_fail(1) by (intro same) auto
  next
    case 2
    show thesis
      by (rule settle [OF _ 2(1) _ _ _ _ _ _ _ _ 2(2)])
        (use update_item_frame [OF run] step_fail(1) in \<open>simp_all add: settle_item_def fail_item_def item_ok_def dlq_statuses_def\<close>)
  qed
next
  case step_other
  then show thesis by (intro same) auto
qed

lemma dlq_step_ok:
  assumes "dlq_step env w a w'" "dlq_ok w"
  shows "dlq_ok w'"
  using assms
proof (cases rule: dlq_step_cases)
  case same
  show ?thesis by (rule dlq_ok_same [OF assms(2) same(1) same(4)])
next
  case (add item d)
  show ?thesis by (rule dlq_ok_add [OF assms(2) add(2) add(4) add(3) add(5)])
next
  case (claim pid i b d eb)
  with assms(2) show ?thesis by (intro dlq_ok_update [OF assms(2) _ _ claim(7)]) simp_all
next
  case (settle i f)
  then show ?thesis by (intro dlq_ok_update [OF assms(2) _ _ settle(11)]) simp_all
qed

text \<open>
  C20: whatever any number of workers do, in any interleaving and with any database failures: the
  identifiers of the queue stay distinct, every item has one of the four statuses, and it is locked by
  a worker exactly while it is being retried.
\<close>

theorem dlq_invariant:
  "dlq_run env w as w' \<Longrightarrow> dlq_ok w \<Longrightarrow> dlq_ok w'"
  by (induction rule: dlq_run.induct) (auto intro: dlq_step_ok)

theorem dlq_invariant_witness:
  "\<exists>w. dlq_run demo_env (init_world 0 ())
     [Add \<lparr>q_eventId = ''e'', q_operation = ''user.create'', q_targetSystem = ''z'', q_payload = [],
        q_error = ''x'', q_retryCount = None\<rparr>, Claim 7 ''1'' True] w \<and> dlq_ok w \<and> w_dlq w \<noteq> []"
proof -
  let ?item = "\<lparr>q_eventId = ''e'', q_operation = ''user.create'', q_targetSystem = ''z'', q_payload = [],
        q_error = ''x'', q_retryCount = None\<rparr>"
  define w1 where "w1 = snd (dlq_add demo_env ?item (init_world 0 ()))"
  define w2 where "w2 = snd (dlq_retry (demo_env\<lparr>en_pid := 7\<rparr>) ''1'' w1)"
  have one: "show_nat 1 = ''1''" by (simp add: show_nat.simps digit_char_def)
  have w1: "w_dlq w1 = [\<lparr>d_id = ''1'', d_eventId = ''e'', d_operation = ''user.create'', d_targetSystem = ''z'',
      d_payload = Obj [], d_error = ''x'', d_retryCount = 0, d_status = ''pending'', d_lockedAt = None,
      d_lockedBy = None, d_createdAt = 0\<rparr>] \<and> w_faults w1 = [] \<and> w_targets w1 = [] \<and> w_now w1 = 0"
    by (simp add: w1_def dlq_add_def toJson_io_def demo_env_def io_simps init_world_def dlq_create_def
        fresh_id_def updateMetrics_def dlq_statuses_def metrics_io_def one [simplified])
  have r: "fst (dlq_retry (demo_env\<lparr>en_pid := 7\<rparr>) ''1'' w1) = Inr True" and d: "w_dlq w2 \<noteq> []"
    using w1 date_of_int [of "- 300000"]
    by (simp_all add: w2_def dlq_retry_def io_simps demo_env_def find_dlq_def forTarget_def find_target_def
        obj_get_def as_record_def normalizePolicy_def spread_policy_def default_lease_def DEFAULT_RETRY_POLICY_def or_default_def
        scale_ms_def Let_def claim_rows_def claimable_def updateMetrics_def dlq_statuses_def metrics_io_def
        update_rows_def)
  have "dlq_run demo_env (init_world 0 ()) [Add ?item, Claim 7 ''1'' True] w2"
  proof (intro run_step)
    show "dlq_run demo_env w2 [] w2" by (rule run_none)
    show "dlq_step demo_env (init_world 0 ()) (Add ?item) w1"
      by (rule step_add [of _ _ _ "fst (dlq_add demo_env ?item (init_world 0 ()))"]) (simp add: w1_def)
    show "dlq_step demo_env w1 (Claim 7 ''1'' True) w2"
      using step_claim [where r = "Inr True" and env = demo_env] r by (metis (full_types) prod.collapse w2_def)
  qed
  from this dlq_invariant [OF this dlq_ok_init] d show ?thesis by blast
qed

section \<open>Nothing is lost\<close>

text \<open>
  An event that was accepted into the queue is never lost: whatever the workers do, an item keeps
  its identifier, its event and its payload, and its retry count never goes down.
\<close>

theorem dlq_durable:
  assumes "dlq_run env w as w'" "dlq_ok w" "find_dlq i (w_dlq w) = Some d"
  shows "\<exists>d'. find_dlq i (w_dlq w') = Some d' \<and> d_eventId d' = d_eventId d \<and>
    d_payload d' = d_payload d \<and> d_retryCount d \<le> d_retryCount d'"
  using assms
proof (induction arbitrary: d rule: dlq_run.induct)
  case (run_none w)
  then show ?case by simp
next
  case (run_step w a w1 as w2)
  have "\<exists>d1. find_dlq i (w_dlq w1) = Some d1 \<and> d_eventId d1 = d_eventId d \<and>
      d_payload d1 = d_payload d \<and> d_retryCount d \<le> d_retryCount d1"
    using run_step.hyps(1) run_step.prems(1)
  proof (cases rule: dlq_step_cases)
    case same
    then show ?thesis using run_step.prems by simp
  next
    case (add item e)
    then show ?thesis using run_step.prems by (simp add: find_dlq_append)
  next
    case (claim pid j b e eb)
    then show ?thesis using run_step.prems by (auto simp: find_dlq_claimed claim_item_def)
  next
    case (settle j f)
    then show ?thesis using run_step.prems by (auto simp: find_dlq_update)
  qed
  then obtain d1 where d1: "find_dlq i (w_dlq w1) = Some d1" "d_eventId d1 = d_eventId d"
    "d_payload d1 = d_payload d" "d_retryCount d \<le> d_retryCount d1" by blast
  from run_step.IH [OF dlq_step_ok [OF run_step.hyps(1) run_step.prems(1)] d1(1)] d1(2-4)
  show ?case by force
qed

theorem dlq_durable_witness:
  "\<exists>w :: unit world. find_dlq ''0'' (w_dlq w) \<noteq> None \<and> (\<exists>w'. dlq_run demo_env w [Skip ''0'', Other] w' \<and>
     map_option d_eventId (find_dlq ''0'' (w_dlq w')) = Some ''e'')"
proof -
  let ?d = "\<lparr>d_id = ''0'', d_eventId = ''e'', d_operation = ''user.create'', d_targetSystem = ''z'',
      d_payload = Obj [], d_error = ''x'', d_retryCount = 3, d_status = ''pending'', d_lockedAt = None,
      d_lockedBy = None, d_createdAt = 0\<rparr>"
  let ?w = "(init_world 0 ())\<lparr>w_dlq := [?d], w_nextId := 1\<rparr>"
  let ?w1 = "snd (dlq_skip ''0'' ?w)"
  have zero: "show_nat 0 = ''0''" by (simp add: show_nat.simps digit_char_def)
  have ok: "dlq_ok ?w"
    by (auto simp: dlq_ok_def ids_below_def item_ok_def dlq_statuses_def zero intro!: exI [of _ 0])
  have f: "find_dlq ''0'' (w_dlq ?w) = Some ?d" by (simp add: find_dlq_def)
  have run: "dlq_run demo_env ?w [Skip ''0'', Other] ?w1"
  proof (intro run_step)
    show "dlq_step demo_env ?w (Skip ''0'') ?w1" by (rule step_skip [OF surjective_pairing])
    show "dlq_step demo_env ?w1 Other ?w1" by (rule step_other) simp_all
    show "dlq_run demo_env ?w1 [] ?w1" by (rule run_none)
  qed
  from dlq_durable [OF run ok f] have "map_option d_eventId (find_dlq ''0'' (w_dlq ?w1)) = Some ''e''" by auto
  with f run show ?thesis by (intro exI [of _ ?w]) blast
qed

section \<open>One worker at a time\<close>

text \<open>Every lease the service may read is a whole number of at least \<open>L\<close> seconds.\<close>

definition leases_at_least :: "env \<Rightarrow> int \<Rightarrow> 'e world \<Rightarrow> bool" where
  "leases_at_least env L w \<longleftrightarrow>
     (\<exists>n. default_lease env = JInt n \<and> L \<le> n) \<and>
     (\<forall>t \<in> set (w_targets w). \<forall>c n. en_fromJson env (ts_config t) = Inr c \<longrightarrow>
        pp_dlqLeaseSeconds (normalizePolicy (obj_get (as_record (coalesce c (Obj []))) ''retryPolicy'')) = Some n
        \<longrightarrow> L \<le> n)"

lemma find_in_set: "find P xs = Some x \<Longrightarrow> x \<in> set xs"
  by (auto simp: find_Some_iff)

lemma forTarget_lease:
  assumes "forTarget env ts w = (Inr p, w')" "leases_at_least env L w"
  shows "\<exists>n. tp_dlqLeaseSeconds p = JInt n \<and> L \<le> n"
proof -
  have target: "fst (io_catch (find_target ts) (\<lambda>_. io_return None) w) = Inr item \<Longrightarrow>
      item = Some t \<Longrightarrow> t \<in> set (w_targets w)" for item t
    by (cases rule: db_call_cases [of "io_get (\<lambda>w. find (\<lambda>t. ts_name t = ts) (w_targets w))" w])
      (auto simp: find_target_def io_simps dest: find_in_set)
  from assms(2) obtain m where m: "default_lease env = JInt m" "L \<le> m"
    by (auto simp: leases_at_least_def)
  obtain item w1 where it: "io_catch (find_target ts) (\<lambda>_. io_return None) w = (Inr item, w1)"
    using assms(1) by (auto simp: forTarget_def io_simps split: prod.splits sum.splits)
  show ?thesis
  proof (cases item)
    case None
    with assms(1) it m show ?thesis
      by (auto simp: forTarget_def io_bind_run io_run obj_get_def normalizePolicy_def spread_policy_def
          Let_def or_default_def)
  next
    case (Some t)
    with target [of item t] it have "t \<in> set (w_targets w)" by simp
    with assms Some it m show ?thesis
      by (auto simp: forTarget_def io_bind_run io_run spread_policy_def Let_def or_default_def
          leases_at_least_def split: sum.splits option.splits)
  qed
qed

lemma date_of_num_int: "date_of_num (Fin (of_int i)) = Some e \<Longrightarrow> e = i"
  using floor_of_int [of "- i", where ?'a = rat]
  by (simp add: date_of_num_def trunc_rat_def split: if_splits)

lemma lease_bound_le:
  assumes "lease_bound env w eb" "leases_at_least env L w"
  shows "eb \<le> w_now w - L * 1000"
proof -
  from assms(1) obtain ts p and w0 w1 :: "'a world" where b: "w_targets w0 = w_targets w"
    "forTarget env ts w0 = (Inr p, w1)"
    "date_of_num (scale_ms (w_now w)
       (to_number (coalesce (coalesce (tp_dlqLeaseSeconds p) (en_cfg env ''DLQ_RETRY_LEASE_SECONDS'')) (JInt 300))))
     = Some eb"
    unfolding lease_bound_def by auto
  have "leases_at_least env L w0" using assms(2) b(1) by (simp add: leases_at_least_def)
  from forTarget_lease [OF b(2) this] obtain n where n: "tp_dlqLeaseSeconds p = JInt n" "L \<le> n" by blast
  have "scale_ms (w_now w) (Fin (of_int n)) = Fin (of_int (w_now w - n * 1000))"
    by (simp add: scale_ms_def)
  with b(3) n(1) have "date_of_num (Fin (of_int (w_now w - n * 1000))) = Some eb" by simp
  from date_of_num_int [OF this] n(2) show ?thesis by simp
qed

definition held_since :: "int \<Rightarrow> string \<Rightarrow> 'e world \<Rightarrow> bool" where
  "held_since t0 i w \<longleftrightarrow> t0 \<le> w_now w \<and> (\<exists>d t. find_dlq i (w_dlq w) = Some d \<and>
     d_status d = ''retrying'' \<and> d_lockedAt d = Some t \<and> t0 \<le> t)"

lemma held_after_claim:
  assumes "dlq_step env w (Claim pid i True) w'" "dlq_ok w"
  shows "held_since (w_now w) i w'"
  using assms
proof (cases rule: dlq_step_cases)
  case (claim pid' j b d eb)
  then show ?thesis using find_dlq_id [OF claim(2)]
    by (auto simp: held_since_def find_dlq_claimed claim_item_def)
qed auto

lemma held_step:
  assumes "dlq_step env w a w'" "dlq_ok w" "held_since t0 i w" "\<not> settles i a"
  shows "held_since t0 i w'"
  using assms(1,2)
proof (cases rule: dlq_step_cases)
  case same
  then show ?thesis using assms(3) by (auto simp: held_since_def)
next
  case (add item d)
  then show ?thesis using assms(3) by (auto simp: held_since_def find_dlq_append)
next
  case (claim pid j b d eb)
  from assms(3) obtain e t where e: "t0 \<le> w_now w" "find_dlq i (w_dlq w) = Some e"
    "d_status e = ''retrying''" "d_lockedAt e = Some t" "t0 \<le> t" unfolding held_since_def by blast
  from claim e show ?thesis
    by (cases "d_id e = j \<and> claimable eb e")
      (simp_all add: held_since_def find_dlq_claimed, simp_all add: claim_item_def)
next
  case (settle j f)
  then have "i \<noteq> j" using assms(4) by auto
  moreover from assms(3) obtain e t where e: "t0 \<le> w_now w" "find_dlq i (w_dlq w) = Some e"
    "d_status e = ''retrying''" "d_lockedAt e = Some t" "t0 \<le> t" unfolding held_since_def by blast
  moreover have "d_id e = i" using find_dlq_id [OF e(2)] by simp
  ultimately show ?thesis using settle by (simp add: held_since_def find_dlq_update)
qed

lemma held_run:
  assumes "dlq_run env w as w'" "dlq_ok w" "held_since t0 i w" "\<forall>a \<in> set as. \<not> settles i a"
  shows "held_since t0 i w' \<and> dlq_ok w'"
  using assms by (induction rule: dlq_run.induct) (auto intro: held_step dlq_step_ok)

text \<open>
  C6: a claim is exclusive while its lease lasts: after a worker claimed an item, and as long as
  nobody settles it (skip, resolve, mark failed), no worker can claim it again until more than \<open>L\<close> seconds
  have passed, where \<open>L\<close> is the shortest lease configured.
\<close>

theorem claim_exclusive:
  assumes "dlq_ok w0" "dlq_step env w0 (Claim pid i True) w1"
    and "dlq_run env w1 as w2" "\<forall>a \<in> set as. \<not> settles i a"
    and "leases_at_least env L w2" "dlq_step env w2 (Claim pid' i True) w3"
  shows "w_now w0 + L * 1000 < w_now w2"
proof -
  have "held_since (w_now w0) i w2 \<and> dlq_ok w2"
    by (rule held_run [OF assms(3) dlq_step_ok [OF assms(2,1)] held_after_claim [OF assms(2,1)] assms(4)])
  then obtain d t where d: "find_dlq i (w_dlq w2) = Some d" "d_status d = ''retrying''" "d_lockedAt d = Some t"
    "w_now w0 \<le> t" and ok: "dlq_ok w2" unfolding held_since_def by blast
  from assms(6) ok show ?thesis
  proof (cases rule: dlq_step_cases)
    case (claim p j b e eb)
    with d have "t < eb" by (auto simp: claimable_def)
    with lease_bound_le [OF claim(3) assms(5)] d(4) show ?thesis by simp
  qed auto
qed

text \<open>An item of a queue, and the queue that holds it alone, for the examples.\<close>

definition demo_item :: "string \<Rightarrow> int option \<Rightarrow> dlq_item" where
  "demo_item status locked = \<lparr>d_id = ''0'', d_eventId = ''e'', d_operation = ''user.create'',
     d_targetSystem = ''z'', d_payload = Obj [], d_error = ''x'', d_retryCount = 3, d_status = status,
     d_lockedAt = locked, d_lockedBy = map_option (\<lambda>_. ''9'') locked, d_createdAt = 0\<rparr>"

definition demo_queue :: "int \<Rightarrow> dlq_item \<Rightarrow> unit world" where
  "demo_queue now d = (init_world now ())\<lparr>w_dlq := [d], w_nextId := 1\<rparr>"

lemma show_nat_0: "show_nat 0 = ''0''"
  by (simp add: show_nat.simps digit_char_def)

lemma demo_queue_ok:
  "status \<in> set dlq_statuses \<Longrightarrow> (locked \<noteq> None \<longleftrightarrow> status = ''retrying'') \<Longrightarrow> dlq_ok (demo_queue now (demo_item status locked))"
  by (auto simp: dlq_ok_def ids_below_def item_ok_def demo_queue_def demo_item_def show_nat_0 intro!: exI [of _ 0])

lemmas demo_claim_simps =
  dlq_retry_def io_simps demo_env_def find_dlq_def forTarget_def find_target_def obj_get_def as_record_def
  normalizePolicy_def spread_policy_def default_lease_def DEFAULT_RETRY_POLICY_def or_default_def
  scale_ms_def Let_def claim_rows_def claimable_def updateMetrics_def dlq_statuses_def metrics_io_def
  update_rows_def demo_queue_def demo_item_def init_world_def claim_item_def

theorem claim_exclusive_witness:
  "\<exists>w1 w2 w3. dlq_step demo_env (demo_queue 0 (demo_item ''pending'' None)) (Claim 7 ''0'' True) w1 \<and>
     dlq_run demo_env w1 [Other] w2 \<and> dlq_step demo_env w2 (Claim 8 ''0'' True) w3 \<and>
     0 + 300 * 1000 < w_now w2"
proof -
  let ?w0 = "demo_queue 0 (demo_item ''pending'' None)"
  let ?w1 = "snd (dlq_retry (demo_env\<lparr>en_pid := 7\<rparr>) ''0'' ?w0)"
  let ?w2 = "?w1\<lparr>w_now := 300001\<rparr>"
  let ?w3 = "snd (dlq_retry (demo_env\<lparr>en_pid := 8\<rparr>) ''0'' ?w2)"
  have ok: "dlq_ok ?w0" by (rule demo_queue_ok) (simp_all add: dlq_statuses_def)
  have 1: "dlq_retry (demo_env\<lparr>en_pid := 7\<rparr>) ''0'' ?w0 = (Inr True, ?w1)"
    using date_of_int [of "- 300000"] by (simp add: demo_claim_simps)
  have 2: "dlq_retry (demo_env\<lparr>en_pid := 8\<rparr>) ''0'' ?w2 = (Inr True, ?w3)"
    using date_of_int [of "- 300000"] date_of_int [of 1] by (simp add: demo_claim_simps)
  have s1: "dlq_step demo_env ?w0 (Claim 7 ''0'' True) ?w1"
    using step_claim [OF 1] by simp
  have s2: "dlq_step demo_env ?w2 (Claim 8 ''0'' True) ?w3"
    using step_claim [OF 2] by simp
  have w1: "w_now ?w1 = 0" "w_targets ?w1 = []"
    using date_of_int [of "- 300000"] by (simp_all add: demo_claim_simps)
  have r: "dlq_run demo_env ?w1 [Other] ?w2"
  proof (intro run_step)
    show "dlq_step demo_env ?w1 Other ?w2" using w1 by (intro step_other) simp_all
    show "dlq_run demo_env ?w2 [] ?w2" by (rule run_none)
  qed
  have l: "leases_at_least demo_env 300 ?w2"
    using w1 by (simp add: leases_at_least_def default_lease_def demo_env_def DEFAULT_RETRY_POLICY_def
        exI [of "\<lambda>n. (300 :: rat) = of_int n \<and> 300 \<le> n" 300])
  have "w_now ?w0 + 300 * 1000 < w_now ?w2"
    by (rule claim_exclusive [OF ok s1 r _ l s2]) simp
  then have "0 + 300 * 1000 < w_now ?w2" by (simp only: demo_queue_def init_world_def world.simps)
  with s1 r s2 show ?thesis by blast
qed

section \<open>Outcome of each operation when the database answers\<close>

lemma gauges_after_update:
  "w_faults w = [] \<Longrightarrow> updateMetrics w = (r, w') \<Longrightarrow> r = Inr () \<and> gauges_exact w' \<and> w_dlq w' = w_dlq w"
  using updateMetrics_run by fastforce

text \<open>The item found by a retry, its policy with a lease of \<open>n\<close> seconds.\<close>

lemma retry_claims:
  assumes "dlq_ok w" "w_faults w = []" "find_dlq i (w_dlq w) = Some d"
    and "forTarget env (d_targetSystem d) w = (Inr p, w)" "tp_dlqLeaseSeconds p = JInt n"
    and "\<bar>w_now w - n * 1000\<bar> \<le> 8640000000000000"
    and "dlq_retry env i w = (r, w')"
  shows "r = Inr (claimable (w_now w - n * 1000) d) \<and>
    find_dlq i (w_dlq w') =
      Some (if claimable (w_now w - n * 1000) d then claim_item (w_now w) (en_pid env) d else d) \<and>
    (r = Inr True \<longrightarrow> gauges_exact w') \<and> (r = Inr False \<longrightarrow> w_dlq w' = w_dlq w)"
proof -
  let ?eb = "w_now w - n * 1000"
  have "scale_ms (w_now w) (Fin (of_int n)) = Fin (of_int ?eb)" by (simp add: scale_ms_def)
  then have bound: "date_of_num (scale_ms (w_now w) (to_number (coalesce (coalesce (JInt n)
      (en_cfg env ''DLQ_RETRY_LEASE_SECONDS'')) (JInt 300)))) = Some ?eb"
    using date_of_int [OF assms(6)] by simp
  from assms(2-5,7) bound have tail: "io_bind (db_call (claim_rows i ?eb (en_pid env))) (\<lambda>count.
      if count = 1 then io_seq updateMetrics (io_return True) else io_return False) w = (r, w')"
    by (simp add: dlq_retry_def io_simps Let_def)
  from claim_step_run [OF assms(1,3) tail] assms(2) find_dlq_id [OF assms(3)] assms(3)
  show ?thesis by (cases "claimable ?eb d") (auto simp: find_dlq_claimed)
qed

text \<open>
  With the database answering and a lease of \<open>n\<close> seconds, a retry claims the item exactly when it is
  neither skipped nor resolved and not locked by a retry that started within the last \<open>n\<close> seconds; a
  claim counts one more attempt and records time and owner, a refused claim changes no row, and after
  a claim the gauges agree with the table.
\<close>

theorem retry_claims_iff:
  assumes "dlq_ok w" "w_faults w = []" "find_dlq i (w_dlq w) = Some d"
    and "forTarget env (d_targetSystem d) w = (Inr p, w)" "tp_dlqLeaseSeconds p = JInt n"
    and "\<bar>w_now w - n * 1000\<bar> \<le> 8640000000000000"
    and "dlq_retry env i w = (r, w')"
  shows "r = Inr (claimable (w_now w - n * 1000) d) \<and>
    find_dlq i (w_dlq w') =
      Some (if claimable (w_now w - n * 1000) d then claim_item (w_now w) (en_pid env) d else d) \<and>
    (r = Inr True \<longrightarrow> gauges_exact w') \<and> (r = Inr False \<longrightarrow> w_dlq w' = w_dlq w)"
  using retry_claims [OF assms] .

theorem retry_claims_iff_witness:
  "fst (dlq_retry demo_env ''0'' (demo_queue 300000 (demo_item ''retrying'' (Some 1)))) = Inr False \<and>
   fst (dlq_retry demo_env ''0'' (demo_queue 300002 (demo_item ''retrying'' (Some 1)))) = Inr True"
proof -
  let ?d = "demo_item ''retrying'' (Some 1)"
  have ok: "dlq_ok (demo_queue now ?d)" for now by (rule demo_queue_ok) (simp_all add: dlq_statuses_def)
  have f: "w_faults (demo_queue now ?d) = []" "find_dlq ''0'' (w_dlq (demo_queue now ?d)) = Some ?d"
    "w_now (demo_queue now ?d) = now" for now
    by (simp_all add: demo_queue_def init_world_def find_dlq_def demo_item_def)
  obtain p where p: "\<And>now. forTarget demo_env (d_targetSystem ?d) (demo_queue now ?d) = (Inr p, demo_queue now ?d)"
    "tp_dlqLeaseSeconds p = JInt 300"
    by (simp add: demo_claim_simps)
  have "fst (dlq_retry demo_env ''0'' (demo_queue now ?d)) = Inr (claimable (now - 300000) ?d)"
    if "\<bar>now - 300000\<bar> \<le> 8640000000000000" for now
  proof -
    obtain r w' where run: "dlq_retry demo_env ''0'' (demo_queue now ?d) = (r, w')" by fastforce
    have "\<bar>w_now (demo_queue now ?d) - 300 * 1000\<bar> \<le> 8640000000000000" using that by (simp add: f(3))
    from retry_claims_iff [OF ok f(1) f(2) p(1) p(2) this run]
    have "r = Inr (claimable (w_now (demo_queue now ?d) - 300 * 1000) ?d)" by (rule conjunct1)
    with run show ?thesis by (simp add: f(3))
  qed
  from this [of 300000] this [of 300002] show ?thesis
    by (simp add: claimable_def demo_item_def)
qed

text \<open>
  Settling an item: \<open>skip\<close>, \<open>resolve\<close> and \<open>markRetryFailed\<close> set the status, clear the lock and leave the
  gauges exact when the item exists, and fail with P2025 and change nothing when it does not.
  None of them looks at who holds the lock, or whether the item is settled already: so a worker
  whose attempt fails after an operator skipped the item puts it back into the queue.
\<close>

theorem settle_outcome:
  assumes "w_faults w = []" "dlq_skip i w = (r1, w1)" "markRetryFailed i e w1 = (r2, w2)"
  shows "case find_dlq i (w_dlq w) of
      None \<Rightarrow> r1 = Inl (PrismaError ''P2025'' ''Record to update not found.'') \<and> w1 = w
    | Some d \<Rightarrow> r1 = Inr () \<and> find_dlq i (w_dlq w1) = Some (settle_item ''skipped'' d) \<and> gauges_exact w1 \<and>
        (w_faults w1 = [] \<longrightarrow> r2 = Inr () \<and> gauges_exact w2 \<and>
          (\<exists>d2. find_dlq i (w_dlq w2) = Some d2 \<and> d_status d2 = ''pending'' \<and> claimable eb d2))"
proof (cases "find_dlq i (w_dlq w)")
  case None
  with assms(1,2) show ?thesis by (simp add: dlq_skip_def io_simps update_item_def)
next
  case (Some d)
  let ?u = "w\<lparr>w_dlq := update_rows (\<lambda>d. d_id d = i) (settle_item ''skipped'') (w_dlq w)\<rparr>"
  from Some have id: "d_id d = i" using find_dlq_id by blast
  from assms(1,2) Some have "updateMetrics ?u = (r1, w1)"
    by (simp add: dlq_skip_def io_simps update_item_def)
  from gauges_after_update [OF _ this] assms(1)
  have 1: "r1 = Inr ()" "gauges_exact w1" "w_dlq w1 = w_dlq ?u" by auto
  with Some id have f1: "find_dlq i (w_dlq w1) = Some (settle_item ''skipped'' d)"
    by (simp add: find_dlq_update)
  have "r2 = Inr () \<and> gauges_exact w2 \<and> (\<exists>d2. find_dlq i (w_dlq w2) = Some d2 \<and>
      d_status d2 = ''pending'' \<and> claimable eb d2)" if "w_faults w1 = []"
  proof -
    let ?v = "w1\<lparr>w_dlq := update_rows (\<lambda>d. d_id d = i) (fail_item e) (w_dlq w1)\<rparr>"
    from assms(3) f1 that have "updateMetrics ?v = (r2, w2)"
      by (simp add: markRetryFailed_def io_simps update_item_def)
    from gauges_after_update [OF _ this] that f1 id show ?thesis
      by (simp add: find_dlq_update) (simp add: fail_item_def settle_item_def claimable_def)
  qed
  with Some 1 f1 show ?thesis by simp
qed

theorem settle_outcome_witness:
  "\<exists>w1 w2. dlq_skip ''0'' (demo_queue 5 (demo_item ''retrying'' (Some 1))) = (Inr (), w1) \<and>
     markRetryFailed ''0'' ''late'' w1 = (Inr (), w2) \<and>
     map_option d_status (find_dlq ''0'' (w_dlq w2)) = Some ''pending''"
proof -
  let ?w = "demo_queue 5 (demo_item ''retrying'' (Some 1))"
  obtain r1 w1 r2 w2 where run: "dlq_skip ''0'' ?w = (r1, w1)" "markRetryFailed ''0'' ''late'' w1 = (r2, w2)"
    by fastforce
  have f: "w_faults ?w = []" "find_dlq ''0'' (w_dlq ?w) = Some (demo_item ''retrying'' (Some 1))"
    by (simp_all add: demo_queue_def init_world_def find_dlq_def demo_item_def)
  have "w_faults w1 = []"
    using run(1) by (auto simp: dlq_skip_def demo_claim_simps update_item_def settle_item_def)
  with settle_outcome [OF f(1) run] f(2) run show ?thesis by auto
qed

end
