(* ===== verification/Idempotency.thy ===== *)
theory Idempotency
  imports World
begin

text \<open>
  \<^verbatim>\<open>src/core/idempotency/\<close>: the service that admits an event once (\<^verbatim>\<open>idempotency.service.ts\<close>) over the
  interface of \<^verbatim>\<open>idempotency.store.interface.ts\<close>, and its two stores, PostgreSQL and Redis. The
  interface is the locale \<open>idempotency_store\<close>; both stores are shown to provide it. The transaction
  of the PostgreSQL store is atomic here; a failure inside it rolls it back.
\<close>

section \<open>The interface\<close>

record 'w store =
  st_exists :: "string \<Rightarrow> ('w, bool) io"
  st_setIfNotExists :: "string \<Rightarrow> int \<Rightarrow> ('w, bool) io"
  st_delete :: "string \<Rightarrow> ('w, unit) io"

section \<open>The PostgreSQL store\<close>

definition find_key :: "string \<Rightarrow> idempotency_row list \<Rightarrow> idempotency_row option" where
  "find_key k rows = find (\<lambda>r. i_key r = k) rows"

definition pg_exists :: "string \<Rightarrow> ('e world, bool) io" where
  "pg_exists key =
     io_bind (db_call (io_get (\<lambda>w. map_option i_expiresAt (find_key key (w_idem w))))) (\<lambda>row.
     io_get (\<lambda>w. case row of None \<Rightarrow> False | Some expiresAt \<Rightarrow> w_now w < expiresAt))"

definition upsert_key :: "string \<Rightarrow> int \<Rightarrow> int \<Rightarrow> idempotency_row list \<Rightarrow> idempotency_row list" where
  "upsert_key key now expiresAt rows =
     (if find_key key rows = None
      then rows @ [\<lparr>i_key = key, i_lockedAt = now, i_expiresAt = expiresAt\<rparr>]
      else update_rows (\<lambda>r. i_key r = key) (\<lambda>r. r\<lparr>i_lockedAt := now, i_expiresAt := expiresAt\<rparr>) rows)"

definition transaction_idem :: "('e world, 'a) io \<Rightarrow> ('e world, 'a) io" where
  "transaction_idem m = (\<lambda>w. case m w of
      (Inl e, w') \<Rightarrow> (Inl e, w'\<lparr>w_idem := w_idem w\<rparr>)
    | (Inr x, w') \<Rightarrow> (Inr x, w'))"

definition pg_setIfNotExists :: "string \<Rightarrow> int \<Rightarrow> ('e world, bool) io" where
  "pg_setIfNotExists key ttlSeconds =
     io_bind (io_get (\<lambda>w. w_now w + ttlSeconds * 1000)) (\<lambda>expiresAt.
     io_catch (transaction_idem
       (io_bind (db_call (io_get (\<lambda>w. map_option i_expiresAt (find_key key (w_idem w))))) (\<lambda>existing.
        io_bind (io_get w_now) (\<lambda>now.
        if (case existing of None \<Rightarrow> False | Some t \<Rightarrow> now < t) then io_return False
        else io_seq (db_call (io_modify (\<lambda>w. w\<lparr>w_idem := upsert_key key now expiresAt (w_idem w)\<rparr>)))
            (io_seq (db_call (io_modify (\<lambda>w.
               w\<lparr>w_idem := filter (\<lambda>r. \<not> i_expiresAt r < w_now w - 60000) (w_idem w)\<rparr>)))
             (io_return True))))))
       (\<lambda>_. io_return False))"

definition pg_delete :: "string \<Rightarrow> ('e world, unit) io" where
  "pg_delete key = io_catch
     (db_call (\<lambda>w. if find_key key (w_idem w) = None
        then (Inl (PrismaError ''P2025'' ''Record to delete does not exist.''), w)
        else (Inr (), w\<lparr>w_idem := filter (\<lambda>r. i_key r \<noteq> key) (w_idem w)\<rparr>)))
     (\<lambda>_. io_return ())"

definition pg_store :: "'e world store" where
  "pg_store = \<lparr>st_exists = pg_exists, st_setIfNotExists = pg_setIfNotExists, st_delete = pg_delete\<rparr>"

section \<open>The Redis store\<close>

text \<open>
  The server keeps the expiry time of each key; \<open>SET key 1 EX ttl NX\<close> sets a key that is not live and
  refuses a time to live that is not positive.
\<close>

definition redis_live :: "(string \<times> int) list \<Rightarrow> string \<Rightarrow> int \<Rightarrow> bool" where
  "redis_live db k t = (case map_of db k of None \<Rightarrow> False | Some e \<Rightarrow> t < e)"

definition requireClient :: "env \<Rightarrow> ('e world, unit) io" where
  "requireClient env =
     (if cfg_bool (en_cfg env) ''REDIS_ENABLED'' then io_return ()
      else io_throw (Error ''Redis idempotency store is disabled''))"

definition redis_setIfNotExists :: "env \<Rightarrow> string \<Rightarrow> int \<Rightarrow> ('e world, bool) io" where
  "redis_setIfNotExists env key ttlSeconds =
     io_seq (requireClient env)
       (db_call (\<lambda>w.
          if ttlSeconds \<le> 0 then (Inl (Error ''ERR invalid expire time in 'set' command''), w)
          else if redis_live (w_redis w) key (w_now w) then (Inr False, w)
          else (Inr True, w\<lparr>w_redis := AList.update key (w_now w + ttlSeconds * 1000) (w_redis w)\<rparr>)))"

definition redis_exists :: "env \<Rightarrow> string \<Rightarrow> ('e world, bool) io" where
  "redis_exists env key =
     io_seq (requireClient env) (db_call (io_get (\<lambda>w. redis_live (w_redis w) key (w_now w))))"

definition redis_delete :: "env \<Rightarrow> string \<Rightarrow> ('e world, unit) io" where
  "redis_delete env key =
     io_seq (requireClient env) (db_call (io_modify (\<lambda>w. w\<lparr>w_redis := AList.delete key (w_redis w)\<rparr>)))"

definition redis_store :: "env \<Rightarrow> 'e world store" where
  "redis_store env = \<lparr>st_exists = redis_exists env, st_setIfNotExists = redis_setIfNotExists env,
     st_delete = redis_delete env\<rparr>"

datatype redis_health = RedisUp string | RedisDown string string

text \<open>\<open>healthCheck\<close>: status, mode and error message.\<close>

definition redis_healthCheck :: "env \<Rightarrow> ('e world, redis_health) io" where
  "redis_healthCheck env =
     (if \<not> cfg_bool (en_cfg env) ''REDIS_ENABLED'' then io_return (RedisUp ''disabled'')
      else io_catch (io_seq (io_seq (requireClient env) (db_call (io_return ())))
             (io_return (RedisUp ''redis_set_nx_ex'')))
           (\<lambda>error. io_return (RedisDown ''redis_set_nx_ex'' (exn_message error))))"

section \<open>The service\<close>

text \<open>The constructor selects the store.\<close>

definition selected_store :: "env \<Rightarrow> 'e world store" where
  "selected_store env = (if cfg_bool (en_cfg env) ''REDIS_ENABLED'' then redis_store env else pg_store)"

text \<open>
  \<open>keys_of\<close> stands for \<open>encryption?.idempotencyKeys(key) ?? [key]\<close>, which may throw. The loop of
  \<open>checkAndLock\<close> over the candidate keys:
\<close>

fun any_exists :: "'w store \<Rightarrow> string list \<Rightarrow> ('w, bool) io" where
  "any_exists st [] = io_return False"
| "any_exists st (candidate # rest) =
     io_bind (st_exists st candidate) (\<lambda>b. if b then io_return True else any_exists st rest)"

definition checkAndLock :: "'w store \<Rightarrow> (string \<Rightarrow> exn + string list) \<Rightarrow> string \<Rightarrow> int \<Rightarrow> ('w, bool) io" where
  "checkAndLock st keys_of key ttlSeconds =
     io_bind (io_of_sum (keys_of key)) (\<lambda>keys.
     io_bind (if 1 < length keys then any_exists st keys else io_return False) (\<lambda>duplicate.
     if duplicate then io_return False else st_setIfNotExists st (hd keys) ttlSeconds))"

text \<open>\<open>Promise.all\<close>: every deletion is started; the first error is the outcome.\<close>

fun delete_all :: "'w store \<Rightarrow> string list \<Rightarrow> ('w, unit) io" where
  "delete_all st [] = io_return ()"
| "delete_all st (k # ks) = (\<lambda>w. case st_delete st k w of (r, w') \<Rightarrow>
     (case delete_all st ks w' of (r', w'') \<Rightarrow> (case r of Inl e \<Rightarrow> (Inl e, w'') | Inr _ \<Rightarrow> (r', w''))))"

definition idem_release :: "'w store \<Rightarrow> (string \<Rightarrow> exn + string list) \<Rightarrow> string \<Rightarrow> ('w, unit) io" where
  "idem_release st keys_of key = io_bind (io_of_sum (keys_of key)) (delete_all st)"

text \<open>Without the encryption service the key itself is the only candidate.\<close>

definition plain_keys :: "string \<Rightarrow> exn + string list" where
  "plain_keys key = Inr [key]"

section \<open>The contract of a store\<close>

text \<open>
  \<open>live w k t\<close>: in the state \<open>w\<close> the key \<open>k\<close> is locked at time \<open>t\<close>. \<open>good w\<close>: the server answers.
\<close>

locale idempotency_store =
  fixes st :: "'e world store"
    and live :: "'e world \<Rightarrow> string \<Rightarrow> int \<Rightarrow> bool"
    and good :: "'e world \<Rightarrow> bool"
  assumes good_tick: "good w \<Longrightarrow> good (w\<lparr>w_now := t\<rparr>)"
    and live_tick: "live (w\<lparr>w_now := t\<rparr>) k t' = live w k t'"
    and exists_law: "good w \<Longrightarrow> st_exists st k w = (Inr (live w k (w_now w)), w)"
    and set_live: "good w \<Longrightarrow> 0 < ttl \<Longrightarrow> live w k (w_now w) \<Longrightarrow> st_setIfNotExists st k ttl w = (Inr False, w)"
    and set_free: "good w \<Longrightarrow> 0 < ttl \<Longrightarrow> \<not> live w k (w_now w) \<Longrightarrow>
      \<exists>w'. st_setIfNotExists st k ttl w = (Inr True, w') \<and> good w' \<and> w_now w' = w_now w \<and>
        (\<forall>t \<ge> w_now w. live w' k t = (t < w_now w + ttl * 1000)) \<and>
        (\<forall>j t. j \<noteq> k \<longrightarrow> w_now w \<le> t \<longrightarrow> live w' j t = live w j t)"
    and delete_law: "good w \<Longrightarrow>
      \<exists>w'. st_delete st k w = (Inr (), w') \<and> good w' \<and> w_now w' = w_now w \<and>
        (\<forall>t. \<not> live w' k t) \<and> (\<forall>j t. j \<noteq> k \<longrightarrow> live w' j t = live w j t)"
begin

lemma any_exists_run:
  "good w \<Longrightarrow> any_exists st ks w = (Inr (\<exists>k \<in> set ks. live w k (w_now w)), w)"
  by (induction ks) (auto simp: io_simps exists_law)

lemma check_refused:
  assumes "good w" "0 < ttl" "keys_of key = Inr ks" "k \<in> set ks" "live w k (w_now w)"
  shows "checkAndLock st keys_of key ttl w = (Inr False, w)"
proof (cases "1 < length ks")
  case True
  with assms show ?thesis by (auto simp: checkAndLock_def io_simps any_exists_run)
next
  case False
  with assms(4) have "ks = [k]" by (cases ks) auto
  with assms show ?thesis by (simp add: checkAndLock_def io_simps set_live)
qed

lemma check_admitted:
  assumes "good w" "0 < ttl" "keys_of key = Inr ks" "ks \<noteq> []" "\<forall>k \<in> set ks. \<not> live w k (w_now w)"
  shows "\<exists>w'. checkAndLock st keys_of key ttl w = (Inr True, w') \<and> good w' \<and> w_now w' = w_now w \<and>
    (\<forall>t \<ge> w_now w. live w' (hd ks) t = (t < w_now w + ttl * 1000)) \<and>
    (\<forall>j t. j \<noteq> hd ks \<longrightarrow> w_now w \<le> t \<longrightarrow> live w' j t = live w j t)"
proof -
  from assms(4,5) have "\<not> live w (hd ks) (w_now w)" by simp
  from set_free [OF assms(1,2) this] obtain w' where w': "st_setIfNotExists st (hd ks) ttl w = (Inr True, w')"
    "good w'" "w_now w' = w_now w" "\<forall>t \<ge> w_now w. live w' (hd ks) t = (t < w_now w + ttl * 1000)"
    "\<forall>j t. j \<noteq> hd ks \<longrightarrow> w_now w \<le> t \<longrightarrow> live w' j t = live w j t" by blast
  have "(if 1 < length ks then any_exists st ks else io_return False) w = (Inr False, w)"
    using assms(1,5) by (auto simp: any_exists_run io_simps)
  with w' assms(3) show ?thesis by (auto simp: checkAndLock_def io_simps)
qed

lemma check_iff:
  assumes "good w" "0 < ttl" "keys_of key = Inr ks" "ks \<noteq> []"
  shows "fst (checkAndLock st keys_of key ttl w) = Inr (\<forall>k \<in> set ks. \<not> live w k (w_now w))"
  using check_refused [where keys_of = keys_of, OF assms(1-3)] check_admitted [where keys_of = keys_of, OF assms]
  by fastforce

lemma delete_all_run:
  assumes "good w"
  shows "\<exists>w'. delete_all st ks w = (Inr (), w') \<and> good w' \<and> w_now w' = w_now w \<and>
    (\<forall>k \<in> set ks. \<forall>t. \<not> live w' k t) \<and> (\<forall>j t. j \<notin> set ks \<longrightarrow> live w' j t = live w j t)"
  using assms
proof (induction ks arbitrary: w)
  case Nil
  then show ?case by (simp add: io_simps)
next
  case (Cons k ks)
  from delete_law [OF Cons.prems, of k] obtain w1 where w1: "st_delete st k w = (Inr (), w1)" "good w1"
    "w_now w1 = w_now w" "\<forall>t. \<not> live w1 k t" "\<forall>j t. j \<noteq> k \<longrightarrow> live w1 j t = live w j t" by blast
  from Cons.IH [OF w1(2)] obtain w2 where w2: "delete_all st ks w1 = (Inr (), w2)" "good w2"
    "w_now w2 = w_now w1" "\<forall>k \<in> set ks. \<forall>t. \<not> live w2 k t"
    "\<forall>j t. j \<notin> set ks \<longrightarrow> live w2 j t = live w1 j t" by blast
  from w1(4) w2(4,5) have "\<forall>t. \<not> live w2 k t" by (cases "k \<in> set ks") auto
  with w1 w2 show ?case by auto
qed

end

text \<open>What the service relies on from the keys: there is one, and different events share none.\<close>

locale key_scheme =
  fixes keys_of :: "string \<Rightarrow> exn + string list"
  assumes keys_nonempty: "keys_of k = Inr ks \<Longrightarrow> ks \<noteq> []"
    and keys_disjoint: "keys_of a = Inr xs \<Longrightarrow> keys_of b = Inr ys \<Longrightarrow> a \<noteq> b \<Longrightarrow> set xs \<inter> set ys = {}"

section \<open>Runs of the service\<close>

text \<open>Deliveries of events, releases after a failure, and the passing of time, in any order.\<close>

datatype idem_action = Lock string int bool | Release string | Tick int

inductive idem_run ::
  "'e world store \<Rightarrow> (string \<Rightarrow> exn + string list) \<Rightarrow> 'e world \<Rightarrow> idem_action list \<Rightarrow> 'e world \<Rightarrow> bool"
  for st keys_of where
  idem_done: "idem_run st keys_of w [] w"
| idem_lock: "checkAndLock st keys_of key ttl w = (r, w') \<Longrightarrow> 0 < ttl \<Longrightarrow> idem_run st keys_of w' as w'' \<Longrightarrow>
    idem_run st keys_of w (Lock key ttl (r = Inr True) # as) w''"
| idem_release: "idem_release st keys_of key w = (r, w') \<Longrightarrow> idem_run st keys_of w' as w'' \<Longrightarrow>
    idem_run st keys_of w (Release key # as) w''"
| idem_tick: "0 \<le> d \<Longrightarrow> idem_run st keys_of (w\<lparr>w_now := w_now w + d\<rparr>) as w'' \<Longrightarrow>
    idem_run st keys_of w (Tick d # as) w''"

locale idempotency_service = idempotency_store st live good + key_scheme keys_of
  for st :: "'e world store" and live good keys_of
begin

definition locked_until :: "int \<Rightarrow> string \<Rightarrow> 'e world \<Rightarrow> bool" where
  "locked_until T k w \<longleftrightarrow> good w \<and> (\<forall>t. w_now w \<le> t \<longrightarrow> t < T \<longrightarrow> live w k t)"

lemma lock_takes_hold:
  assumes "good w" "0 < ttl" "keys_of key = Inr ks" "checkAndLock st keys_of key ttl w = (Inr True, w')"
  shows "locked_until (w_now w + ttl * 1000) (hd ks) w'"
  using check_iff [where keys_of = keys_of, OF assms(1-3) keys_nonempty [OF assms(3)]]
    check_admitted [where keys_of = keys_of, OF assms(1-3) keys_nonempty [OF assms(3)]] assms(4)
  by (auto simp: locked_until_def)

lemma lock_keeps:
  assumes "locked_until T (hd ks) w" "keys_of key = Inr ks" "0 < ttl"
    and "checkAndLock st keys_of key' ttl w = (r, w')"
  shows "locked_until T (hd ks) w'"
proof (cases "keys_of key'")
  case (Inl e)
  with assms show ?thesis by (auto simp: checkAndLock_def io_simps)
next
  case (Inr ks')
  have good: "good w" using assms(1) by (simp add: locked_until_def)
  have ne: "ks' \<noteq> []" by (rule keys_nonempty [OF Inr])
  show ?thesis
  proof (cases "\<forall>k \<in> set ks'. \<not> live w k (w_now w)")
    case True
    from check_admitted [where keys_of = keys_of, OF good assms(3) Inr ne True] assms(4)
    have w': "good w'" "w_now w' = w_now w" "\<forall>j t. j \<noteq> hd ks' \<longrightarrow> w_now w \<le> t \<longrightarrow> live w' j t = live w j t"
      by auto
    show ?thesis
    proof (cases "hd ks' = hd ks")
      case True
      with \<open>\<forall>k \<in> set ks'. \<not> live w k (w_now w)\<close> ne have "\<not> live w (hd ks) (w_now w)"
        by (metis hd_in_set)
      with assms(1) have "T \<le> w_now w" unfolding locked_until_def by force
      with w' show ?thesis by (simp add: locked_until_def)
    next
      case False
      with w' assms(1) show ?thesis by (simp add: locked_until_def)
    qed
  next
    case False
    then obtain k where "k \<in> set ks'" "live w k (w_now w)" by blast
    from check_refused [where keys_of = keys_of, OF good assms(3) Inr this] assms(1,4) show ?thesis by simp
  qed
qed

lemma release_keeps:
  assumes "locked_until T (hd ks) w" "keys_of key = Inr ks" "key' \<noteq> key"
    and "idem_release st keys_of key' w = (r, w')"
  shows "locked_until T (hd ks) w'"
proof (cases "keys_of key'")
  case (Inl e)
  with assms show ?thesis by (auto simp: idem_release_def io_simps)
next
  case (Inr ks')
  have "hd ks \<in> set ks" using keys_nonempty [OF assms(2)] by simp
  with keys_disjoint [OF Inr assms(2) assms(3)] have "hd ks \<notin> set ks'" by blast
  with delete_all_run [of w ks'] assms(1,4) Inr show ?thesis
    by (auto simp: idem_release_def io_simps locked_until_def)
qed

lemma run_keeps_lock:
  assumes "idem_run st keys_of w as w'" "locked_until T (hd ks) w" "keys_of key = Inr ks"
    and "Release key \<notin> set as"
  shows "locked_until T (hd ks) w'"
  using assms
proof (induction rule: idem_run.induct)
  case (idem_lock key' ttl w r w1 as w2)
  then show ?case using lock_keeps by (metis list.set_intros(2))
next
  case (idem_release key' w r w1 as w2)
  then show ?case using release_keeps [of T ks w key key' r w1] by auto
next
  case (idem_tick d w as w2)
  from idem_tick(1,4) have "locked_until T (hd ks) (w\<lparr>w_now := w_now w + d\<rparr>)"
    by (auto simp: locked_until_def good_tick live_tick)
  with idem_tick show ?case by auto
qed

lemma admitted_stays_live:
  assumes "good w0" "0 < ttl" "keys_of key = Inr ks"
    and "checkAndLock st keys_of key ttl w0 = (Inr True, w1)"
    and "idem_run st keys_of w1 as w2" "Release key \<notin> set as" "w_now w2 < w_now w0 + ttl * 1000"
  shows "good w2 \<and> live w2 (hd ks) (w_now w2)"
proof -
  have "locked_until (w_now w0 + ttl * 1000) (hd ks) w2"
    by (rule run_keeps_lock [OF assms(5) lock_takes_hold [OF assms(1-4)] assms(3,6)])
  with assms(7) show ?thesis by (simp add: locked_until_def)
qed

lemma admitted_once:
  assumes "good w0" "0 < ttl" "keys_of key = Inr ks"
    and "checkAndLock st keys_of key ttl w0 = (Inr True, w1)"
    and "idem_run st keys_of w1 as w2" "Release key \<notin> set as"
    and "0 < ttl'" "w_now w2 < w_now w0 + ttl * 1000"
  shows "checkAndLock st keys_of key ttl' w2 = (Inr False, w2)"
proof -
  from admitted_stays_live [OF assms(1-6,8)] have "good w2" "live w2 (hd ks) (w_now w2)" by simp_all
  with check_refused [where keys_of = keys_of, OF _ assms(7,3)] keys_nonempty [OF assms(3)]
  show ?thesis by (metis hd_in_set)
qed

lemma released_again:
  assumes "good w" "keys_of key = Inr ks" "0 < ttl" "idem_release st keys_of key w = (r, w1)"
  shows "r = Inr () \<and> fst (checkAndLock st keys_of key ttl w1) = Inr True"
proof -
  from delete_all_run [OF assms(1), of ks] assms(2,4)
  have w1: "r = Inr ()" "good w1" "\<forall>k \<in> set ks. \<forall>t. \<not> live w1 k t"
    by (auto simp: idem_release_def io_simps)
  with check_iff [where keys_of = keys_of, OF w1(2) assms(3,2) keys_nonempty [OF assms(2)]]
  show ?thesis by simp
qed

end

section \<open>Both stores provide the contract\<close>

definition pg_live :: "'e world \<Rightarrow> string \<Rightarrow> int \<Rightarrow> bool" where
  "pg_live w k t = (case find_key k (w_idem w) of None \<Rightarrow> False | Some r \<Rightarrow> t < i_expiresAt r)"

definition pg_good :: "'e world \<Rightarrow> bool" where
  "pg_good w \<longleftrightarrow> w_faults w = [] \<and> distinct (map i_key (w_idem w))"

definition redis_good :: "env \<Rightarrow> 'e world \<Rightarrow> bool" where
  "redis_good env w \<longleftrightarrow> w_faults w = [] \<and> cfg_bool (en_cfg env) ''REDIS_ENABLED''"

lemma find_key_filter:
  "distinct (map i_key rows) \<Longrightarrow>
     find_key k (filter P rows) = (case find_key k rows of Some r \<Rightarrow> if P r then Some r else None | None \<Rightarrow> None)"
  unfolding find_key_def by (rule find_filter_distinct)

lemma find_key_sound: "find_key k rows = Some r \<Longrightarrow> i_key r = k \<and> r \<in> set rows"
  unfolding find_key_def by (rule find_by_key)

lemma find_key_none: "find_key k rows = None \<longleftrightarrow> k \<notin> i_key ` set rows"
  by (simp add: find_key_def find_by_key_None)

lemma find_key_upsert:
  "find_key j (upsert_key k now e rows) =
     (if j = k then Some (case find_key k rows of
          None \<Rightarrow> \<lparr>i_key = k, i_lockedAt = now, i_expiresAt = e\<rparr>
        | Some r \<Rightarrow> r\<lparr>i_lockedAt := now, i_expiresAt := e\<rparr>)
      else find_key j rows)"
proof (cases "find_key k rows")
  case None
  then show ?thesis by (auto simp: upsert_key_def find_key_def find_append split: option.splits)
next
  case (Some r)
  let ?f = "\<lambda>r. r\<lparr>i_lockedAt := now, i_expiresAt := e\<rparr>"
  have "find_key j (upsert_key k now e rows) =
      map_option (\<lambda>r. if i_key r = k then ?f r else r) (find_key j rows)"
    using Some by (simp add: upsert_key_def) (simp add: find_key_def find_update_rows)
  also have "\<dots> = (if j = k then Some (?f r) else find_key j rows)"
  proof (cases "find_key j rows")
    case None
    with Some show ?thesis by auto
  next
    case (Some s)
    from find_key_sound [OF this] \<open>find_key k rows = Some r\<close> Some show ?thesis by auto
  qed
  finally show ?thesis using Some by simp
qed

lemma upsert_distinct:
  "distinct (map i_key rows) \<Longrightarrow> distinct (map i_key (upsert_key k now e rows))"
  by (auto simp: upsert_key_def find_key_none map_update_rows)

lemma pg_set_free:
  assumes "pg_good w" "0 < ttl" "\<not> pg_live w k (w_now w)"
  shows "\<exists>w'. pg_setIfNotExists k ttl w = (Inr True, w') \<and> pg_good w' \<and> w_now w' = w_now w \<and>
    (\<forall>t \<ge> w_now w. pg_live w' k t = (t < w_now w + ttl * 1000)) \<and>
    (\<forall>j t. j \<noteq> k \<longrightarrow> w_now w \<le> t \<longrightarrow> pg_live w' j t = pg_live w j t)"
proof -
  let ?rows = "upsert_key k (w_now w) (w_now w + ttl * 1000) (w_idem w)"
  let ?w' = "w\<lparr>w_idem := filter (\<lambda>r. \<not> i_expiresAt r < w_now w - 60000) ?rows\<rparr>"
  have d: "distinct (map i_key ?rows)" using assms(1) by (simp add: pg_good_def upsert_distinct)
  have "pg_setIfNotExists k ttl w = (Inr True, ?w')"
    using assms by (auto simp: pg_setIfNotExists_def pg_good_def pg_live_def io_simps transaction_idem_def
        split: option.splits)
  moreover have "pg_good ?w'"
    using assms(1) distinct_map_filter [OF d] by (simp add: pg_good_def)
  moreover have "pg_live ?w' k t = (t < w_now w + ttl * 1000)" for t
    using assms(2) by (auto simp: pg_live_def find_key_filter [OF d] find_key_upsert split: option.splits)
  moreover have "pg_live ?w' j t = pg_live w j t" if "j \<noteq> k" "w_now w \<le> t" for j t
    using that by (auto simp: pg_live_def find_key_filter [OF d] find_key_upsert split: option.splits)
  ultimately show ?thesis by auto
qed

lemma pg_delete_free:
  assumes "pg_good w"
  shows "\<exists>w'. pg_delete k w = (Inr (), w') \<and> pg_good w' \<and> w_now w' = w_now w \<and>
    (\<forall>t. \<not> pg_live w' k t) \<and> (\<forall>j t. j \<noteq> k \<longrightarrow> pg_live w' j t = pg_live w j t)"
proof (cases "find_key k (w_idem w)")
  case None
  with assms show ?thesis by (auto simp: pg_delete_def io_simps pg_good_def pg_live_def)
next
  case (Some r)
  let ?w' = "w\<lparr>w_idem := filter (\<lambda>r. i_key r \<noteq> k) (w_idem w)\<rparr>"
  have d: "distinct (map i_key (w_idem w))" using assms by (simp add: pg_good_def)
  have "pg_delete k w = (Inr (), ?w')"
    using Some assms by (simp add: pg_delete_def io_simps pg_good_def)
  moreover have "pg_good ?w'" using assms distinct_map_filter [OF d] by (simp add: pg_good_def)
  moreover have "\<not> pg_live ?w' k t" for t
    using find_key_sound [OF Some] Some by (simp add: pg_live_def find_key_filter [OF d])
  moreover have "pg_live ?w' j t = pg_live w j t" if "j \<noteq> k" for j t
    using that find_key_sound [of j "w_idem w"]
    by (auto simp: pg_live_def find_key_filter [OF d] split: option.splits)
  ultimately show ?thesis by auto
qed

interpretation pg: idempotency_store pg_store pg_live pg_good
proof unfold_locales
  fix w :: "'a world" and k ttl
  assume g: "pg_good w"
  show "pg_good (w\<lparr>w_now := t\<rparr>)" for t using g by (simp add: pg_good_def)
  show "st_exists pg_store k w = (Inr (pg_live w k (w_now w)), w)"
    using g by (auto simp: pg_store_def pg_exists_def pg_good_def pg_live_def io_simps split: option.splits)
  show "\<exists>w'. st_delete pg_store k w = (Inr (), w') \<and> pg_good w' \<and> w_now w' = w_now w \<and>
      (\<forall>t. \<not> pg_live w' k t) \<and> (\<forall>j t. j \<noteq> k \<longrightarrow> pg_live w' j t = pg_live w j t)"
    using pg_delete_free [OF g] by (simp add: pg_store_def)
  assume ttl: "(0 :: int) < ttl"
  show "st_setIfNotExists pg_store k ttl w = (Inr False, w)" if "pg_live w k (w_now w)"
    using g that by (auto simp: pg_store_def pg_setIfNotExists_def pg_good_def pg_live_def io_simps
        transaction_idem_def split: option.splits)
  show "\<exists>w'. st_setIfNotExists pg_store k ttl w = (Inr True, w') \<and> pg_good w' \<and> w_now w' = w_now w \<and>
      (\<forall>t \<ge> w_now w. pg_live w' k t = (t < w_now w + ttl * 1000)) \<and>
      (\<forall>j t. j \<noteq> k \<longrightarrow> w_now w \<le> t \<longrightarrow> pg_live w' j t = pg_live w j t)" if "\<not> pg_live w k (w_now w)"
    using pg_set_free [OF g ttl that] by (simp add: pg_store_def)
qed (simp add: pg_live_def)

lemma map_of_delete: "map_of (AList.delete k xs) j = (if j = k then None else map_of xs j)"
  by (simp add: delete_conv')

interpretation redis: idempotency_store "redis_store env" "\<lambda>w. redis_live (w_redis w)" "redis_good env" for env
proof unfold_locales
  fix w :: "'a world" and k ttl
  assume g: "redis_good env w"
  then have c: "cfg_bool (en_cfg env) ''REDIS_ENABLED''" "w_faults w = []" by (simp_all add: redis_good_def)
  show "redis_good env (w\<lparr>w_now := t\<rparr>)" for t using g by (simp add: redis_good_def)
  show "st_exists (redis_store env) k w = (Inr (redis_live (w_redis w) k (w_now w)), w)"
    using c by (simp add: redis_store_def redis_exists_def requireClient_def io_simps)
  show "\<exists>w'. st_delete (redis_store env) k w = (Inr (), w') \<and> redis_good env w' \<and> w_now w' = w_now w \<and>
      (\<forall>t. \<not> redis_live (w_redis w') k t) \<and> (\<forall>j t. j \<noteq> k \<longrightarrow> redis_live (w_redis w') j t = redis_live (w_redis w) j t)"
    using c by (auto simp: redis_store_def redis_delete_def requireClient_def io_simps redis_good_def
        redis_live_def map_of_delete)
  assume ttl: "(0 :: int) < ttl"
  show "st_setIfNotExists (redis_store env) k ttl w = (Inr False, w)" if "redis_live (w_redis w) k (w_now w)"
    using c that ttl by (simp add: redis_store_def redis_setIfNotExists_def requireClient_def io_simps)
  show "\<exists>w'. st_setIfNotExists (redis_store env) k ttl w = (Inr True, w') \<and> redis_good env w' \<and> w_now w' = w_now w \<and>
      (\<forall>t \<ge> w_now w. redis_live (w_redis w') k t = (t < w_now w + ttl * 1000)) \<and>
      (\<forall>j t. j \<noteq> k \<longrightarrow> w_now w \<le> t \<longrightarrow> redis_live (w_redis w') j t = redis_live (w_redis w) j t)"
    if "\<not> redis_live (w_redis w) k (w_now w)"
    using c that ttl by (auto simp: redis_store_def redis_setIfNotExists_def requireClient_def io_simps
        redis_good_def redis_live_def update_conv')
qed simp

text \<open>The store the service selected, by cases.\<close>

definition store_live :: "env \<Rightarrow> 'e world \<Rightarrow> string \<Rightarrow> int \<Rightarrow> bool" where
  "store_live env w = (if cfg_bool (en_cfg env) ''REDIS_ENABLED'' then redis_live (w_redis w) else pg_live w)"

definition store_good :: "env \<Rightarrow> 'e world \<Rightarrow> bool" where
  "store_good env w = (if cfg_bool (en_cfg env) ''REDIS_ENABLED'' then redis_good env w else pg_good w)"

interpretation selected: idempotency_store "selected_store env" "store_live env" "store_good env" for env
proof (cases "cfg_bool (en_cfg env) ''REDIS_ENABLED''")
  case True
  then show "idempotency_store (selected_store env) (store_live env) (store_good env)"
    unfolding selected_store_def store_live_def [abs_def] store_good_def [abs_def]
    by (simp add: redis.idempotency_store_axioms)
next
  case False
  then show "idempotency_store (selected_store env) (store_live env) (store_good env)"
    unfolding selected_store_def store_live_def [abs_def] store_good_def [abs_def]
    by (simp add: pg.idempotency_store_axioms)
qed

interpretation plain: key_scheme plain_keys
  by unfold_locales (auto simp: plain_keys_def)

interpretation plain_service:
  idempotency_service "selected_store env" "store_live env" "store_good env" plain_keys for env
  by unfold_locales

section \<open>Events are admitted once\<close>


text \<open>The key of an event and a configuration without Redis.\<close>

lemmas pg_eval =
  selected_store_def cfg_bool_def demo_env_def checkAndLock_def plain_keys_def pg_store_def
  pg_setIfNotExists_def io_simps transaction_idem_def init_world_def find_key_def upsert_key_def


text \<open>
  An event that was released (because it failed before it was durably accepted) is admitted
  again by the next delivery.
\<close>

theorem released_event_admitted_again:
  assumes "store_good env w" "0 < ttl" "idem_release (selected_store env) plain_keys key w = (r, w1)"
  shows "r = Inr () \<and> fst (checkAndLock (selected_store env) plain_keys key ttl w1) = Inr True"
  by (rule plain_service.released_again [OF assms(1) _ assms(2,3)]) (simp add: plain_keys_def)

theorem released_event_admitted_again_witness:
  "\<exists>w1. idem_release (selected_store demo_env) plain_keys ''e1''
       ((init_world 0 ())\<lparr>w_idem := [\<lparr>i_key = ''e1'', i_lockedAt = 0, i_expiresAt = 3600000\<rparr>]\<rparr>) = (Inr (), w1) \<and>
     fst (checkAndLock (selected_store demo_env) plain_keys ''e1'' 3600 w1) = Inr True"
proof -
  let ?w = "(init_world 0 ())\<lparr>w_idem := [\<lparr>i_key = ''e1'', i_lockedAt = 0, i_expiresAt = 3600000\<rparr>]\<rparr>"
  have g: "store_good demo_env ?w"
    by (simp add: store_good_def cfg_bool_def demo_env_def pg_good_def init_world_def)
  obtain r w1 where r: "idem_release (selected_store demo_env) plain_keys ''e1'' ?w = (r, w1)"
    by fastforce
  from released_event_admitted_again [OF g _ r, of 3600] r show ?thesis by auto
qed

text \<open>
  A failure of PostgreSQL inside the transaction is reported exactly like a duplicate: the
  check answers false, no row is kept, and the caller cannot tell the event apart from one that was
  processed before.
\<close>

theorem pg_outage_looks_like_duplicate:
  assumes "\<not> cfg_bool (en_cfg env) ''REDIS_ENABLED''" "w_faults w = Some (code, m) # fs"
  shows "checkAndLock (selected_store env) plain_keys key ttl w = (Inr False, w\<lparr>w_faults := fs\<rparr>)"
  using assms by (simp add: selected_store_def pg_store_def checkAndLock_def plain_keys_def
      pg_setIfNotExists_def io_simps transaction_idem_def db_call_def)

theorem pg_outage_looks_like_duplicate_witness:
  "fst (checkAndLock (selected_store demo_env) plain_keys ''new'' 3600
     ((init_world 0 ())\<lparr>w_faults := [Some (''P1001'', ''connection refused'')]\<rparr>)) = Inr False"
  by (subst pg_outage_looks_like_duplicate [of _ _ "''P1001''" "''connection refused''" "[]"])
    (simp_all add: cfg_bool_def demo_env_def)

end
