(* ===== verification/Connector_Registry.thy ===== *)
theory Connector_Registry
  imports World Avanpost_Ops "HOL-Library.Sublist"
begin

text \<open>
  \<^verbatim>\<open>src/connectors/connector.registry.ts\<close>: the routing table. Static connectors are blueprints by type;
  \<open>reload\<close> builds a proxy for every enabled target system, which injects the stored configuration into
  every call; polling compares a version (row count and latest update) and reloads when it changed.
\<close>

section \<open>Connectors\<close>

text \<open>The interface \<open>Connector\<close>, over the state of the external systems; the last three are optional.\<close>

record 'e connector =
  c_name :: string
  c_execute :: "conn_payload \<Rightarrow> ('e, conn_result) io"
  c_testConnection :: "obj \<Rightarrow> ('e, test_result) io"
  c_getCapabilities :: "connector_capabilities option"
  c_getSchema :: "(conn_payload \<Rightarrow> ('e, conn_result) io) option"
  c_sync :: "(conn_payload \<Rightarrow> string \<Rightarrow> ('e, conn_result) io) option"

text \<open>
  The state of the registry: blueprints, resolvable connectors, and the version read by the last
  reload (the pair of the row count and the latest \<open>updatedAt\<close> stands for the text built from them).
\<close>

type_synonym registry_version = "nat \<times> int option"

record 'e registry =
  rg_static :: "(string \<times> 'e connector) list"
  rg_connectors :: "(string \<times> 'e connector) list"
  rg_lastVersion :: "registry_version option"

definition registerStatic :: "'e connector \<Rightarrow> 'e registry \<Rightarrow> 'e registry" where
  "registerStatic c rg = rg\<lparr>rg_static := AList.update (c_name c) c (rg_static rg)\<rparr>"

text \<open>The constructor registers the blueprints it is given.\<close>

definition new_registry :: "'e connector list \<Rightarrow> 'e registry" where
  "new_registry cs =
     foldl (\<lambda>rg c. registerStatic c rg) \<lparr>rg_static = [], rg_connectors = [], rg_lastVersion = None\<rparr> cs"

definition staticConnectorAllowlist :: "env \<Rightarrow> string list" where
  "staticConnectorAllowlist env =
     (case en_cfg env ''STATIC_CONNECTOR_ALLOWLIST'' of
        Str configured \<Rightarrow> csv_values configured
      | _ \<Rightarrow> if en_cfg env ''NODE_ENV'' = Str ''production'' then [] else [''fake''])"

section \<open>Proxies\<close>

definition inject_config :: "obj \<Rightarrow> conn_payload \<Rightarrow> conn_payload" where
  "inject_config config p = p\<lparr>p_payload := obj_set (p_payload p) ''config'' (Obj config)\<rparr>"

definition createProxy ::
  "(string \<times> 'e connector) list \<Rightarrow> string \<Rightarrow> string \<Rightarrow> obj \<Rightarrow> 'e connector option" where
  "createProxy statics type name config =
     (case map_of statics type of
        None \<Rightarrow> None
      | Some base \<Rightarrow> Some
          \<lparr>c_name = name,
           c_execute = (\<lambda>p. c_execute base (inject_config config p)),
           c_testConnection = (\<lambda>_. c_testConnection base config),
           c_getCapabilities = c_getCapabilities base,
           c_getSchema = map_option (\<lambda>f p. f (inject_config config p)) (c_getSchema base),
           c_sync = map_option (\<lambda>f p mode. f (inject_config config p) mode) (c_sync base)\<rparr>)"

section \<open>Reloading\<close>

definition enabled_targets :: "target_system list \<Rightarrow> target_system list" where
  "enabled_targets ts = filter ts_enabled ts"

definition allowed_statics :: "env \<Rightarrow> 'e registry \<Rightarrow> (string \<times> 'e connector) list" where
  "allowed_statics env rg = filter (\<lambda>(name, c). name \<in> set (staticConnectorAllowlist env)) (rg_static rg)"

text \<open>The loop over the enabled rows; a configuration that cannot be read ends it with the error.\<close>

fun add_proxies ::
  "env \<Rightarrow> (string \<times> 'e connector) list \<Rightarrow> target_system list \<Rightarrow> (string \<times> 'e connector) list
     \<Rightarrow> exn + (string \<times> 'e connector) list" where
  "add_proxies env statics [] acc = Inr acc"
| "add_proxies env statics (t # ts) acc =
     (case en_fromJson env (ts_config t) of
        Inl e \<Rightarrow> Inl e
      | Inr c \<Rightarrow>
          (case createProxy statics (ts_type t) (ts_name t) (as_record (coalesce c (Obj []))) of
             None \<Rightarrow> add_proxies env statics ts acc
           | Some proxy \<Rightarrow> add_proxies env statics ts (AList.update (ts_name t) proxy acc)))"

definition max_opt :: "int list \<Rightarrow> int option" where
  "max_opt xs = (if xs = [] then None else Some (Max (set xs)))"

definition version_of :: "target_system list \<Rightarrow> registry_version" where
  "version_of ts = (length ts, max_opt (map ts_updatedAt ts))"

definition registryVersion :: "('e world, registry_version) io" where
  "registryVersion = db_call (io_get (\<lambda>w. version_of (w_targets w)))"

definition load_connectors ::
  "env \<Rightarrow> 'e registry \<Rightarrow> target_system list \<Rightarrow> exn + 'e registry" where
  "load_connectors env rg rows =
     (case add_proxies env (rg_static rg) rows (allowed_statics env rg) of
        Inl e \<Rightarrow> Inl e
      | Inr next \<Rightarrow> Inr (rg\<lparr>rg_connectors := next\<rparr>))"

text \<open>Computations over the registry and the world.\<close>

definition on_world :: "('e world, 'a) io \<Rightarrow> ('e registry \<times> 'e world, 'a) io" where
  "on_world m = (\<lambda>(rg, w). case m w of (r, w') \<Rightarrow> (r, (rg, w')))"

definition reloadInternal :: "env \<Rightarrow> ('e registry \<times> 'e world, unit) io" where
  "reloadInternal env =
     io_bind (on_world (db_call (io_get (\<lambda>w. enabled_targets (w_targets w))))) (\<lambda>systems.
     io_bind (\<lambda>(rg, w). case load_connectors env rg systems of
         Inl e \<Rightarrow> (Inl e, (rg, w))
       | Inr rg' \<Rightarrow> (Inr (), (rg', w))) (\<lambda>_.
     io_bind (on_world registryVersion) (\<lambda>version.
     io_modify (\<lambda>(rg, w). (rg\<lparr>rg_lastVersion := Some version\<rparr>, w)))))"

definition reloadIfChanged :: "env \<Rightarrow> ('e registry \<times> 'e world, unit) io" where
  "reloadIfChanged env =
     io_catch (io_bind (on_world registryVersion) (\<lambda>version.
       io_bind (io_get (\<lambda>(rg, w). rg_lastVersion rg)) (\<lambda>last.
       if last = Some version then io_return () else reloadInternal env)))
     (\<lambda>_. io_return ())"

definition registry_get :: "'e registry \<Rightarrow> string \<Rightarrow> 'e connector option" where
  "registry_get rg name = map_of (rg_connectors rg) name"

definition registry_testConnection :: "'e registry \<Rightarrow> string \<Rightarrow> obj \<Rightarrow> ('e, test_result) io" where
  "registry_testConnection rg type config =
     (case map_of (rg_static rg) type of
        None \<Rightarrow> io_return (test_fail (''No connector found for type: '' @ type))
      | Some base \<Rightarrow> c_testConnection base config)"

text \<open>\<open>startPolling\<close>: the period in milliseconds, none when the setting is not a positive finite number.\<close>

definition polling_period :: "env \<Rightarrow> rat option" where
  "polling_period env =
     (case to_number (coalesce (en_cfg env ''TARGET_SYSTEM_REGISTRY_REFRESH_SECONDS'') (JInt 10)) of
        Fin q \<Rightarrow> (if 0 < q then Some (q * 1000) else None)
      | _ \<Rightarrow> None)"

section \<open>What a proxy sends\<close>

lemma inject_config_get:
  "obj_get (p_payload (inject_config config p)) k = (if k = ''config'' then Obj config else obj_get (p_payload p) k)"
  by (simp add: inject_config_def js_simps)

lemma inject_config_rest [simp]:
  "p_operation (inject_config config p) = p_operation p"
  "p_targetSystem (inject_config config p) = p_targetSystem p"
  by (simp_all add: inject_config_def)

lemma inject_config_twice: "inject_config c (inject_config d p) = inject_config c p"
  by (simp add: inject_config_def obj_set_def)

text \<open>
  C11: a caller cannot choose the configuration a target system is called with: whatever the payload
  of the event holds under \<open>config\<close>, the proxy calls its blueprint with the stored configuration there,
  the rest of the payload, the operation and the name of the target system unchanged.
\<close>

theorem proxy_config_is_stored:
  assumes "createProxy statics type name config = Some proxy"
  shows "\<exists>base. map_of statics type = Some base \<and> c_name proxy = name \<and>
    c_execute proxy p = c_execute base (inject_config config p) \<and>
    obj_get (p_payload (inject_config config p)) ''config'' = Obj config \<and>
    (\<forall>k. k \<noteq> ''config'' \<longrightarrow> obj_get (p_payload (inject_config config p)) k = obj_get (p_payload p) k) \<and>
    c_execute proxy (p\<lparr>p_payload := obj_set (p_payload p) ''config'' v\<rparr>) = c_execute proxy p"
proof -
  have "inject_config config (p\<lparr>p_payload := obj_set (p_payload p) ''config'' v\<rparr>) = inject_config config p"
    by (simp add: inject_config_def obj_set_def)
  with assms show ?thesis
    by (auto simp: createProxy_def inject_config_get split: option.splits)
qed

definition echo_connector :: "string \<Rightarrow> 'e connector" where
  "echo_connector name = \<lparr>c_name = name, c_execute = (\<lambda>p. io_return (result_ok (Obj (p_payload p)))),
     c_testConnection = (\<lambda>_. io_return (test_ok ''ok'')), c_getCapabilities = None, c_getSchema = None,
     c_sync = None\<rparr>"

theorem proxy_config_is_stored_witness:
  "case createProxy [(''zabbix'', echo_connector ''zabbix'')] ''zabbix'' ''z1'' [(''baseUrl'', Str ''u'')] of
     None \<Rightarrow> False
   | Some proxy \<Rightarrow> c_execute proxy \<lparr>p_operation = ''user.get'', p_targetSystem = ''z1'',
         p_payload = [(''config'', Obj [(''baseUrl'', Str ''evil'')])]\<rparr> () =
       (Inr (result_ok (Obj [(''config'', Obj [(''baseUrl'', Str ''u'')])])), ())"
proof -
  let ?p = "\<lparr>p_operation = ''user.get'', p_targetSystem = ''z1'', p_payload = [(''config'', Obj [(''baseUrl'', Str ''evil'')])]\<rparr>"
  obtain proxy :: "unit connector" where proxy: "createProxy [(''zabbix'', echo_connector ''zabbix'')] ''zabbix'' ''z1''
      [(''baseUrl'', Str ''u'')] = Some proxy"
    by (simp add: createProxy_def)
  from proxy_config_is_stored [OF proxy, of ?p Undef]
  have "c_execute proxy ?p = c_execute (echo_connector ''zabbix'') (inject_config [(''baseUrl'', Str ''u'')] ?p)"
    by auto
  with proxy show ?thesis by (simp add: echo_connector_def inject_config_def obj_set_def io_simps)
qed

section \<open>Routing after a reload\<close>

definition row_proxy :: "env \<Rightarrow> (string \<times> 'e connector) list \<Rightarrow> target_system \<Rightarrow> 'e connector option" where
  "row_proxy env statics t =
     (case en_fromJson env (ts_config t) of
        Inl e \<Rightarrow> None
      | Inr c \<Rightarrow> createProxy statics (ts_type t) (ts_name t) (as_record (coalesce c (Obj []))))"

lemma add_proxies_map_of:
  assumes "add_proxies env statics ts acc = Inr res" "distinct (map ts_name ts)"
  shows "map_of res name =
    (case find (\<lambda>t. ts_name t = name) ts of
       None \<Rightarrow> map_of acc name
     | Some t \<Rightarrow> (case row_proxy env statics t of None \<Rightarrow> map_of acc name | Some p \<Rightarrow> Some p))"
  using assms
proof (induction ts arbitrary: acc)
  case Nil
  then show ?case by simp
next
  case (Cons t ts)
  from Cons.prems(1) obtain c where c: "en_fromJson env (ts_config t) = Inr c" by (auto split: sum.splits)
  have fresh: "find (\<lambda>u. ts_name u = ts_name t) ts = None"
    using Cons.prems(2) by (simp add: find_by_key_None)
  show ?case
  proof (cases "row_proxy env statics t")
    case None
    with c Cons.prems have "add_proxies env statics ts acc = Inr res" by (simp add: row_proxy_def)
    from Cons.IH [OF this] Cons.prems(2) None fresh show ?thesis by auto
  next
    case (Some p)
    with c Cons.prems have "add_proxies env statics ts (AList.update (ts_name t) p acc) = Inr res"
      by (simp add: row_proxy_def)
    from Cons.IH [OF this] Cons.prems(2) Some fresh show ?thesis
      by (auto simp: update_conv' split: option.split)
  qed
qed

lemma map_of_filter_key: "map_of (filter (\<lambda>(k, v). P k) xs) k = (if P k then map_of xs k else None)"
  by (induction xs) auto

lemma allowed_statics_map_of:
  "map_of (allowed_statics env rg) name =
     (if name \<in> set (staticConnectorAllowlist env) then map_of (rg_static rg) name else None)"
  unfolding allowed_statics_def by (rule map_of_filter_key)

text \<open>
  After a reload a name resolves to the proxy of the enabled target system of that name, with
  its stored configuration; a name without one (or with a type that has no blueprint) resolves to the
  blueprint of that name when the allowlist admits it, and to nothing otherwise.
\<close>

theorem reload_routes:
  assumes "reloadInternal env (rg, w) = (Inr (), (rg', w'))" "distinct (map ts_name (w_targets w))"
  shows "registry_get rg' name =
    (let fallback = (if name \<in> set (staticConnectorAllowlist env) then map_of (rg_static rg) name else None)
     in case find (\<lambda>t. ts_name t = name) (enabled_targets (w_targets w)) of
          None \<Rightarrow> fallback
        | Some t \<Rightarrow> (case row_proxy env (rg_static rg) t of None \<Rightarrow> fallback | Some p \<Rightarrow> Some p))"
proof -
  from assms(1) obtain fs where db: "db_call (io_get (\<lambda>w. enabled_targets (w_targets w))) w =
      (Inr (enabled_targets (w_targets w)), w\<lparr>w_faults := fs\<rparr>)"
    by (cases rule: db_call_cases [of "io_get (\<lambda>w. enabled_targets (w_targets w))" w])
      (auto simp: reloadInternal_def io_simps on_world_def)
  from assms(1) obtain next' where n: "add_proxies env (rg_static rg) (enabled_targets (w_targets w))
      (allowed_statics env rg) = Inr next'" "rg_connectors rg' = next'"
    by (auto simp: reloadInternal_def io_simps on_world_def db load_connectors_def registryVersion_def
        split: sum.splits prod.splits)
  have "distinct (map ts_name (enabled_targets (w_targets w)))"
    using assms(2) by (simp add: enabled_targets_def distinct_map_filter)
  from add_proxies_map_of [OF n(1) this, of name] n(2) show ?thesis
    by (simp add: registry_get_def allowed_statics_map_of Let_def cong: option.case_cong)
qed

theorem reload_routes_witness:
  "\<exists>rg' w'. reloadInternal demo_env (new_registry [echo_connector ''zabbix'', echo_connector ''fake''],
       (init_world 0 ())\<lparr>w_targets := [demo_target ''z1'' (Obj [])]\<rparr>) = (Inr (), (rg', w')) \<and>
     map_option c_name (registry_get rg' ''z1'') = Some ''z1'' \<and> registry_get rg' ''zabbix'' = None \<and>
     registry_get rg' ''fake'' = Some (echo_connector ''fake'')"
proof -
  let ?rg = "new_registry [echo_connector ''zabbix'', echo_connector ''fake''] :: unit registry"
  let ?w = "(init_world 0 ())\<lparr>w_targets := [demo_target ''z1'' (Obj [])]\<rparr>"
  have rg: "rg_static ?rg = [(''zabbix'', echo_connector ''zabbix''), (''fake'', echo_connector ''fake'')]"
    by (simp add: new_registry_def registerStatic_def echo_connector_def)
  obtain rg' w' where run: "reloadInternal demo_env (?rg, ?w) = (Inr (), (rg', w'))"
    by (simp add: reloadInternal_def io_simps on_world_def init_world_def load_connectors_def demo_env_def
        registryVersion_def enabled_targets_def demo_target_def createProxy_def rg)
  have d: "distinct (map ts_name (w_targets ?w))" by (simp add: demo_target_def)
  have json: "en_fromJson demo_env = Inr" by (simp add: demo_env_def)
  have allow: "staticConnectorAllowlist demo_env = [''fake'']"
    by (simp add: staticConnectorAllowlist_def demo_env_def)
  from run reload_routes [OF run d, of "''z1''"] reload_routes [OF run d, of "''zabbix''"]
    reload_routes [OF run d, of "''fake''"]
  show ?thesis
    by (auto simp: allow json rg demo_target_def enabled_targets_def row_proxy_def createProxy_def
        Let_def init_world_def)
qed

section \<open>Polling\<close>

text \<open>
  Writes to the table later than time \<open>m\<close>: a created or updated row is stamped with the time of the
  write.
\<close>

inductive target_write :: "int \<Rightarrow> target_system list \<Rightarrow> target_system list \<Rightarrow> bool" for m where
  write_create: "m < ts_updatedAt t \<Longrightarrow> target_write m rows (rows @ [t])"
| write_update: "(\<And>r. m < ts_updatedAt (f r)) \<Longrightarrow> target_write m rows (update_rows P f rows)"
| write_delete: "target_write m rows (filter P rows)"

definition untouched :: "int \<Rightarrow> target_system list \<Rightarrow> target_system list" where
  "untouched m rows = filter (\<lambda>r. ts_updatedAt r \<le> m) rows"

lemma untouched_update:
  assumes "\<And>r. m < ts_updatedAt (f r)"
  shows "subseq (untouched m (update_rows P f rows)) (untouched m rows)"
proof (induction rows)
  case Nil
  then show ?case by (simp add: untouched_def update_rows_def)
next
  case (Cons r rows)
  have "\<not> ts_updatedAt (f r) \<le> m" using assms [of r] by simp
  with Cons show ?case by (auto simp: untouched_def update_rows_def)
qed

lemma untouched_write: "target_write m rows rows' \<Longrightarrow> subseq (untouched m rows') (untouched m rows)"
proof (induction rule: target_write.induct)
  case (write_create t rows)
  then show ?case by (simp add: untouched_def)
next
  case (write_update f rows P)
  then show ?case by (rule untouched_update)
next
  case (write_delete rows P)
  have "untouched m (filter P rows) = filter P (untouched m rows)"
    by (simp add: untouched_def conj_commute)
  then show ?case by simp
qed

lemma untouched_writes: "(target_write m)\<^sup>*\<^sup>* rows rows' \<Longrightarrow> subseq (untouched m rows') (untouched m rows)"
proof (induction rule: rtranclp_induct)
  case base
  then show ?case by simp
next
  case (step rows1 rows2)
  then show ?case using untouched_write subseq_order.order_trans by blast
qed

lemma max_opt_le: "max_opt xs = max_opt ys \<Longrightarrow> \<forall>y \<in> set ys. y \<le> m \<Longrightarrow> \<forall>x \<in> set xs. x \<le> m"
  by (auto simp: max_opt_def split: if_splits)
    (metis List.finite_set Max_ge Max_in empty_iff order_trans set_empty)

text \<open>
  Polling by version sees every change: if the count of rows and the latest update are the same
  as at the last reload, and every write since then happened at a later time than all stored stamps,
  the table is the same.
\<close>

theorem version_detects_changes:
  assumes "(target_write m)\<^sup>*\<^sup>* rows rows'" "\<forall>r \<in> set rows. ts_updatedAt r \<le> m"
    and "version_of rows' = version_of rows"
  shows "rows' = rows"
proof -
  have all: "untouched m rows = rows" using assms(2) by (simp add: untouched_def filter_id_conv)
  have "\<forall>t \<in> set (map ts_updatedAt rows'). t \<le> m"
    by (rule max_opt_le [of _ "map ts_updatedAt rows"]) (use assms(2,3) in \<open>auto simp: version_of_def\<close>)
  then have "untouched m rows' = rows'" by (simp add: untouched_def filter_id_conv)
  with untouched_writes [OF assms(1)] all have "subseq rows' rows" by simp
  moreover have "length rows' = length rows" using assms(3) by (simp add: version_of_def)
  ultimately show ?thesis by (metis subseq_same_length)
qed

theorem version_detects_changes_witness:
  "(target_write 0)\<^sup>*\<^sup>* [demo_target ''a'' Null] (filter (\<lambda>r. ts_name r \<noteq> ''b'') ([demo_target ''a'' Null] @
      [(demo_target ''b'' Null)\<lparr>ts_updatedAt := 5\<rparr>])) \<and>
   filter (\<lambda>r. ts_name r \<noteq> ''b'') ([demo_target ''a'' Null] @ [(demo_target ''b'' Null)\<lparr>ts_updatedAt := 5\<rparr>])
     = [demo_target ''a'' Null]"
proof -
  let ?a = "demo_target ''a'' Null" and ?b = "(demo_target ''b'' Null)\<lparr>ts_updatedAt := 5\<rparr>"
  have w: "(target_write 0)\<^sup>*\<^sup>* [?a] (filter (\<lambda>r. ts_name r \<noteq> ''b'') ([?a] @ [?b]))"
  proof (rule converse_rtranclp_into_rtranclp)
    show "target_write 0 [?a] ([?a] @ [?b])" by (rule write_create) simp
    show "(target_write 0)\<^sup>*\<^sup>* ([?a] @ [?b]) (filter (\<lambda>r. ts_name r \<noteq> ''b'') ([?a] @ [?b]))"
      by (rule r_into_rtranclp, rule write_delete)
  qed
  have "version_of (filter (\<lambda>r. ts_name r \<noteq> ''b'') ([?a] @ [?b])) = version_of [?a]"
    by (simp add: version_of_def demo_target_def)
  from version_detects_changes [OF w _ this] w show ?thesis by (simp add: demo_target_def)
qed

text \<open>
  The version is read after the rows: a write between the two reads of a reload is recorded as seen,
  so polling keeps the connectors of the old rows.
\<close>

lemma write_during_reload_missed:
  assumes "w_faults w = []" "rg_lastVersion rg = Some (version_of (w_targets w))"
  shows "reloadIfChanged env (rg, w) = (Inr (), (rg, w))"
  using assms by (simp add: reloadIfChanged_def io_simps on_world_def registryVersion_def)

end
