(* ===== verification/Processing.thy ===== *)
theory Processing
  imports Dlq Connector_Registry
begin

text \<open>
  \<^verbatim>\<open>src/core/processing.service.ts\<close>: executing an event against its connector, with retries and the
  dead letter queue for writes, and directly for reads.
\<close>

record processing_payload =
  pr_eventId :: string
  pr_operation :: string
  pr_targetSystem :: string
  pr_payload :: obj

definition isDurablyAcceptedError :: "exn \<Rightarrow> bool" where
  "isDurablyAcceptedError e = (case e of ProcessingFailureError _ durable _ \<Rightarrow> durable | _ \<Rightarrow> False)"

text \<open>A call to a connector: it only touches the external systems.\<close>

definition on_ext :: "('e, 'a) io \<Rightarrow> ('e world, 'a) io" where
  "on_ext m = (\<lambda>w. case m (w_ext w) of (r, x) \<Rightarrow> (r, w\<lparr>w_ext := x\<rparr>))"

definition to_conn_payload :: "processing_payload \<Rightarrow> conn_payload" where
  "to_conn_payload dto = \<lparr>p_operation = pr_operation dto, p_targetSystem = pr_targetSystem dto,
     p_payload = pr_payload dto\<rparr>"

definition connector_error :: "conn_result \<Rightarrow> exn" where
  "connector_error result =
     Error (case r_error result of Some e \<Rightarrow> e | None \<Rightarrow> ''Connector returned failure'')"

definition unsupported_target :: "string \<Rightarrow> exn" where
  "unsupported_target ts = Error (''Unsupported target system: '' @ ts)"

definition executeWithRetry :: "'e registry \<Rightarrow> env \<Rightarrow> processing_payload \<Rightarrow> ('e world, unit) io" where
  "executeWithRetry rg env dto =
     (case registry_get rg (pr_targetSystem dto) of
        None \<Rightarrow> io_throw (unsupported_target (pr_targetSystem dto))
      | Some c \<Rightarrow>
          io_bind (forTarget env (pr_targetSystem dto)) (\<lambda>policy.
          io_bind (retry_execute world_runtime (on_ext (c_execute c (to_conn_payload dto))) (tp_options policy))
            (\<lambda>result.
            if r_success result then io_return ()
            else io_seq (metrics_io (recordConnectorError (pr_targetSystem dto) (pr_operation dto)))
                   (io_throw (connector_error result)))))"

definition add_to_dlq :: "env \<Rightarrow> processing_payload \<Rightarrow> string \<Rightarrow> ('e world, unit) io" where
  "add_to_dlq env dto msg =
     io_bind (forTarget env (pr_targetSystem dto)) (\<lambda>policy.
       dlq_add env \<lparr>q_eventId = pr_eventId dto, q_operation = pr_operation dto,
         q_targetSystem = pr_targetSystem dto, q_payload = pr_payload dto, q_error = msg,
         q_retryCount = Some (maxRetries (tp_options policy))\<rparr>)"

definition processing_process :: "'e registry \<Rightarrow> env \<Rightarrow> processing_payload \<Rightarrow> ('e world, unit) io" where
  "processing_process rg env dto =
     io_catch
       (io_seq (executeWithRetry rg env dto) (recordEvent_io ''success'' (pr_targetSystem dto)))
       (\<lambda>error. let msg = exn_message error in
          io_seq (recordEvent_io ''failed'' (pr_targetSystem dto))
         (io_seq (io_catch (add_to_dlq env dto msg)
             (\<lambda>dlqError. io_throw (ProcessingFailureError
                (''Processing failed before durable DLQ acceptance: '' @ exn_message dlqError) False error)))
            (io_throw (ProcessingFailureError msg True error))))"

definition processRetry :: "'e registry \<Rightarrow> env \<Rightarrow> processing_payload \<Rightarrow> string \<Rightarrow> ('e world, unit) io" where
  "processRetry rg env dto dlqItemId =
     io_catch
       (io_seq (executeWithRetry rg env dto)
         (io_seq (recordEvent_io ''success'' (pr_targetSystem dto)) (dlq_resolve dlqItemId)))
       (\<lambda>error. io_seq (recordEvent_io ''failed'' (pr_targetSystem dto))
         (io_seq (markRetryFailed dlqItemId (exn_message error)) (io_throw error)))"

text \<open>
  Which function of the connector a read calls: \<open>getSchema\<close> and \<open>sync\<close> where the connector has them (their
  result is returned whatever its \<open>success\<close>), \<open>execute\<close> otherwise.
\<close>

definition read_call :: "'e connector \<Rightarrow> processing_payload \<Rightarrow> ('e, conn_result \<times> bool) io" where
  "read_call c dto =
     (let p = to_conn_payload dto; op = pr_operation dto in
      case (op = ''schema.get'', c_getSchema c) of
        (True, Some getSchema) \<Rightarrow> io_bind (getSchema p) (\<lambda>r. io_return (r, True))
      | _ \<Rightarrow>
          (case (op = ''sync.full'' \<or> op = ''sync.incremental'', c_sync c) of
             (True, Some sync) \<Rightarrow>
               io_bind (sync p (if op = ''sync.incremental'' then ''incremental'' else ''full''))
                 (\<lambda>r. io_return (r, True))
           | _ \<Rightarrow> io_bind (c_execute c p) (\<lambda>r. io_return (r, False))))"

definition processWithResult :: "'e registry \<Rightarrow> env \<Rightarrow> processing_payload \<Rightarrow> ('e world, conn_result) io" where
  "processWithResult rg env dto =
     (case registry_get rg (pr_targetSystem dto) of
        None \<Rightarrow> io_throw (unsupported_target (pr_targetSystem dto))
      | Some c \<Rightarrow>
          io_catch
            (io_bind (on_ext (read_call c dto)) (\<lambda>(result, native).
               if native \<or> r_success result
               then io_seq (recordEvent_io ''success'' (pr_targetSystem dto)) (io_return result)
               else io_seq (metrics_io (recordConnectorError (pr_targetSystem dto) (pr_operation dto)))
                      (io_throw (connector_error result))))
            (\<lambda>error. io_seq (recordEvent_io ''failed'' (pr_targetSystem dto)) (io_throw error)))"

section \<open>What processing leaves alone\<close>

lemma io_keeps_on_ext: "(\<And>w x. g (w\<lparr>w_ext := x\<rparr>) = g w) \<Longrightarrow> io_keeps g (on_ext m)"
  by (auto simp: io_keeps_def on_ext_def split: prod.splits)

lemma io_keeps_metrics: "(\<And>w x. g (w\<lparr>w_metrics := x\<rparr>) = g w) \<Longrightarrow> io_keeps g (metrics_io f)"
  unfolding metrics_io_def by (intro io_keeps_modify) simp

lemma io_keeps_recordEvent: "(\<And>w x. g (w\<lparr>w_metrics := x\<rparr>) = g w) \<Longrightarrow> io_keeps g (recordEvent_io s ts)"
  unfolding recordEvent_io_def by (intro io_keeps_modify) simp

lemma keeps_delay:
  assumes "\<And>w x. g (w\<lparr>w_rand := x\<rparr>) = g w"
    and "calculateDelay world_runtime attempt opts w = (d, w')"
  shows "g w' = g w"
  using assms by (auto simp: calculateDelay_def world_runtime_def Let_def split: if_splits list.splits)

lemma keeps_retry_loop:
  fixes fn :: "('e world, 'b) io"
  assumes "io_keeps g fn" "\<And>w x. g (w\<lparr>w_rand := x\<rparr>) = g w" "\<And>w x. g (w\<lparr>w_now := x\<rparr>) = g w"
  shows "g (snd (retry_loop world_runtime opts fn attempt e w)) = g w"
  using assms(1)
proof (induction "world_runtime :: 'e world runtime" opts fn attempt e w rule: retry_loop.induct)
  case (1 opts fn attempt lastError s)
  obtain r s' where fn: "fn s = (r, s')" by fastforce
  have s': "g s' = g s" using io_keepsD [OF 1(2) fn] .
  show ?case
  proof (cases "attempt \<le> maxRetries opts")
    case False
    then show ?thesis by (subst retry_loop.simps) simp
  next
    case le: True
    show ?thesis
    proof (cases r)
      case (Inr x)
      with le fn s' show ?thesis by (subst retry_loop.simps) simp
    next
      case (Inl err)
      show ?thesis
      proof (cases "attempt = maxRetries opts")
        case True
        with le fn s' Inl show ?thesis by (subst retry_loop.simps) simp
      next
        case False
        obtain d s2 where d: "calculateDelay world_runtime attempt opts s' = (d, s2)" by fastforce
        have "g (rt_sleep world_runtime d s2) = g s"
          using keeps_delay [of g, OF assms(2) d] s' by (simp add: world_runtime_def now_plus_def assms(3))
        with 1(1) [OF le fn [symmetric] Inl False d [symmetric] 1(2)] le fn Inl False d show ?thesis
          by (subst retry_loop.simps) simp
      qed
    qed
  qed
qed

lemma io_keeps_retry:
  assumes "io_keeps g fn" "\<And>w x. g (w\<lparr>w_rand := x\<rparr>) = g w" "\<And>w x. g (w\<lparr>w_now := x\<rparr>) = g w"
  shows "io_keeps g (retry_execute world_runtime fn opts)"
  using keeps_retry_loop [of g fn, OF assms] by (simp add: io_keeps_def retry_execute_def)

text \<open>A field of the world that executing an event does not touch.\<close>

definition frame_field :: "('e world \<Rightarrow> 'b) \<Rightarrow> bool" where
  "frame_field g \<longleftrightarrow> (\<forall>w x. g (w\<lparr>w_faults := x\<rparr>) = g w) \<and> (\<forall>w x. g (w\<lparr>w_ext := x\<rparr>) = g w) \<and>
     (\<forall>w x. g (w\<lparr>w_metrics := x\<rparr>) = g w) \<and> (\<forall>w x. g (w\<lparr>w_rand := x\<rparr>) = g w) \<and> (\<forall>w x. g (w\<lparr>w_now := x\<rparr>) = g w)"

lemma io_keeps_execute: "frame_field g \<Longrightarrow> io_keeps g (executeWithRetry rg env dto)"
  unfolding executeWithRetry_def frame_field_def
  by (auto intro!: io_keeps_bind io_keeps_throw io_keeps_forTarget io_keeps_retry io_keeps_on_ext io_keeps_if
      io_keeps_return io_keeps_seq io_keeps_metrics split: option.split)

lemma frame_fields:
  "frame_field w_dlq" "frame_field w_idem" "frame_field w_redis" "frame_field w_kafka"
  "frame_field w_targets" "frame_field w_audit" "frame_field w_nextId"
  by (simp_all add: frame_field_def)

lemma execute_dlq: "executeWithRetry rg env dto w = (r, w') \<Longrightarrow> w_dlq w' = w_dlq w"
  using io_keepsD [OF io_keeps_execute [OF frame_fields(1)]] .

section \<open>Outcomes\<close>

text \<open>The value of a retry is the value of one call, and nothing runs after that call.\<close>

lemma retry_loop_success:
  "retry_loop rt opts fn attempt e w = (Inr x, w') \<Longrightarrow> \<exists>w1. fn w1 = (Inr x, w')"
proof (induction rt opts fn attempt e w rule: retry_loop.induct)
  case (1 rt opts fn attempt lastError s)
  obtain r s' where fn: "fn s = (r, s')" by fastforce
  show ?case
  proof (cases "attempt \<le> maxRetries opts \<and> isl r \<and> attempt \<noteq> maxRetries opts")
    case True
    then obtain err where err: "r = Inl err" by (cases r) auto
    obtain d s2 where d: "calculateDelay rt attempt opts s' = (d, s2)" by fastforce
    from 1(2) True fn err d have "retry_loop rt opts fn (attempt + 1) (Some err) (rt_sleep rt d s2) = (Inr x, w')"
      by (subst (asm) retry_loop.simps) simp
    with 1(1) [OF _ fn [symmetric] err _ d [symmetric]] True show ?thesis by simp
  next
    case False
    with 1(2) fn show ?thesis
      by (subst (asm) retry_loop.simps) (auto split: sum.splits if_splits)
  qed
qed

lemma execute_success:
  assumes "executeWithRetry rg env dto w = (Inr (), w')"
  shows "\<exists>c x result. registry_get rg (pr_targetSystem dto) = Some c \<and>
    c_execute c (to_conn_payload dto) x = (Inr result, w_ext w') \<and> r_success result"
proof -
  from assms obtain c where c: "registry_get rg (pr_targetSystem dto) = Some c"
    by (cases "registry_get rg (pr_targetSystem dto)") (auto simp: executeWithRetry_def io_simps)
  with assms obtain p :: target_policy and w1 result w2 where run: "retry_execute world_runtime
      (on_ext (c_execute c (to_conn_payload dto))) (tp_options p) w1 = (Inr result, w2)"
    and res: "r_success result" "w' = w2"
    by (auto simp: executeWithRetry_def io_simps metrics_io_def split: prod.splits sum.splits if_splits)
  from retry_loop_success [OF run [unfolded retry_execute_def]] obtain w3
    where "on_ext (c_execute c (to_conn_payload dto)) w3 = (Inr result, w2)" by blast
  then have "c_execute c (to_conn_payload dto) (w_ext w3) = (Inr result, w_ext w2)"
    by (auto simp: on_ext_def split: prod.splits)
  with c res show ?thesis by blast
qed

lemma recordEvent_run: "recordEvent_io s ts w = (Inr (), w\<lparr>w_metrics := recordEvent (w_now w) s ts (w_metrics w)\<rparr>)"
  by (simp add: recordEvent_io_def io_simps)

text \<open>
  An event that is reported as processed was accepted by its connector: the registry resolves
  its target system, one call of that connector with the event's operation and payload returned
  success, nothing was done to the external systems after that call, and the queue is unchanged.
\<close>

theorem process_success:
  assumes "processing_process rg env dto w = (Inr (), w')"
  shows "(\<exists>c x result. registry_get rg (pr_targetSystem dto) = Some c \<and>
      c_execute c (to_conn_payload dto) x = (Inr result, w_ext w') \<and> r_success result) \<and>
    w_dlq w' = w_dlq w"
proof -
  from assms obtain w1 where run: "executeWithRetry rg env dto w = (Inr (), w1)" "w_ext w' = w_ext w1"
    "w_dlq w' = w_dlq w1"
    by (auto simp: processing_process_def io_simps recordEvent_run Let_def split: prod.splits sum.splits)
  from execute_success [OF run(1)] execute_dlq [OF run(1)] run(2,3) show ?thesis by simp
qed

text \<open>A registry with one connector, and an event for it.\<close>

definition demo_registry :: "'e connector \<Rightarrow> 'e registry" where
  "demo_registry c = \<lparr>rg_static = [], rg_connectors = [(''z'', c)], rg_lastVersion = None\<rparr>"

definition demo_event :: "string \<Rightarrow> processing_payload" where
  "demo_event op = \<lparr>pr_eventId = ''e1'', pr_operation = op, pr_targetSystem = ''z'', pr_payload = []\<rparr>"

definition failing_connector :: "'e connector" where
  "failing_connector = (echo_connector ''z'')\<lparr>c_execute := (\<lambda>p. io_return (result_fail ''refused''))\<rparr>"

lemmas demo_process_simps =
  processing_process_def executeWithRetry_def io_simps demo_registry_def demo_event_def registry_get_def
  forTarget_def find_target_def init_world_def spread_policy_def normalizePolicy_def
  DEFAULT_RETRY_POLICY_def or_default_def obj_get_def as_record_def retry_execute_def retry_loop.simps on_ext_def
  echo_connector_def failing_connector_def result_ok_def result_fail_def recordEvent_run metrics_io_def connector_error_def
  Let_def to_conn_payload_def

theorem process_success_witness:
  "\<exists>w'. processing_process (demo_registry (echo_connector ''z'')) demo_env (demo_event ''user.create'') (init_world 0 ()) =
     (Inr (), w') \<and> w_dlq w' = []"
proof -
  obtain w' where run: "processing_process (demo_registry (echo_connector ''z'')) demo_env (demo_event ''user.create'')
      (init_world 0 ()) = (Inr (), w')"
    by (simp add: demo_process_simps)
  from process_success [OF run] run show ?thesis by (simp add: init_world_def)
qed

lemma dlq_add_success:
  assumes "dlq_add env item w = (Inr (), w')"
  shows "\<exists>d. w_dlq w' = w_dlq w @ [d] \<and> d_status d = ''pending'' \<and> d_eventId d = q_eventId item \<and>
    d_operation d = q_operation item \<and> d_targetSystem d = q_targetSystem item \<and> d_error d = q_error item \<and>
    (\<exists>n. en_toJson env n (Obj (q_payload item)) = Inr (d_payload d)) \<and>
    d_retryCount d = (case q_retryCount item of Some n \<Rightarrow> n | None \<Rightarrow> 0)"
proof -
  from assms obtain p where p: "en_toJson env (w_nextId w) (Obj (q_payload item)) = Inr p"
    by (cases "en_toJson env (w_nextId w) (Obj (q_payload item))") (auto simp: dlq_add_def toJson_io_def io_simps)
  let ?w = "w\<lparr>w_nextId := Suc (w_nextId w)\<rparr>"
  from assms p have *: "(case db_call (dlq_create item p) ?w of
      (Inl e, s') \<Rightarrow> (Inl e, s') | (Inr _, s') \<Rightarrow> updateMetrics s') = (Inr (), w')"
    by (simp add: dlq_add_def toJson_io_def io_simps)
  show ?thesis
  proof (cases rule: db_call_cases [of "dlq_create item p" ?w])
    case (ok fs)
    with * obtain w1 where "updateMetrics w1 = (Inr (), w')"
      "w1 = snd (dlq_create item p (?w\<lparr>w_faults := fs\<rparr>))"
      by (auto simp: dlq_create_def io_simps)
    from updateMetrics_run [OF this(1)] this(2) p show ?thesis
      by (auto simp: dlq_create_def io_simps fresh_id_def)
  next
    case (fault e fs)
    with * show ?thesis by simp
  qed
qed

lemma add_to_dlq_success:
  assumes "add_to_dlq env dto msg w = (Inr (), w')"
  shows "\<exists>d n. w_dlq w' = w_dlq w @ [d] \<and> d_status d = ''pending'' \<and> d_eventId d = pr_eventId dto \<and>
    d_operation d = pr_operation dto \<and> d_targetSystem d = pr_targetSystem dto \<and> d_error d = msg \<and>
    en_toJson env n (Obj (pr_payload dto)) = Inr (d_payload d)"
proof -
  from assms obtain p and w1 where "forTarget env (pr_targetSystem dto) w = (Inr p, w1)"
    "dlq_add env \<lparr>q_eventId = pr_eventId dto, q_operation = pr_operation dto,
         q_targetSystem = pr_targetSystem dto, q_payload = pr_payload dto, q_error = msg,
         q_retryCount = Some (maxRetries (tp_options p))\<rparr> w1 = (Inr (), w')"
    by (auto simp: add_to_dlq_def io_simps split: prod.splits sum.splits)
  with forTarget_frame [OF this(1)] dlq_add_success [OF this(2)] show ?thesis by auto
qed

text \<open>
  C5: an event whose processing fails is reported as durably accepted only when it is in the queue:
  every error of \<open>process\<close> is a \<open>ProcessingFailureError\<close>, and when its flag is set the queue has grown by
  exactly one pending item that holds the event's identifier, operation, target system, payload (as
  stored by the JSON helper) and the message of the failure.
\<close>

theorem process_failure_durable:
  assumes "processing_process rg env dto w = (Inl e, w')"
  shows "\<exists>msg durable cause. e = ProcessingFailureError msg durable cause \<and>
    (durable \<longrightarrow> (\<exists>d n. w_dlq w' = w_dlq w @ [d] \<and> d_status d = ''pending'' \<and> d_eventId d = pr_eventId dto \<and>
      d_operation d = pr_operation dto \<and> d_targetSystem d = pr_targetSystem dto \<and> d_error d = exn_message cause \<and>
      en_toJson env n (Obj (pr_payload dto)) = Inr (d_payload d)))"
proof -
  from assms obtain err w1 where run: "executeWithRetry rg env dto w = (Inl err, w1)"
    by (auto simp: processing_process_def io_simps recordEvent_run Let_def split: prod.splits sum.splits)
  let ?w2 = "w1\<lparr>w_metrics := recordEvent (w_now w1) ''failed'' (pr_targetSystem dto) (w_metrics w1)\<rparr>"
  obtain r w3 where add: "add_to_dlq env dto (exn_message err) ?w2 = (r, w3)" by fastforce
  show ?thesis
  proof (cases r)
    case (Inl dlqError)
    with assms run add show ?thesis
      by (auto simp: processing_process_def io_simps recordEvent_run Let_def)
  next
    case (Inr u)
    from assms run add Inr have "e = ProcessingFailureError (exn_message err) True err" "w' = w3"
      by (auto simp: processing_process_def io_simps recordEvent_run Let_def)
    with add_to_dlq_success [of env dto "exn_message err" ?w2 w3] add Inr execute_dlq [OF run]
    show ?thesis by auto
  qed
qed

theorem process_failure_durable_witness:
  "\<exists>w' d. processing_process (demo_registry failing_connector) demo_env (demo_event ''user.create'') (init_world 0 ()) =
     (Inl (ProcessingFailureError ''refused'' True (Error ''refused'')), w') \<and>
     w_dlq w' = [d] \<and> d_eventId d = ''e1'' \<and> d_payload d = Obj []"
proof -
  obtain w' where run: "processing_process (demo_registry failing_connector) demo_env (demo_event ''user.create'')
      (init_world 0 ()) = (Inl (ProcessingFailureError ''refused'' True (Error ''refused'')), w')"
    by (simp add: demo_process_simps add_to_dlq_def dlq_add_def toJson_io_def demo_env_def dlq_create_def fresh_id_def
        updateMetrics_def dlq_statuses_def)
  from process_failure_durable [OF run] obtain d n where "w_dlq w' = [d]" "d_eventId d = ''e1''"
    "en_toJson demo_env n (Obj []) = Inr (d_payload d)"
    by (auto simp: init_world_def demo_event_def)
  with run show ?thesis by (auto simp: demo_env_def)
qed

section \<open>With the database answering\<close>

lemma find_target_answering [io_invs]: "io_inv answering (find_target name)"
  unfolding find_target_def by (intro io_invs)

lemma forTarget_answering [io_invs]: "io_inv answering (forTarget env ts)"
  unfolding forTarget_def by (auto intro!: io_invs split: option.split)

lemma world_field_answering:
  "(\<And>w. w_faults (f w) = w_faults w) \<Longrightarrow> io_inv answering (io_modify f)"
  by (simp add: io_inv_def io_simps answering_def)

lemma updateMetrics_answering [io_invs]: "io_inv answering updateMetrics"
  unfolding updateMetrics_def metrics_io_def by (intro io_invs world_field_answering) simp

lemma execute_answering [io_invs]: "io_inv answering (executeWithRetry rg env dto)"
proof -
  have ext: "io_inv answering (on_ext m)" for m
    by (auto simp: io_inv_def on_ext_def answering_def split: prod.splits)
  have "io_inv answering (retry_execute world_runtime (on_ext m) opts)" for m opts
    using io_keeps_inv [OF io_keeps_retry [OF io_keeps_on_ext, of w_faults], of "\<lambda>f. f = []"]
    by (simp add: answering_def [abs_def])
  then show ?thesis
    unfolding executeWithRetry_def metrics_io_def
    by (auto intro!: io_invs world_field_answering split: option.split)
qed

text \<open>The outcome of a settling operation on an item that is there.\<close>

lemma settle_found:
  assumes "answering w" "find_dlq i (w_dlq w) = Some d" "\<And>d. d_id (f d) = d_id d"
    and "io_seq (db_call (update_item i f)) updateMetrics w = (r, w')"
  shows "r = Inr () \<and> find_dlq i (w_dlq w') = Some (f d) \<and> gauges_exact w'"
proof -
  let ?u = "w\<lparr>w_dlq := update_rows (\<lambda>d. d_id d = i) f (w_dlq w)\<rparr>"
  from assms have "updateMetrics ?u = (r, w')" by (simp add: io_simps update_item_def answering_def)
  from gauges_after_update [OF _ this] assms(1-3) find_dlq_id [OF assms(2)] show ?thesis
    by (simp add: answering_def find_dlq_update)
qed

text \<open>
  A retry of a queued item settles it: with the database answering, it either succeeds and the
  item is resolved, or it fails and the item is pending again with the message of the failure; in
  both cases the item is unlocked and the gauges agree with the table.
\<close>

theorem retry_settles_item:
  assumes "answering w" "find_dlq i (w_dlq w) = Some d" "processRetry rg env dto i w = (r, w')"
  shows "gauges_exact w' \<and>
    (case r of
       Inr _ \<Rightarrow> find_dlq i (w_dlq w') = Some (settle_item ''resolved'' d)
     | Inl e \<Rightarrow> find_dlq i (w_dlq w') = Some (fail_item (exn_message e) d))"
proof -
  obtain r1 w1 where run: "executeWithRetry rg env dto w = (r1, w1)" by fastforce
  have w1: "answering w1" "find_dlq i (w_dlq w1) = Some d"
    using io_invD [OF execute_answering assms(1) run] assms(2) execute_dlq [OF run] by simp_all
  let ?m = "\<lambda>s. w1\<lparr>w_metrics := recordEvent (w_now w1) s (pr_targetSystem dto) (w_metrics w1)\<rparr>"
  have m: "answering (?m s)" "find_dlq i (w_dlq (?m s)) = Some d" for s
    using w1 by (simp_all add: answering_def)
  show ?thesis
  proof (cases r1)
    case (Inr u)
    obtain r2 w2 where res: "dlq_resolve i (?m ''success'') = (r2, w2)" by fastforce
    from settle_found [OF m _ res [unfolded dlq_resolve_def]] assms(3) run Inr res show ?thesis
      by (auto simp: processRetry_def io_simps recordEvent_run)
  next
    case (Inl e)
    obtain r2 w2 where res: "markRetryFailed i (exn_message e) (?m ''failed'') = (r2, w2)" by fastforce
    from settle_found [OF m _ res [unfolded markRetryFailed_def]] assms(3) run Inl res show ?thesis
      by (auto simp: processRetry_def io_simps recordEvent_run)
  qed
qed

theorem retry_settles_item_witness:
  "\<exists>w' d. processRetry (demo_registry failing_connector) demo_env (demo_event ''user.create'') ''0''
       (demo_queue 5 (demo_item ''retrying'' (Some 1))) = (Inl (Error ''refused''), w') \<and>
     find_dlq ''0'' (w_dlq w') = Some d \<and> d_status d = ''pending'' \<and> d_error d = ''refused'' \<and> d_lockedAt d = None"
proof -
  let ?w = "demo_queue 5 (demo_item ''retrying'' (Some 1))"
  have f: "answering ?w" "find_dlq ''0'' (w_dlq ?w) = Some (demo_item ''retrying'' (Some 1))"
    by (simp_all add: answering_def demo_queue_def init_world_def find_dlq_def demo_item_def)
  obtain w' where run: "processRetry (demo_registry failing_connector) demo_env (demo_event ''user.create'') ''0'' ?w =
      (Inl (Error ''refused''), w')"
    by (simp add: demo_process_simps processRetry_def demo_env_def updateMetrics_def dlq_statuses_def demo_queue_def
        demo_item_def markRetryFailed_def update_item_def find_dlq_def update_rows_def)
  from retry_settles_item [OF f run] run show ?thesis
    by (auto simp: fail_item_def settle_item_def)
qed

text \<open>
  A read never queues anything and never retries: the queue, the idempotency keys, the message
  broker and the target systems are untouched, and a result is returned only when the connector
  reported success or answered through its own \<open>getSchema\<close> or \<open>sync\<close>.
\<close>

theorem read_has_no_side_effects:
  assumes "processWithResult rg env dto w = (r, w')"
  shows "w_dlq w' = w_dlq w \<and> w_idem w' = w_idem w \<and> w_redis w' = w_redis w \<and> w_kafka w' = w_kafka w \<and>
    w_targets w' = w_targets w \<and> w_now w' = w_now w \<and>
    (\<forall>result. r = Inr result \<longrightarrow> (\<exists>c native. registry_get rg (pr_targetSystem dto) = Some c \<and>
       read_call c dto (w_ext w) = (Inr (result, native), w_ext w') \<and> (native \<or> r_success result)))"
proof (cases "registry_get rg (pr_targetSystem dto)")
  case None
  with assms show ?thesis by (auto simp: processWithResult_def io_simps)
next
  case (Some c)
  obtain r1 x where call: "read_call c dto (w_ext w) = (r1, x)" by fastforce
  with Some assms show ?thesis
    by (cases r1) (auto simp: processWithResult_def io_simps on_ext_def recordEvent_run metrics_io_def split: if_splits)
qed

theorem read_has_no_side_effects_witness:
  "\<exists>w'. processWithResult (demo_registry (echo_connector ''z'')) demo_env (demo_event ''user.get'') (init_world 0 ()) =
     (Inr (result_ok (Obj [])), w') \<and> w_dlq w' = []"
proof -
  obtain w' where run: "processWithResult (demo_registry (echo_connector ''z'')) demo_env (demo_event ''user.get'')
      (init_world 0 ()) = (Inr (result_ok (Obj [])), w')"
    by (simp add: processWithResult_def demo_process_simps read_call_def)
  from read_has_no_side_effects [OF run] run show ?thesis by (simp add: init_world_def)
qed

end
