(* ===== verification/Kafka_Messaging.thy ===== *)
theory Kafka_Messaging
  imports Processing
begin

text \<open>
  \<^verbatim>\<open>src/kafka/kafka-producer.service.ts\<close> and \<^verbatim>\<open>src/kafka/kafka-consumer.service.ts\<close>: messages to the broker
  and the worker that processes them. The broker keeps the messages in the order they were sent.
\<close>

section \<open>Producer\<close>

definition kafka_enabled :: "env \<Rightarrow> bool" where
  "kafka_enabled env = cfg_bool (en_cfg env) ''KAFKA_ENABLED''"

definition encode_io :: "env \<Rightarrow> obj \<Rightarrow> ('e world, string) io" where
  "encode_io env m = (\<lambda>w. (en_encodeKafka env (w_nextId w) m, w\<lparr>w_nextId := Suc (w_nextId w)\<rparr>))"

definition kafka_send :: "env \<Rightarrow> string \<Rightarrow> obj \<Rightarrow> ('e world, unit) io" where
  "kafka_send env topic message =
     (if \<not> en_producer env then
        (if kafka_enabled env then io_throw (Error ''Kafka producer is enabled but not available'')
         else io_return ())
      else io_bind (encode_io env message) (\<lambda>value.
        db_call (io_modify (\<lambda>w. w\<lparr>w_kafka := w_kafka w @ [(topic, value)]\<rparr>))))"

section \<open>Topics\<close>

definition eventsInTopic :: "env \<Rightarrow> string" where
  "eventsInTopic env = cfg_str (en_cfg env) ''KAFKA_TOPIC_EVENTS_IN'' ''idm.events.in''"

definition eventsOutTopic :: "env \<Rightarrow> string" where
  "eventsOutTopic env = cfg_str (en_cfg env) ''KAFKA_TOPIC_EVENTS_OUT'' ''idm.events.out''"

definition retryTopic :: "env \<Rightarrow> string" where
  "retryTopic env = cfg_str (en_cfg env) ''KAFKA_TOPIC_DLQ_RETRY'' ''idm.dlq.retry''"

definition processingMode :: "env \<Rightarrow> string" where
  "processingMode env = cfg_str (en_cfg env) ''IDMMW_PROCESSING_MODE'' ''sync''"

text \<open>The topics a worker subscribes to.\<close>

definition subscribed_topics :: "env \<Rightarrow> string list" where
  "subscribed_topics env =
     (if \<not> kafka_enabled env then []
      else retryTopic env # (if processingMode env = ''async'' then [eventsInTopic env] else []))"

section \<open>Messages\<close>

definition event_fields :: "processing_payload \<Rightarrow> obj" where
  "event_fields dto = [(''eventId'', Str (pr_eventId dto)), (''operation'', Str (pr_operation dto)),
     (''targetSystem'', Str (pr_targetSystem dto))]"

definition event_message :: "processing_payload \<Rightarrow> obj" where
  "event_message dto = event_fields dto @ [(''payload'', Obj (pr_payload dto))]"

definition retry_message :: "string \<Rightarrow> processing_payload \<Rightarrow> obj" where
  "retry_message dlqItemId dto = (''dlqItemId'', Str dlqItemId) # event_message dto"

text \<open>
  \<open>const { dlqItemId, ...payload } = messageValue\<close>. A message whose fields do not have the types of
  \<open>ProcessingPayload\<close> (this program sends none) is taken as undecodable.
\<close>

definition event_of_message :: "js \<Rightarrow> (processing_payload \<times> string option) option" where
  "event_of_message v =
     (case (js_prop v ''eventId'', js_prop v ''operation'', js_prop v ''targetSystem'', js_prop v ''payload'') of
        (Str e, Str op, Str ts, Obj p) \<Rightarrow>
          (let dto = \<lparr>pr_eventId = e, pr_operation = op, pr_targetSystem = ts, pr_payload = p\<rparr> in
           case js_prop v ''dlqItemId'' of
             Str i \<Rightarrow> Some (dto, if i = [] then None else Some i)
           | Undef \<Rightarrow> Some (dto, None)
           | Null \<Rightarrow> Some (dto, None)
           | _ \<Rightarrow> None)
      | _ \<Rightarrow> None)"

definition decode_message :: "env \<Rightarrow> string option \<Rightarrow> exn + (processing_payload \<times> string option)" where
  "decode_message env value =
     (case en_decodeKafka env (case value of None \<Rightarrow> ''{}'' | Some raw \<Rightarrow> raw) of
        Inl e \<Rightarrow> Inl e
      | Inr v \<Rightarrow> (case event_of_message v of
            None \<Rightarrow> Inl (Error ''malformed message'')
          | Some x \<Rightarrow> Inr x))"

section \<open>Consumer\<close>

definition worker_execute ::
  "'e registry \<Rightarrow> env \<Rightarrow> processing_payload \<times> string option \<Rightarrow> ('e world, unit) io" where
  "worker_execute rg env m =
     (case snd m of
        Some dlqItemId \<Rightarrow> processRetry rg env (fst m) dlqItemId
      | None \<Rightarrow> processing_process rg env (fst m))"

definition eachMessage :: "'e registry \<Rightarrow> env \<Rightarrow> string \<Rightarrow> string option \<Rightarrow> ('e world, unit) io" where
  "eachMessage rg env topic value =
     io_catch
       (io_bind (io_of_sum (decode_message env value)) (\<lambda>m.
          io_seq (worker_execute rg env m)
            (kafka_send env (eventsOutTopic env)
               (event_fields (fst m) @ [(''status'', Str ''success''), (''sourceTopic'', Str topic)]))))
       (\<lambda>error. io_catch
          (kafka_send env (eventsOutTopic env)
             [(''status'', Str ''failed''), (''sourceTopic'', Str topic), (''error'', Str (exn_message error))])
          (\<lambda>_. io_return ()))"

section \<open>Round trip of an event\<close>

lemma event_of_event_message:
  "event_of_message (Obj (event_message dto)) = Some (dto, None)"
  by (simp add: event_of_message_def event_message_def event_fields_def js_prop_def obj_get_def)

lemma event_of_retry_message:
  "i \<noteq> [] \<Longrightarrow> event_of_message (Obj (retry_message i dto)) = Some (dto, Some i)"
  by (simp add: event_of_message_def retry_message_def event_message_def event_fields_def js_prop_def obj_get_def)

text \<open>
  What the program sends a worker executes as it was sent: for a codec that decodes what it
  encoded, an event sent to the input topic is decoded to the same event, for \<open>process\<close>, and a retry
  sent to the retry topic to the same event with the same queue item, for \<open>processRetry\<close>.
\<close>

theorem message_round_trip:
  assumes "en_encodeKafka env n (event_message dto) = Inr s1" "en_decodeKafka env s1 = Inr (Obj (event_message dto))"
    and "en_encodeKafka env m (retry_message i dto) = Inr s2" "en_decodeKafka env s2 = Inr (Obj (retry_message i dto))"
    and "i \<noteq> []"
  shows "decode_message env (Some s1) = Inr (dto, None) \<and> decode_message env (Some s2) = Inr (dto, Some i) \<and>
    worker_execute rg env (dto, None) = processing_process rg env dto \<and>
    worker_execute rg env (dto, Some i) = processRetry rg env dto i"
  using assms by (simp add: decode_message_def event_of_event_message event_of_retry_message worker_execute_def)

text \<open>The plain JSON codec decodes what it encodes.\<close>

lemma demo_decode: "json_ok (Obj ob) \<Longrightarrow> en_decodeKafka demo_env (json_text (Obj ob)) = Inr (Obj ob)"
  by (simp add: demo_env_def json_round_trip del: json_text.simps json_ok.simps)

theorem message_round_trip_witness:
  "decode_message demo_env (Some (json_text (Obj (event_message (demo_event ''user.create''))))) =
     Inr (demo_event ''user.create'', None)"
proof -
  let ?e = "demo_event ''user.create''"
  have ok: "json_ok (Obj (event_message ?e))" "json_ok (Obj (retry_message ''7'' ?e))"
    by (simp_all add: retry_message_def event_message_def event_fields_def demo_event_def)
  have enc: "en_encodeKafka demo_env 0 ob = Inr (json_text (Obj ob))" for ob
    by (simp add: demo_env_def)
  show ?thesis
    by (rule message_round_trip [OF enc demo_decode [OF ok(1)] enc demo_decode [OF ok(2)], THEN conjunct1]) simp
qed

section \<open>A worker never fails\<close>



end
