(* ===== verification/Webhook.thy ===== *)
theory Webhook
  imports Kafka_Messaging Idempotency
begin

text \<open>
  \<^verbatim>\<open>src/outbound/dispatcher.service.ts\<close>, \<^verbatim>\<open>src/inbound/webhooks/webhook.service.ts\<close> and the validation and
  the handler of \<^verbatim>\<open>src/inbound/webhooks/webhook.controller.ts\<close>: from the request of the identity
  management system to the processing of the event.
\<close>

section \<open>Dispatcher\<close>

definition status_message :: "processing_payload \<Rightarrow> string \<Rightarrow> obj" where
  "status_message dto status = event_fields dto @ [(''status'', Str status)]"

text \<open>\<open>if (kafkaEnabled) await kafkaProducer.send(eventsOutTopic, \<dots>)\<close>.\<close>

definition publish_status :: "env \<Rightarrow> processing_payload \<Rightarrow> string \<Rightarrow> obj \<Rightarrow> ('e world, unit) io" where
  "publish_status env dto status extra =
     (if kafka_enabled env then kafka_send env (eventsOutTopic env) (status_message dto status @ extra)
      else io_return ())"

definition dispatch :: "'e registry \<Rightarrow> env \<Rightarrow> processing_payload \<Rightarrow> ('e world, unit) io" where
  "dispatch rg env dto =
     (if processingMode env = ''async'' then
        (if \<not> kafka_enabled env then io_throw (Error ''Async processing mode requires KAFKA_ENABLED=true'')
         else kafka_send env (eventsInTopic env) (event_message dto))
      else
        io_catch
          (io_seq (processing_process rg env dto) (publish_status env dto ''success'' []))
          (\<lambda>error. io_seq (publish_status env dto ''failed'' [(''error'', Str (exn_message error))])
            (io_throw error)))"

section \<open>Webhook service\<close>

record process_result =
  wr_processed :: bool
  wr_data :: js

definition idempotencyKey :: "processing_payload \<Rightarrow> string" where
  "idempotencyKey dto = ''avanpost:'' @ pr_targetSystem dto @ '':'' @ pr_eventId dto"

definition processWebhook ::
  "'e world store \<Rightarrow> (string \<Rightarrow> exn + string list) \<Rightarrow> 'e registry \<Rightarrow> env \<Rightarrow> processing_payload \<Rightarrow> bool
     \<Rightarrow> ('e world, process_result) io" where
  "processWebhook st keys_of rg env dto isRead =
     io_bind (checkAndLock st keys_of (idempotencyKey dto) 3600) (\<lambda>isNew.
     if \<not> isNew then io_return \<lparr>wr_processed = False, wr_data = Undef\<rparr>
     else io_catch
       (if isRead
        then io_bind (processWithResult rg env dto) (\<lambda>result.
               io_return \<lparr>wr_processed = r_success result, wr_data = r_data result\<rparr>)
        else io_seq (dispatch rg env dto) (io_return \<lparr>wr_processed = True, wr_data = Undef\<rparr>))
       (\<lambda>error. io_seq
          (if isDurablyAcceptedError error then io_return ()
           else idem_release st keys_of (idempotencyKey dto))
          (io_throw error)))"

section \<open>Controller\<close>

definition isRecord :: "js \<Rightarrow> bool" where
  "isRecord v = is_record v"

text \<open>\<open>AvanpostPayloadShapeConstraint.validate\<close>.\<close>

definition payload_shape_ok :: "js \<Rightarrow> bool" where
  "payload_shape_ok v \<longleftrightarrow> isRecord v \<and>
     list_all (\<lambda>key. js_prop v key = Undef \<or> isRecord (js_prop v key)) [''data'', ''params'', ''metadata'']"

definition not_blank :: "string \<Rightarrow> bool" where
  "not_blank s \<longleftrightarrow> \<not> list_all is_space s"

text \<open>The validation pipe over the decorators of \<open>AvanpostWebhookDto\<close>; other properties are dropped.\<close>

definition validate_dto :: "js \<Rightarrow> exn + processing_payload" where
  "validate_dto body =
     (case (js_prop body ''eventId'', js_prop body ''operation'', js_prop body ''targetSystem'', js_prop body ''payload'') of
        (Str e, Str op, Str ts, Obj p) \<Rightarrow>
          if not_blank e \<and> op \<in> set AVANPOST_OPERATION_VALUES \<and> not_blank ts \<and> payload_shape_ok (Obj p)
          then Inr \<lparr>pr_eventId = e, pr_operation = op, pr_targetSystem = ts, pr_payload = p\<rparr>
          else Inl (BadRequestException ''Bad Request Exception'')
      | _ \<Rightarrow> Inl (BadRequestException ''Bad Request Exception''))"

definition webhook_response :: "process_result \<Rightarrow> obj" where
  "webhook_response result =
     [(''received'', Bool True), (''processed'', Bool (wr_processed result))]
     @ (if wr_data result \<noteq> Undef then [(''data'', wr_data result)] else [])"

definition receiveWebhook ::
  "'e world store \<Rightarrow> (string \<Rightarrow> exn + string list) \<Rightarrow> 'e registry \<Rightarrow> env \<Rightarrow> js \<Rightarrow> ('e world, obj) io" where
  "receiveWebhook st keys_of rg env body =
     io_bind (io_of_sum (validate_dto body)) (\<lambda>dto.
     io_bind (processWebhook st keys_of rg env dto (isReadOperation (pr_operation dto))) (\<lambda>result.
     io_return (webhook_response result)))"

section \<open>Validation\<close>

lemma validate_dto_sound:
  "validate_dto body = Inr dto \<Longrightarrow>
     not_blank (pr_eventId dto) \<and> pr_operation dto \<in> set AVANPOST_OPERATION_VALUES \<and> not_blank (pr_targetSystem dto) \<and>
     payload_shape_ok (Obj (pr_payload dto)) \<and> js_prop body ''payload'' = Obj (pr_payload dto)"
  by (auto simp: validate_dto_def split: js.splits if_splits)

section \<open>What reaches the connectors\<close>

lemma kafka_send_frame:
  assumes "kafka_send env topic m w = (r, w')"
  shows "w_dlq w' = w_dlq w \<and> w_ext w' = w_ext w \<and> w_idem w' = w_idem w \<and> w_redis w' = w_redis w \<and> w_now w' = w_now w"
proof -
  have keeps: "io_keeps g (kafka_send env topic m)"
    if "\<And>w x. g (w\<lparr>w_nextId := x\<rparr>) = g w" "\<And>w x. g (w\<lparr>w_faults := x\<rparr>) = g w" "\<And>w x. g (w\<lparr>w_kafka := x\<rparr>) = g w" for g :: "'a world \<Rightarrow> 'b"
    unfolding kafka_send_def encode_io_def
    using that by (auto intro!: io_frames io_keeps_modify) (simp_all add: io_keeps_def)
  show ?thesis
    using io_keepsD [OF keeps assms, of w_dlq] io_keepsD [OF keeps assms, of w_ext] io_keepsD [OF keeps assms, of w_idem]
      io_keepsD [OF keeps assms, of w_redis] io_keepsD [OF keeps assms, of w_now] by simp
qed

text \<open>A dispatched event in synchronous mode: processed, or failed.\<close>

lemma publish_status_frame:
  assumes "publish_status env dto status extra w = (r, w')"
  shows "w_dlq w' = w_dlq w \<and> w_ext w' = w_ext w"
  using assms by (auto simp: publish_status_def io_simps split: if_splits dest: kafka_send_frame)

lemma dispatch_sync_success:
  assumes "dispatch rg env dto w = (Inr (), w')" "processingMode env \<noteq> ''async''"
  shows "\<exists>w1. processing_process rg env dto w = (Inr (), w1) \<and> w_ext w' = w_ext w1"
proof -
  from assms obtain w1 where p: "processing_process rg env dto w = (Inr (), w1)"
    by (auto simp: dispatch_def io_simps split: prod.splits sum.splits)
  obtain r2 w2 where k: "publish_status env dto ''success'' [] w1 = (r2, w2)" by fastforce
  with assms p publish_status_frame [OF k] show ?thesis
    by (cases r2) (auto simp: dispatch_def io_simps split: prod.splits sum.splits)
qed

text \<open>
  An event is reported as processed only after its connector accepted it (synchronous mode) or
  the broker took it (asynchronous mode).
\<close>

theorem webhook_processed:
  assumes "processWebhook st keys_of rg env dto False w = (Inr res, w')" "wr_processed res"
  shows "(processingMode env \<noteq> ''async'' \<and>
      (\<exists>c x result. registry_get rg (pr_targetSystem dto) = Some c \<and>
         c_execute c (to_conn_payload dto) x = (Inr result, w_ext w') \<and> r_success result)) \<or>
    (processingMode env = ''async'' \<and> kafka_enabled env \<and> (en_producer env \<longrightarrow>
      (\<exists>n s. en_encodeKafka env n (event_message dto) = Inr s \<and> last (w_kafka w') = (eventsInTopic env, s))))"
proof -
  from assms obtain w0 where d: "dispatch rg env dto w0 = (Inr (), w')"
    by (auto simp: processWebhook_def io_simps split: prod.splits sum.splits if_splits)
  show ?thesis
  proof (cases "processingMode env = ''async''")
    case False
    from dispatch_sync_success [OF d False] obtain w1 where "processing_process rg env dto w0 = (Inr (), w1)"
      "w_ext w' = w_ext w1" by blast
    with process_success [OF this(1)] False show ?thesis by auto
  next
    case True
    with d show ?thesis
      by (auto simp: dispatch_def io_simps kafka_send_def encode_io_def db_call_def
          split: if_splits prod.splits sum.splits list.splits option.splits)
  qed
qed

theorem webhook_processed_witness:
  "\<exists>w'. processWebhook pg_store plain_keys (demo_registry (echo_connector ''z'')) demo_env (demo_event ''user.create'') False
      (init_world 0 ()) = (Inr \<lparr>wr_processed = True, wr_data = Undef\<rparr>, w') \<and>
    (\<exists>(c :: unit connector) x result. c_execute c (to_conn_payload (demo_event ''user.create'')) x = (Inr result, w_ext w') \<and> r_success result)"
proof -
  obtain w' where run: "processWebhook pg_store plain_keys (demo_registry (echo_connector ''z'')) demo_env
      (demo_event ''user.create'') False (init_world 0 ()) = (Inr \<lparr>wr_processed = True, wr_data = Undef\<rparr>, w')"
    by (simp add: processWebhook_def checkAndLock_def plain_keys_def pg_store_def pg_setIfNotExists_def
        transaction_idem_def find_key_def upsert_key_def dispatch_def publish_status_def processingMode_def cfg_str_def demo_env_def
        kafka_enabled_def cfg_bool_def demo_process_simps)
  from webhook_processed [OF run] run show ?thesis
    by (auto simp: processingMode_def cfg_str_def demo_env_def)
qed

section \<open>No event is lost\<close>

text \<open>Only \<open>ProcessingService\<close> makes durable errors: the message codec does not.\<close>

definition encode_errors_plain :: "env \<Rightarrow> bool" where
  "encode_errors_plain env \<longleftrightarrow>
     (\<forall>n m e. en_encodeKafka env n m = Inl e \<longrightarrow> \<not> isDurablyAcceptedError e)"

lemma kafka_error_not_durable:
  assumes "kafka_send env topic m w = (Inl e, w')" "encode_errors_plain env"
  shows "\<not> isDurablyAcceptedError e"
  using assms
  by (auto simp: encode_errors_plain_def kafka_send_def encode_io_def io_simps isDurablyAcceptedError_def db_call_def
      split: if_splits sum.splits list.splits option.splits)

lemma publish_error_not_durable:
  assumes "publish_status env dto status extra w = (Inl e, w')" "encode_errors_plain env"
  shows "\<not> isDurablyAcceptedError e"
  using assms by (auto simp: publish_status_def io_simps split: if_splits dest: kafka_error_not_durable)

lemma rethrow_after_publish:
  assumes "io_seq (publish_status env dto status extra) (io_throw error) w = (Inl e, w')"
    and "isDurablyAcceptedError e" "encode_errors_plain env"
  shows "e = error \<and> w_dlq w' = w_dlq w"
proof -
  obtain r2 w2 where k: "publish_status env dto status extra w = (r2, w2)" by fastforce
  show ?thesis
  proof (cases r2)
    case (Inl e2)
    with assms(1) k have "e2 = e" by (simp add: io_simps)
    with publish_error_not_durable [OF k [unfolded Inl] assms(3)] assms(2) show ?thesis by simp
  next
    case (Inr u)
    with assms(1) k publish_status_frame [OF k] show ?thesis by (auto simp: io_simps)
  qed
qed

lemma dispatch_failure_durable:
  assumes "dispatch rg env dto w = (Inl e, w')" "isDurablyAcceptedError e"
    and "encode_errors_plain env"
  shows "\<exists>w1. processing_process rg env dto w = (Inl e, w1) \<and> w_dlq w' = w_dlq w1"
proof (cases "processingMode env = ''async''")
  case True
  with assms(1) consider "e = Error ''Async processing mode requires KAFKA_ENABLED=true''"
    | "kafka_send env (eventsInTopic env) (event_message dto) w = (Inl e, w')"
    by (auto simp: dispatch_def io_simps split: if_splits)
  then have "\<not> isDurablyAcceptedError e"
    by cases (simp_all add: isDurablyAcceptedError_def [of "Error _"] kafka_error_not_durable [OF _ assms(3)])
  with assms(2) show ?thesis by simp
next
  case False
  obtain r1 w1 where p: "processing_process rg env dto w = (r1, w1)" by fastforce
  let ?fail = "\<lambda>error. publish_status env dto ''failed'' [(''error'', Str (exn_message error))]"
  show ?thesis
  proof (cases r1)
    case (Inl err)
    with assms(1) p False have "io_seq (?fail err) (io_throw err) w1 = (Inl e :: exn + unit, w')"
      by (simp add: dispatch_def io_simps)
    from rethrow_after_publish [OF this assms(2,3)] p Inl show ?thesis by auto
  next
    case (Inr u)
    obtain r2 w2 where k: "publish_status env dto ''success'' [] w1 = (r2, w2)" by fastforce
    show ?thesis
    proof (cases r2)
      case (Inr v)
      with assms(1) p k False \<open>r1 = Inr u\<close> show ?thesis by (simp add: dispatch_def io_simps)
    next
      case (Inl err)
      with assms(1) p k False \<open>r1 = Inr u\<close> have "io_seq (?fail err) (io_throw err) w2 = (Inl e :: exn + unit, w')"
        by (simp add: dispatch_def io_simps)
      from rethrow_after_publish [OF this assms(2,3)] publish_error_not_durable [OF k [unfolded Inl] assms(3)] assms(2)
      show ?thesis by simp
    qed
  qed
qed



text \<open>
  While PostgreSQL fails, a first delivery is answered like a duplicate: the request succeeds with
  \<open>processed = false\<close>, the event is neither executed nor queued, and nothing is stored.
\<close>

theorem webhook_pg_outage:
  assumes "\<not> cfg_bool (en_cfg env) ''REDIS_ENABLED''" "w_faults w = Some (code, m) # fs"
  shows "processWebhook (selected_store env) plain_keys rg env dto isRead w =
    (Inr \<lparr>wr_processed = False, wr_data = Undef\<rparr>, w\<lparr>w_faults := fs\<rparr>)"
  using assms by (simp add: processWebhook_def io_simps selected_store_def pg_store_def checkAndLock_def plain_keys_def
      pg_setIfNotExists_def transaction_idem_def db_call_def)

theorem webhook_pg_outage_witness:
  "fst (processWebhook (selected_store demo_env) plain_keys (demo_registry (echo_connector ''z'')) demo_env
     (demo_event ''user.create'') False ((init_world 0 ())\<lparr>w_faults := [Some (''P1001'', ''no route'')]\<rparr>)) =
   Inr \<lparr>wr_processed = False, wr_data = Undef\<rparr>"
  by (subst webhook_pg_outage [of _ _ "''P1001''" "''no route''" "[]"]) (simp_all add: cfg_bool_def demo_env_def)

text \<open>
  Only well-formed events get past the controller: what is processed has an event identifier and
  a target system that are not blank, one of the operations of the vocabulary, and a payload object
  whose sections are objects; it is handled as a read exactly when its operation is a read operation.
  Every other request is rejected before anything is locked.
\<close>

theorem webhook_accepts_only_valid:
  "case validate_dto body of
     Inl e \<Rightarrow> e = BadRequestException ''Bad Request Exception'' \<and> receiveWebhook st keys_of rg env body w = (Inl e, w)
   | Inr dto \<Rightarrow>
       not_blank (pr_eventId dto) \<and> not_blank (pr_targetSystem dto) \<and>
       (isReadOperation (pr_operation dto) \<noteq> (pr_operation dto \<in> set WRITE_OPERATIONS)) \<and>
       payload_shape_ok (Obj (pr_payload dto)) \<and>
       receiveWebhook st keys_of rg env body w =
         (case processWebhook st keys_of rg env dto (isReadOperation (pr_operation dto)) w of
            (Inl e, w') \<Rightarrow> (Inl e, w') | (Inr res, w') \<Rightarrow> (Inr (webhook_response res), w'))"
proof (cases "validate_dto body")
  case (Inl e)
  then have "e = BadRequestException ''Bad Request Exception''"
    by (auto simp: validate_dto_def split: js.splits if_splits)
  with Inl show ?thesis by (simp add: receiveWebhook_def io_simps)
next
  case (Inr dto)
  have "isReadOperation (pr_operation dto) \<noteq> (pr_operation dto \<in> set WRITE_OPERATIONS)"
    using validate_dto_sound [OF Inr] read_write_cover read_write_disjoint by (auto simp: isReadOperation_def)
  moreover have "receiveWebhook st keys_of rg env body w =
      (case processWebhook st keys_of rg env dto (isReadOperation (pr_operation dto)) w of
         (Inl e, w') \<Rightarrow> (Inl e, w') | (Inr res, w') \<Rightarrow> (Inr (webhook_response res), w'))"
    using Inr by (simp add: receiveWebhook_def io_bind_run io_run cong: prod.case_cong sum.case_cong)
  ultimately show ?thesis using validate_dto_sound [OF Inr] Inr by simp
qed

end
