(* ===== verification/Admin.thy ===== *)
theory Admin
  imports Kafka_Messaging
begin

text \<open>
  \<^verbatim>\<open>src/admin/admin.service.ts\<close> and \<^verbatim>\<open>src/admin/admin.controller.ts\<close>: listing, retrying and skipping the
  items of the queue, and the statistics.
\<close>

section \<open>Paging\<close>

text \<open>\<open>parseInt(s, 10)\<close>: white space, a sign, then the longest run of digits; NaN when there is none.\<close>

definition parse_int :: "string \<Rightarrow> jsnum" where
  "parse_int s0 =
     (let s = dropWhile is_space s0;
          (neg, r) = (case s of
             c # t \<Rightarrow> (if c = CHR ''-'' then (True, t) else if c = CHR ''+'' then (False, t) else (False, s))
           | [] \<Rightarrow> (False, s));
          ds = takeWhile is_digit r
      in if ds = [] then NaN
         else Fin (of_int (if neg then - int (nat_of_digits 0 ds) else int (nat_of_digits 0 ds))))"

text \<open>\<open>limit ? parseInt(limit, 10) : undefined\<close> for an optional query parameter.\<close>

definition query_int :: "string option \<Rightarrow> js" where
  "query_int q = (case q of None \<Rightarrow> Undef | Some s \<Rightarrow> (if s = [] then Undef else Num (parse_int s)))"

definition admin_limit :: "js \<Rightarrow> int \<Rightarrow> int \<Rightarrow> int" where
  "admin_limit value defaultValue maxValue =
     (case num_int (to_number value) of
        None \<Rightarrow> defaultValue
      | Some parsed \<Rightarrow> (if parsed \<le> 0 then defaultValue else min parsed maxValue))"

definition admin_offset :: "js \<Rightarrow> int" where
  "admin_offset value =
     (case num_int (to_number value) of Some parsed \<Rightarrow> (if 0 < parsed then parsed else 0) | None \<Rightarrow> 0)"

text \<open>\<open>orderBy: { createdAt }\<close>; rows created at the same time stay in the order of the table.\<close>

definition by_created_desc :: "dlq_item list \<Rightarrow> dlq_item list" where
  "by_created_desc items = sort_key (\<lambda>d. - d_createdAt d) items"

definition by_created_asc :: "dlq_item list \<Rightarrow> dlq_item list" where
  "by_created_asc items = sort_key d_createdAt items"

section \<open>Operations\<close>

text \<open>\<open>...(value ? { field: value } : {})\<close>: an absent or empty filter selects everything.\<close>

definition optional_filter :: "js \<Rightarrow> string \<Rightarrow> bool" where
  "optional_filter wanted actual \<longleftrightarrow> \<not> truthy wanted \<or> wanted = Str actual"

record dlq_query =
  dq_status :: js
  dq_targetSystem :: js
  dq_limit :: js
  dq_offset :: js

definition dlq_page :: "dlq_query \<Rightarrow> dlq_item list \<Rightarrow> dlq_item list" where
  "dlq_page params items =
     take (nat (admin_limit (dq_limit params) 50 200))
       (drop (nat (admin_offset (dq_offset params)))
         (by_created_desc (filter (\<lambda>d. optional_filter (dq_status params) (d_status d) \<and>
            optional_filter (dq_targetSystem params) (d_targetSystem d)) items)))"

fun read_payloads :: "env \<Rightarrow> dlq_item list \<Rightarrow> exn + dlq_item list" where
  "read_payloads env [] = Inr []"
| "read_payloads env (d # ds) =
     (case en_fromJson env (d_payload d) of
        Inl e \<Rightarrow> Inl e
      | Inr p \<Rightarrow> (case read_payloads env ds of
            Inl e \<Rightarrow> Inl e
          | Inr rest \<Rightarrow> Inr (d\<lparr>d_payload := p\<rparr> # rest)))"

definition findDlqItems :: "env \<Rightarrow> dlq_query \<Rightarrow> ('e world, dlq_item list) io" where
  "findDlqItems env params =
     io_bind (db_call (io_get (\<lambda>w. dlq_page params (w_dlq w)))) (\<lambda>items.
       io_of_sum (read_payloads env items))"

record admin_stats =
  st_dlq :: "(string \<times> int) list"
  st_last5 :: last5
  st_kafkaEnabled :: bool
  st_redisEnabled :: bool
  st_processingMode :: string

definition admin_statistics :: "env \<Rightarrow> ('e world, admin_stats) io" where
  "admin_statistics env =
     io_bind (db_call (io_get (\<lambda>w. groupBy_status (w_dlq w)))) (\<lambda>counts. \<lambda>w.
       (case processedLast5Minutes (w_now w) (w_metrics w) of (l, m) \<Rightarrow>
         (Inr \<lparr>st_dlq = map (\<lambda>s. (s, case map_of counts s of Some n \<Rightarrow> n | None \<Rightarrow> 0)) dlq_statuses,
               st_last5 = l,
               st_kafkaEnabled = kafka_enabled env,
               st_redisEnabled = cfg_bool (en_cfg env) ''REDIS_ENABLED'',
               st_processingMode = processingMode env\<rparr>,
          w\<lparr>w_metrics := m\<rparr>)))"

definition event_of_item :: "dlq_item \<Rightarrow> obj \<Rightarrow> processing_payload" where
  "event_of_item d payload = \<lparr>pr_eventId = d_eventId d, pr_operation = d_operation d,
     pr_targetSystem = d_targetSystem d, pr_payload = payload\<rparr>"

definition retryItem :: "'e registry \<Rightarrow> env \<Rightarrow> dlq_item \<Rightarrow> ('e world, unit) io" where
  "retryItem rg env item =
     io_bind (io_of_sum (en_fromJson env (d_payload item))) (\<lambda>p.
     let dto = event_of_item item (as_record (coalesce p (Obj []))) in
     if kafka_enabled env then kafka_send env (retryTopic env) (retry_message (d_id item) dto)
     else processRetry rg env dto (d_id item))"

definition admin_retry :: "'e registry \<Rightarrow> env \<Rightarrow> string \<Rightarrow> ('e world, unit) io" where
  "admin_retry rg env i =
     io_bind (dlq_retry env i) (\<lambda>claimed.
     if \<not> claimed then io_throw (Error (''DLQ item '' @ i @ '' is already retrying, skipped, or resolved''))
     else io_bind (db_call (io_get (\<lambda>w. find_dlq i (w_dlq w)))) (\<lambda>item.
       io_seq (case item of None \<Rightarrow> io_return () | Some d \<Rightarrow> retryItem rg env d) updateMetrics))"

record retry_many_result =
  rm_requested :: nat
  rm_queued :: nat
  rm_skipped :: nat
  rm_errors :: "(string \<times> string) list"

record retry_many_params =
  rp_targetSystem :: js
  rp_status :: js
  rp_limit :: js

definition retry_selection :: "retry_many_params \<Rightarrow> dlq_item list \<Rightarrow> dlq_item list" where
  "retry_selection params items =
     take (nat (admin_limit (rp_limit params) 25 100))
       (by_created_asc (filter (\<lambda>d. coalesce (rp_status params) (Str ''pending'') = Str (d_status d) \<and>
          optional_filter (rp_targetSystem params) (d_targetSystem d)) items))"

text \<open>The loop of \<open>retryMany\<close>: an error on one item is recorded and the loop goes on.\<close>

fun retry_each ::
  "'e registry \<Rightarrow> env \<Rightarrow> dlq_item list \<Rightarrow> nat \<times> nat \<times> (string \<times> string) list \<Rightarrow> 'e world
     \<Rightarrow> (nat \<times> nat \<times> (string \<times> string) list) \<times> 'e world" where
  "retry_each rg env [] acc w = (acc, w)"
| "retry_each rg env (item # rest) (queued, skipped, errors) w =
     (case dlq_retry env (d_id item) w of
        (Inl e, w') \<Rightarrow> retry_each rg env rest (queued, skipped, errors @ [(d_id item, exn_message e)]) w'
      | (Inr False, w') \<Rightarrow> retry_each rg env rest (queued, skipped + 1, errors) w'
      | (Inr True, w') \<Rightarrow>
          (case retryItem rg env item w' of
             (Inl e, w'') \<Rightarrow> retry_each rg env rest (queued, skipped, errors @ [(d_id item, exn_message e)]) w''
           | (Inr _, w'') \<Rightarrow> retry_each rg env rest (queued + 1, skipped, errors) w''))"

definition retryMany :: "'e registry \<Rightarrow> env \<Rightarrow> retry_many_params \<Rightarrow> ('e world, retry_many_result) io" where
  "retryMany rg env params =
     io_bind (db_call (io_get (\<lambda>w. retry_selection params (w_dlq w)))) (\<lambda>items.
     io_bind (\<lambda>w. case retry_each rg env items (0, 0, []) w of (acc, w') \<Rightarrow> (Inr acc, w')) (\<lambda>(queued, skipped, errors).
     io_seq updateMetrics
       (io_return \<lparr>rm_requested = length items, rm_queued = queued, rm_skipped = skipped, rm_errors = errors\<rparr>)))"

definition admin_skip :: "string \<Rightarrow> ('e world, unit) io" where
  "admin_skip i = io_seq (dlq_skip i) updateMetrics"

text \<open>The controller.\<close>

definition getDlq ::
  "env \<Rightarrow> string option \<Rightarrow> string option \<Rightarrow> string option \<Rightarrow> string option \<Rightarrow> ('e world, dlq_item list) io" where
  "getDlq env status targetSystem limit offset =
     findDlqItems env \<lparr>dq_status = opt_str status, dq_targetSystem = opt_str targetSystem,
       dq_limit = query_int limit, dq_offset = query_int offset\<rparr>"

definition getStats :: "env \<Rightarrow> ('e world, admin_stats) io" where
  "getStats env = admin_statistics env"

text \<open>A request without a body fails at \<open>body.targetSystem\<close>.\<close>

definition postRetryMany :: "'e registry \<Rightarrow> env \<Rightarrow> js \<Rightarrow> ('e world, retry_many_result) io" where
  "postRetryMany rg env body =
     (if nullish body then io_throw (Error ''Cannot read properties of undefined'')
      else retryMany rg env \<lparr>rp_targetSystem = js_prop body ''targetSystem'', rp_status = js_prop body ''status'',
        rp_limit = js_prop body ''limit''\<rparr>)"

definition success_answer :: js where
  "success_answer = Obj [(''success'', Bool True)]"

definition postRetry :: "'e registry \<Rightarrow> env \<Rightarrow> string \<Rightarrow> ('e world, js) io" where
  "postRetry rg env i = io_seq (admin_retry rg env i) (io_return success_answer)"

definition postSkip :: "string \<Rightarrow> ('e world, js) io" where
  "postSkip i = io_seq (admin_skip i) (io_return success_answer)"

section \<open>Bounds\<close>

text \<open>
  Whatever a client asks for, a page of the queue has at most 200 items and a bulk retry takes at
  most 100 items, and a bulk retry only takes items of the status and target system asked for.
\<close>

theorem admin_pages_bounded:
  "length (dlq_page params items) \<le> 200 \<and>
   length (retry_selection rp items) \<le> 100 \<and>
   set (retry_selection rp items) \<subseteq> {d \<in> set items. coalesce (rp_status rp) (Str ''pending'') = Str (d_status d) \<and>
     optional_filter (rp_targetSystem rp) (d_targetSystem d)}"
proof -
  have lim: "admin_limit v d m \<le> max d m" for v d m
    by (auto simp: admin_limit_def split: option.split)
  have "length (dlq_page params items) \<le> 200"
    using lim [of "dq_limit params" 50 200] by (auto simp: dlq_page_def min_le_iff_disj)
  moreover have "length (retry_selection rp items) \<le> 100"
    using lim [of "rp_limit rp" 25 100] by (auto simp: retry_selection_def min_le_iff_disj)
  ultimately show ?thesis
    by (auto simp: retry_selection_def by_created_asc_def dest!: in_set_takeD)
qed

section \<open>A bulk retry accounts for every item\<close>

lemma retry_each_total:
  "retry_each rg env items (q, s, es) w = ((q', s', es'), w') \<Longrightarrow>
     q' + s' + length es' = q + s + length es + length items \<and>
     (\<exists>new. es' = es @ new \<and> set (map fst new) \<subseteq> d_id ` set items)"
proof (induction items arbitrary: q s es w)
  case Nil
  then show ?case by auto
next
  case (Cons item items)
  obtain r w1 where r: "dlq_retry env (d_id item) w = (r, w1)" by fastforce
  consider (err) e w2 where "retry_each rg env items (q, s, es @ [(d_id item, exn_message e)]) w2 = ((q', s', es'), w')"
    | (skip) "retry_each rg env items (q, s + 1, es) w1 = ((q', s', es'), w')"
    | (queued) w2 where "retry_each rg env items (q + 1, s, es) w2 = ((q', s', es'), w')"
    using Cons.prems r by (auto split: sum.splits bool.splits prod.splits)
  then show ?case
  proof cases
    case (err e w2)
    from Cons.IH [OF this] obtain new where "q' + s' + length es' = q + s + (length es + 1) + length items"
      "es' = (es @ [(d_id item, exn_message e)]) @ new" "set (map fst new) \<subseteq> d_id ` set items" by auto
    then show ?thesis by (intro conjI exI [of _ "(d_id item, exn_message e) # new"]) auto
  next
    case skip
    from Cons.IH [OF this] show ?thesis by auto
  next
    case (queued w2)
    from Cons.IH [OF this] show ?thesis by auto
  qed
qed

text \<open>
  A bulk retry accounts for every item it selected: each is either executed or queued, or was
  claimed by someone else, or is reported with its error; and its failures do not stop the others.
\<close>

theorem retry_many_accounts:
  assumes "retryMany rg env params w = (Inr res, w')"
  shows "rm_queued res + rm_skipped res + length (rm_errors res) = rm_requested res \<and>
    rm_requested res = length (retry_selection params (w_dlq w)) \<and>
    set (map fst (rm_errors res)) \<subseteq> d_id ` set (retry_selection params (w_dlq w))"
proof -
  let ?items = "retry_selection params (w_dlq w)"
  from assms obtain fs where db: "db_call (io_get (\<lambda>w. retry_selection params (w_dlq w))) w = (Inr ?items, w\<lparr>w_faults := fs\<rparr>)"
    by (cases rule: db_call_cases [of "io_get (\<lambda>w. retry_selection params (w_dlq w))" w])
      (auto simp: retryMany_def io_simps)
  obtain q s es w1 where run: "retry_each rg env ?items (0, 0, []) (w\<lparr>w_faults := fs\<rparr>) = ((q, s, es), w1)"
    by (cases "retry_each rg env ?items (0, 0, []) (w\<lparr>w_faults := fs\<rparr>)") auto
  with assms db have "res = \<lparr>rm_requested = length ?items, rm_queued = q, rm_skipped = s, rm_errors = es\<rparr>"
    by (auto simp: retryMany_def io_simps split: prod.splits sum.splits)
  with retry_each_total [OF run] show ?thesis by auto
qed

theorem retry_many_accounts_witness:
  "\<exists>res w'. retryMany (demo_registry failing_connector) demo_env
       \<lparr>rp_targetSystem = Undef, rp_status = Undef, rp_limit = Undef\<rparr>
       ((demo_queue 5 (demo_item ''pending'' None))\<lparr>w_faults := [None, Some (''P1001'', ''down'')]\<rparr>) = (Inr res, w') \<and>
     rm_queued res + rm_skipped res + length (rm_errors res) = 1"
proof -
  let ?p = "\<lparr>rp_targetSystem = Undef, rp_status = Undef, rp_limit = Undef\<rparr>"
  let ?w = "(demo_queue 5 (demo_item ''pending'' None))\<lparr>w_faults := [None, Some (''P1001'', ''down'')]\<rparr>"
  have sel: "retry_selection ?p (w_dlq ?w) = [demo_item ''pending'' None]"
    by (simp add: retry_selection_def by_created_asc_def admin_limit_def num_int_def demo_queue_def demo_item_def
        optional_filter_def init_world_def)
  have up: "\<exists>w'. updateMetrics w = (Inr (), w')" if "w_faults w = []" for w :: "unit world"
    using that by (simp add: updateMetrics_def io_simps dlq_statuses_def metrics_io_def)
  from up [of "demo_queue 5 (demo_item ''pending'' None)\<lparr>w_faults := []\<rparr>"]
  obtain w1 where w1: "updateMetrics (demo_queue 5 (demo_item ''pending'' None)\<lparr>w_faults := []\<rparr>) = (Inr (), w1)" by auto
  have "\<exists>res w'. retryMany (demo_registry failing_connector) demo_env ?p ?w = (Inr res, w')"
    using sel w1 by (simp add: retryMany_def io_simps db_call_def dlq_retry_def exn_message_def)
  then obtain res w' where "retryMany (demo_registry failing_connector) demo_env ?p ?w = (Inr res, w')" by auto
  from retry_many_accounts [OF this] this sel show ?thesis by auto
qed

end
