(* ===== verification/Http_Client.thy ===== *)
theory Http_Client
  imports World
begin

text \<open>
  What the connectors use of the platform: conversion of values to text, the encodings of a URL
  (\<open>encodeURIComponent\<close>, \<open>URLSearchParams\<close>), base64, and the HTTP client. The client (axios behind
  \<open>HttpService\<close>) and the servers it talks to are a function from a request and the state of the
  outside to a response or an error; nothing is assumed of it.
\<close>

section \<open>Values as text\<close>

text \<open>\<open>String(v)\<close>, also what a template literal inserts.\<close>

fun js_string :: "js \<Rightarrow> string" where
  "js_string Undef = ''undefined''"
| "js_string Null = ''null''"
| "js_string (Bool b) = (if b then ''true'' else ''false'')"
| "js_string (Num n) = (case n of NaN \<Rightarrow> ''NaN'' | PosInf \<Rightarrow> ''Infinity'' | NegInf \<Rightarrow> ''-Infinity'' | Fin r \<Rightarrow> json_number n)"
| "js_string (Str s) = s"
| "js_string (Arr xs) = join '','' (map (\<lambda>x. if nullish x then [] else js_string x) xs)"
| "js_string (Obj ob) = ''[object Object]''"

text \<open>\<open>v.k\<close> without optional chaining: undefined and null have no properties.\<close>

definition js_read :: "js \<Rightarrow> string \<Rightarrow> exn + js" where
  "js_read v k =
     (if nullish v
      then Inl (Error (''Cannot read properties of '' @ js_string v @ '' (reading '' @ [CHR 0x27] @ k @ [CHR 0x27] @ '')''))
      else Inr (js_prop v k))"

text \<open>\<open>a === b\<close>: objects are the same only when they are the same reference, which two values read from different places never are.\<close>

definition js_eq :: "js \<Rightarrow> js \<Rightarrow> bool" where
  "js_eq a b = (case a of Arr _ \<Rightarrow> False | Obj _ \<Rightarrow> False | Num n \<Rightarrow> n \<noteq> NaN \<and> a = b | _ \<Rightarrow> a = b)"

text \<open>\<open>values.find((v) => v !== undefined && v !== null && v !== '')\<close>.\<close>

definition present :: "js \<Rightarrow> bool" where
  "present v \<longleftrightarrow> \<not> nullish v \<and> v \<noteq> Str []"

definition firstValue :: "js list \<Rightarrow> js" where
  "firstValue vs = (case find present vs of None \<Rightarrow> Undef | Some v \<Rightarrow> v)"

lemma firstValue_present: "firstValue vs = Undef \<or> (present (firstValue vs) \<and> firstValue vs \<in> set vs)"
  by (auto simp: firstValue_def find_Some_iff split: option.split)

text \<open>\<open>{ ...v }\<close>: an array or a string gives its positions as keys, any other primitive nothing.\<close>

definition js_spread :: "js \<Rightarrow> obj" where
  "js_spread v = (case v of
      Obj ob \<Rightarrow> ob
    | Arr xs \<Rightarrow> zip (map show_nat [0..<length xs]) xs
    | Str s \<Rightarrow> zip (map show_nat [0..<length s]) (map (\<lambda>c. Str [c]) s)
    | _ \<Rightarrow> [])"

text \<open>The text of a query value: a string, number or boolean as it is, anything else as JSON.\<close>

definition query_text :: "js \<Rightarrow> string" where
  "query_text v = (case v of Arr _ \<Rightarrow> json_text v | Obj _ \<Rightarrow> json_text v | Null \<Rightarrow> json_text v | _ \<Rightarrow> js_string v)"

section \<open>URL encoding\<close>

definition hex_upper :: "nat \<Rightarrow> char" where
  "hex_upper n = ''0123456789ABCDEF'' ! n"

definition percent_byte :: "char \<Rightarrow> string" where
  "percent_byte c = [CHR ''%'', hex_upper (of_char c div 16), hex_upper (of_char c mod 16)]"

text \<open>\<open>encodeURIComponent\<close>: the characters kept are the letters, the digits and \<open>-_.!~*'()\<close>.\<close>

definition uri_unreserved :: "char \<Rightarrow> bool" where
  "uri_unreserved c \<longleftrightarrow> is_alnum c \<or> c \<in> set ''-_.!~*()'' \<or> c = CHR 0x27"

definition encodeURIComponent :: "string \<Rightarrow> string" where
  "encodeURIComponent s = concat (map (\<lambda>c. if uri_unreserved c then [c] else percent_byte c) s)"

text \<open>\<open>URLSearchParams\<close>: a list of pairs, written in the form encoding.\<close>

definition form_char :: "char \<Rightarrow> string" where
  "form_char c = (if c = CHR '' '' then ''+'' else if is_alnum c \<or> c \<in> set ''*-._'' then [c] else percent_byte c)"

definition form_encode :: "string \<Rightarrow> string" where
  "form_encode s = concat (map form_char s)"

type_synonym search_params = "(string \<times> string) list"

definition usp_append :: "string \<Rightarrow> string \<Rightarrow> search_params \<Rightarrow> search_params" where
  "usp_append k v ps = ps @ [(k, v)]"

fun usp_set :: "string \<Rightarrow> string \<Rightarrow> search_params \<Rightarrow> search_params" where
  "usp_set k v [] = [(k, v)]"
| "usp_set k v (p # ps) = (if fst p = k then (k, v) # filter (\<lambda>q. fst q \<noteq> k) ps else p # usp_set k v ps)"

definition usp_toString :: "search_params \<Rightarrow> string" where
  "usp_toString ps = join ''&'' (map (\<lambda>(k, v). form_encode k @ ''='' @ form_encode v) ps)"

lemma hex_upper_in: "n < 16 \<Longrightarrow> hex_upper n \<in> set ''0123456789ABCDEF''"
  unfolding hex_upper_def by (rule nth_mem) simp

lemma hex_upper_alnum: "n < 16 \<Longrightarrow> is_alnum (hex_upper n)"
  using hex_upper_in [of n] by (auto simp: is_alnum_def is_digit_def upper_letters_def)

lemma of_char_less: "(of_char c :: nat) < 256"
  using nat_of_char_less_256 [of c] by simp

lemma percent_byte_chars: "d \<in> set (percent_byte c) \<Longrightarrow> is_alnum d \<or> d = CHR ''%''"
proof -
  assume d: "d \<in> set (percent_byte c)"
  have "(of_char c :: nat) div 16 < 16"
    using of_char_less [of c] by (intro less_mult_imp_div_less) simp
  with d show ?thesis by (auto simp: percent_byte_def hex_upper_alnum)
qed

text \<open>What an encoded text is made of, so that it can neither end a path segment nor a query value.\<close>

lemma encodeURIComponent_chars: "d \<in> set (encodeURIComponent s) \<Longrightarrow> uri_unreserved d \<or> d = CHR ''%''"
  by (auto simp: encodeURIComponent_def uri_unreserved_def dest: percent_byte_chars split: if_splits)

lemma not_alnum_special: "\<not> is_alnum (CHR ''/'')" "\<not> is_alnum (CHR ''?'')" "\<not> is_alnum (CHR ''#'')" "\<not> is_alnum (CHR ''&'')"
    "\<not> is_alnum (CHR ''='')" "\<not> is_alnum (CHR 0x5C)" "\<not> is_alnum (CHR ''%'')" "\<not> is_alnum (CHR ''.'')"
    "\<not> is_alnum (CHR ''['')" "\<not> is_alnum (CHR '']'')" "\<not> is_alnum (CHR '':'')" "\<not> is_alnum (CHR '' '')"
  by (simp_all add: is_alnum_def is_digit_def upper_letters_def lower_letters_def)

lemma encodeURIComponent_segment:
  "set (encodeURIComponent s) \<inter> set ''/?#&='' = {}"
  using encodeURIComponent_chars [of _ s] not_alnum_special by (fastforce simp: uri_unreserved_def)

lemma form_encode_chars:
  "set (form_encode s) \<inter> set ''/?#&='' = {}"
  using not_alnum_special
  by (fastforce simp: form_encode_def form_char_def dest: percent_byte_chars split: if_splits)

lemma encodeURIComponent_Nil: "encodeURIComponent s = [] \<longleftrightarrow> s = []"
  by (cases s) (auto simp: encodeURIComponent_def percent_byte_def)

text \<open>Decoding, for the statements: an encoded text stands for one text only.\<close>

fun percent_decode :: "string \<Rightarrow> string" where
  "percent_decode [] = []"
| "percent_decode [c] = [c]"
| "percent_decode [c, d] = [c, d]"
| "percent_decode (c # a # b # s) =
     (if c = CHR ''%'' then char_of (16 * radix_digit a + radix_digit b) # percent_decode s
      else c # percent_decode (a # b # s))"

lemma percent_decode_other: "c \<noteq> CHR ''%'' \<Longrightarrow> percent_decode (c # s) = c # percent_decode s"
  by (cases s; cases "tl s") auto

lemma radix_digit_upper:
  "radix_digit (CHR ''A'') = 10"
  "radix_digit (CHR ''B'') = 11"
  "radix_digit (CHR ''C'') = 12"
  "radix_digit (CHR ''D'') = 13"
  "radix_digit (CHR ''E'') = 14"
  "radix_digit (CHR ''F'') = 15"
  by (simp_all add: radix_digit_def to_lower_char_def upper_letters_def lower_letters_def)

lemma radix_hex_upper:
  assumes "n < 16"
  shows "radix_digit (hex_upper n) = n"
proof -
  have "list_all (\<lambda>n. radix_digit (''0123456789ABCDEF'' ! n) = n) [0, 1, 2, 3, 4, 5, 6, 7, 8, 9, 10, 11, 12, 13, 14, 15]"
    by (simp add: radix_digit_eval radix_digit_upper)
  moreover have "n \<in> set [0, 1, 2, 3, 4, 5, 6, 7, 8, 9, 10, 11, 12, 13, 14, 15]"
    using assms by simp presburger
  ultimately show ?thesis unfolding list_all_iff hex_upper_def by (rule bspec)
qed

lemma percent_decode_byte: "percent_decode (percent_byte c @ s) = c # percent_decode s"
proof -
  have "(of_char c :: nat) div 16 < 16"
    using of_char_less [of c] by (intro less_mult_imp_div_less) simp
  then show ?thesis by (simp add: percent_byte_def radix_hex_upper)
qed

lemma decode_encode_URI: "percent_decode (encodeURIComponent s) = s"
proof (induction s)
  case Nil
  then show ?case by (simp add: encodeURIComponent_def)
next
  case (Cons c s)
  have "c \<noteq> CHR ''%''" if "uri_unreserved c"
    using that not_alnum_special by (auto simp: uri_unreserved_def)
  with Cons show ?case
    by (simp add: encodeURIComponent_def percent_decode_other percent_decode_byte)
qed

section \<open>Base64\<close>

definition base64_char :: "nat \<Rightarrow> char" where
  "base64_char n = (upper_letters @ lower_letters @ ''0123456789+/'') ! n"

fun base64_groups :: "nat list \<Rightarrow> string" where
  "base64_groups [] = []"
| "base64_groups [a] = [base64_char (a div 4), base64_char (a mod 4 * 16), CHR ''='', CHR ''='']"
| "base64_groups [a, b] =
     [base64_char (a div 4), base64_char (a mod 4 * 16 + b div 16), base64_char (b mod 16 * 4), CHR ''='']"
| "base64_groups (a # b # c # rest) =
     [base64_char (a div 4), base64_char (a mod 4 * 16 + b div 16), base64_char (b mod 16 * 4 + c div 64),
      base64_char (c mod 64)] @ base64_groups rest"

definition base64 :: "string \<Rightarrow> string" where
  "base64 s = base64_groups (map of_char s)"

section \<open>Requests\<close>

text \<open>One call of the client; \<open>hq_agent\<close> holds the options of the HTTPS agent when there is one.\<close>

record http_request =
  hq_method :: string
  hq_url :: string
  hq_headers :: obj
  hq_data :: js
  hq_timeout :: js
  hq_agent :: js

record http_response =
  hs_status :: nat
  hs_data :: js

type_synonym 'e http = "http_request \<Rightarrow> ('e, http_response) io"

text \<open>A log of the requests of a call, for the statements about what is sent.\<close>

definition logged :: "'e http \<Rightarrow> ('e \<times> http_request list) http" where
  "logged http rq = (\<lambda>(x, sent). case http rq x of (r, x') \<Rightarrow> (r, (x', sent @ [rq])))"

section \<open>Connectors that report failures as results\<close>

text \<open>A call that never throws.\<close>

definition never_throws :: "('s, 'a) io \<Rightarrow> bool" where
  "never_throws m \<longleftrightarrow> (\<forall>s. \<exists>x s'. m s = (Inr x, s'))"

lemma never_throws_catch:
  "(\<And>e. never_throws (h e)) \<Longrightarrow> never_throws (io_catch m h)"
  unfolding never_throws_def by (simp add: io_simps split: prod.split sum.split)

lemma never_throws_return: "never_throws (io_return x)"
  by (simp add: never_throws_def io_simps)

lemma never_throws_if: "(b \<Longrightarrow> never_throws m) \<Longrightarrow> (\<not> b \<Longrightarrow> never_throws n) \<Longrightarrow> never_throws (if b then m else n)"
  by simp

end
