(* ===== verification/Tls_Options.thy ===== *)
theory Tls_Options
  imports Http_Client
begin

text \<open>
  \<^verbatim>\<open>src/security/tls-options.factory.ts\<close>: the TLS settings of the inbound server, Kafka, Redis, the
  database connector and the HTTP connectors, read from the environment or from the configuration of
  a target system.
\<close>

section \<open>The factory\<close>

text \<open>\<open>process.env\<close>, the configuration service and the files it reads.\<close>

record tls_env =
  te_env :: "string \<Rightarrow> string option"
  te_cfg :: config
  te_readFile :: "string \<Rightarrow> exn + string"

definition tls_read :: "tls_env \<Rightarrow> string \<Rightarrow> js" where
  "tls_read te name = (case te_env te name of Some s \<Rightarrow> Str s | None \<Rightarrow> te_cfg te name)"

definition toBoolean :: "js \<Rightarrow> bool \<Rightarrow> bool" where
  "toBoolean value defaultValue =
     (case value of Undef \<Rightarrow> defaultValue | Bool b \<Rightarrow> b | _ \<Rightarrow> value = Str ''true'')"

text \<open>\<open>value.replace(/\\n/g, newline)\<close>: a backslash followed by an n.\<close>

fun normalize_newlines :: "string \<Rightarrow> string" where
  "normalize_newlines (c # d # s) =
     (if c = CHR 0x5C \<and> d = CHR ''n'' then CHR 0x0A # normalize_newlines s else c # normalize_newlines (d # s))"
| "normalize_newlines s = s"

text \<open>A value that is no string has no method \<open>replace\<close>; an array has \<open>includes\<close> only.\<close>

definition normalizePem :: "js \<Rightarrow> exn + js" where
  "normalizePem value =
     (case value of
        Str s \<Rightarrow> Inr (Str (if str_includes s [CHR 0x5C, CHR ''n''] then normalize_newlines s else s))
      | Arr xs \<Rightarrow> if Str [CHR 0x5C, CHR ''n''] \<in> set xs then Inl (Error ''value.replace is not a function'') else Inr value
      | _ \<Rightarrow> Inl (Error ''value.includes is not a function''))"

text \<open>A path that is no string is refused by \<open>readFileSync\<close>.\<close>

definition readPem :: "tls_env \<Rightarrow> js \<Rightarrow> js \<Rightarrow> exn + js" where
  "readPem te value path =
     (if truthy value then normalizePem value
      else if \<not> truthy path then Inl (Error ''TLS PEM value or path is required'')
      else (case path of
          Str p \<Rightarrow> res_bind (te_readFile te p) (\<lambda>s. Inr (Str s))
        | _ \<Rightarrow> Inl (Error ''The path argument must be of type string'')))"

definition tls_isEnabled :: "js \<Rightarrow> bool" where
  "tls_isEnabled tls = toBoolean (js_prop tls ''enabled'') False"

text \<open>One optional PEM entry of the options: present when a value or a path is configured.\<close>

definition pem_entry :: "tls_env \<Rightarrow> obj \<Rightarrow> string \<Rightarrow> string \<Rightarrow> exn + obj" where
  "pem_entry te tls k kPath =
     (if truthy (obj_get tls k) \<or> truthy (obj_get tls kPath)
      then res_bind (readPem te (obj_get tls k) (obj_get tls kPath)) (\<lambda>v. Inr [(k, v)])
      else Inr [])"

definition reject_unauthorized :: "obj \<Rightarrow> bool" where
  "reject_unauthorized tls =
     (if obj_get tls ''rejectUnauthorized'' \<noteq> Undef then toBoolean (obj_get tls ''rejectUnauthorized'') False
      else toBoolean (obj_get tls ''verify'') True)"

definition buildTlsOptions :: "tls_env \<Rightarrow> obj \<Rightarrow> exn + obj" where
  "buildTlsOptions te tls =
     res_bind (pem_entry te tls ''ca'' ''caPath'') (\<lambda>ca.
     res_bind (pem_entry te tls ''cert'' ''certPath'') (\<lambda>cert.
     res_bind (pem_entry te tls ''key'' ''keyPath'') (\<lambda>key.
     Inr ((''rejectUnauthorized'', Bool (reject_unauthorized tls)) # ca @ cert @ key @
       (if truthy (obj_get tls ''serverName'') then [(''servername'', obj_get tls ''serverName'')] else [])))))"

definition fromEnv :: "tls_env \<Rightarrow> string \<Rightarrow> obj" where
  "fromEnv te prefix =
     map (\<lambda>(k, suffix). (k, tls_read te (prefix @ suffix)))
       [(''enabled'', ''_ENABLED''), (''verify'', ''_VERIFY''), (''rejectUnauthorized'', ''_REJECT_UNAUTHORIZED''),
        (''ca'', ''_CA''), (''caPath'', ''_CA_PATH''), (''cert'', ''_CERT''), (''certPath'', ''_CERT_PATH''),
        (''key'', ''_KEY''), (''keyPath'', ''_KEY_PATH''), (''serverName'', ''_SERVER_NAME''),
        (''requestClientCert'', ''_REQUEST_CLIENT_CERT'')]"

definition assertTlsUrl :: "js \<Rightarrow> string \<Rightarrow> exn + unit" where
  "assertTlsUrl url connectionName =
     (case url of
        Str u \<Rightarrow> if starts_with (to_lower u) ''https://'' then Inr ()
                 else Inl (Error (connectionName @ '' TLS is enabled, but URL does not use https://''))
      | _ \<Rightarrow> Inl (Error ''url.toLowerCase is not a function''))"

text \<open>The part of an axios configuration it gives: no agent, or an HTTPS agent with these options.\<close>

definition axiosConfig :: "tls_env \<Rightarrow> js \<Rightarrow> js \<Rightarrow> string \<Rightarrow> exn + js" where
  "axiosConfig te url tls connectionName =
     (if \<not> truthy tls \<or> \<not> tls_isEnabled tls then Inr Undef
      else res_bind (assertTlsUrl url connectionName) (\<lambda>_.
           res_bind (buildTlsOptions te (as_record tls)) (\<lambda>options. Inr (Obj options))))"

text \<open>\<open>this.tlsOptions?.axiosConfig(...) ?? {}\<close>: the factory is optional.\<close>

definition axios_tls :: "tls_env option \<Rightarrow> js \<Rightarrow> js \<Rightarrow> string \<Rightarrow> exn + js" where
  "axios_tls te url tls connectionName =
     (case te of None \<Rightarrow> Inr Undef | Some f \<Rightarrow> axiosConfig f url tls connectionName)"

definition inboundHttpsOptions :: "tls_env \<Rightarrow> exn + js" where
  "inboundHttpsOptions te =
     (let tls = fromEnv te ''HTTP_TLS'' in
      if \<not> tls_isEnabled (Obj tls) then Inr Undef
      else res_bind (buildTlsOptions te tls) (\<lambda>options.
        if \<not> truthy (obj_get options ''cert'') \<or> \<not> truthy (obj_get options ''key'')
        then Inl (Error (''HTTP_TLS_ENABLED=true requires HTTP_TLS_CERT/HTTP_TLS_CERT_PATH and '' @
                         ''HTTP_TLS_KEY/HTTP_TLS_KEY_PATH''))
        else Inr (Obj (options @ [(''requestCert'', Bool (toBoolean (obj_get tls ''requestClientCert'') False))]))))"

definition kafkaConfig :: "tls_env \<Rightarrow> string \<Rightarrow> string list \<Rightarrow> exn + obj" where
  "kafkaConfig te clientId brokers =
     (let tls = fromEnv te ''KAFKA_TLS'' in
      res_bind (if tls_isEnabled (Obj tls)
                then res_bind (buildTlsOptions te tls) (\<lambda>o'. Inr [(''ssl'', Obj o')]) else Inr []) (\<lambda>ssl.
      Inr ([(''clientId'', Str clientId), (''brokers'', Arr (map Str brokers))] @ ssl)))"

definition redisOptions :: "tls_env \<Rightarrow> exn + obj" where
  "redisOptions te =
     (let tls = fromEnv te ''REDIS_TLS'' in
      if tls_isEnabled (Obj tls) then res_bind (buildTlsOptions te tls) (\<lambda>o'. Inr [(''tls'', Obj o')]) else Inr [])"

text \<open>The wallet is read from the configuration first, unlike the other settings.\<close>

definition wallet_value :: "tls_env \<Rightarrow> string \<Rightarrow> js" where
  "wallet_value te name = coalesce (te_cfg te name) (opt_str (te_env te name))"

definition dbConnectorTlsFromEnv :: "tls_env \<Rightarrow> js" where
  "dbConnectorTlsFromEnv te =
     (let tls = fromEnv te ''DB_CONNECTOR_TLS'' @
        [(''walletLocation'', wallet_value te ''DB_CONNECTOR_TLS_WALLET_LOCATION''),
         (''walletPassword'', wallet_value te ''DB_CONNECTOR_TLS_WALLET_PASSWORD'')] in
      if tls_isEnabled (Obj tls) then Obj tls else Undef)"

definition dbConnectorSslOptions :: "tls_env \<Rightarrow> js \<Rightarrow> exn + js" where
  "dbConnectorSslOptions te tls =
     (if \<not> truthy tls \<or> \<not> tls_isEnabled tls then Inr Undef
      else res_bind (buildTlsOptions te (as_record tls)) (\<lambda>options. Inr (Obj options)))"

section \<open>What the options say\<close>

lemma pem_entry_keys: "pem_entry te tls k kp = Inr o' \<Longrightarrow> fst ` set o' \<subseteq> {k}"
  by (auto simp: pem_entry_def res_bind_Inr split: if_splits)

lemma build_reject:
  "buildTlsOptions te tls = Inr o' \<Longrightarrow> obj_get o' ''rejectUnauthorized'' = Bool (reject_unauthorized tls)"
  by (auto simp: buildTlsOptions_def res_bind_Inr obj_get_def)

text \<open>The certificate check is off exactly for these settings.\<close>

lemma reject_unauthorized_iff:
  "reject_unauthorized tls \<longleftrightarrow>
     obj_get tls ''rejectUnauthorized'' \<in> {Bool True, Str ''true''} \<or>
     obj_get tls ''rejectUnauthorized'' = Undef \<and> obj_get tls ''verify'' \<in> {Undef, Bool True, Str ''true''}"
  by (auto simp: reject_unauthorized_def toBoolean_def split: js.splits)

text \<open>
  C27: an HTTP connector with TLS enabled never sends a request to a URL that is not https, and its
  agent checks the server's certificate unless the configuration holds a value for
  \<open>rejectUnauthorized\<close> (or, in its absence, for \<open>verify\<close>) other than true and the text ''true''.
\<close>

theorem tls_only_https:
  assumes "axiosConfig te (Str url) tls name = Inr agent" "tls_isEnabled tls"
  shows "starts_with (to_lower url) ''https://'' \<and>
    (\<exists>options. agent = Obj options \<and>
       (obj_get options ''rejectUnauthorized'' = Bool True \<longleftrightarrow>
          js_prop tls ''rejectUnauthorized'' \<in> {Bool True, Str ''true''} \<or>
          js_prop tls ''rejectUnauthorized'' = Undef \<and> js_prop tls ''verify'' \<in> {Undef, Bool True, Str ''true''}))"
proof -
  from assms(2) obtain ob where ob: "tls = Obj ob"
    by (cases tls) (auto simp: tls_isEnabled_def toBoolean_def js_prop_def)
  with assms obtain options where "buildTlsOptions te ob = Inr options" "agent = Obj options"
    "starts_with (to_lower url) ''https://''"
    by (auto simp: axiosConfig_def res_bind_Inr assertTlsUrl_def as_record_def split: if_splits)
  then show ?thesis
    using build_reject [of te ob options] by (simp add: reject_unauthorized_iff ob js_prop_def)
qed

definition demo_tls :: tls_env where
  "demo_tls = \<lparr>te_env = (\<lambda>_. None), te_cfg = (\<lambda>_. Undef), te_readFile = (\<lambda>p. Inl (Error ''ENOENT''))\<rparr>"

theorem tls_only_https_witness:
  "axiosConfig demo_tls (Str ''HTTPS://h'') (Obj [(''enabled'', Bool True), (''verify'', Str ''TRUE'')]) ''t'' =
     Inr (Obj [(''rejectUnauthorized'', Bool False)]) \<and> starts_with (to_lower ''HTTPS://h'') ''https://''"
proof -
  let ?tls = "Obj [(''enabled'', Bool True), (''verify'', Str ''TRUE'')]"
  have en: "tls_isEnabled ?tls" by (simp add: tls_isEnabled_def toBoolean_def js_prop_def obj_get_def)
  have run: "axiosConfig demo_tls (Str ''HTTPS://h'') ?tls ''t'' = Inr (Obj [(''rejectUnauthorized'', Bool False)])"
    by (simp add: axiosConfig_def tls_isEnabled_def toBoolean_def js_prop_def obj_get_def assertTlsUrl_def to_lower_def
        to_lower_char_def upper_letters_def lower_letters_def buildTlsOptions_def pem_entry_def as_record_def
        reject_unauthorized_def)
  from tls_only_https [OF run en] run show ?thesis by blast
qed

text \<open>An inbound server is only started over TLS with a certificate and a key.\<close>

lemma inbound_has_certificate:
  "inboundHttpsOptions te = Inr (Obj options) \<Longrightarrow> truthy (obj_get options ''cert'') \<and> truthy (obj_get options ''key'')"
  by (auto simp: inboundHttpsOptions_def Let_def res_bind_Inr obj_get_def map_add_def split: if_splits option.splits)

end
