(* ===== verification/Connector_Client.thy ===== *)
theory Connector_Client
  imports Processing Tls_Options
begin

text \<open>
  What the connector implementations share: the services injected into them, sending a request, and
  the contract of a connector that reports every failure as a result instead of throwing it.
\<close>

section \<open>Injected services\<close>

record 'e conn_env =
  ce_http :: "'e http"
  ce_tls :: "tls_env option"
  ce_now :: "'e \<Rightarrow> int"

text \<open>
  \<open>httpService.request({ ..., ...(this.tlsOptions?.axiosConfig(url, tls, name) ?? {}) })\<close>: building the
  agent may throw before anything is sent.
\<close>

definition http_send :: "'e conn_env \<Rightarrow> js \<Rightarrow> js \<Rightarrow> string \<Rightarrow> http_request \<Rightarrow> ('e, http_response) io" where
  "http_send ce url tls name rq =
     io_bind (io_of_sum (axios_tls (ce_tls ce) url tls name)) (\<lambda>agent. ce_http ce (rq\<lparr>hq_agent := agent\<rparr>))"

definition conn_config :: "conn_payload \<Rightarrow> js" where
  "conn_config p = obj_get (p_payload p) ''config''"

definition conn_data :: "conn_payload \<Rightarrow> obj" where
  "conn_data p = as_record (coalesce (obj_get (p_payload p) ''data'') (Obj []))"

definition conn_params :: "conn_payload \<Rightarrow> obj" where
  "conn_params p = as_record (coalesce (obj_get (p_payload p) ''params'') (Obj []))"

text \<open>\<open>catch (error) { return { success: false, error: msg } }\<close>.\<close>

definition or_fail :: "('e, conn_result) io \<Rightarrow> ('e, conn_result) io" where
  "or_fail m = io_catch m (\<lambda>e. io_return (result_fail (exn_message e)))"

definition or_test_fail :: "string \<Rightarrow> ('e, test_result) io \<Rightarrow> ('e, test_result) io" where
  "or_test_fail pre m = io_catch m (\<lambda>e. io_return (test_fail (pre @ exn_message e)))"

lemma result_ok_inject [simp]: "result_ok a = result_ok b \<longleftrightarrow> a = b"
  by (simp add: result_ok_def)

lemma result_kinds [simp]: "result_ok a \<noteq> result_fail e" "r_success (result_ok a)" "\<not> r_success (result_fail e)"
  "r_data (result_ok a) = a" "r_error (result_fail e) = Some e"
  by (simp_all add: result_ok_def result_fail_def)

lemma never_throws_or_fail [intro!, simp]: "never_throws (or_fail m)"
  unfolding or_fail_def by (intro never_throws_catch never_throws_return)

lemma never_throws_or_test_fail [intro!, simp]: "never_throws (or_test_fail s m)"
  unfolding or_test_fail_def by (intro never_throws_catch never_throws_return)

lemma or_fail_success:
  "or_fail m s = (Inr r, s') \<Longrightarrow> r_success r \<Longrightarrow> m s = (Inr r, s')"
  by (auto simp: or_fail_def io_simps result_fail_def split: prod.splits sum.splits)

section \<open>What a connector sends\<close>

text \<open>The same services with every request recorded.\<close>

definition logging :: "'e conn_env \<Rightarrow> ('e \<times> http_request list) conn_env" where
  "logging ce = \<lparr>ce_http = logged (ce_http ce), ce_tls = ce_tls ce, ce_now = (\<lambda>(x, sent). ce_now ce x)\<rparr>"

definition sent_all :: "(http_request \<Rightarrow> bool) \<Rightarrow> 'e \<times> http_request list \<Rightarrow> bool" where
  "sent_all P = (\<lambda>(x, sent). list_all P sent)"

lemma sends_http [io_invs]:
  assumes "\<And>agent. P (rq\<lparr>hq_agent := agent\<rparr>)"
  shows "io_inv (sent_all P) (http_send (logging ce) url tls name rq)"
  unfolding http_send_def
  by (intro io_inv_bind io_inv_basic)
    (auto simp: io_inv_def logging_def logged_def sent_all_def assms split: prod.split)

lemma sends_or_fail [io_invs]: "io_inv P m \<Longrightarrow> io_inv P (or_fail m)"
  unfolding or_fail_def by (intro io_invs)

lemma io_inv_let_pair: "(\<And>a b. io_inv P (f a b)) \<Longrightarrow> io_inv P (case x of (a, b) \<Rightarrow> f a b)"
  by (cases x) simp

lemma sent_by:
  "io_inv (sent_all P) m \<Longrightarrow> m (x, []) = (r, (x', sent)) \<Longrightarrow> list_all P sent"
  using io_invD [of "sent_all P" m "(x, [])" r "(x', sent)"] by (simp add: sent_all_def)

section \<open>Connectors that never throw\<close>

lemma retry_once:
  fixes fn :: "('s, 'a) io"
  assumes "never_throws fn" "0 \<le> maxRetries opts"
  shows "retry_execute rt fn opts = fn"
proof
  fix s
  obtain x s' where "fn s = (Inr x, s')" using assms(1) unfolding never_throws_def by blast
  with assms(2) show "retry_execute rt fn opts s = fn s"
    unfolding retry_execute_def by (subst retry_loop.simps) simp
qed

lemma never_throws_on_ext: "never_throws m \<Longrightarrow> never_throws (on_ext m)"
  unfolding never_throws_def on_ext_def by (metis (mono_tags, lifting) case_prod_conv)

locale reporting_connector =
  fixes c :: "'e connector"
  assumes execute_reports: "never_throws (c_execute c p)"
    and test_reports: "never_throws (c_testConnection c cfg)"
begin

lemma proxy_reports:
  "createProxy statics type name config = Some pr \<Longrightarrow> map_of statics type = Some c \<Longrightarrow> never_throws (c_execute pr p)"
  using execute_reports by (auto simp: createProxy_def)

text \<open>The retry loop of the pipeline makes one call, whatever the policy of the target system.\<close>

lemma executed_once:
  assumes "createProxy statics type name config = Some pr" "map_of statics type = Some c"
    and "registry_get rg (pr_targetSystem dto) = Some pr"
  shows "executeWithRetry rg env dto =
     io_bind (forTarget env (pr_targetSystem dto)) (\<lambda>policy.
     io_bind (on_ext (c_execute c (inject_config config (to_conn_payload dto)))) (\<lambda>result.
       if r_success result then io_return ()
       else io_seq (metrics_io (recordConnectorError (pr_targetSystem dto) (pr_operation dto)))
              (io_throw (connector_error result))))"
proof
  fix w :: "'e world"
  have ex: "c_execute pr = (\<lambda>p. c_execute c (inject_config config p))"
    using assms(1,2) by (auto simp: createProxy_def)
  obtain r w1 where f: "forTarget env (pr_targetSystem dto) w = (r, w1)" by fastforce
  have "retry_execute world_runtime (on_ext (c_execute c (inject_config config (to_conn_payload dto)))) (tp_options p) =
      on_ext (c_execute c (inject_config config (to_conn_payload dto)))" if "r = Inr p" for p
  proof (intro retry_once never_throws_on_ext execute_reports)
    from forTarget_value f that obtain v where "p = spread_policy (default_lease env) (normalizePolicy v)" by blast
    with spread_policy_ok [of "default_lease env" v] show "0 \<le> maxRetries (tp_options p)"
      by (simp add: policy_ok_def)
  qed
  then show "executeWithRetry rg env dto w =
     io_bind (forTarget env (pr_targetSystem dto)) (\<lambda>policy.
     io_bind (on_ext (c_execute c (inject_config config (to_conn_payload dto)))) (\<lambda>result.
       if r_success result then io_return ()
       else io_seq (metrics_io (recordConnectorError (pr_targetSystem dto) (pr_operation dto)))
              (io_throw (connector_error result)))) w"
    by (cases r) (simp_all add: executeWithRetry_def assms(3) ex io_bind_run(1) f)
qed

end

end
