(* ===== verification/Fake_Connector.thy ===== *)
theory Fake_Connector
  imports Connector_Client
begin

text \<open>
  \<^verbatim>\<open>src/connectors/implementations/fake-connector/fake-connector.service.ts\<close>: without a remote URL the
  connector answers every operation of the vocabulary itself (the contract reference the other
  connectors are copied from); with one it mirrors the operation to an HTTP echo service.
\<close>

section \<open>The local mock\<close>

definition fake_id :: "obj \<Rightarrow> obj \<Rightarrow> js" where
  "fake_id params data = coalesce (obj_get params ''id'') (obj_get data ''id'')"

definition fake_user :: "string \<Rightarrow> string \<Rightarrow> string \<Rightarrow> bool \<Rightarrow> js" where
  "fake_user i username email enabled = Obj [(''id'', Str i), (''username'', Str username),
     (''email'', Str email), (''enabled'', Bool enabled)]"

definition fake_group :: "string \<Rightarrow> string \<Rightarrow> string \<Rightarrow> js" where
  "fake_group i name member = Obj [(''id'', Str i), (''name'', Str name), (''members'', Arr [Str member])]"

text \<open>The cases of \<open>user.*\<close>; the time is the clock read for a generated identifier.\<close>

definition fake_user_op :: "int \<Rightarrow> string \<Rightarrow> obj \<Rightarrow> obj \<Rightarrow> obj option" where
  "fake_user_op now op data params =
     (let i = fake_id params data in
      if op = ''user.create'' then
        Some (obj_set (obj_spread [(''id'', Str (''user-'' @ show_int now))] data) ''status'' (Str ''created''))
      else if op = ''user.update'' then
        Some (obj_set (obj_spread [(''id'', i)] data) ''status'' (Str ''updated''))
      else if op = ''user.delete'' then Some [(''id'', i), (''status'', Str ''deleted'')]
      else if op = ''user.get'' then
        Some [(''id'', coalesce i (Str ''user-1'')), (''username'', Str ''jdoe''), (''email'', Str ''jdoe@example.com''),
              (''firstName'', Str ''John''), (''lastName'', Str ''Doe''), (''enabled'', Bool True)]
      else if op = ''user.search'' then
        Some [(''items'', Arr [fake_user ''user-1'' ''jdoe'' ''jdoe@example.com'' True,
                             fake_user ''user-2'' ''asmith'' ''asmith@example.com'' False]), (''total'', JInt 2)]
      else if op = ''user.enable'' then Some [(''id'', i), (''enabled'', Bool True)]
      else if op = ''user.disable'' then Some [(''id'', i), (''enabled'', Bool False)]
      else if op = ''user.lock'' then Some [(''id'', i), (''locked'', Bool True)]
      else if op = ''user.unlock'' then Some [(''id'', i), (''locked'', Bool False)]
      else if op = ''user.resolve'' then
        Some [(''uid'', Str (''uid-'' @ js_string (coalesce (obj_get data ''username'') (obj_get params ''username''))))]
      else if op = ''user.addAttributes'' \<or> op = ''user.removeAttributes'' then
        Some [(''id'', i), (''attributes'', Obj data)]
      else None)"

definition fake_member :: "string \<Rightarrow> obj \<Rightarrow> obj \<Rightarrow> obj" where
  "fake_member action data params =
     [(''groupId'', coalesce (obj_get params ''groupId'') (obj_get data ''groupId'')),
      (''userId'', coalesce (obj_get params ''userId'') (obj_get data ''userId'')), (''action'', Str action)]"

definition fake_group_op :: "int \<Rightarrow> string \<Rightarrow> obj \<Rightarrow> obj \<Rightarrow> obj option" where
  "fake_group_op now op data params =
     (let i = fake_id params data in
      if op = ''group.create'' then
        Some (obj_set (obj_spread [(''id'', Str (''group-'' @ show_int now))] data) ''status'' (Str ''created''))
      else if op = ''group.update'' then
        Some (obj_set (obj_spread [(''id'', i)] data) ''status'' (Str ''updated''))
      else if op = ''group.delete'' then Some [(''id'', i), (''status'', Str ''deleted'')]
      else if op = ''group.get'' then
        Some [(''id'', coalesce i (Str ''group-1'')), (''name'', Str ''Admins''),
              (''members'', Arr [Str ''user-1'', Str ''user-2''])]
      else if op = ''group.search'' then
        Some [(''items'', Arr [fake_group ''group-1'' ''Admins'' ''user-1'', fake_group ''group-2'' ''Users'' ''user-2'']),
              (''total'', JInt 2)]
      else if op = ''group.addMember'' then Some (fake_member ''added'' data params)
      else if op = ''group.removeMember'' then Some (fake_member ''removed'' data params)
      else None)"

text \<open>The schema, also the shape used by the other connectors.\<close>

definition schema_attribute :: "string \<Rightarrow> string \<Rightarrow> bool \<Rightarrow> bool \<Rightarrow> js" where
  "schema_attribute name type required multiValued = Obj [(''name'', Str name), (''type'', Str type),
     (''required'', Bool required), (''multiValued'', Bool multiValued)]"

definition object_class :: "string \<Rightarrow> js list \<Rightarrow> js" where
  "object_class name attributes = Obj [(''name'', Str name), (''attributes'', Arr attributes)]"

definition fake_schema :: obj where
  "fake_schema = [(''objectClasses'', Arr
     [object_class ''user''
        [schema_attribute ''id'' ''string'' True False, schema_attribute ''username'' ''string'' True False,
         schema_attribute ''email'' ''string'' True False, schema_attribute ''groups'' ''array'' False True],
      object_class ''group''
        [schema_attribute ''id'' ''string'' True False, schema_attribute ''name'' ''string'' True False,
         schema_attribute ''members'' ''array'' False True]])]"

definition fake_system_op :: "string \<Rightarrow> obj option" where
  "fake_system_op op =
     (if op = ''system.test'' then Some [(''reachable'', Bool True), (''version'', Str ''1.0.0'')]
      else if op = ''schema.get'' then Some fake_schema
      else if op = ''sync.full'' \<or> op = ''sync.incremental'' then
        Some [(''mode'', Str (if op = ''sync.full'' then ''full'' else ''incremental'')), (''created'', JInt 1),
              (''updated'', JInt 2), (''deleted'', JInt 0), (''unchanged'', JInt 10)]
      else None)"

definition executeLocalMock :: "int \<Rightarrow> conn_payload \<Rightarrow> conn_result" where
  "executeLocalMock now payload =
     (let op = p_operation payload; data = conn_data payload; params = conn_params payload in
      case fake_user_op now op data params of
        Some d \<Rightarrow> result_ok (Obj d)
      | None \<Rightarrow>
          (case fake_group_op now op data params of
             Some d \<Rightarrow> result_ok (Obj d)
           | None \<Rightarrow>
               (case fake_system_op op of
                  Some d \<Rightarrow> result_ok (Obj d)
                | None \<Rightarrow>
                    if starts_with op ''user.change''
                    then result_ok (Obj [(''id'', fake_id params data), (''changed'', Bool True)])
                    else result_fail (''Unsupported fake operation: '' @ op))))"

section \<open>Operations\<close>

definition fake_is_local :: "js \<Rightarrow> bool" where
  "fake_is_local config \<longleftrightarrow>
     \<not> truthy (js_prop config ''baseUrl'') \<or> js_prop config ''baseUrl'' = Str ''fake://local''"

definition fake_remote_request :: "js \<Rightarrow> conn_payload \<Rightarrow> http_request" where
  "fake_remote_request config payload =
     \<lparr>hq_method = ''POST'', hq_url = js_string (js_prop config ''baseUrl'') @ ''/api/echo'',
      hq_headers = (''Content-Type'', Str ''application/json'') #
        (if truthy (js_prop config ''apiKey'') then [(''X-Api-Id'', js_prop config ''apiKey'')] else []),
      hq_data = Obj [(''operation'', Str (p_operation payload)), (''targetSystem'', Str (p_targetSystem payload)),
        (''data'', coalesce (obj_get (p_payload payload) ''data'') (Obj []))],
      hq_timeout = coalesce (js_prop config ''timeout'') (JInt 10000), hq_agent = Undef\<rparr>"

definition fake_execute :: "'e conn_env \<Rightarrow> conn_payload \<Rightarrow> ('e, conn_result) io" where
  "fake_execute ce payload =
     (let config = conn_config payload in
      if fake_is_local config then io_bind (io_get (ce_now ce)) (\<lambda>now. io_return (executeLocalMock now payload))
      else or_fail
        (io_bind (http_send ce (js_prop config ''baseUrl'') (js_prop config ''tls'') ''Fake remote''
            (fake_remote_request config payload)) (\<lambda>response.
         io_return (result_ok (hs_data response)))))"

definition fake_testConnection :: "'e conn_env \<Rightarrow> obj \<Rightarrow> ('e, test_result) io" where
  "fake_testConnection ce cfg =
     (let baseUrl = obj_get cfg ''baseUrl'' in
      if \<not> truthy baseUrl \<or> baseUrl = Str ''fake://local''
      then io_return (test_ok ''Fake local connector is always reachable'')
      else if \<not> truthy baseUrl then io_return (test_fail ''Missing baseUrl in config'')
      else or_test_fail ''Fake connection failed: ''
        (io_bind (http_send ce baseUrl (obj_get cfg ''tls'') ''Fake remote''
            \<lparr>hq_method = ''GET'', hq_url = js_string baseUrl @ ''/health'', hq_headers = [], hq_data = Undef,
             hq_timeout = coalesce (obj_get cfg ''timeout'') (JInt 5000), hq_agent = Undef\<rparr>) (\<lambda>response.
         io_return (test_ok (''Fake system reachable (status '' @ show_nat (hs_status response) @ '')'')))))"

definition fake_getSchema :: "'e conn_env \<Rightarrow> conn_payload \<Rightarrow> ('e, conn_result) io" where
  "fake_getSchema ce payload =
     fake_execute ce (payload\<lparr>p_payload := obj_set (p_payload payload) ''params'' (Obj [])\<rparr>)"

definition fake_sync :: "'e conn_env \<Rightarrow> conn_payload \<Rightarrow> string \<Rightarrow> ('e, conn_result) io" where
  "fake_sync ce payload mode =
     fake_execute ce (payload\<lparr>p_operation := if mode = ''incremental'' then ''sync.incremental'' else ''sync.full''\<rparr>)"

definition fake_connector :: "'e conn_env \<Rightarrow> 'e connector" where
  "fake_connector ce =
     \<lparr>c_name = ''fake'', c_execute = fake_execute ce, c_testConnection = fake_testConnection ce,
      c_getCapabilities = Some (createConnectorCapabilities [] no_overrides),
      c_getSchema = Some (fake_getSchema ce), c_sync = Some (fake_sync ce)\<rparr>"

interpretation fake: reporting_connector "fake_connector ce" for ce
proof
  fix p cfg
  show "never_throws (c_execute (fake_connector ce) p)"
    by (simp add: fake_connector_def fake_execute_def Let_def) (simp add: never_throws_def io_simps)
  show "never_throws (c_testConnection (fake_connector ce) cfg)"
    by (simp add: fake_connector_def fake_testConnection_def Let_def never_throws_return)
qed

section \<open>The contract reference\<close>

lemma fake_ops:
  "list_all (\<lambda>op. \<exists>d. executeLocalMock now (p\<lparr>p_operation := op\<rparr>) = result_ok (Obj d) \<and>
      (op \<in> {''user.delete'', ''user.enable'', ''user.disable'', ''user.lock'', ''user.unlock'', ''group.delete'',
          CHANGE_CREDENTIAL_OP, ''user.addAttributes'', ''user.removeAttributes''} \<longrightarrow>
         obj_get d ''id'' = fake_id (conn_params p) (conn_data p))) AVANPOST_OPERATION_VALUES"
proof -
  have p: "conn_data (p\<lparr>p_operation := op\<rparr>) = conn_data p" "conn_params (p\<lparr>p_operation := op\<rparr>) = conn_params p" for op
    by (simp_all add: conn_data_def conn_params_def)
  show ?thesis
    by (simp add: operation_tables executeLocalMock_def p fake_user_op_def fake_group_op_def fake_system_op_def Let_def
        obj_get_def)
qed

text \<open>
  The local mode answers every operation of the vocabulary with success, without touching the
  outside; its answer to a write on a user or group names the entity of the request, the one of
  \<open>params\<close> before the one of \<open>data\<close>.
\<close>

theorem fake_local_complete:
  assumes "fake_is_local (conn_config p)" "p_operation p \<in> set AVANPOST_OPERATION_VALUES"
  shows "\<exists>d. fake_execute ce p s = (Inr (result_ok (Obj d)), s) \<and>
    (p_operation p \<in> {''user.delete'', ''user.enable'', ''user.disable'', ''user.lock'', ''user.unlock'', ''group.delete'',
        CHANGE_CREDENTIAL_OP, ''user.addAttributes'', ''user.removeAttributes''} \<longrightarrow>
       obj_get d ''id'' = coalesce (obj_get (conn_params p) ''id'') (obj_get (conn_data p) ''id''))"
proof -
  from fake_ops [of "ce_now ce s" p] assms(2)
  have "\<exists>d. executeLocalMock (ce_now ce s) (p\<lparr>p_operation := p_operation p\<rparr>) = result_ok (Obj d) \<and>
      (p_operation p \<in> {''user.delete'', ''user.enable'', ''user.disable'', ''user.lock'', ''user.unlock'', ''group.delete'',
          CHANGE_CREDENTIAL_OP, ''user.addAttributes'', ''user.removeAttributes''} \<longrightarrow>
         obj_get d ''id'' = fake_id (conn_params p) (conn_data p))"
    unfolding list_all_iff by (rule bspec)
  then obtain d where "executeLocalMock (ce_now ce s) p = result_ok (Obj d)"
      "p_operation p \<in> {''user.delete'', ''user.enable'', ''user.disable'', ''user.lock'', ''user.unlock'', ''group.delete'',
          CHANGE_CREDENTIAL_OP, ''user.addAttributes'', ''user.removeAttributes''} \<longrightarrow>
         obj_get d ''id'' = fake_id (conn_params p) (conn_data p)"
    by auto
  then show ?thesis
    using assms(1) unfolding fake_id_def [symmetric] by (intro exI [of _ d]) (simp only: fake_execute_def Let_def if_True io_simps split_conv prod.case sum.case)
qed

definition demo_conn_env :: "unit conn_env" where
  "demo_conn_env = \<lparr>ce_http = (\<lambda>rq s. (Inl (Error ''ECONNREFUSED''), s)), ce_tls = None, ce_now = (\<lambda>_. 7)\<rparr>"

theorem fake_local_complete_witness:
  "fake_execute demo_conn_env \<lparr>p_operation = ''user.lock'', p_targetSystem = ''f'',
      p_payload = [(''data'', Obj [(''id'', Str ''9'')])]\<rparr> () =
     (Inr (result_ok (Obj [(''id'', Str ''9''), (''locked'', Bool True)])), ())"
proof -
  let ?p = "\<lparr>p_operation = ''user.lock'', p_targetSystem = ''f'', p_payload = [(''data'', Obj [(''id'', Str ''9'')])]\<rparr>"
  have loc: "fake_is_local (conn_config ?p)" by (simp add: fake_is_local_def conn_config_def js_prop_def obj_get_def)
  have op: "p_operation ?p \<in> set AVANPOST_OPERATION_VALUES" by (simp add: operation_tables)
  have run: "executeLocalMock 7 ?p = result_ok (Obj [(''id'', Str ''9''), (''locked'', Bool True)])"
    by (simp add: executeLocalMock_def fake_user_op_def Let_def fake_id_def conn_data_def conn_params_def obj_get_def as_record_def)
  from fake_local_complete [OF loc op, of demo_conn_env "()"] run show ?thesis
    by (simp add: fake_execute_def io_simps loc demo_conn_env_def)
qed

end
