(* ===== verification/Zabbix_Connector.thy ===== *)
theory Zabbix_Connector
  imports Connector_Client
begin

text \<open>
  \<^verbatim>\<open>src/connectors/implementations/zabbix-connector/zabbix-connector.service.ts\<close>: the operations of the
  vocabulary as calls of the Zabbix JSON-RPC interface. Text outside ASCII is written in UTF-8.
\<close>

definition ZABBIX_PARTIAL_OPERATIONS :: "(string \<times> string) list" where
  "ZABBIX_PARTIAL_OPERATIONS =
    [(''user.enable'', ''Mapped to configured enable user group; may replace existing group membership.''),
     (''user.disable'', ''Mapped to configured disable user group; may replace existing group membership.''),
     (''user.lock'', ''Zabbix has no separate IDM lock flag; mapped to configured disable user group.''),
     (''user.unlock'', ''Zabbix has no separate IDM unlock flag; mapped to configured enable user group.''),
     (''user.addAttributes'', ''Generic user.update mapping; supported fields depend on Zabbix user schema.''),
     (''user.removeAttributes'', ''Generic user.update mapping; requested fields are sent as empty strings.''),
     (''schema.get'', ''Returns Zabbix API version, not a full Avanpost IDM schema.''),
     (''sync.incremental'', ''Uses bounded user.get without a Zabbix change cursor or high-watermark.'')]"

definition zabbix_capabilities :: connector_capabilities where
  "zabbix_capabilities =
     createConnectorCapabilities ZABBIX_PARTIAL_OPERATIONS (no_overrides\<lparr>o_supportsIncrementalSync := Some False\<rparr>)"

section \<open>Calls\<close>

datatype zabbix_mode = Bearer | LegacyAuthField

record zabbix_auth =
  za_token :: js
  za_mode :: zabbix_mode

definition zabbix_request :: "js \<Rightarrow> string \<Rightarrow> js \<Rightarrow> zabbix_auth option \<Rightarrow> http_request" where
  "zabbix_request config method params auth =
     \<lparr>hq_method = ''POST'', hq_url = js_string (js_prop config ''baseUrl'') @ ''/api_jsonrpc.php'',
      hq_headers = (''Content-Type'', Str ''application/json'') #
        (case auth of Some a \<Rightarrow> if za_mode a = Bearer then [(''Authorization'', Str (''Bearer '' @ js_string (za_token a)))] else []
         | None \<Rightarrow> []),
      hq_data = Obj ([(''jsonrpc'', Str ''2.0''), (''method'', Str method), (''params'', params), (''id'', JInt 1)] @
        (case auth of Some a \<Rightarrow> if za_mode a = LegacyAuthField then [(''auth'', za_token a)] else [] | None \<Rightarrow> [])),
      hq_timeout = JInt 30000, hq_agent = Undef\<rparr>"

definition em_dash :: string where
  "em_dash = [CHR 0xE2, CHR 0x80, CHR 0x94]"

definition zabbix_result :: "js \<Rightarrow> exn + js" where
  "zabbix_result data =
     res_bind (js_read data ''error'') (\<lambda>err.
       if truthy err
       then Inl (Error (''Zabbix API error: '' @ js_string (js_prop err ''message'') @ '' '' @ em_dash @ '' '' @
              js_string (js_prop err ''data'')))
       else Inr (js_prop data ''result''))"

definition zabbix_call :: "'e conn_env \<Rightarrow> js \<Rightarrow> string \<Rightarrow> js \<Rightarrow> zabbix_auth option \<Rightarrow> ('e, js) io" where
  "zabbix_call ce config method params auth =
     io_bind (http_send ce (js_prop config ''baseUrl'') (js_prop config ''tls'') ''Zabbix''
        (zabbix_request config method params auth)) (\<lambda>response.
     io_of_sum (zabbix_result (hs_data response)))"

definition zabbix_login :: "'e conn_env \<Rightarrow> js \<Rightarrow> ('e, js) io" where
  "zabbix_login ce config =
     io_bind (zabbix_call ce config ''user.login''
        (Obj [(''username'', js_prop config ''username''), (''password'', js_prop config ''password'')]) None) (\<lambda>response.
     (case response of Str _ \<Rightarrow> io_return response
      | _ \<Rightarrow> io_throw (Error ''Zabbix login failed: invalid response'')))"

definition resolveAuth :: "'e conn_env \<Rightarrow> js \<Rightarrow> ('e, zabbix_auth) io" where
  "resolveAuth ce config =
     (if truthy (js_prop config ''apiToken'')
      then io_return \<lparr>za_token = js_prop config ''apiToken'', za_mode = Bearer\<rparr>
      else if \<not> truthy (js_prop config ''username'') \<or> \<not> truthy (js_prop config ''password'')
      then io_throw (Error ''Missing Zabbix credentials (apiToken or username/password)'')
      else io_bind (zabbix_login ce config) (\<lambda>token. io_return \<lparr>za_token = token, za_mode = LegacyAuthField\<rparr>))"

text \<open>\<open>response[0]\<close>.\<close>

definition js_first :: "js \<Rightarrow> exn + js" where
  "js_first v = (case v of
      Arr (x # _) \<Rightarrow> Inr x
    | Arr [] \<Rightarrow> Inr Undef
    | Str (c # _) \<Rightarrow> Inr (Str [c])
    | _ \<Rightarrow> js_read v ''0'')"

definition getGroupUsers :: "'e conn_env \<Rightarrow> js \<Rightarrow> js \<Rightarrow> zabbix_auth \<Rightarrow> ('e, js) io" where
  "getGroupUsers ce config groupId auth =
     io_bind (zabbix_call ce config ''usergroup.get''
        (Obj [(''usrgrpids'', Arr [groupId]), (''selectUsers'', Arr [Str ''userid''])]) (Some auth)) (\<lambda>response.
     io_bind (io_of_sum (js_first response)) (\<lambda>group.
     io_return (coalesce (js_prop group ''users'') (Arr []))))"

section \<open>The operations as calls\<close>

definition str_list :: "string list \<Rightarrow> js" where
  "str_list xs = Arr (map Str xs)"

definition zabbix_usergroup :: "js \<Rightarrow> js" where
  "zabbix_usergroup g = Arr [Obj [(''usrgrpid'', g)]]"

definition zabbix_user_call :: "string \<Rightarrow> obj \<Rightarrow> obj \<Rightarrow> js \<Rightarrow> (string \<times> js) option" where
  "zabbix_user_call operation data params config =
     (let enableGroupId = coalesce (js_prop config ''enableGroupId'') (Str ''7'');
          disableGroupId = coalesce (js_prop config ''disableGroupId'') (Str ''9'');
          userId = coalesce (obj_get params ''id'') (obj_get data ''id'') in
      if operation = ''user.create'' then Some (''user.create'', Obj data)
      else if operation = ''user.update'' then Some (''user.update'', Obj (obj_set data ''userid'' userId))
      else if operation = ''user.delete'' then Some (''user.delete'', Arr [userId])
      else if operation = ''user.get'' then
        Some (''user.get'', Obj [(''userids'', if truthy userId then Arr [userId] else Undef),
          (''output'', str_list [''userid'', ''username'', ''name'', ''surname'', ''usrgrps''])])
      else if operation = ''user.search'' then
        Some (''user.get'', Obj [(''search'', if truthy (obj_get params ''filter'')
              then Obj [(''username'', obj_get params ''filter'')] else Undef),
          (''output'', str_list [''userid'', ''username'', ''name'', ''surname'', ''usrgrps'']),
          (''limit'', coalesce (obj_get params ''limit'') (JInt 50))])
      else if operation = ''user.enable'' \<or> operation = ''user.unlock'' then
        Some (''user.update'', Obj [(''userid'', userId), (''usrgrps'', zabbix_usergroup enableGroupId)])
      else if operation = ''user.disable'' \<or> operation = ''user.lock'' then
        Some (''user.update'', Obj [(''userid'', userId), (''usrgrps'', zabbix_usergroup disableGroupId)])
      else if operation = CHANGE_CREDENTIAL_OP then
        Some (''user.update'', Obj [(''userid'', userId),
          (''passwd'', coalesce (obj_get data ''newValue'') (obj_get data ''password''))])
      else if operation = ''user.resolve'' then
        Some (''user.get'', Obj [(''filter'', Obj [(''username'', coalesce (obj_get data ''username'') (obj_get params ''username''))]),
          (''output'', str_list [''userid'', ''username'', ''name'', ''surname''])])
      else if operation = ''user.addAttributes'' then
        Some (''user.update'', Obj (obj_spread [(''userid'', userId)] data))
      else if operation = ''user.removeAttributes'' then
        Some (''user.update'', Obj (obj_spread [(''userid'', userId)] (map (\<lambda>k. (k, Str [])) (obj_keys data))))
      else None)"

definition zabbix_group_call :: "string \<Rightarrow> obj \<Rightarrow> obj \<Rightarrow> (string \<times> js) option" where
  "zabbix_group_call operation data params =
     (let userId = coalesce (obj_get params ''id'') (obj_get data ''id'') in
      if operation = ''group.create'' then Some (''usergroup.create'', Obj data)
      else if operation = ''group.update'' then Some (''usergroup.update'', Obj (obj_set data ''usrgrpid'' userId))
      else if operation = ''group.delete'' then Some (''usergroup.delete'', Arr [userId])
      else if operation = ''group.get'' then
        Some (''usergroup.get'', Obj [(''usrgrpids'', if truthy userId then Arr [userId] else Undef),
          (''output'', str_list [''usrgrpid'', ''name''])])
      else if operation = ''group.search'' then
        Some (''usergroup.get'', Obj [(''search'', if truthy (obj_get params ''filter'')
              then Obj [(''name'', obj_get params ''filter'')] else Undef),
          (''output'', str_list [''usrgrpid'', ''name'']), (''limit'', coalesce (obj_get params ''limit'') (JInt 50))])
      else None)"

definition zabbix_system_call :: "string \<Rightarrow> (string \<times> js) option" where
  "zabbix_system_call operation =
     (if operation = ''system.test'' then Some (''apiinfo.version'', Obj [])
      else if operation = ''schema.get'' then Some (''apiinfo.version'', Obj [])
      else if operation = ''sync.full'' then
        Some (''user.get'', Obj [(''output'', str_list [''userid'', ''username'', ''name'', ''surname''])])
      else if operation = ''sync.incremental'' then
        Some (''user.get'', Obj [(''output'', str_list [''userid'', ''username'', ''name'', ''surname'']),
          (''sortfield'', Str ''userid''), (''limit'', JInt 100)])
      else None)"

definition buildZabbixCall :: "string \<Rightarrow> obj \<Rightarrow> obj \<Rightarrow> js \<Rightarrow> exn + string \<times> js" where
  "buildZabbixCall operation data params config =
     (case zabbix_user_call operation data params config of
        Some c \<Rightarrow> Inr c
      | None \<Rightarrow>
          (case zabbix_group_call operation data params of
             Some c \<Rightarrow> Inr c
           | None \<Rightarrow>
               if operation = ''group.addMember'' \<or> operation = ''group.removeMember''
               then Inl (Error ''group.addMember/removeMember must be handled in execute()'')
               else (case zabbix_system_call operation of
                  Some c \<Rightarrow> Inr c
                | None \<Rightarrow> Inr (operation, Obj params))))"

section \<open>Group membership\<close>

text \<open>\<open>currentUsers.find((u) => u.userid === userId)\<close> and the filter: reading an entry that is null throws.\<close>

fun has_userid :: "js list \<Rightarrow> js \<Rightarrow> exn + bool" where
  "has_userid [] userId = Inr False"
| "has_userid (u # us) userId =
     res_bind (js_read u ''userid'') (\<lambda>v. if js_eq v userId then Inr True else has_userid us userId)"

fun without_userid :: "js list \<Rightarrow> js \<Rightarrow> exn + js list" where
  "without_userid [] userId = Inr []"
| "without_userid (u # us) userId =
     res_bind (js_read u ''userid'') (\<lambda>v.
     res_bind (without_userid us userId) (\<lambda>rest. Inr (if js_eq v userId then rest else u # rest)))"

definition updated_users :: "string \<Rightarrow> js \<Rightarrow> js \<Rightarrow> exn + js" where
  "updated_users operation currentUsers userId =
     (case currentUsers of
        Arr us \<Rightarrow>
          (if operation = ''group.addMember''
           then res_bind (has_userid us userId) (\<lambda>found.
                  Inr (Arr (if \<not> found then us @ [Obj [(''userid'', userId)]] else us)))
           else res_bind (without_userid us userId) (\<lambda>us'. Inr (Arr us')))
      | _ \<Rightarrow> Inl (Error (if operation = ''group.addMember'' then ''currentUsers.find is not a function''
                         else ''currentUsers.filter is not a function'')))"

definition zabbix_members :: "'e conn_env \<Rightarrow> js \<Rightarrow> string \<Rightarrow> obj \<Rightarrow> obj \<Rightarrow> ('e, conn_result) io" where
  "zabbix_members ce config operation data params =
     io_bind (resolveAuth ce config) (\<lambda>auth.
     let groupId = coalesce (coalesce (coalesce (obj_get params ''groupId'') (obj_get data ''groupId''))
            (obj_get params ''id'')) (obj_get data ''id'');
         userId = coalesce (obj_get params ''userId'') (obj_get data ''userId'') in
     if \<not> truthy groupId \<or> \<not> truthy userId
     then io_return (result_fail ''Missing groupId or userId for group member operation'')
     else io_bind (getGroupUsers ce config groupId auth) (\<lambda>currentUsers.
          io_bind (io_of_sum (updated_users operation currentUsers userId)) (\<lambda>updatedUsers.
          io_bind (zabbix_call ce config ''usergroup.update''
              (Obj [(''usrgrpid'', groupId), (''users'', updatedUsers)]) (Some auth)) (\<lambda>response.
          io_return (result_ok response)))))"

definition zabbix_execute :: "'e conn_env \<Rightarrow> conn_payload \<Rightarrow> ('e, conn_result) io" where
  "zabbix_execute ce payload =
     (let config = conn_config payload; operation = p_operation payload;
          data = conn_data payload; params = conn_params payload in
      if \<not> truthy (js_prop config ''baseUrl'') then io_return (result_fail ''Missing Zabbix config (baseUrl)'')
      else or_fail
        (if operation = ''group.addMember'' \<or> operation = ''group.removeMember''
         then zabbix_members ce config operation data params
         else io_bind (io_of_sum (buildZabbixCall operation data params config)) (\<lambda>(method, zabbixParams).
              io_bind (if method = ''apiinfo.version'' then io_return None
                       else io_bind (resolveAuth ce config) (\<lambda>a. io_return (Some a))) (\<lambda>auth.
              io_bind (zabbix_call ce config method zabbixParams auth) (\<lambda>response.
              io_return (result_ok response))))))"

definition zabbix_testConnection :: "'e conn_env \<Rightarrow> obj \<Rightarrow> ('e, test_result) io" where
  "zabbix_testConnection ce cfg =
     (if \<not> truthy (obj_get cfg ''baseUrl'') then io_return (test_fail ''Missing baseUrl in config'')
      else or_test_fail ''Zabbix connection failed: ''
        (io_bind (if truthy (obj_get cfg ''apiToken'') then io_bind (resolveAuth ce (Obj cfg)) (\<lambda>a. io_return (Some a))
                  else io_return None) (\<lambda>auth.
         io_bind (zabbix_call ce (Obj cfg) ''apiinfo.version'' (Obj []) auth) (\<lambda>_.
         io_return (test_ok ''Zabbix API reachable'')))))"

definition zabbix_connector :: "'e conn_env \<Rightarrow> 'e connector" where
  "zabbix_connector ce =
     \<lparr>c_name = ''zabbix'', c_execute = zabbix_execute ce, c_testConnection = zabbix_testConnection ce,
      c_getCapabilities = Some zabbix_capabilities, c_getSchema = None, c_sync = None\<rparr>"

interpretation zabbix: reporting_connector "zabbix_connector ce" for ce
proof
  fix p cfg
  show "never_throws (c_execute (zabbix_connector ce) p)"
    by (simp add: zabbix_connector_def zabbix_execute_def Let_def never_throws_return)
  show "never_throws (c_testConnection (zabbix_connector ce) cfg)"
    by (simp add: zabbix_connector_def zabbix_testConnection_def Let_def never_throws_return)
qed

section \<open>Reads do not write\<close>

definition zabbix_method :: "http_request \<Rightarrow> js" where
  "zabbix_method rq = js_prop (hq_data rq) ''method''"

lemma zabbix_request_method: "zabbix_method ((zabbix_request config method params auth)\<lparr>hq_agent := a\<rparr>) = Str method"
  by (simp add: zabbix_method_def zabbix_request_def js_prop_def obj_get_def)

lemma sends_zabbix_call:
  "P (Str method) \<Longrightarrow> io_inv (sent_all (\<lambda>rq. P (zabbix_method rq))) (zabbix_call (logging ce) config method params auth)"
  unfolding zabbix_call_def by (intro io_invs) (simp_all add: zabbix_request_method)

lemma sends_resolveAuth:
  "P (Str ''user.login'') \<Longrightarrow> io_inv (sent_all (\<lambda>rq. P (zabbix_method rq))) (resolveAuth (logging ce) config)"
  unfolding resolveAuth_def zabbix_login_def
  by (auto intro!: io_inv_bind io_inv_basic sends_zabbix_call split: js.split)

lemma zabbix_read_call:
  "list_all (\<lambda>op. case buildZabbixCall op data params config of Inl _ \<Rightarrow> False
      | Inr (m, _) \<Rightarrow> m \<in> {''user.get'', ''usergroup.get'', ''apiinfo.version''}) READ_OPERATIONS"
  by (simp add: READ_OPERATIONS_def buildZabbixCall_def zabbix_user_call_def zabbix_group_call_def zabbix_system_call_def
      Let_def CHANGE_CREDENTIAL_OP_def)

text \<open>
  Executing a read operation sends Zabbix only logins and reading calls, whatever the request
  contains and however Zabbix answers.
\<close>

theorem zabbix_reads_only_read:
  assumes "isReadOperation (p_operation p)" "zabbix_execute (logging ce) p (x, []) = (r, (x', sent))"
  shows "\<forall>rq \<in> set sent. zabbix_method rq \<in>
    {Str ''user.login'', Str ''user.get'', Str ''usergroup.get'', Str ''apiinfo.version''}"
proof -
  let ?P = "\<lambda>v. v \<in> {Str ''user.login'', Str ''user.get'', Str ''usergroup.get'', Str ''apiinfo.version''}"
  have nomem: "p_operation p \<noteq> ''group.addMember''" "p_operation p \<noteq> ''group.removeMember''"
    using assms(1) by (auto simp: isReadOperation_def READ_OPERATIONS_def)
  from zabbix_read_call [of "conn_data p" "conn_params p" "conn_config p"] assms(1)
  have "case buildZabbixCall (p_operation p) (conn_data p) (conn_params p) (conn_config p) of Inl _ \<Rightarrow> False
      | Inr (m, _) \<Rightarrow> m \<in> {''user.get'', ''usergroup.get'', ''apiinfo.version''}"
    unfolding isReadOperation_def list_all_iff by (rule bspec)
  then obtain m ps where call: "buildZabbixCall (p_operation p) (conn_data p) (conn_params p) (conn_config p) = Inr (m, ps)"
      "m \<in> {''user.get'', ''usergroup.get'', ''apiinfo.version''}"
    by (cases "buildZabbixCall (p_operation p) (conn_data p) (conn_params p) (conn_config p)") auto
  have run: "zabbix_execute (logging ce) p =
     (if \<not> truthy (js_prop (conn_config p) ''baseUrl'') then io_return (result_fail ''Missing Zabbix config (baseUrl)'')
      else or_fail
        (io_bind (if m = ''apiinfo.version'' then io_return None
                  else io_bind (resolveAuth (logging ce) (conn_config p)) (\<lambda>a. io_return (Some a))) (\<lambda>auth.
         io_bind (zabbix_call (logging ce) (conn_config p) m ps auth) (\<lambda>response.
         io_return (result_ok response)))))"
    using nomem call(1) by (simp add: zabbix_execute_def io_bind_value Let_def)
  have P: "?P (Str m)" using call(2) by auto
  have "io_inv (sent_all (\<lambda>rq. ?P (zabbix_method rq))) (zabbix_execute (logging ce) p)"
    unfolding run
    by (intro io_inv_if sends_or_fail io_inv_bind io_inv_basic sends_zabbix_call [where P = ?P]
        sends_resolveAuth [where P = ?P] P) simp_all
  from sent_by [OF this assms(2)] show ?thesis by (simp add: list_all_iff)
qed

text \<open>A server that answers every call with the same result, and a payload for it.\<close>

definition zabbix_demo_env :: "js \<Rightarrow> unit conn_env" where
  "zabbix_demo_env result = \<lparr>ce_http = (\<lambda>rq s. (Inr \<lparr>hs_status = 200, hs_data = Obj [(''result'', result)]\<rparr>, s)),
     ce_tls = None, ce_now = (\<lambda>_. 0)\<rparr>"

definition zabbix_demo_payload :: "string \<Rightarrow> obj \<Rightarrow> conn_payload" where
  "zabbix_demo_payload op params = \<lparr>p_operation = op, p_targetSystem = ''z'',
     p_payload = [(''config'', Obj [(''baseUrl'', Str ''http://z''), (''apiToken'', Str ''t'')]), (''params'', Obj params)]\<rparr>"

lemmas zabbix_demo_simps =
  zabbix_demo_env_def zabbix_demo_payload_def conn_config_def conn_data_def conn_params_def as_record_def js_prop_def obj_get_def

theorem zabbix_reads_only_read_witness:
  "\<exists>r rq. zabbix_execute (logging (zabbix_demo_env (Arr []))) (zabbix_demo_payload ''sync.full'' []) ((), []) = (r, ((), [rq])) \<and>
     zabbix_method rq = Str ''user.get''"
proof -
  let ?p = "zabbix_demo_payload ''sync.full'' []"
  have r: "isReadOperation (p_operation ?p)"
    by (simp add: zabbix_demo_payload_def isReadOperation_def READ_OPERATIONS_def)
  obtain r rq where run: "zabbix_execute (logging (zabbix_demo_env (Arr []))) ?p ((), []) = (r, ((), [rq]))"
      "zabbix_method rq = Str ''user.get''"
    by (simp add: zabbix_execute_def zabbix_demo_simps or_fail_def io_simps buildZabbixCall_def zabbix_user_call_def
        zabbix_group_call_def zabbix_system_call_def CHANGE_CREDENTIAL_OP_def resolveAuth_def zabbix_call_def http_send_def
        logging_def logged_def axios_tls_def zabbix_result_def js_read_def nullish_def zabbix_request_def zabbix_method_def)
  from zabbix_reads_only_read [OF r run(1)] run show ?thesis by blast
qed

section \<open>Group membership\<close>

definition userid_of :: "js \<Rightarrow> js" where
  "userid_of u = js_prop u ''userid''"

lemma js_read_record: "is_record u \<Longrightarrow> js_read u k = Inr (js_prop u k)"
  by (auto simp: js_read_def nullish_def is_record_def split: js.splits)

lemma has_userid_records:
  "list_all is_record us \<Longrightarrow> has_userid us uid = Inr (\<exists>u \<in> set us. js_eq (userid_of u) uid)"
  by (induction us) (auto simp: js_read_record userid_of_def)

lemma without_userid_records:
  "list_all is_record us \<Longrightarrow> without_userid us uid = Inr (filter (\<lambda>u. \<not> js_eq (userid_of u) uid) us)"
  by (induction us) (auto simp: js_read_record userid_of_def)

lemma js_eq_Str [simp]: "js_eq a (Str s) \<longleftrightarrow> a = Str s"
  by (cases a) (auto simp: js_eq_def)

lemma updated_users_records:
  assumes "list_all is_record us"
  shows "updated_users ''group.addMember'' (Arr us) (Str uid) =
      Inr (Arr (if Str uid \<in> userid_of ` set us then us else us @ [Obj [(''userid'', Str uid)]]))"
    "updated_users ''group.removeMember'' (Arr us) (Str uid) = Inr (Arr (filter (\<lambda>u. userid_of u \<noteq> Str uid) us))"
proof -
  have "(\<exists>u \<in> set us. userid_of u = Str uid) \<longleftrightarrow> Str uid \<in> userid_of ` set us" by force
  with assms show "updated_users ''group.addMember'' (Arr us) (Str uid) =
      Inr (Arr (if Str uid \<in> userid_of ` set us then us else us @ [Obj [(''userid'', Str uid)]]))"
    by (simp add: updated_users_def has_userid_records)
  show "updated_users ''group.removeMember'' (Arr us) (Str uid) = Inr (Arr (filter (\<lambda>u. userid_of u \<noteq> Str uid) us))"
    using assms by (simp add: updated_users_def without_userid_records)
qed

text \<open>
  Adding or removing a member sends the group's member list as Zabbix returned it, with the
  named user added at the end unless it is a member already, or taken out, and nobody else changed;
  the answer to that update is what the caller gets.
\<close>

theorem zabbix_member_update:
  assumes "p_operation p \<in> {''group.addMember'', ''group.removeMember''}"
    and "truthy (js_prop (conn_config p) ''baseUrl'')"
    and "obj_get (conn_params p) ''groupId'' = g" "truthy g"
    and "obj_get (conn_params p) ''userId'' = Str uid" "uid \<noteq> []"
    and "resolveAuth ce (conn_config p) s = (Inr a, s1)"
    and "getGroupUsers ce (conn_config p) g a s1 = (Inr (Arr us), s2)" "list_all is_record us"
  shows "\<exists>us'. zabbix_execute ce p s =
      or_fail (io_bind (zabbix_call ce (conn_config p) ''usergroup.update''
        (Obj [(''usrgrpid'', g), (''users'', Arr us')]) (Some a)) (\<lambda>r. io_return (result_ok r))) s2 \<and>
    filter (\<lambda>u. userid_of u \<noteq> Str uid) us' = filter (\<lambda>u. userid_of u \<noteq> Str uid) us \<and>
    (Str uid \<in> userid_of ` set us' \<longleftrightarrow> p_operation p = ''group.addMember'')"
proof -
  define us' where "us' = (if p_operation p = ''group.addMember''
      then (if Str uid \<in> userid_of ` set us then us else us @ [Obj [(''userid'', Str uid)]])
      else filter (\<lambda>u. userid_of u \<noteq> Str uid) us)"
  have up: "updated_users (p_operation p) (Arr us) (Str uid) = Inr (Arr us')"
    using assms(1) updated_users_records [OF assms(9)] by (auto simp: us'_def)
  have g: "coalesce g b = g" for b using assms(4) by (cases g) auto
  have "zabbix_execute ce p s =
      or_fail (io_bind (zabbix_call ce (conn_config p) ''usergroup.update''
        (Obj [(''usrgrpid'', g), (''users'', Arr us')]) (Some a)) (\<lambda>r. io_return (result_ok r))) s2"
    using assms(1,2,4,6,7,8) up
    by (auto simp: zabbix_execute_def Let_def zabbix_members_def assms(3,5) g or_fail_def io_simps)
  moreover have "filter (\<lambda>u. userid_of u \<noteq> Str uid) us' = filter (\<lambda>u. userid_of u \<noteq> Str uid) us"
    by (auto simp: us'_def userid_of_def js_prop_def obj_get_def)
  moreover have "Str uid \<in> userid_of ` set us' \<longleftrightarrow> p_operation p = ''group.addMember''"
    using assms(1) by (auto simp: us'_def userid_of_def js_prop_def obj_get_def)
  ultimately show ?thesis by blast
qed

theorem zabbix_member_update_witness:
  "\<exists>us'. fst (zabbix_execute (zabbix_demo_env (Arr [Obj [(''users'', Arr [Obj [(''userid'', Str ''1'')]])]]))
       (zabbix_demo_payload ''group.addMember'' [(''groupId'', Str ''7''), (''userId'', Str ''2'')]) ()) =
     Inr (result_ok (Arr [Obj [(''users'', Arr [Obj [(''userid'', Str ''1'')]])]])) \<and>
     Str ''2'' \<in> userid_of ` set us' \<and> filter (\<lambda>u. userid_of u \<noteq> Str ''2'') us' = [Obj [(''userid'', Str ''1'')]]"
proof -
  let ?ce = "zabbix_demo_env (Arr [Obj [(''users'', Arr [Obj [(''userid'', Str ''1'')]])]])"
  let ?p = "zabbix_demo_payload ''group.addMember'' [(''groupId'', Str ''7''), (''userId'', Str ''2'')]"
  let ?a = "\<lparr>za_token = Str ''t'', za_mode = Bearer\<rparr>"
  note call_simps = zabbix_call_def http_send_def io_simps axios_tls_def zabbix_result_def js_read_def nullish_def
  have auth: "resolveAuth ?ce (conn_config ?p) () = (Inr ?a, ())"
    by (simp add: resolveAuth_def zabbix_demo_simps io_simps)
  have users: "getGroupUsers ?ce (conn_config ?p) (Str ''7'') ?a () = (Inr (Arr [Obj [(''userid'', Str ''1'')]]), ())"
    by (simp add: getGroupUsers_def call_simps zabbix_demo_simps js_first_def)
  have p: "p_operation ?p \<in> {''group.addMember'', ''group.removeMember''}" "truthy (js_prop (conn_config ?p) ''baseUrl'')"
      "obj_get (conn_params ?p) ''groupId'' = Str ''7''" "obj_get (conn_params ?p) ''userId'' = Str ''2''"
    by (simp_all add: zabbix_demo_simps)
  from zabbix_member_update [OF p(1,2,3) _ p(4) _ auth users]
  obtain us' where us': "zabbix_execute ?ce ?p () =
      or_fail (io_bind (zabbix_call ?ce (conn_config ?p) ''usergroup.update''
        (Obj [(''usrgrpid'', Str ''7''), (''users'', Arr us')]) (Some ?a)) (\<lambda>r. io_return (result_ok r))) ()"
    "filter (\<lambda>u. userid_of u \<noteq> Str ''2'') us' = filter (\<lambda>u. userid_of u \<noteq> Str ''2'') [Obj [(''userid'', Str ''1'')]]"
    "Str ''2'' \<in> userid_of ` set us'"
    by (auto simp: is_record_def zabbix_demo_payload_def)
  then show ?thesis
    by (intro exI [of _ us'])
      (simp add: or_fail_def call_simps zabbix_demo_env_def userid_of_def js_prop_def obj_get_def)
qed

text \<open>
  The comparison is strict, so a user named by a number, as a JSON payload may do, is not found among
  the identifiers Zabbix returns as text: removing it sends the list back unchanged.
\<close>

lemma numeric_member_not_removed:
  "list_all (\<lambda>u. is_record u \<and> (\<exists>s. userid_of u = Str s)) us \<Longrightarrow>
     updated_users ''group.removeMember'' (Arr us) (JInt n) = Inr (Arr us)"
proof -
  assume us: "list_all (\<lambda>u. is_record u \<and> (\<exists>s. userid_of u = Str s)) us"
  then have "list_all is_record us" by (auto simp: list_all_iff)
  moreover have "filter (\<lambda>u. \<not> js_eq (userid_of u) (JInt n)) us = us"
    using us by (auto simp: list_all_iff js_eq_def intro!: filter_True)
  ultimately show ?thesis by (simp add: updated_users_def without_userid_records)
qed

end
