(* ===== verification/Cmdbuild_Connector.thy ===== *)
theory Cmdbuild_Connector
  imports Connector_Client
begin

text \<open>
  \<^verbatim>\<open>src/connectors/implementations/cmdbuild-connector/cmdbuild-connector.service.ts\<close>: the operations of
  the vocabulary as requests to the CMDBuild REST interface; updates read the entity first and write it
  back merged. Case folding is that of ASCII.
\<close>

definition CMDBUILD_PARTIAL_OPERATIONS :: "(string \<times> string) list" where
  "CMDBUILD_PARTIAL_OPERATIONS =
    [(''user.delete'', ''CMDBuild REST v3 user DELETE is not available on the test stand; mapped to active=false.''),
     (''user.lock'', ''CMDBuild user API has no separate IDM lock flag; mapped to active=false.''),
     (''user.unlock'', ''CMDBuild user API has no separate IDM unlock flag; mapped to active=true.''),
     (''user.changePassword'', ''CMDBuild REST v3 /users/{id}/password is not available on the test stand; mapped to full PUT /users/{id} with password.''),
     (''user.addAttributes'', ''Generic PUT on /users/{id}; accepted attributes depend on CMDBuild user model.''),
     (''user.removeAttributes'', ''Generic PUT on /users/{id}; requested fields are sent as null values.''),
     (''schema.get'', ''Returns CMDBuild class catalog, not a transformed Avanpost IDM schema.''),
     (''group.delete'', ''CMDBuild REST v3 role DELETE is not available on the test stand; mapped to active=false.''),
     (''group.addMember'', ''CMDBuild REST v3 POST /roles/{id}/users fails on the test stand; mapped to full PUT /users/{id} userGroups update.''),
     (''group.removeMember'', ''CMDBuild REST v3 POST /roles/{id}/users fails on the test stand; mapped to full PUT /users/{id} userGroups update.''),
     (''group.search'', ''CMDBuild REST v3 /roles filter is ignored on the test stand; connector applies bounded client-side filtering.''),
     (''sync.incremental'', ''Uses /users without a CMDBuild change cursor or high-watermark.'')]"

definition cmdbuild_capabilities :: connector_capabilities where
  "cmdbuild_capabilities =
     createConnectorCapabilities CMDBUILD_PARTIAL_OPERATIONS (no_overrides\<lparr>o_supportsIncrementalSync := Some False\<rparr>)"

section \<open>Building requests\<close>

definition getApiPath :: "js \<Rightarrow> js" where
  "getApiPath config = coalesce (js_prop config ''apiPath'') (Str ''/cmdbuild/services/rest/v3'')"

definition getAuthHeader :: "js \<Rightarrow> js" where
  "getAuthHeader config =
     Str (''Basic '' @ base64 (js_string (js_prop config ''username'') @ '':'' @ js_string (js_prop config ''password'')))"

definition cmdbuild_appendQuery :: "string \<Rightarrow> obj \<Rightarrow> string" where
  "cmdbuild_appendQuery path query =
     (let params = foldl (\<lambda>ps (k, v). if present v then usp_set k (query_text v) ps else ps) [] query;
          query_string = usp_toString params in
      if query_string \<noteq> [] then path @ ''?'' @ query_string else path)"

definition buildSimpleFilter :: "string \<Rightarrow> js \<Rightarrow> string \<Rightarrow> js" where
  "buildSimpleFilter attribute value operator =
     (let normalized = firstValue [value] in
      case normalized of
        Undef \<Rightarrow> Undef
      | Arr _ \<Rightarrow> Str (json_text normalized)
      | Obj _ \<Rightarrow> Str (json_text normalized)
      | _ \<Rightarrow>
          (let t = trim (query_text normalized) in
           if t = [] then Undef
           else if starts_with t ''{'' \<or> starts_with t ''['' then Str t
           else Str (json_text (Obj [(''attribute'', Obj [(''simple'', Obj [(''attribute'', Str attribute),
                  (''operator'', Str operator), (''value'', Arr [Str t])])])]))))"

definition segment_ok :: "string \<Rightarrow> bool" where
  "segment_ok t \<longleftrightarrow> t \<noteq> [] \<and> t \<noteq> ''.'' \<and> t \<noteq> ''..'' \<and> CHR ''/'' \<notin> set t \<and> CHR 0x5C \<notin> set t \<and> CHR ''?'' \<notin> set t \<and>
     CHR ''#'' \<notin> set t \<and> \<not> str_includes (to_lower t) ''%2f'' \<and> \<not> str_includes (to_lower t) ''%5c''"

definition pathSegment :: "js \<Rightarrow> string \<Rightarrow> exn + string" where
  "pathSegment value name =
     (case value of
        Str _ \<Rightarrow> (let t = trim (js_string value) in
          if segment_ok t then Inr (encodeURIComponent t) else Inl (Error (''Invalid CMDBuild path segment: '' @ name)))
      | Num _ \<Rightarrow> (let t = trim (js_string value) in
          if segment_ok t then Inr (encodeURIComponent t) else Inl (Error (''Invalid CMDBuild path segment: '' @ name)))
      | _ \<Rightarrow> Inl (Error (''Missing '' @ name)))"

definition applyDefaultUserGroup :: "js \<Rightarrow> obj \<Rightarrow> obj" where
  "applyDefaultUserGroup config data =
     (if obj_get data ''userGroups'' \<noteq> Undef \<or> js_prop config ''defaultUserGroupId'' = Undef then data
      else obj_set (obj_spread [(''active'', Bool True), (''service'', Bool False), (''language'', Str ''en'')] data)
             ''userGroups'' (Arr [Obj [(''_id'', js_prop config ''defaultUserGroupId'')]]))"

definition toPositiveInteger :: "js \<Rightarrow> int \<Rightarrow> int" where
  "toPositiveInteger value fallback =
     (case num_int (to_number value) of Some n \<Rightarrow> (if n \<le> 0 then fallback else n) | None \<Rightarrow> fallback)"

text \<open>A request as \<open>buildRequest\<close> returns it: path, method and body (undefined for none).\<close>

definition entity_request :: "string \<Rightarrow> js \<Rightarrow> string \<Rightarrow> string \<Rightarrow> js \<Rightarrow> exn + string \<times> string \<times> js" where
  "entity_request path i sfx method body =
     res_bind (pathSegment i ''id'') (\<lambda>seg. Inr (path @ seg @ sfx, method, body))"

definition null_fields :: "obj \<Rightarrow> obj" where
  "null_fields data = map (\<lambda>k. (k, Null)) (obj_keys data)"

definition cmdbuild_user_request :: "string \<Rightarrow> obj \<Rightarrow> obj \<Rightarrow> (exn + string \<times> string \<times> js) option" where
  "cmdbuild_user_request operation data params =
     (let userId = coalesce (obj_get params ''id'') (obj_get data ''id'');
          user = entity_request ''/users/'' userId [] in
      if operation = ''user.create'' then Some (Inr (''/users'', ''POST'', Obj data))
      else if operation = ''user.update'' then Some (user ''PUT'' (Obj data))
      else if operation = ''user.delete'' then Some (user ''DELETE'' Undef)
      else if operation = ''user.get'' then Some (user ''GET'' Undef)
      else if operation = ''user.search'' then
        Some (Inr (cmdbuild_appendQuery ''/users''
          [(''filter'', buildSimpleFilter ''username'' (firstValue [obj_get params ''filter'', obj_get data ''filter'']) ''like''),
           (''limit'', firstValue [obj_get params ''limit'', obj_get data ''limit''])], ''GET'', Undef))
      else if operation = ''user.enable'' \<or> operation = ''user.unlock'' then Some (user ''PUT'' (Obj [(''active'', Bool True)]))
      else if operation = ''user.disable'' \<or> operation = ''user.lock'' then Some (user ''PUT'' (Obj [(''active'', Bool False)]))
      else if operation = ''user.changePassword'' then
        Some (entity_request ''/users/'' userId ''/password'' ''POST''
          (Obj [(''password'', coalesce (obj_get data ''newValue'') (obj_get data ''password''))]))
      else if operation = ''user.resolve'' then
        Some (Inr (cmdbuild_appendQuery ''/users''
          [(''filter'', buildSimpleFilter ''username''
              (firstValue [obj_get params ''username'', obj_get data ''username'', obj_get params ''login'',
                 obj_get data ''login'', obj_get params ''filter'', obj_get data ''filter'']) ''equal'')], ''GET'', Undef))
      else if operation = ''user.addAttributes'' then Some (user ''PUT'' (Obj data))
      else if operation = ''user.removeAttributes'' then Some (user ''PUT'' (Obj (null_fields data)))
      else None)"

definition cmdbuild_group_request :: "string \<Rightarrow> obj \<Rightarrow> obj \<Rightarrow> (exn + string \<times> string \<times> js) option" where
  "cmdbuild_group_request operation data params =
     (let userId = coalesce (obj_get params ''id'') (obj_get data ''id'');
          role = entity_request ''/roles/'' userId [] in
      if operation = ''group.create'' then Some (Inr (''/roles'', ''POST'', Obj data))
      else if operation = ''group.update'' then Some (role ''PUT'' (Obj data))
      else if operation = ''group.delete'' then Some (role ''DELETE'' Undef)
      else if operation = ''group.get'' then Some (role ''GET'' Undef)
      else if operation = ''group.search'' then
        Some (Inr (cmdbuild_appendQuery ''/roles''
          [(''filter'', buildSimpleFilter ''name'' (firstValue [obj_get params ''filter'', obj_get data ''filter'']) ''like''),
           (''limit'', firstValue [obj_get params ''limit'', obj_get data ''limit''])], ''GET'', Undef))
      else None)"

definition cmdbuild_buildRequest :: "string \<Rightarrow> obj \<Rightarrow> obj \<Rightarrow> exn + string \<times> string \<times> js" where
  "cmdbuild_buildRequest operation data params =
     (case cmdbuild_user_request operation data params of
        Some r \<Rightarrow> r
      | None \<Rightarrow>
          (case cmdbuild_group_request operation data params of
             Some r \<Rightarrow> r
           | None \<Rightarrow>
               if operation = ''system.test'' then Inr (''/classes'', ''GET'', Undef)
               else if operation = ''schema.get'' then Inr (''/classes'', ''GET'', Undef)
               else if operation = ''sync.full'' \<or> operation = ''sync.incremental'' then Inr (''/users'', ''GET'', Undef)
               else Inl (Error (''Unsupported CMDBuild operation: '' @ operation))))"

section \<open>Calls\<close>

definition cmdbuild_request :: "js \<Rightarrow> string \<Rightarrow> string \<Rightarrow> js \<Rightarrow> http_request" where
  "cmdbuild_request config method path body =
     \<lparr>hq_method = method, hq_url = js_string (js_prop config ''baseUrl'') @ js_string (getApiPath config) @ path,
      hq_headers = [(''Content-Type'', Str ''application/json''), (''Authorization'', getAuthHeader config)],
      hq_data = body, hq_timeout = JInt 30000, hq_agent = Undef\<rparr>"

definition cmdbuild_call :: "'e conn_env \<Rightarrow> js \<Rightarrow> string \<Rightarrow> string \<Rightarrow> js \<Rightarrow> ('e, js) io" where
  "cmdbuild_call ce config method path body =
     io_bind (http_send ce (js_prop config ''baseUrl'') (js_prop config ''tls'') ''CMDBuild''
        (cmdbuild_request config method path body)) (\<lambda>response. io_return (hs_data response))"

definition getEntity :: "'e conn_env \<Rightarrow> js \<Rightarrow> string \<Rightarrow> ('e, js) io" where
  "getEntity ce config path =
     io_bind (cmdbuild_call ce config ''GET'' path Undef) (\<lambda>response.
     io_bind (io_of_sum (js_read response ''data'')) (\<lambda>data.
     if \<not> truthy data then io_throw (Error (''CMDBuild entity not found: '' @ path)) else io_return data))"

definition putMerged :: "'e conn_env \<Rightarrow> js \<Rightarrow> string \<Rightarrow> obj \<Rightarrow> ('e, js) io" where
  "putMerged ce config path patch =
     io_bind (getEntity ce config path) (\<lambda>current.
     cmdbuild_call ce config ''PUT'' path (Obj (obj_spread (js_spread current) patch)))"

text \<open>\<open>currentGroups.some(...)\<close>, the filter and the final \<open>map\<close>; reading an entry that is null throws.\<close>

fun has_role :: "js list \<Rightarrow> js \<Rightarrow> exn + bool" where
  "has_role [] roleId = Inr False"
| "has_role (g # gs) roleId =
     res_bind (js_read g ''_id'') (\<lambda>v. if js_string v = js_string roleId then Inr True else has_role gs roleId)"

fun without_role :: "js list \<Rightarrow> js \<Rightarrow> exn + js list" where
  "without_role [] roleId = Inr []"
| "without_role (g # gs) roleId =
     res_bind (js_read g ''_id'') (\<lambda>v. res_bind (without_role gs roleId) (\<lambda>rest.
       Inr (if js_string v \<noteq> js_string roleId then g # rest else rest)))"

fun group_refs :: "js list \<Rightarrow> exn + js list" where
  "group_refs [] = Inr []"
| "group_refs (g # gs) =
     res_bind (js_read g ''_id'') (\<lambda>v. res_bind (group_refs gs) (\<lambda>rest. Inr (Obj [(''_id'', v)] # rest)))"

definition next_groups :: "js list \<Rightarrow> js \<Rightarrow> bool \<Rightarrow> exn + js list" where
  "next_groups currentGroups roleId add =
     res_bind (has_role currentGroups roleId) (\<lambda>hasRole.
     res_bind (if add \<and> \<not> hasRole then Inr (currentGroups @ [Obj [(''_id'', roleId)]])
               else if \<not> add then without_role currentGroups roleId else Inr currentGroups) group_refs)"

definition updateUserRoleMembership :: "'e conn_env \<Rightarrow> js \<Rightarrow> js \<Rightarrow> js \<Rightarrow> bool \<Rightarrow> ('e, js) io" where
  "updateUserRoleMembership ce config roleId userId add =
     io_bind (io_of_sum (pathSegment userId ''userId'')) (\<lambda>safeUserId.
     io_bind (getEntity ce config (''/users/'' @ safeUserId)) (\<lambda>user.
     let currentGroups = (case js_prop user ''userGroups'' of Arr gs \<Rightarrow> gs | _ \<Rightarrow> []) in
     io_bind (io_of_sum (next_groups currentGroups roleId add)) (\<lambda>groups.
     cmdbuild_call ce config ''PUT'' (''/users/'' @ safeUserId)
       (Obj (obj_set (js_spread user) ''userGroups'' (Arr groups))))))"

definition role_matches :: "string \<Rightarrow> js \<Rightarrow> exn + bool" where
  "role_matches needle row =
     res_bind (js_read row ''name'') (\<lambda>n. res_bind (js_read row ''description'') (\<lambda>d.
       Inr (list_ex (\<lambda>v. str_includes (to_lower (query_text v)) needle) (filter (\<lambda>v. \<not> nullish v) [n, d]))))"

fun filter_roles :: "string \<Rightarrow> js list \<Rightarrow> exn + js list" where
  "filter_roles needle [] = Inr []"
| "filter_roles needle (row # rows) =
     res_bind (role_matches needle row) (\<lambda>b. res_bind (filter_roles needle rows) (\<lambda>rest.
       Inr (if b then row # rest else rest)))"

definition searchRoles :: "'e conn_env \<Rightarrow> js \<Rightarrow> js \<Rightarrow> js \<Rightarrow> ('e, js) io" where
  "searchRoles ce config flt limitValue =
     (let requestedLimit = toPositiveInteger limitValue 50; sourceLimit = max requestedLimit 500 in
      io_bind (cmdbuild_call ce config ''GET'' (cmdbuild_appendQuery ''/roles'' [(''limit'', JInt sourceLimit)]) Undef) (\<lambda>response.
      io_bind (io_of_sum (js_read response ''data'')) (\<lambda>data.
      let rows = (case data of Arr xs \<Rightarrow> xs | _ \<Rightarrow> []);
          needle = (case firstValue [flt] of Undef \<Rightarrow> [] | t \<Rightarrow> to_lower (trim (query_text t))) in
      io_bind (io_of_sum (if needle \<noteq> [] then filter_roles needle rows else Inr rows)) (\<lambda>filtered.
      io_return (Obj (obj_set (obj_set (js_spread response) ''data'' (Arr (take (nat requestedLimit) filtered)))
        ''meta'' (Obj (obj_set (js_spread (coalesce (js_prop response ''meta'') (Obj []))) ''total''
          (JInt (int (length filtered)))))))))))"

definition on_entity :: "'e conn_env \<Rightarrow> js \<Rightarrow> string \<Rightarrow> js \<Rightarrow> obj \<Rightarrow> ('e, js) io" where
  "on_entity ce config path i patch =
     io_bind (io_of_sum (pathSegment i ''id'')) (\<lambda>seg. putMerged ce config (path @ seg) patch)"

text \<open>Undefined for an operation that \<open>buildRequest\<close> handles.\<close>

definition executeStatefulOperation :: "'e conn_env \<Rightarrow> js \<Rightarrow> string \<Rightarrow> obj \<Rightarrow> obj \<Rightarrow> ('e, js) io" where
  "executeStatefulOperation ce config operation data params =
     (let i = coalesce (obj_get params ''id'') (obj_get data ''id'');
          user = on_entity ce config ''/users/'' i; role = on_entity ce config ''/roles/'' i in
      if operation = ''user.create''
        then cmdbuild_call ce config ''POST'' ''/users'' (Obj (applyDefaultUserGroup config data))
      else if operation = ''user.update'' \<or> operation = ''user.addAttributes'' then user data
      else if operation = ''user.removeAttributes'' then user (null_fields data)
      else if operation = ''user.enable'' \<or> operation = ''user.unlock'' then user [(''active'', Bool True)]
      else if operation = ''user.disable'' \<or> operation = ''user.lock'' \<or> operation = ''user.delete''
        then user [(''active'', Bool False)]
      else if operation = ''user.changePassword'' then
        (let password = firstValue [obj_get data ''newValue'', obj_get data ''password''] in
         if \<not> truthy password then io_throw (Error ''Missing password for user.changePassword'')
         else user [(''password'', password)])
      else if operation = ''group.update'' then role data
      else if operation = ''group.delete'' then role [(''active'', Bool False)]
      else if operation = ''group.search'' then
        searchRoles ce config (firstValue [obj_get params ''filter'', obj_get data ''filter''])
          (firstValue [obj_get params ''limit'', obj_get data ''limit''])
      else io_return Undef)"

section \<open>Operations\<close>

definition cmdbuild_members :: "'e conn_env \<Rightarrow> js \<Rightarrow> string \<Rightarrow> obj \<Rightarrow> obj \<Rightarrow> ('e, conn_result) io" where
  "cmdbuild_members ce config operation data params =
     (let roleId = coalesce (coalesce (coalesce (obj_get params ''roleId'') (obj_get data ''roleId''))
            (obj_get params ''id'')) (obj_get data ''id'');
          userId = coalesce (obj_get params ''userId'') (obj_get data ''userId'') in
      if \<not> truthy roleId \<or> \<not> truthy userId
      then io_return (result_fail ''Missing roleId or userId for group member operation'')
      else io_bind (updateUserRoleMembership ce config roleId userId (operation = ''group.addMember'')) (\<lambda>response.
           io_return (result_ok response)))"

text \<open>The rest of \<open>execute\<close>, after the stateful operations.\<close>

definition cmdbuild_finish :: "'e conn_env \<Rightarrow> js \<Rightarrow> string \<Rightarrow> obj \<Rightarrow> obj \<Rightarrow> js \<Rightarrow> ('e, conn_result) io" where
  "cmdbuild_finish ce config operation data params specialResponse =
     (if specialResponse \<noteq> Undef then io_return (result_ok specialResponse)
      else io_bind (io_of_sum (cmdbuild_buildRequest operation data params)) (\<lambda>(url, method, body).
           io_bind (cmdbuild_call ce config method url body) (\<lambda>response.
           io_return (result_ok response))))"

definition cmdbuild_execute :: "'e conn_env \<Rightarrow> conn_payload \<Rightarrow> ('e, conn_result) io" where
  "cmdbuild_execute ce payload =
     (let config = conn_config payload; operation = p_operation payload;
          data = conn_data payload; params = conn_params payload in
      if \<not> truthy (js_prop config ''baseUrl'') then io_return (result_fail ''Missing CMDBuild config (baseUrl)'')
      else or_fail
        (if operation = ''group.addMember'' \<or> operation = ''group.removeMember''
         then cmdbuild_members ce config operation data params
         else io_bind (executeStatefulOperation ce config operation data params)
                (cmdbuild_finish ce config operation data params)))"

definition cmdbuild_testConnection :: "'e conn_env \<Rightarrow> obj \<Rightarrow> ('e, test_result) io" where
  "cmdbuild_testConnection ce cfg =
     (if \<not> truthy (obj_get cfg ''baseUrl'') then io_return (test_fail ''Missing baseUrl in config'')
      else or_test_fail ''CMDBuild connection failed: ''
        (io_bind (http_send ce (obj_get cfg ''baseUrl'') (obj_get cfg ''tls'') ''CMDBuild''
            \<lparr>hq_method = ''GET'', hq_url = js_string (obj_get cfg ''baseUrl'') @ js_string (getApiPath (Obj cfg)) @ ''/classes'',
             hq_headers = [(''Authorization'', getAuthHeader (Obj cfg))], hq_data = Undef, hq_timeout = JInt 30000,
             hq_agent = Undef\<rparr>) (\<lambda>_.
         io_return (test_ok ''CMDBuild API reachable''))))"

definition cmdbuild_connector :: "'e conn_env \<Rightarrow> 'e connector" where
  "cmdbuild_connector ce =
     \<lparr>c_name = ''cmdbuild'', c_execute = cmdbuild_execute ce, c_testConnection = cmdbuild_testConnection ce,
      c_getCapabilities = Some cmdbuild_capabilities, c_getSchema = None, c_sync = None\<rparr>"

interpretation cmdbuild: reporting_connector "cmdbuild_connector ce" for ce
proof
  fix p cfg
  show "never_throws (c_execute (cmdbuild_connector ce) p)"
    by (simp add: cmdbuild_connector_def cmdbuild_execute_def Let_def never_throws_return)
  show "never_throws (c_testConnection (cmdbuild_connector ce) cfg)"
    by (simp add: cmdbuild_connector_def cmdbuild_testConnection_def Let_def never_throws_return)
qed

section \<open>Paths\<close>

lemma pathSegment_Inr: "pathSegment v n = Inr seg \<Longrightarrow> segment_ok (trim (js_string v)) \<and> seg = encodeURIComponent (trim (js_string v))"
  by (auto simp: pathSegment_def Let_def split: js.splits if_splits)

text \<open>
  C28: an identifier becomes exactly one segment of the path: the segment is not empty, has no
  separator, is not a step to the same or the parent directory, and decodes to the trimmed identifier,
  so that two identifiers never address the same entity unless they are equal up to white space around
  them.
\<close>

theorem cmdbuild_path_segment:
  assumes "pathSegment v name = Inr seg"
  shows "seg \<noteq> [] \<and> set seg \<inter> set ''/?#&='' = {} \<and> CHR 0x5C \<notin> set seg \<and> seg \<noteq> ''.'' \<and> seg \<noteq> ''..'' \<and>
    percent_decode seg = trim (js_string v)"
proof -
  let ?t = "trim (js_string v)"
  have t: "segment_ok ?t" "seg = encodeURIComponent ?t" using pathSegment_Inr [OF assms] by simp_all
  have dec: "percent_decode seg = ?t" using decode_encode_URI t(2) by simp
  have "seg \<noteq> ''.''" "seg \<noteq> ''..''" using dec t(1) by (auto simp: segment_ok_def)
  moreover have "CHR 0x5C \<notin> set seg"
    using encodeURIComponent_chars [of "CHR 0x5C" ?t] not_alnum_special t(2) by (auto simp: uri_unreserved_def)
  ultimately show ?thesis
    using t dec encodeURIComponent_segment [of ?t] encodeURIComponent_Nil [of ?t] by (simp add: segment_ok_def)
qed

theorem cmdbuild_path_segment_witness:
  "pathSegment (Str '' a b'') ''id'' = Inr ''a%20b'' \<and> percent_decode ''a%20b'' = ''a b''"
proof -
  have run: "pathSegment (Str '' a b'') ''id'' = Inr ''a%20b''"
    by (simp add: pathSegment_def trim_def is_space_def segment_ok_def to_lower_def to_lower_char_def upper_letters_def
        lower_letters_def encodeURIComponent_def uri_unreserved_def is_alnum_def is_digit_def percent_byte_def hex_upper_def)
  from cmdbuild_path_segment [OF run] run show ?thesis
    by (simp add: trim_def is_space_def)
qed

section \<open>Reads do not write\<close>

lemma sends_cmdbuild_call:
  "P method \<Longrightarrow> io_inv (sent_all (\<lambda>rq. P (hq_method rq))) (cmdbuild_call (logging ce) config method path body)"
  unfolding cmdbuild_call_def by (intro io_invs) (simp add: cmdbuild_request_def)

lemma cmdbuild_read_request:
  "list_all (\<lambda>op. case cmdbuild_buildRequest op data params of Inl _ \<Rightarrow> True | Inr (_, m, _) \<Rightarrow> m = ''GET'') READ_OPERATIONS"
  by (simp add: READ_OPERATIONS_def cmdbuild_buildRequest_def cmdbuild_user_request_def cmdbuild_group_request_def Let_def
      entity_request_def res_bind_def split: sum.split)

lemma cmdbuild_read_not_stateful:
  "list_all (\<lambda>op. op \<noteq> ''group.search'' \<longrightarrow> executeStatefulOperation ce config op data params = io_return Undef) READ_OPERATIONS"
  by (simp add: READ_OPERATIONS_def executeStatefulOperation_def Let_def)

lemma sends_searchRoles:
  "P ''GET'' \<Longrightarrow> io_inv (sent_all (\<lambda>rq. P (hq_method rq))) (searchRoles (logging ce) config flt n)"
  unfolding searchRoles_def Let_def by (intro io_inv_bind io_inv_basic sends_cmdbuild_call)

text \<open>
  Executing a read operation sends CMDBuild only GET requests, whatever the request contains and
  however CMDBuild answers.
\<close>

theorem cmdbuild_reads_only_get:
  assumes "isReadOperation (p_operation p)" "cmdbuild_execute (logging ce) p (x, []) = (r, (x', sent))"
  shows "\<forall>rq \<in> set sent. hq_method rq = ''GET''"
proof -
  let ?P = "\<lambda>m. m = ''GET''"
  let ?op = "p_operation p"
  have read: "?op \<in> set READ_OPERATIONS" using assms(1) by (simp add: isReadOperation_def)
  then have nomem: "?op \<noteq> ''group.addMember''" "?op \<noteq> ''group.removeMember''"
    by (auto simp: READ_OPERATIONS_def)
  have req: "case cmdbuild_buildRequest ?op (conn_data p) (conn_params p) of Inl _ \<Rightarrow> True | Inr (_, m, _) \<Rightarrow> m = ''GET''"
    using cmdbuild_read_request [of "conn_data p" "conn_params p"] read unfolding list_all_iff by (rule bspec)
  have fin: "io_inv (sent_all (\<lambda>rq. ?P (hq_method rq)))
      (cmdbuild_finish (logging ce) (conn_config p) ?op (conn_data p) (conn_params p) v)" for v
    using req unfolding cmdbuild_finish_def
    by (cases "cmdbuild_buildRequest ?op (conn_data p) (conn_params p)")
      (auto simp: io_bind_value intro!: io_inv_basic io_inv_bind sends_cmdbuild_call [where P = ?P])
  have st: "io_inv (sent_all (\<lambda>rq. ?P (hq_method rq)))
      (executeStatefulOperation (logging ce) (conn_config p) ?op (conn_data p) (conn_params p))"
  proof (cases "?op = ''group.search''")
    case True
    then show ?thesis
      by (simp add: executeStatefulOperation_def Let_def sends_searchRoles [where P = ?P])
  next
    case False
    from cmdbuild_read_not_stateful [of "logging ce" "conn_config p" "conn_data p" "conn_params p"] read False
    have "executeStatefulOperation (logging ce) (conn_config p) ?op (conn_data p) (conn_params p) = io_return Undef"
      unfolding list_all_iff by blast
    then show ?thesis by (simp add: io_inv_basic)
  qed
  have "io_inv (sent_all (\<lambda>rq. ?P (hq_method rq))) (cmdbuild_execute (logging ce) p)"
    using nomem st fin unfolding cmdbuild_execute_def Let_def
    by (auto intro!: io_inv_if sends_or_fail io_inv_bind io_inv_basic)
  from sent_by [OF this assms(2)] show ?thesis by (simp add: list_all_iff)
qed

definition cmdbuild_demo_env :: "js \<Rightarrow> unit conn_env" where
  "cmdbuild_demo_env data = \<lparr>ce_http = (\<lambda>rq s. (Inr \<lparr>hs_status = 200, hs_data = data\<rparr>, s)), ce_tls = None, ce_now = (\<lambda>_. 0)\<rparr>"

definition cmdbuild_demo_payload :: "string \<Rightarrow> obj \<Rightarrow> conn_payload" where
  "cmdbuild_demo_payload op params = \<lparr>p_operation = op, p_targetSystem = ''c'',
     p_payload = [(''config'', Obj [(''baseUrl'', Str ''http://c'')]), (''params'', Obj params)]\<rparr>"

lemmas cmdbuild_demo_simps =
  cmdbuild_demo_env_def cmdbuild_demo_payload_def conn_config_def conn_data_def conn_params_def as_record_def js_prop_def obj_get_def

lemmas cmdbuild_call_simps =
  cmdbuild_call_def http_send_def io_simps axios_tls_def js_read_def nullish_def cmdbuild_request_def

theorem cmdbuild_reads_only_get_witness:
  "\<exists>r rq. cmdbuild_execute (logging (cmdbuild_demo_env (Obj []))) (cmdbuild_demo_payload ''sync.full'' []) ((), []) =
     (r, ((), [rq])) \<and> hq_method rq = ''GET''"
proof -
  let ?p = "cmdbuild_demo_payload ''sync.full'' []"
  have r: "isReadOperation (p_operation ?p)"
    by (simp add: cmdbuild_demo_payload_def isReadOperation_def READ_OPERATIONS_def)
  obtain r rq where run: "cmdbuild_execute (logging (cmdbuild_demo_env (Obj []))) ?p ((), []) = (r, ((), [rq]))"
    by (simp add: cmdbuild_execute_def cmdbuild_demo_simps or_fail_def executeStatefulOperation_def cmdbuild_finish_def
        cmdbuild_buildRequest_def cmdbuild_user_request_def cmdbuild_group_request_def cmdbuild_call_simps logging_def logged_def)
  from cmdbuild_reads_only_get [OF r run] run show ?thesis by auto
qed

section \<open>Updates keep the rest of the entity\<close>

lemma obj_get_overlay: "obj_ok patch \<Longrightarrow> obj_get (obj_spread cur patch) k = (if has_own patch k then obj_get patch k else obj_get cur k)"
  by (rule obj_get_spread)

text \<open>The fields an operation on an existing user changes.\<close>

definition user_patch :: "string \<Rightarrow> obj \<Rightarrow> obj option" where
  "user_patch op data =
     (if op = ''user.update'' \<or> op = ''user.addAttributes'' then Some data
      else if op = ''user.removeAttributes'' then Some (null_fields data)
      else if op = ''user.enable'' \<or> op = ''user.unlock'' then Some [(''active'', Bool True)]
      else if op = ''user.disable'' \<or> op = ''user.lock'' \<or> op = ''user.delete'' then Some [(''active'', Bool False)]
      else None)"

lemma stateful_user:
  assumes "user_patch op data = Some patch"
  shows "executeStatefulOperation ce config op data params =
    on_entity ce config ''/users/'' (coalesce (obj_get params ''id'') (obj_get data ''id'')) patch"
proof -
  let ?ops = "[''user.update'', ''user.addAttributes'', ''user.removeAttributes'', ''user.enable'', ''user.unlock'',
    ''user.disable'', ''user.lock'', ''user.delete'']"
  have "list_all (\<lambda>op. \<forall>patch. user_patch op data = Some patch \<longrightarrow> executeStatefulOperation ce config op data params =
      on_entity ce config ''/users/'' (coalesce (obj_get params ''id'') (obj_get data ''id'')) patch) ?ops"
    by (simp add: user_patch_def executeStatefulOperation_def Let_def)
  moreover have "op \<in> set ?ops" using assms by (simp add: user_patch_def split: if_split_asm) (elim disjE; simp)+
  ultimately show ?thesis using assms unfolding list_all_iff by blast
qed

text \<open>
  Changing a user reads it and writes it back with the fields of the request replaced and every
  other field as it was read; a deletion only clears \<open>active\<close>, and a removal of attributes sets them to
  null.
\<close>

theorem cmdbuild_update_merges:
  assumes "user_patch (p_operation p) (conn_data p) = Some patch" "obj_ok patch"
    and "truthy (js_prop (conn_config p) ''baseUrl'')"
    and "pathSegment (coalesce (obj_get (conn_params p) ''id'') (obj_get (conn_data p) ''id'')) ''id'' = Inr seg"
    and "getEntity ce (conn_config p) (''/users/'' @ seg) s = (Inr (Obj cur), s1)"
  shows "\<exists>body. cmdbuild_execute ce p s =
      or_fail (io_bind (cmdbuild_call ce (conn_config p) ''PUT'' (''/users/'' @ seg) (Obj body))
        (cmdbuild_finish ce (conn_config p) (p_operation p) (conn_data p) (conn_params p))) s1 \<and>
    (\<forall>k. obj_get body k = (if has_own patch k then obj_get patch k else obj_get cur k))"
proof (intro exI conjI)
  have nomem: "p_operation p \<noteq> ''group.addMember''" "p_operation p \<noteq> ''group.removeMember''"
    using assms(1) by (auto simp: user_patch_def split: if_splits)
  show "cmdbuild_execute ce p s =
      or_fail (io_bind (cmdbuild_call ce (conn_config p) ''PUT'' (''/users/'' @ seg) (Obj (obj_spread cur patch)))
        (cmdbuild_finish ce (conn_config p) (p_operation p) (conn_data p) (conn_params p))) s1"
    using nomem assms(3-5)
    by (simp add: cmdbuild_execute_def Let_def stateful_user [OF assms(1)] on_entity_def io_bind_value putMerged_def
        or_fail_def io_simps js_spread_def split: prod.split sum.split)
  show "\<forall>k. obj_get (obj_spread cur patch) k = (if has_own patch k then obj_get patch k else obj_get cur k)"
    using obj_get_overlay [OF assms(2)] by blast
qed

theorem cmdbuild_update_merges_witness:
  "\<exists>body. fst (cmdbuild_execute (cmdbuild_demo_env (Obj [(''data'', Obj [(''active'', Bool True), (''email'', Str ''e'')])]))
       (cmdbuild_demo_payload ''user.delete'' [(''id'', Str ''7'')]) ()) =
     Inr (result_ok (Obj [(''data'', Obj [(''active'', Bool True), (''email'', Str ''e'')])])) \<and>
     obj_get body ''active'' = Bool False \<and> obj_get body ''email'' = Str ''e''"
proof -
  let ?ce = "cmdbuild_demo_env (Obj [(''data'', Obj [(''active'', Bool True), (''email'', Str ''e'')])])"
  let ?p = "cmdbuild_demo_payload ''user.delete'' [(''id'', Str ''7'')]"
  have u: "user_patch (p_operation ?p) (conn_data ?p) = Some [(''active'', Bool False)]"
      "truthy (js_prop (conn_config ?p) ''baseUrl'')"
    by (simp_all add: user_patch_def cmdbuild_demo_simps)
  have i: "coalesce (obj_get (conn_params ?p) ''id'') (obj_get (conn_data ?p) ''id'') = Str ''7''"
    by (simp add: cmdbuild_demo_simps)
  have "pathSegment (Str ''7'') ''id'' = Inr ''7''"
    by (simp add: pathSegment_def trim_def is_space_def segment_ok_def to_lower_def to_lower_char_def
        upper_letters_def lower_letters_def encodeURIComponent_def uri_unreserved_def is_alnum_def is_digit_def)
  then have seg: "pathSegment (coalesce (obj_get (conn_params ?p) ''id'') (obj_get (conn_data ?p) ''id'')) ''id'' = Inr ''7''"
    unfolding i .
  have ent: "getEntity ?ce (conn_config ?p) (''/users/'' @ ''7'') () = (Inr (Obj [(''active'', Bool True), (''email'', Str ''e'')]), ())"
    by (simp add: getEntity_def cmdbuild_call_simps cmdbuild_demo_simps)
  from cmdbuild_update_merges [OF u(1) _ u(2) seg ent] obtain body where b: "cmdbuild_execute ?ce ?p () =
      or_fail (io_bind (cmdbuild_call ?ce (conn_config ?p) ''PUT'' (''/users/'' @ ''7'') (Obj body))
        (cmdbuild_finish ?ce (conn_config ?p) (p_operation ?p) (conn_data ?p) (conn_params ?p))) ()"
      "\<forall>k. obj_get body k = (if has_own [(''active'', Bool False)] k then obj_get [(''active'', Bool False)] k
          else obj_get [(''active'', Bool True), (''email'', Str ''e'')] k)"
    by (auto simp: obj_ok_def)
  then show ?thesis
    by (intro exI [of _ body])
      (simp add: or_fail_def cmdbuild_call_simps cmdbuild_demo_env_def cmdbuild_finish_def has_own_def obj_get_def)
qed

section \<open>Membership and search\<close>

definition role_ids :: "js list \<Rightarrow> string list" where
  "role_ids gs = map (\<lambda>g. js_string (js_prop g ''_id'')) gs"

lemma js_read_Inr: "js_read v k = Inr x \<longleftrightarrow> \<not> nullish v \<and> x = js_prop v k"
  by (auto simp: js_read_def)

lemma has_role_Inr: "has_role gs r = Inr b \<Longrightarrow> b \<longleftrightarrow> js_string r \<in> set (role_ids gs)"
  by (induction gs) (auto simp: role_ids_def res_bind_Inr js_read_Inr split: if_splits)

lemma without_role_Inr: "without_role gs r = Inr gs' \<Longrightarrow> role_ids gs' = filter (\<lambda>i. i \<noteq> js_string r) (role_ids gs)"
  by (induction gs arbitrary: gs') (auto simp: role_ids_def res_bind_Inr js_read_Inr split: if_splits)

lemma group_refs_Inr: "group_refs gs = Inr gs' \<Longrightarrow> role_ids gs' = role_ids gs"
  by (induction gs arbitrary: gs') (auto simp: role_ids_def res_bind_Inr js_read_Inr js_prop_def obj_get_def)

lemma next_groups_Inr:
  assumes "next_groups gs r add = Inr gs'"
  shows "role_ids gs' = (if add then (if js_string r \<in> set (role_ids gs) then role_ids gs else role_ids gs @ [js_string r])
    else filter (\<lambda>i. i \<noteq> js_string r) (role_ids gs))"
proof -
  from assms obtain b gs1 where b: "has_role gs r = Inr b" and
    gs1: "(if add \<and> \<not> b then Inr (gs @ [Obj [(''_id'', r)]]) else if \<not> add then without_role gs r else Inr gs) = Inr gs1"
    "group_refs gs1 = Inr gs'"
    by (auto simp: next_groups_def res_bind_Inr)
  have "role_ids (gs @ [Obj [(''_id'', r)]]) = role_ids gs @ [js_string r]"
    by (simp add: role_ids_def js_prop_def obj_get_def)
  with gs1(1) has_role_Inr [OF b] without_role_Inr [of gs r gs1] group_refs_Inr [OF gs1(2)] show ?thesis
    by (auto split: if_splits)
qed

lemma filter_roles_Inr:
  "filter_roles needle rows = Inr out \<Longrightarrow> out = filter (\<lambda>r. role_matches needle r = Inr True) rows"
  by (induction rows arbitrary: out) (auto simp: res_bind_Inr split: if_splits)

end
