(* ===== verification/Passwork_Connector.thy ===== *)
theory Passwork_Connector
  imports Fake_Connector
begin

text \<open>
  \<^verbatim>\<open>src/connectors/implementations/passwork-connector/passwork-connector.service.ts\<close>: the operations of the
  vocabulary as requests to the Passwork REST interface. Secrets of the configuration are cut out of
  the messages of errors.
\<close>

definition PASSWORK_PARTIAL_OPERATIONS :: "(string \<times> string) list" where
  "PASSWORK_PARTIAL_OPERATIONS =
    [(''user.enable'', ''Mapped to Passwork unblock endpoint; Passwork has no separate IDM enable flag.''),
     (''user.disable'', ''Mapped to Passwork block endpoint; Passwork has no separate IDM disable flag.''),
     (''user.lock'', ''Mapped to Passwork block endpoint; Passwork has no separate IDM lock flag.''),
     (''user.unlock'', ''Mapped to Passwork unblock endpoint; Passwork has no separate IDM unlock flag.''),
     (''schema.get'', ''Returns idmMw Passwork user/group schema, not the full Passwork API schema.''),
     (''sync.full'', ''Reads Passwork users and user groups without decrypted secrets.'')]"

definition PASSWORK_UNSUPPORTED_OPERATIONS :: "(string \<times> string) list" where
  "PASSWORK_UNSUPPORTED_OPERATIONS =
    [(''user.changePassword'', ''Passwork password item and secret rotation operations are out of scope for the IAM connector.''),
     (''user.addAttributes'', ''Passwork user custom attribute mapping is not defined in the v1 IAM connector.''),
     (''user.removeAttributes'', ''Passwork user custom attribute removal mapping is not defined in the v1 IAM connector.''),
     (''sync.incremental'', ''Passwork API overview does not expose a stable IDM change cursor; use sync.full.'')]"

definition passwork_capabilities :: connector_capabilities where
  "passwork_capabilities =
     \<lparr>c_operations = AVANPOST_OPERATION_VALUES, c_readOperations = READ_OPERATIONS, c_writeOperations = WRITE_OPERATIONS,
      c_flags = \<lparr>supportsRead = True, supportsWrite = True, supportsSync = True, supportsIncrementalSync = False,
        supportsSchema = True\<rparr>,
      c_operationStatus = map (\<lambda>operation. (operation,
          (case map_of PASSWORK_UNSUPPORTED_OPERATIONS operation of
             Some reason \<Rightarrow> Unsupported reason
           | None \<Rightarrow> (case map_of PASSWORK_PARTIAL_OPERATIONS operation of
                Some reason \<Rightarrow> Partial reason | None \<Rightarrow> Implemented)))) AVANPOST_OPERATION_VALUES,
      c_partialOperations = Some PASSWORK_PARTIAL_OPERATIONS\<rparr>"

section \<open>Values of a request\<close>

definition toOptionalString :: "js \<Rightarrow> string option" where
  "toOptionalString value = (case value of Str s \<Rightarrow> Some s | Num n \<Rightarrow> Some (js_string value) | Bool b \<Rightarrow> Some (js_string value) | _ \<Rightarrow> None)"

definition requireId :: "string option \<Rightarrow> exn + string" where
  "requireId value =
     (case value of
        Some s \<Rightarrow> (if s = [] then Inl (Error ''Missing id for Passwork operation'') else Inr (encodeURIComponent s))
      | None \<Rightarrow> Inl (Error ''Missing id for Passwork operation''))"

text \<open>A query value is never undefined here; an item of an array may be, and is sent as the text \<open>undefined\<close>.\<close>

definition toQueryValue :: "js \<Rightarrow> string" where
  "toQueryValue value = (case toOptionalString value of Some s \<Rightarrow> s | None \<Rightarrow> js_string (JSON_stringify value))"

definition add_query :: "search_params \<Rightarrow> string \<times> js \<Rightarrow> search_params" where
  "add_query ps kv =
     (case kv of (key, value) \<Rightarrow>
        if \<not> present value then ps
        else (case value of
            Arr items \<Rightarrow> foldl (\<lambda>ps item. usp_append key (toQueryValue item) ps) ps items
          | _ \<Rightarrow> usp_set key (toQueryValue value) ps))"

definition passwork_appendQuery :: "string \<Rightarrow> obj \<Rightarrow> string" where
  "passwork_appendQuery path query =
     (let query_string = usp_toString (foldl add_query [] query) in
      if query_string \<noteq> [] then path @ ''?'' @ query_string else path)"

definition query_entry :: "string \<times> js \<Rightarrow> bool" where
  "query_entry kv \<longleftrightarrow> present (snd kv) \<and> fst kv \<noteq> ''id'' \<and> fst kv \<noteq> ''userId'' \<and> fst kv \<noteq> ''groupId''"

definition pickQuery :: "obj \<Rightarrow> obj \<Rightarrow> obj" where
  "pickQuery source defaults =
     foldl (\<lambda>query kv. if query_entry kv then obj_set query (fst kv) (snd kv) else query) [] (obj_spread source defaults)"

definition searchQuery :: "obj \<Rightarrow> obj \<Rightarrow> obj" where
  "searchQuery data params = pickQuery params
     [(''search'', firstValue [obj_get params ''search'', obj_get data ''search'', obj_get params ''query'',
         obj_get data ''query'', obj_get params ''filter'', obj_get data ''filter'']),
      (''limit'', firstValue [obj_get params ''limit'', obj_get data ''limit'']),
      (''offset'', firstValue [obj_get params ''offset'', obj_get data ''offset''])]"

definition memberUserIds :: "obj \<Rightarrow> obj \<Rightarrow> string list" where
  "memberUserIds data params =
     (case firstValue [obj_get data ''userIds'', obj_get params ''userIds''] of
        Arr items \<Rightarrow> filter (\<lambda>s. s \<noteq> []) (List.map_filter toOptionalString items)
      | _ \<Rightarrow>
          (case toOptionalString (firstValue [obj_get params ''userId'', obj_get data ''userId'']) of
             Some s \<Rightarrow> (if s \<noteq> [] then [s] else [])
           | None \<Rightarrow> []))"

section \<open>Building requests\<close>

text \<open>Method, path and body (undefined for none).\<close>

type_synonym passwork_request = "string \<times> string \<times> js"

definition at_entity :: "string \<Rightarrow> string option \<Rightarrow> string \<Rightarrow> string \<Rightarrow> js \<Rightarrow> exn + passwork_request" where
  "at_entity path i sfx method body = res_bind (requireId i) (\<lambda>seg. Inr (method, path @ seg @ sfx, body))"

definition passwork_user_request :: "string \<Rightarrow> obj \<Rightarrow> obj \<Rightarrow> (exn + passwork_request) option" where
  "passwork_user_request operation data params =
     (let i = toOptionalString (firstValue [obj_get params ''id'', obj_get data ''id'', obj_get params ''userId'', obj_get data ''userId'']);
          user = at_entity ''/users/'' i in
      if operation = ''user.create'' then Some (Inr (''POST'', ''/users'', Obj data))
      else if operation = ''user.update'' then Some (user [] ''PATCH'' (Obj data))
      else if operation = ''user.delete'' then Some (user [] ''DELETE'' Undef)
      else if operation = ''user.get'' then Some (user [] ''GET'' Undef)
      else if operation = ''user.search'' then
        Some (Inr (''GET'', passwork_appendQuery ''/users'' (searchQuery data params), Undef))
      else if operation = ''user.resolve'' then
        Some (Inr (''GET'', passwork_appendQuery ''/users'' (pickQuery params
          [(''username'', firstValue [obj_get params ''username'', obj_get data ''username'', obj_get params ''login'',
              obj_get data ''login'']),
           (''email'', firstValue [obj_get params ''email'', obj_get data ''email'']),
           (''search'', firstValue [obj_get params ''filter'', obj_get data ''filter'', obj_get params ''query'',
              obj_get data ''query'', obj_get params ''username'', obj_get data ''username'', obj_get params ''email'',
              obj_get data ''email''])]), Undef))
      else if operation = ''user.disable'' \<or> operation = ''user.lock'' then Some (user ''/block'' ''POST'' Undef)
      else if operation = ''user.enable'' \<or> operation = ''user.unlock'' then Some (user ''/unblock'' ''POST'' Undef)
      else None)"

definition passwork_group_request :: "string \<Rightarrow> obj \<Rightarrow> obj \<Rightarrow> (exn + passwork_request) option" where
  "passwork_group_request operation data params =
     (let groupId = toOptionalString (firstValue [obj_get params ''groupId'', obj_get data ''groupId'', obj_get params ''id'', obj_get data ''id'']);
          group = at_entity ''/user-groups/'' groupId in
      if operation = ''group.create'' then Some (Inr (''POST'', ''/user-groups'', Obj data))
      else if operation = ''group.update'' then Some (group [] ''POST'' (Obj data))
      else if operation = ''group.delete'' then Some (group [] ''DELETE'' Undef)
      else if operation = ''group.get'' then Some (group [] ''GET'' Undef)
      else if operation = ''group.search'' then
        Some (Inr (''GET'', passwork_appendQuery ''/user-groups'' (searchQuery data params), Undef))
      else if operation = ''group.addMember'' \<or> operation = ''group.removeMember'' then
        (let userIds = memberUserIds data params in
         Some (if userIds = [] then Inl (Error ''Missing userId or userIds for group member operation'')
               else group (if operation = ''group.addMember'' then ''/add-users'' else ''/remove-users'') ''POST''
                      (Obj [(''userIds'', Arr (map Str userIds))])))
      else None)"

definition passwork_buildRequest :: "string \<Rightarrow> obj \<Rightarrow> obj \<Rightarrow> exn + passwork_request" where
  "passwork_buildRequest operation data params =
     (case passwork_user_request operation data params of
        Some r \<Rightarrow> r
      | None \<Rightarrow>
          (case passwork_group_request operation data params of
             Some r \<Rightarrow> r
           | None \<Rightarrow>
               if operation = ''system.test'' then Inr (''GET'', ''/sessions/current/info'', Undef)
               else Inl (Error (''Unsupported Passwork operation: '' @ operation))))"

section \<open>Calls\<close>

definition getAuthToken :: "js \<Rightarrow> js" where
  "getAuthToken config = js_or (js_prop config ''accessToken'') (js_prop config ''apiToken'')"

text \<open>\<open>`${baseUrl.replace(/\/+$/, '')}/api/v1`\<close>; a base URL that is no string has no \<open>replace\<close>.\<close>

definition apiBaseUrl :: "js \<Rightarrow> exn + string" where
  "apiBaseUrl baseUrl =
     (case baseUrl of
        Str s \<Rightarrow> Inr (rev (dropWhile (\<lambda>c. c = CHR ''/'') (rev s)) @ ''/api/v1'')
      | _ \<Rightarrow> Inl (Error ''baseUrl.replace is not a function''))"

definition passwork_http :: "js \<Rightarrow> string \<Rightarrow> js \<Rightarrow> passwork_request \<Rightarrow> http_request" where
  "passwork_http config base authToken request =
     (case request of (method, path, body) \<Rightarrow>
      \<lparr>hq_method = method, hq_url = base @ path,
       hq_headers = [(''Content-Type'', Str ''application/json''), (''Authorization'', Str (''Bearer '' @ js_string authToken)),
         (''X-Response-Format'', coalesce (js_prop config ''responseFormat'') (Str ''raw''))] @
         (if truthy (js_prop config ''masterKeyHash'') then [(''Passwork-MasterKeyHash'', js_prop config ''masterKeyHash'')] else []),
       hq_data = body, hq_timeout = coalesce (js_prop config ''timeout'') (JInt 30000), hq_agent = Undef\<rparr>)"

definition passwork_call :: "'e conn_env \<Rightarrow> js \<Rightarrow> passwork_request \<Rightarrow> ('e, js) io" where
  "passwork_call ce config request =
     io_bind (io_of_sum (apiBaseUrl (js_prop config ''baseUrl''))) (\<lambda>base.
     let authToken = getAuthToken config in
     if \<not> truthy authToken then io_throw (Error ''Missing Passwork config (accessToken or apiToken)'')
     else io_bind (http_send ce (js_prop config ''baseUrl'') (js_prop config ''tls'') ''Passwork''
            (passwork_http config base authToken request)) (\<lambda>response. io_return (hs_data response)))"

definition redact_one :: "string \<Rightarrow> string \<Rightarrow> string" where
  "redact_one current secret = join ''[REDACTED]'' (split_str secret current)"

definition passwork_secrets :: "js \<Rightarrow> string list" where
  "passwork_secrets config =
     map js_string (filter truthy [js_prop config ''accessToken'', js_prop config ''apiToken'', js_prop config ''masterKeyHash''])"

definition sanitizeError :: "exn \<Rightarrow> js \<Rightarrow> string" where
  "sanitizeError error config = foldl redact_one (exn_message error) (passwork_secrets config)"

section \<open>Operations\<close>

definition passwork_schema :: obj where
  "passwork_schema = [(''objectClasses'', Arr
     [object_class ''user''
        [schema_attribute ''id'' ''string'' False False, schema_attribute ''username'' ''string'' True False,
         schema_attribute ''email'' ''string'' False False, schema_attribute ''roleId'' ''string'' False False,
         schema_attribute ''isBlocked'' ''boolean'' False False],
      object_class ''group''
        [schema_attribute ''id'' ''string'' False False, schema_attribute ''name'' ''string'' True False,
         schema_attribute ''userIds'' ''array'' False True]])]"

definition or_fail_sanitized :: "js \<Rightarrow> ('e, conn_result) io \<Rightarrow> ('e, conn_result) io" where
  "or_fail_sanitized config m = io_catch m (\<lambda>e. io_return (result_fail (sanitizeError e config)))"

definition unsupported_passwork :: "string \<Rightarrow> string \<Rightarrow> conn_result" where
  "unsupported_passwork operation reason =
     result_fail (''Unsupported Passwork operation: '' @ operation @ ''. '' @ reason)"

definition passwork_checked :: "js \<Rightarrow> ('e, conn_result) io \<Rightarrow> ('e, conn_result) io" where
  "passwork_checked config m =
     (if \<not> truthy (js_prop config ''baseUrl'') then io_return (result_fail ''Missing Passwork config (baseUrl)'')
      else if \<not> truthy (getAuthToken config)
      then io_return (result_fail ''Missing Passwork config (accessToken or apiToken)'')
      else m)"

definition passwork_read_all :: "'e conn_env \<Rightarrow> js \<Rightarrow> obj \<Rightarrow> ('e, conn_result) io" where
  "passwork_read_all ce config params =
     (let query = pickQuery params [(''limit'', coalesce (obj_get params ''limit'') (JInt 500)), (''offset'', obj_get params ''offset'')] in
      io_bind (io_both
          (passwork_call ce config (''GET'', passwork_appendQuery ''/users'' query, Undef))
          (passwork_call ce config (''GET'', passwork_appendQuery ''/user-groups'' query, Undef))) (\<lambda>(users, groups).
      io_return (result_ok (Obj [(''mode'', Str ''full''), (''users'', users), (''groups'', groups)]))))"

definition passwork_sync :: "'e conn_env \<Rightarrow> conn_payload \<Rightarrow> string \<Rightarrow> ('e, conn_result) io" where
  "passwork_sync ce payload mode =
     (if mode = ''incremental''
      then io_return (unsupported_passwork ''sync.incremental''
        (the (map_of PASSWORK_UNSUPPORTED_OPERATIONS ''sync.incremental'')))
      else let config = conn_config payload in
        passwork_checked config (or_fail_sanitized config (passwork_read_all ce config (conn_params payload))))"

definition passwork_execute :: "'e conn_env \<Rightarrow> conn_payload \<Rightarrow> ('e, conn_result) io" where
  "passwork_execute ce payload =
     (let config = conn_config payload; operation = p_operation payload in
      passwork_checked config
        (case map_of PASSWORK_UNSUPPORTED_OPERATIONS operation of
           Some reason \<Rightarrow> io_return (unsupported_passwork operation reason)
         | None \<Rightarrow> or_fail_sanitized config
             (if operation = ''schema.get'' then io_return (result_ok (Obj passwork_schema))
              else if operation = ''sync.full'' then passwork_sync ce payload ''full''
              else io_bind (io_of_sum (passwork_buildRequest operation (conn_data payload) (conn_params payload))) (\<lambda>request.
                   io_bind (passwork_call ce config request) (\<lambda>response.
                   io_return (result_ok response))))))"

definition passwork_testConnection :: "'e conn_env \<Rightarrow> obj \<Rightarrow> ('e, test_result) io" where
  "passwork_testConnection ce cfg =
     (if \<not> truthy (obj_get cfg ''baseUrl'') then io_return (test_fail ''Missing baseUrl in config'')
      else if \<not> truthy (getAuthToken (Obj cfg)) then io_return (test_fail ''Missing accessToken or apiToken in config'')
      else io_catch
        (io_bind (passwork_call ce (Obj cfg) (''GET'', ''/sessions/current/info'', Undef)) (\<lambda>_.
         io_return (test_ok ''Passwork API reachable'')))
        (\<lambda>e. io_return (test_fail (''Passwork connection failed: '' @ sanitizeError e (Obj cfg)))))"

definition passwork_getSchema :: "'e conn_env \<Rightarrow> conn_payload \<Rightarrow> ('e, conn_result) io" where
  "passwork_getSchema ce payload = passwork_execute ce (payload\<lparr>p_operation := ''schema.get''\<rparr>)"

definition passwork_connector :: "'e conn_env \<Rightarrow> 'e connector" where
  "passwork_connector ce =
     \<lparr>c_name = ''passwork'', c_execute = passwork_execute ce, c_testConnection = passwork_testConnection ce,
      c_getCapabilities = Some passwork_capabilities, c_getSchema = Some (passwork_getSchema ce),
      c_sync = Some (passwork_sync ce)\<rparr>"

lemma never_throws_sanitized [simp]: "never_throws (or_fail_sanitized config m)"
  unfolding or_fail_sanitized_def by (intro never_throws_catch never_throws_return)

lemma never_throws_checked: "never_throws m \<Longrightarrow> never_throws (passwork_checked config m)"
  unfolding passwork_checked_def by (simp add: never_throws_return)

interpretation passwork: reporting_connector "passwork_connector ce" for ce
proof
  fix p cfg
  show "never_throws (c_execute (passwork_connector ce) p)"
    by (auto simp: passwork_connector_def passwork_execute_def Let_def never_throws_return
        intro!: never_throws_checked split: option.split)
  show "never_throws (c_testConnection (passwork_connector ce) cfg)"
    by (auto simp: passwork_connector_def passwork_testConnection_def never_throws_return
        intro!: never_throws_catch)
qed

section \<open>Splitting and joining text\<close>

lemma split_str_not_Nil [simp]: "split_str sep s \<noteq> []"
  by (subst split_str.simps) (auto split: list.split)

lemma split_str_cons:
  "sep \<noteq> [] \<Longrightarrow> \<not> starts_with (c # s) sep \<Longrightarrow>
     split_str sep (c # s) = (c # hd (split_str sep s)) # tl (split_str sep s)"
  by (subst split_str.simps) (auto split: list.split)

lemma split_str_sep:
  "sep \<noteq> [] \<Longrightarrow> starts_with (c # s) sep \<Longrightarrow> split_str sep (c # s) = [] # split_str sep (drop (length sep) (c # s))"
  by (subst split_str.simps) simp

lemma join_Cons: "ps \<noteq> [] \<Longrightarrow> join sep (p # ps) = p @ sep @ join sep ps"
  by (cases ps) auto

lemma join_prefix: "\<exists>r. join sep (p # ps) = p @ r"
  by (cases ps) auto

lemma join_split_str: "sep \<noteq> [] \<Longrightarrow> join sep (split_str sep s) = s"
proof (induction sep s rule: split_str.induct)
  case (1 sep s)
  show ?case
  proof (cases s)
    case Nil
    then show ?thesis by (subst split_str.simps) simp
  next
    case (Cons c t)
    show ?thesis
    proof (cases "starts_with s sep")
      case True
      with 1 Cons have "join sep (split_str sep (drop (length sep) s)) = drop (length sep) s" by auto
      moreover have "s = sep @ drop (length sep) s" using True by (auto simp: starts_with_iff)
      ultimately show ?thesis using True Cons 1(3) by (simp add: split_str_sep join_Cons)
    next
      case False
      with 1 Cons have "join sep (split_str sep t) = t" by auto
      with False Cons 1(3) show ?thesis
        by (simp add: split_str_cons join_Cons_char)
    qed
  qed
qed

lemma piece_of_join: "p \<in> set ps \<Longrightarrow> \<exists>a b. join sep ps = a @ p @ b"
proof (induction ps)
  case Nil
  then show ?case by simp
next
  case (Cons q ps)
  show ?case
  proof (cases "p = q")
    case True
    then show ?thesis by (cases ps) (auto intro: exI [of _ "[]"])
  next
    case False
    with Cons.prems have p: "p \<in> set ps" by simp
    then have "ps \<noteq> []" by auto
    moreover from Cons.IH [OF p] obtain a b where "join sep ps = a @ p @ b" by blast
    ultimately show ?thesis by (intro exI [of _ "q @ sep @ a"] exI [of _ b]) (simp add: join_Cons)
  qed
qed

lemma piece_of_text: "sep \<noteq> [] \<Longrightarrow> p \<in> set (split_str sep s) \<Longrightarrow> str_includes s p"
  using piece_of_join [of p "split_str sep s" sep] by (simp add: join_split_str str_includes_iff)

lemma pieces_without_sep: "sep \<noteq> [] \<Longrightarrow> p \<in> set (split_str sep s) \<Longrightarrow> \<not> str_includes p sep"
proof (induction sep s arbitrary: p rule: split_str.induct)
  case (1 sep s)
  show ?case
  proof (cases s)
    case Nil
    with 1 show ?thesis by (subst (asm) (3) split_str.simps) auto
  next
    case (Cons c t)
    show ?thesis
    proof (cases "starts_with s sep")
      case True
      with 1 Cons show ?thesis by (auto simp: split_str_sep)
    next
      case False
      have hd: "\<exists>r. t = hd (split_str sep t) @ r"
        using join_split_str [of sep t] 1(3) join_prefix [of sep "hd (split_str sep t)" "tl (split_str sep t)"] by simp
      from 1(4) Cons False 1(3) consider "p = c # hd (split_str sep t)" | "p \<in> set (split_str sep t)"
        by (auto simp: split_str_cons dest: list.set_sel(2) [rotated])
      then show ?thesis
      proof cases
        case 1
        have "\<not> starts_with (c # hd (split_str sep t)) sep"
          using False Cons hd unfolding starts_with_iff by (metis append_Cons append_assoc)
        moreover have "\<not> str_includes (hd (split_str sep t)) sep"
          using "1.IH"(2) [OF _ False] Cons \<open>sep \<noteq> []\<close> by auto
        ultimately show ?thesis using 1 by simp
      next
        case 2
        then show ?thesis using "1.IH"(2) [OF _ False] Cons \<open>sep \<noteq> []\<close> by auto
      qed
    qed
  qed
qed

section \<open>Messages without secrets\<close>

text \<open>A text with no bracket that is not part of the mask.\<close>

definition plain_secret :: "string \<Rightarrow> bool" where
  "plain_secret t \<longleftrightarrow> t \<noteq> [] \<and> CHR ''['' \<notin> set t \<and> CHR '']'' \<notin> set t \<and> \<not> str_includes ''REDACTED'' t"

lemma split_at_outside:
  assumes "a @ [c] @ b = u @ t @ v" "c \<notin> set t"
  shows "str_includes a t \<or> str_includes b t"
proof (cases "length u + length t \<le> length a")
  case True
  have "take (length a) (u @ t @ v) = a" by (metis append_eq_conv_conj assms(1))
  with True have "a = u @ t @ take (length a - length u - length t) v" by (simp add: take_append)
  then show ?thesis unfolding str_includes_iff by blast
next
  case short: False
  show ?thesis
  proof (cases "length a < length u")
    case True
    have "b = drop (Suc (length a)) (u @ t @ v)"
      by (metis append_assoc append_eq_conv_conj assms(1) length_append_singleton)
    with True have "b = drop (Suc (length a)) u @ t @ v" by simp
    then show ?thesis unfolding str_includes_iff by blast
  next
    case False
    have lt: "length a - length u < length t" using False short by arith
    have "(u @ t @ v) ! length a = c" by (metis append_Cons assms(1) nth_append_length)
    moreover have "(u @ t @ v) ! length a = t ! (length a - length u)"
      using lt False by (simp add: nth_append)
    moreover have "t ! (length a - length u) \<in> set t" using lt by (rule nth_mem)
    ultimately show ?thesis using assms(2) by simp
  qed
qed

lemma includes_around:
  "str_includes (a @ c # b) t \<Longrightarrow> c \<notin> set t \<Longrightarrow> str_includes a t \<or> str_includes b t"
  using split_at_outside [of a c b] unfolding str_includes_iff [of "a @ c # b"] by auto

lemma masked_join:
  "plain_secret t \<Longrightarrow> ps \<noteq> [] \<Longrightarrow> str_includes (join ''[REDACTED]'' ps) t \<Longrightarrow> \<exists>p \<in> set ps. str_includes p t"
proof (induction ps)
  case Nil
  then show ?case by simp
next
  case (Cons p ps)
  show ?case
  proof (cases ps)
    case Nil
    with Cons show ?thesis by simp
  next
    case (Cons q qs)
    have "join ''[REDACTED]'' (p # ps) = p @ CHR ''['' # ''REDACTED'' @ CHR '']'' # join ''[REDACTED]'' ps"
      using Cons by (simp add: join_Cons)
    with Cons.prems Cons.IH Cons show ?thesis
      using includes_around [of p "CHR ''[''" "''REDACTED'' @ CHR '']'' # join ''[REDACTED]'' ps" t]
        includes_around [of "''REDACTED''" "CHR '']''" "join ''[REDACTED]'' ps" t]
      by (auto simp: plain_secret_def)
  qed
qed

lemma redact_one_hides: "plain_secret t \<Longrightarrow> \<not> str_includes (redact_one m t) t"
  using masked_join [of t "split_str t m"] pieces_without_sep [of t _ m]
  by (auto simp: redact_one_def plain_secret_def)

lemma str_includes_trans: "str_includes a b \<Longrightarrow> str_includes b c \<Longrightarrow> str_includes a c"
  unfolding str_includes_iff by (metis append_assoc)

lemma redact_one_keeps: "plain_secret t \<Longrightarrow> sec \<noteq> [] \<Longrightarrow> \<not> str_includes m t \<Longrightarrow> \<not> str_includes (redact_one m sec) t"
  using masked_join [of t "split_str sec m"] piece_of_text [of sec _ m] str_includes_trans
  by (auto simp: redact_one_def)

lemma redact_all_keeps:
  "list_all plain_secret secs \<Longrightarrow> plain_secret t \<Longrightarrow> \<not> str_includes m t \<Longrightarrow> \<not> str_includes (foldl redact_one m secs) t"
  by (induction secs arbitrary: m) (auto simp: redact_one_keeps plain_secret_def)

lemma redact_all_hides:
  "list_all plain_secret secs \<Longrightarrow> t \<in> set secs \<Longrightarrow> \<not> str_includes (foldl redact_one m secs) t"
proof (induction secs arbitrary: m)
  case Nil
  then show ?case by simp
next
  case (Cons x secs)
  then show ?case
    using redact_all_keeps [of secs t "redact_one m t"] redact_one_hides [of t m] by (cases "t = x") auto
qed

lemma sanitized_error:
  assumes "or_fail_sanitized config m s = (Inr r, s')" "r_error r = Some msg"
  shows "m s = (Inr r, s') \<or> (\<exists>e. msg = sanitizeError e config)"
  using assms by (auto simp: or_fail_sanitized_def io_simps split: prod.splits sum.splits)

lemma sync_full_error:
  assumes "passwork_sync ce p ''full'' s = (Inr r, s')" "r_error r = Some msg"
    and "truthy (js_prop (conn_config p) ''baseUrl'')" "truthy (getAuthToken (conn_config p))"
  shows "\<exists>e. msg = sanitizeError e (conn_config p)"
proof -
  have run: "or_fail_sanitized (conn_config p) (passwork_read_all ce (conn_config p) (conn_params p)) s = (Inr r, s')"
    using assms(1,3,4) by (simp add: passwork_sync_def passwork_checked_def Let_def)
  have "passwork_read_all ce (conn_config p) (conn_params p) s \<noteq> (Inr r, s')"
    using assms(2) by (auto simp: passwork_read_all_def Let_def io_simps result_ok_def split: prod.splits sum.splits)
  with sanitized_error [OF run assms(2)] show ?thesis by blast
qed

text \<open>
  C29: a message with which a call to Passwork fails never contains one of the configured secrets
  (access token, API token, master key hash), whatever the error said, as long as these are texts
  without brackets that are not part of the word of the mask.
\<close>

theorem passwork_errors_hide_secrets:
  assumes "\<forall>k \<in> {''accessToken'', ''apiToken'', ''masterKeyHash''}.
      (case js_prop (conn_config p) k of Str s \<Rightarrow> s = [] \<or> plain_secret s | v \<Rightarrow> \<not> truthy v)"
    and "truthy (js_prop (conn_config p) ''baseUrl'')" "truthy (getAuthToken (conn_config p))"
    and "map_of PASSWORK_UNSUPPORTED_OPERATIONS (p_operation p) = None"
    and "passwork_execute ce p s = (Inr r, s')" "r_error r = Some msg"
    and "k \<in> {''accessToken'', ''apiToken'', ''masterKeyHash''}" "js_prop (conn_config p) k = Str secret" "secret \<noteq> []"
  shows "\<not> str_includes msg secret"
proof -
  have field: "\<not> truthy (js_prop (conn_config p) f) \<or> plain_secret (js_string (js_prop (conn_config p) f))"
    if "f \<in> {''accessToken'', ''apiToken'', ''masterKeyHash''}" for f
    using bspec [OF assms(1) that] by (cases "js_prop (conn_config p) f") auto
  have secrets: "list_all plain_secret (passwork_secrets (conn_config p))"
    using field [of "''accessToken''"] field [of "''apiToken''"] field [of "''masterKeyHash''"]
    by (simp add: passwork_secrets_def)
  have "truthy (js_prop (conn_config p) k)" "js_string (js_prop (conn_config p) k) = secret" using assms(8,9) by simp_all
  with assms(7) have member: "secret \<in> set (passwork_secrets (conn_config p))"
    unfolding passwork_secrets_def by (elim insertE; simp)
  let ?m = "if p_operation p = ''schema.get'' then io_return (result_ok (Obj passwork_schema))
     else if p_operation p = ''sync.full'' then passwork_sync ce p ''full''
     else io_bind (io_of_sum (passwork_buildRequest (p_operation p) (conn_data p) (conn_params p))) (\<lambda>request.
          io_bind (passwork_call ce (conn_config p) request) (\<lambda>response. io_return (result_ok response)))"
  have run: "or_fail_sanitized (conn_config p) ?m s = (Inr r, s')"
    using assms(2-5) by (simp add: passwork_execute_def passwork_checked_def Let_def)
  have "\<exists>e. msg = sanitizeError e (conn_config p)"
  proof (rule disjE [OF sanitized_error [OF run assms(6)]])
    assume m: "?m s = (Inr r, s')"
    show ?thesis
    proof (cases "p_operation p = ''sync.full''")
      case True
      with m sync_full_error [OF _ assms(6) assms(2,3)] show ?thesis by simp
    next
      case False
      with m assms(6) have False
        by (auto simp: io_simps result_ok_def split: if_splits prod.splits sum.splits)
      then show ?thesis ..
    qed
  qed
  then show ?thesis using redact_all_hides [OF secrets member] by (auto simp: sanitizeError_def)
qed

definition passwork_demo_payload :: conn_payload where
  "passwork_demo_payload = \<lparr>p_operation = ''system.test'', p_targetSystem = ''p'',
     p_payload = [(''config'', Obj [(''baseUrl'', Str ''http://p/''), (''apiToken'', Str ''ab'')])]\<rparr>"

definition passwork_demo_env :: "unit conn_env" where
  "passwork_demo_env = \<lparr>ce_http = (\<lambda>rq s. (Inl (Error ''no ab!''), s)), ce_tls = None, ce_now = (\<lambda>_. 0)\<rparr>"

theorem passwork_errors_hide_secrets_witness:
  "passwork_execute passwork_demo_env passwork_demo_payload () = (Inr (result_fail ''no [REDACTED]!''), ()) \<and>
   \<not> str_includes ''no [REDACTED]!'' ''ab''"
proof -
  let ?p = passwork_demo_payload
  note conf = passwork_demo_payload_def conn_config_def js_prop_def obj_get_def getAuthToken_def js_or_def
  have secs: "passwork_secrets (conn_config ?p) = [''ab'']" by (simp add: passwork_secrets_def conf)
  have c: "truthy (js_prop (conn_config ?p) ''baseUrl'')" "truthy (getAuthToken (conn_config ?p))"
      "map_of PASSWORK_UNSUPPORTED_OPERATIONS (p_operation ?p) = None"
    by (simp_all add: conf PASSWORK_UNSUPPORTED_OPERATIONS_def)
  have "split_str ''ab'' ''no ab!'' = [''no '', ''!'']"
    by (simp add: split_str_sep split_str_cons split_str.simps [of _ "[]"])
  then have "sanitizeError (Error ''no ab!'') (conn_config ?p) = ''no [REDACTED]!''"
    by (simp add: sanitizeError_def secs redact_one_def)
  moreover have "passwork_buildRequest (p_operation ?p) d q = Inr (''GET'', ''/sessions/current/info'', Undef)" for d q
    by (simp add: passwork_demo_payload_def passwork_buildRequest_def passwork_user_request_def passwork_group_request_def Let_def)
  moreover have "passwork_call passwork_demo_env (conn_config ?p) rq () = (Inl (Error ''no ab!''), ())" for rq
    by (simp add: passwork_call_def apiBaseUrl_def conf passwork_demo_env_def io_simps http_send_def axios_tls_def)
  moreover have "p_operation ?p \<noteq> ''schema.get''" "p_operation ?p \<noteq> ''sync.full''"
    by (simp_all add: passwork_demo_payload_def)
  ultimately have run: "passwork_execute passwork_demo_env ?p () = (Inr (result_fail ''no [REDACTED]!''), ())"
    using c by (simp add: passwork_execute_def passwork_checked_def or_fail_sanitized_def io_simps Let_def)
  have "\<forall>k \<in> {''accessToken'', ''apiToken'', ''masterKeyHash''}.
      (case js_prop (conn_config ?p) k of Str s \<Rightarrow> s = [] \<or> plain_secret s | v \<Rightarrow> \<not> truthy v)"
    by (simp add: conf plain_secret_def)
  from passwork_errors_hide_secrets [OF this c run, of "''no [REDACTED]!''" "''apiToken''" "''ab''"] run show ?thesis
    by (simp add: conf)
qed

section \<open>Reads do not write\<close>

lemma passwork_read_request:
  "list_all (\<lambda>op. case passwork_buildRequest op data params of Inl _ \<Rightarrow> True | Inr (m, _, _) \<Rightarrow> m = ''GET'') READ_OPERATIONS"
  by (simp add: READ_OPERATIONS_def passwork_buildRequest_def passwork_user_request_def passwork_group_request_def Let_def
      at_entity_def res_bind_def split: sum.split)

end
