(* ===== verification/Ip_Utils.thy ===== *)
theory Ip_Utils
  imports Json_Text "HOL-Library.Word"
begin

unbundle bit_operations_syntax

text \<open>
  \<^verbatim>\<open>src/security/ip-utils.ts\<close>: IPv4 addresses as 32-bit words, CIDR blocks, allowlists and the private
  ranges. JavaScript computes the address with shifts made unsigned by \<open>>>> 0\<close>, which is arithmetic on
  32-bit words.
\<close>

section \<open>Addresses\<close>

definition normalizeIp :: "string option \<Rightarrow> string option" where
  "normalizeIp value =
     (case value of
        None \<Rightarrow> None
      | Some v \<Rightarrow>
          (let trimmed = trim v in
           if trimmed = [] then None
           else if starts_with trimmed ''::ffff:'' then Some (drop 7 trimmed)
           else Some trimmed))"

text \<open>\<open>net.isIP(s) === 4\<close>: four decimal numbers up to 255 without leading zeros.\<close>

definition ipv4_octet :: "string \<Rightarrow> bool" where
  "ipv4_octet s \<longleftrightarrow> s \<noteq> [] \<and> list_all is_digit s \<and> (hd s = CHR ''0'' \<longrightarrow> s = ''0'') \<and> nat_of_digits 0 s \<le> 255"

definition is_ipv4 :: "string \<Rightarrow> bool" where
  "is_ipv4 s \<longleftrightarrow> (let ps = split_char (CHR ''.'') s in length ps = 4 \<and> list_all ipv4_octet ps)"

definition ipv4_word :: "nat list \<Rightarrow> 32 word" where
  "ipv4_word ps = push_bit 24 (of_nat (ps ! 0)) + push_bit 16 (of_nat (ps ! 1)) + push_bit 8 (of_nat (ps ! 2)) + of_nat (ps ! 3)"

text \<open>After \<open>isIP\<close> the test of the parts for their number and range never fails.\<close>

definition ipv4ToInt :: "string \<Rightarrow> 32 word option" where
  "ipv4ToInt ip =
     (if \<not> is_ipv4 ip then None
      else let parts = map (nat_of_digits 0) (split_char (CHR ''.'') ip) in
        if length parts \<noteq> 4 \<or> list_ex (\<lambda>part. 255 < part) parts then None else Some (ipv4_word parts))"

definition cidr_mask :: "nat \<Rightarrow> 32 word" where
  "cidr_mask n = (if n = 0 then 0 else push_bit (32 - n) 0xFFFFFFFF)"

text \<open>\<open>const [base, prefixText] = cidr.split('/')\<close>: further parts are ignored.\<close>

definition cidr_prefix :: "string list \<Rightarrow> int option" where
  "cidr_prefix parts =
     (let n = (case parts of _ # t # _ \<Rightarrow> string_to_number t | _ \<Rightarrow> Fin 32) in
      case num_int n of Some i \<Rightarrow> (if i < 0 \<or> 32 < i then None else Some i) | None \<Rightarrow> None)"

definition ipv4MatchesCidr :: "string \<Rightarrow> string \<Rightarrow> bool" where
  "ipv4MatchesCidr ip cidr =
     (let parts = split_char (CHR ''/'') cidr in
      case cidr_prefix parts of
        None \<Rightarrow> False
      | Some n \<Rightarrow>
          (case (ipv4ToInt ip, ipv4ToInt (hd parts)) of
             (Some a, Some b) \<Rightarrow> a AND cidr_mask (nat n) = b AND cidr_mask (nat n)
           | _ \<Rightarrow> False))"

definition isIpAllowed :: "string option \<Rightarrow> string list \<Rightarrow> bool" where
  "isIpAllowed remoteAddress allowlist =
     (case normalizeIp remoteAddress of
        None \<Rightarrow> False
      | Some ip \<Rightarrow> if ip = [] then False else list_ex (\<lambda>entry.
          (case normalizeIp (Some entry) of
             None \<Rightarrow> False
           | Some candidate \<Rightarrow>
               if candidate = [] then False
               else if str_includes candidate ''/'' then ipv4MatchesCidr ip candidate
               else ip = candidate)) allowlist)"

definition private_blocks :: "string list" where
  "private_blocks = [''10.0.0.0/8'', ''172.16.0.0/12'', ''192.168.0.0/16'', ''127.0.0.0/8'', ''169.254.0.0/16'', ''0.0.0.0/8'']"

definition isPrivateOrLocalAddress :: "string \<Rightarrow> bool" where
  "isPrivateOrLocalAddress hostname =
     (case normalizeIp (Some (to_lower hostname)) of
        None \<Rightarrow> False
      | Some host \<Rightarrow>
          if host = [] then False
          else if host = ''localhost'' \<or> host = ''::1'' then True
          else (case ipv4ToInt host of
              None \<Rightarrow> False
            | Some ip \<Rightarrow> list_ex (ipv4MatchesCidr host) private_blocks \<or> ip = 0xFFFFFFFF))"

section \<open>Blocks as intervals\<close>

lemma masked_eq_iff:
  fixes a b :: "32 word"
  assumes "n \<le> 32"
  shows "a AND cidr_mask n = b AND cidr_mask n \<longleftrightarrow> unat a div 2 ^ (32 - n) = unat b div 2 ^ (32 - n)"
proof (cases "n = 0")
  case True
  have "unat a < 2 ^ 32" "unat b < 2 ^ 32" using unsigned_less [of a] unsigned_less [of b] by simp_all
  with True show ?thesis by (simp add: cidr_mask_def)
next
  case False
  have all1: "(0xFFFFFFFF :: 32 word) = - 1" by simp
  have "a AND cidr_mask n = b AND cidr_mask n \<longleftrightarrow> drop_bit (32 - n) a = drop_bit (32 - n) b"
  proof
    assume eq: "a AND cidr_mask n = b AND cidr_mask n"
    show "drop_bit (32 - n) a = drop_bit (32 - n) b"
    proof (rule bit_word_eqI)
      fix i assume "i < LENGTH(32)"
      from eq have "bit (a AND cidr_mask n) (32 - n + i) = bit (b AND cidr_mask n) (32 - n + i)" by simp
      then show "bit (drop_bit (32 - n) a) i = bit (drop_bit (32 - n) b) i"
        using False by (auto simp: cidr_mask_def all1 bit_simps dest: bit_imp_le_length)
    qed
  next
    assume eq: "drop_bit (32 - n) a = drop_bit (32 - n) b"
    show "a AND cidr_mask n = b AND cidr_mask n"
    proof (rule bit_word_eqI)
      fix i assume i: "i < LENGTH(32)"
      have "bit a i = bit b i" if "32 - n \<le> i"
      proof -
        from eq have "bit (drop_bit (32 - n) a) (i - (32 - n)) = bit (drop_bit (32 - n) b) (i - (32 - n))" by simp
        with that show ?thesis by (simp add: bit_simps)
      qed
      then show "bit (a AND cidr_mask n) i = bit (b AND cidr_mask n) i"
        using False by (auto simp: cidr_mask_def all1 bit_simps)
    qed
  qed
  also have "\<dots> \<longleftrightarrow> unat (drop_bit (32 - n) a) = unat (drop_bit (32 - n) b)"
    by (rule word_unat_eq_iff)
  also have "\<dots> \<longleftrightarrow> unat a div 2 ^ (32 - n) = unat b div 2 ^ (32 - n)"
    unfolding unat_drop_bit_eq by (simp only: drop_bit_eq_div)
  finally show ?thesis .
qed

lemma split_char_append: "d \<notin> set a \<Longrightarrow> d \<notin> set b \<Longrightarrow> split_char d (a @ d # b) = [a, b]"
  by (induction a) (auto simp: split_char_id)

lemma string_to_number_nat: "string_to_number (show_nat n) = Fin (of_nat n)"
  using string_to_number_show [of "int n"] by (simp add: show_int_def)

lemma cidr_interval:
  assumes "ipv4ToInt ip = Some a" "ipv4ToInt base = Some b" "n \<le> 32" "CHR ''/'' \<notin> set base"
  shows "ipv4MatchesCidr ip (base @ CHR ''/'' # show_nat n) \<longleftrightarrow>
    unat b div 2 ^ (32 - n) * 2 ^ (32 - n) \<le> unat a \<and> unat a < (unat b div 2 ^ (32 - n) + 1) * 2 ^ (32 - n)"
proof -
  have "CHR ''/'' \<notin> set (show_nat n)"
    using show_nat_digits [of n] by (auto simp: list_all_iff is_digit_def)
  with assms(4) have "split_char (CHR ''/'') (base @ CHR ''/'' # show_nat n) = [base, show_nat n]"
    by (rule split_char_append)
  moreover have "cidr_prefix [base, show_nat n] = Some (int n)"
    using assms(3) num_int_of_int [of "int n"] by (simp add: cidr_prefix_def string_to_number_nat)
  ultimately have "ipv4MatchesCidr ip (base @ CHR ''/'' # show_nat n) \<longleftrightarrow>
      unat a div 2 ^ (32 - n) = unat b div 2 ^ (32 - n)"
    using assms(1-3) masked_eq_iff [of n a b] by (simp add: ipv4MatchesCidr_def)
  also have "\<dots> \<longleftrightarrow> unat b div 2 ^ (32 - n) * 2 ^ (32 - n) \<le> unat a \<and> unat a < (unat b div 2 ^ (32 - n) + 1) * 2 ^ (32 - n)"
  proof -
    have "x div m = k \<longleftrightarrow> k * m \<le> x \<and> x < (k + 1) * m" if "0 < m" for x m k :: nat
      using that by (metis Suc_eq_plus1 div_less_iff_less_mult div_nat_eqI less_eq_div_iff_mult_less_eq linorder_not_less
          mult.commute nat_less_le not_less_eq_eq order_refl)
    then show ?thesis by simp
  qed
  finally show ?thesis .
qed

text \<open>
  C26: an address matches a CIDR block exactly when it lies in the interval of \<open>2 ^ (32 - n)\<close> addresses
  that starts at a multiple of that size and holds the base address: the bit operations agree with
  integer division for every prefix length, 0 and 32 included.
\<close>

theorem cidr_is_interval:
  assumes "ipv4ToInt ip = Some a" "ipv4ToInt base = Some b" "n \<le> 32" "CHR ''/'' \<notin> set base"
  shows "ipv4MatchesCidr ip (base @ CHR ''/'' # show_nat n) \<longleftrightarrow>
    unat b div 2 ^ (32 - n) * 2 ^ (32 - n) \<le> unat a \<and> unat a < (unat b div 2 ^ (32 - n) + 1) * 2 ^ (32 - n)"
  using assms by (rule cidr_interval)

lemmas ipv4_eval = ipv4ToInt_def is_ipv4_def ipv4_octet_def is_digit_def ipv4_word_def

theorem cidr_is_interval_witness:
  "ipv4MatchesCidr ''10.1.2.255'' ''10.1.2.3/24'' \<and> \<not> ipv4MatchesCidr ''10.1.3.0'' ''10.1.2.3/24''"
proof -
  have n: "show_nat 24 = ''24''" by (simp add: show_nat.simps digit_char_def)
  have a: "ipv4ToInt ''10.1.2.255'' = Some 167838463" "ipv4ToInt ''10.1.3.0'' = Some 167838464"
    and b: "ipv4ToInt ''10.1.2.3'' = Some 167838211" by (simp_all add: ipv4_eval)
  show ?thesis
    using cidr_is_interval [OF a(1) b, of 24] cidr_is_interval [OF a(2) b, of 24] by (simp add: n)
qed

section \<open>Private ranges\<close>

lemma block_interval:
  assumes "ipv4ToInt host = Some a"
  shows "ipv4MatchesCidr host ''10.0.0.0/8'' \<longleftrightarrow> 10 * 2 ^ 24 \<le> unat a \<and> unat a < 11 * 2 ^ 24"
    and "ipv4MatchesCidr host ''172.16.0.0/12'' \<longleftrightarrow> 172 * 2 ^ 24 + 16 * 2 ^ 16 \<le> unat a \<and> unat a < 172 * 2 ^ 24 + 32 * 2 ^ 16"
    and "ipv4MatchesCidr host ''192.168.0.0/16'' \<longleftrightarrow> 192 * 2 ^ 24 + 168 * 2 ^ 16 \<le> unat a \<and> unat a < 192 * 2 ^ 24 + 169 * 2 ^ 16"
    and "ipv4MatchesCidr host ''127.0.0.0/8'' \<longleftrightarrow> 127 * 2 ^ 24 \<le> unat a \<and> unat a < 128 * 2 ^ 24"
    and "ipv4MatchesCidr host ''169.254.0.0/16'' \<longleftrightarrow> 169 * 2 ^ 24 + 254 * 2 ^ 16 \<le> unat a \<and> unat a < 169 * 2 ^ 24 + 255 * 2 ^ 16"
    and "ipv4MatchesCidr host ''0.0.0.0/8'' \<longleftrightarrow> unat a < 2 ^ 24"
proof -
  have n: "show_nat 8 = ''8''" "show_nat 12 = ''12''" "show_nat 16 = ''16''"
    by (simp_all add: show_nat.simps digit_char_def)
  have b: "ipv4ToInt ''10.0.0.0'' = Some 167772160" "ipv4ToInt ''172.16.0.0'' = Some 2886729728"
    "ipv4ToInt ''192.168.0.0'' = Some 3232235520" "ipv4ToInt ''127.0.0.0'' = Some 2130706432"
    "ipv4ToInt ''169.254.0.0'' = Some 2851995648" "ipv4ToInt ''0.0.0.0'' = Some 0"
    by (simp_all add: ipv4_eval)
  show "ipv4MatchesCidr host ''10.0.0.0/8'' \<longleftrightarrow> 10 * 2 ^ 24 \<le> unat a \<and> unat a < 11 * 2 ^ 24"
    using cidr_interval [OF assms b(1), of 8] by (simp add: n)
  show "ipv4MatchesCidr host ''172.16.0.0/12'' \<longleftrightarrow> 172 * 2 ^ 24 + 16 * 2 ^ 16 \<le> unat a \<and> unat a < 172 * 2 ^ 24 + 32 * 2 ^ 16"
    using cidr_interval [OF assms b(2), of 12] by (simp add: n)
  show "ipv4MatchesCidr host ''192.168.0.0/16'' \<longleftrightarrow> 192 * 2 ^ 24 + 168 * 2 ^ 16 \<le> unat a \<and> unat a < 192 * 2 ^ 24 + 169 * 2 ^ 16"
    using cidr_interval [OF assms b(3), of 16] by (simp add: n)
  show "ipv4MatchesCidr host ''127.0.0.0/8'' \<longleftrightarrow> 127 * 2 ^ 24 \<le> unat a \<and> unat a < 128 * 2 ^ 24"
    using cidr_interval [OF assms b(4), of 8] by (simp add: n)
  show "ipv4MatchesCidr host ''169.254.0.0/16'' \<longleftrightarrow> 169 * 2 ^ 24 + 254 * 2 ^ 16 \<le> unat a \<and> unat a < 169 * 2 ^ 24 + 255 * 2 ^ 16"
    using cidr_interval [OF assms b(5), of 16] by (simp add: n)
  show "ipv4MatchesCidr host ''0.0.0.0/8'' \<longleftrightarrow> unat a < 2 ^ 24"
    using cidr_interval [OF assms b(6), of 8] by (simp add: n)
qed

lemma private_ipv4_iff:
  assumes "normalizeIp (Some (to_lower hostname)) = Some host" "ipv4ToInt host = Some a"
  shows "isPrivateOrLocalAddress hostname \<longleftrightarrow>
    unat a < 2 ^ 24 \<or> 10 * 2 ^ 24 \<le> unat a \<and> unat a < 11 * 2 ^ 24 \<or> 127 * 2 ^ 24 \<le> unat a \<and> unat a < 128 * 2 ^ 24 \<or>
    169 * 2 ^ 24 + 254 * 2 ^ 16 \<le> unat a \<and> unat a < 169 * 2 ^ 24 + 255 * 2 ^ 16 \<or>
    172 * 2 ^ 24 + 16 * 2 ^ 16 \<le> unat a \<and> unat a < 172 * 2 ^ 24 + 32 * 2 ^ 16 \<or>
    192 * 2 ^ 24 + 168 * 2 ^ 16 \<le> unat a \<and> unat a < 192 * 2 ^ 24 + 169 * 2 ^ 16 \<or> a = 0xFFFFFFFF"
proof -
  have "host \<noteq> []" "host \<noteq> ''localhost''" "host \<noteq> ''::1''"
    using assms(2) by (auto simp: ipv4_eval)
  with assms show ?thesis
    by (auto simp: isPrivateOrLocalAddress_def private_blocks_def block_interval [OF assms(2)])
qed

section \<open>What the text checks let through\<close>

text \<open>A block whose prefix length is missing after the slash is read as length 0 and matches every address.\<close>

lemma empty_prefix_matches_all:
  assumes "ipv4ToInt ip = Some a" "ipv4ToInt base = Some b" "CHR ''/'' \<notin> set base"
  shows "ipv4MatchesCidr ip (base @ ''/'')"
proof -
  have "split_char (CHR ''/'') (base @ [CHR ''/'']) = [base, []]"
    using split_char_append [of "CHR ''/''" base "[]"] assms(3) by simp
  moreover have "cidr_prefix [base, []] = Some 0"
    by (simp add: cidr_prefix_def string_to_number_def num_int_def trim_def)
  ultimately show ?thesis using assms by (simp add: ipv4MatchesCidr_def cidr_mask_def)
qed

text \<open>The host of an IPv6 URL is written in brackets, and the loopback address is not recognised so.\<close>

lemma bracketed_loopback_not_local: "\<not> isPrivateOrLocalAddress ''[::1]''"
  by (simp add: isPrivateOrLocalAddress_def normalizeIp_def to_lower_def to_lower_char_def upper_letters_def lower_letters_def
      trim_def is_space_def ipv4_eval)

end
