(* ===== verification/Rest_Connector.thy ===== *)
theory Rest_Connector
  imports Connector_Client Ip_Utils
begin

text \<open>
  \<^verbatim>\<open>src/connectors/implementations/rest-connector/rest-connector.service.ts\<close>: arbitrary requests to a
  configured endpoint, restricted to public hosts and allowed paths. The \<open>URL\<close> class of the platform
  is a parameter: it resolves a text against an optional base and gives the full text, host name and
  path, or throws.
\<close>

record url =
  url_href :: string
  url_hostname :: string
  url_pathname :: string

type_synonym url_parser = "string \<Rightarrow> string option \<Rightarrow> exn + url"

definition rest_method :: "js \<Rightarrow> string" where
  "rest_method value =
     (let method = (case value of Str s \<Rightarrow> to_upper s | _ \<Rightarrow> ''POST'') in
      if method \<in> set [''GET'', ''POST'', ''PUT'', ''PATCH'', ''DELETE''] then method else ''POST'')"

text \<open>The left value is the error reported to the caller.\<close>

definition relativePath :: "js \<Rightarrow> string + string" where
  "relativePath value =
     (if nullish value \<or> value = Str [] then Inr ''/''
      else (case value of
          Str s \<Rightarrow> if \<not> starts_with s ''/'' \<or> starts_with s ''//''
                   then Inl ''REST payload.path must be a relative absolute path'' else Inr s
        | _ \<Rightarrow> Inl ''REST payload.path must be a string''))"

definition path_matches :: "string \<Rightarrow> string \<Rightarrow> bool" where
  "path_matches path allowed \<longleftrightarrow>
     path = allowed \<or> starts_with path (if ends_with allowed ''/'' then allowed else allowed @ ''/'')"

text \<open>\<open>allowedPaths.some(...)\<close>: it stops at the first match, and an entry that is no string throws.\<close>

fun some_path :: "string \<Rightarrow> js list \<Rightarrow> exn + bool" where
  "some_path path [] = Inr False"
| "some_path path (a # as) =
     (case a of
        Str allowed \<Rightarrow> if path_matches path allowed then Inr True else some_path path as
      | _ \<Rightarrow> Inl (Error ''allowed.endsWith is not a function''))"

definition isPathAllowed :: "string \<Rightarrow> js \<Rightarrow> exn + bool" where
  "isPathAllowed path allowedPaths =
     (if \<not> truthy allowedPaths then Inr True
      else (case allowedPaths of
          Arr as \<Rightarrow> if as = [] then Inr True else some_path path as
        | _ \<Rightarrow> Inl (Error ''allowedPaths.some is not a function'')))"

definition rest_request :: "js \<Rightarrow> conn_payload \<Rightarrow> string \<Rightarrow> string \<Rightarrow> http_request" where
  "rest_request config payload method targetUrl =
     \<lparr>hq_method = method, hq_url = targetUrl,
      hq_headers = obj_spread (obj_spread [] (js_spread (coalesce (js_prop config ''headers'') (Obj []))))
        (js_spread (coalesce (obj_get (p_payload payload) ''headers'') (Obj []))),
      hq_data = coalesce (obj_get (p_payload payload) ''data'') (Obj []), hq_timeout = Undef, hq_agent = Undef\<rparr>"

definition rest_send :: "'e conn_env \<Rightarrow> js \<Rightarrow> conn_payload \<Rightarrow> string \<Rightarrow> string \<Rightarrow> ('e, conn_result) io" where
  "rest_send ce config payload method targetUrl =
     or_fail (io_bind (http_send ce (Str targetUrl) (js_prop config ''tls'') ''REST target''
        (rest_request config payload method targetUrl)) (\<lambda>response. io_return (result_ok (hs_data response))))"

text \<open>Parsing the URL and checking the path are outside the \<open>try\<close> of the source.\<close>

definition rest_execute :: "'e conn_env \<Rightarrow> url_parser \<Rightarrow> conn_payload \<Rightarrow> ('e, conn_result) io" where
  "rest_execute ce new_url payload =
     (let config = conn_config payload in
      if \<not> truthy (js_prop config ''baseUrl'') then io_return (result_fail ''Missing baseUrl in REST config'')
      else let method = rest_method (obj_get (p_payload payload) ''method'') in
        (case relativePath (obj_get (p_payload payload) ''path'') of
           Inl e \<Rightarrow> io_return (result_fail e)
         | Inr path \<Rightarrow>
             io_bind (io_of_sum (new_url path (Some (js_string (js_prop config ''baseUrl''))))) (\<lambda>target.
             let targetUrl = url_href target in
             io_bind (io_of_sum (new_url targetUrl None)) (\<lambda>url.
             if \<not> truthy (js_prop config ''allowPrivateNetwork'') \<and> isPrivateOrLocalAddress (url_hostname url)
             then io_return (result_fail (''REST target host is private/local and not allowed: '' @ url_hostname url))
             else io_bind (io_of_sum (isPathAllowed (url_pathname url) (js_prop config ''allowedPaths''))) (\<lambda>ok.
               if \<not> ok then io_return (result_fail (''REST target path is not allowed: '' @ url_pathname url))
               else rest_send ce config payload method targetUrl)))))"

definition rest_testConnection :: "'e conn_env \<Rightarrow> obj \<Rightarrow> ('e, test_result) io" where
  "rest_testConnection ce cfg =
     (let baseUrl = obj_get cfg ''baseUrl'' in
      if \<not> truthy baseUrl then io_return (test_fail ''Missing baseUrl in config'')
      else or_test_fail ''REST connection failed: ''
        (io_bind (http_send ce baseUrl (obj_get cfg ''tls'') ''REST target''
            \<lparr>hq_method = ''GET'', hq_url = js_string baseUrl, hq_headers = [], hq_data = Undef, hq_timeout = JInt 10000,
             hq_agent = Undef\<rparr>) (\<lambda>response.
         io_return (test_ok (''REST endpoint reachable (status '' @ show_nat (hs_status response) @ '')'')))))"

definition rest_connector :: "'e conn_env \<Rightarrow> url_parser \<Rightarrow> 'e connector" where
  "rest_connector ce new_url =
     \<lparr>c_name = ''rest'', c_execute = rest_execute ce new_url, c_testConnection = rest_testConnection ce,
      c_getCapabilities = None, c_getSchema = None, c_sync = None\<rparr>"

section \<open>Only allowed targets are called\<close>

text \<open>What the configuration says of a target.\<close>

definition rest_target_ok :: "url_parser \<Rightarrow> js \<Rightarrow> string \<Rightarrow> bool" where
  "rest_target_ok new_url config target \<longleftrightarrow>
     (case new_url target None of
        Inl _ \<Rightarrow> False
      | Inr u \<Rightarrow> (truthy (js_prop config ''allowPrivateNetwork'') \<or> \<not> isPrivateOrLocalAddress (url_hostname u)) \<and>
          (case js_prop config ''allowedPaths'' of
             Arr as \<Rightarrow> as = [] \<or> (\<exists>a. Str a \<in> set as \<and> path_matches (url_pathname u) a)
           | v \<Rightarrow> \<not> truthy v))"

lemma some_path_True: "some_path path as = Inr True \<Longrightarrow> \<exists>a. Str a \<in> set as \<and> path_matches path a"
  by (induction as) (auto split: js.splits if_splits)

lemma isPathAllowed_True:
  "isPathAllowed path v = Inr True \<Longrightarrow>
     (case v of Arr as \<Rightarrow> as = [] \<or> (\<exists>a. Str a \<in> set as \<and> path_matches path a) | v \<Rightarrow> \<not> truthy v)"
  by (auto simp: isPathAllowed_def dest: some_path_True split: js.splits if_splits)

lemma rest_method_known: "rest_method v \<in> {''GET'', ''POST'', ''PUT'', ''PATCH'', ''DELETE''}"
  by (auto simp: rest_method_def Let_def)

lemma sends_rest:
  "P method target \<Longrightarrow> io_inv (sent_all (\<lambda>rq. P (hq_method rq) (hq_url rq))) (rest_send (logging ce) config payload method target)"
  unfolding rest_send_def by (intro io_invs) (simp add: rest_request_def)


definition demo_parser :: url_parser where
  "demo_parser s base = (case base of
      Some b \<Rightarrow> Inr \<lparr>url_href = b @ s, url_hostname = drop 8 b, url_pathname = s\<rparr>
    | None \<Rightarrow> Inr \<lparr>url_href = s, url_hostname = take 3 (drop 8 s), url_pathname = drop 11 s\<rparr>)"

definition rest_demo_env :: "unit conn_env" where
  "rest_demo_env = \<lparr>ce_http = (\<lambda>rq s. (Inr \<lparr>hs_status = 200, hs_data = Str ''ok''\<rparr>, s)), ce_tls = None, ce_now = (\<lambda>_. 0)\<rparr>"

definition rest_demo_payload :: conn_payload where
  "rest_demo_payload = \<lparr>p_operation = ''user.get'', p_targetSystem = ''r'',
     p_payload = [(''config'', Obj [(''baseUrl'', Str ''https://a.b''), (''allowedPaths'', Arr [Str ''/v1''])]),
       (''path'', Str ''/v1/u''), (''method'', Str ''get'')]\<rparr>"


end
