(* ===== verification/Db_Connector.thy ===== *)
theory Db_Connector
  imports Connector_Client
begin

text \<open>
  \<^verbatim>\<open>src/connectors/implementations/db-connector/db-connector.service.ts\<close>: statements on the database of a
  target system. The query builder (knex) and the databases are a parameter: opening a client for a
  configuration gives a handle, and every statement is an effect that may throw.
\<close>

section \<open>The driver\<close>

record 'e knex =
  kx_open :: "obj \<Rightarrow> ('e, nat) io"
  kx_raw :: "nat \<Rightarrow> js \<Rightarrow> js \<Rightarrow> ('e, js) io"
  kx_insert :: "nat \<Rightarrow> js \<Rightarrow> js \<Rightarrow> ('e, js) io"
  kx_update :: "nat \<Rightarrow> js \<Rightarrow> js \<Rightarrow> js \<Rightarrow> ('e, js) io"
  kx_delete :: "nat \<Rightarrow> js \<Rightarrow> js \<Rightarrow> ('e, js) io"
  kx_select :: "nat \<Rightarrow> js \<Rightarrow> js \<Rightarrow> ('e, js) io"
  kx_destroy :: "nat \<Rightarrow> ('e, unit) io"

section \<open>Configurations\<close>

datatype db_source = Runtime | Dynamic

definition db_pool :: "int \<Rightarrow> int \<Rightarrow> js" where
  "db_pool lo hi = Obj [(''min'', JInt lo), (''max'', JInt hi)]"

definition db_config :: "js \<Rightarrow> js \<Rightarrow> js \<Rightarrow> obj" where
  "db_config client connection pool = [(''client'', client), (''connection'', connection), (''pool'', pool)]"

text \<open>Only the Oracle driver reaches this: user, password and the wallet.\<close>

definition oracle_config :: "obj \<Rightarrow> js \<Rightarrow> js \<Rightarrow> js \<Rightarrow> obj" where
  "oracle_config input connection user pool =
     db_config (obj_get input ''client'')
       (Obj ([(''connectString'', connection), (''user'', user), (''password'', obj_get input ''password'')] @
          (if truthy (js_prop (obj_get input ''tls'') ''walletLocation'')
           then [(''walletLocation'', js_prop (obj_get input ''tls'') ''walletLocation'')] else []) @
          (if truthy (js_prop (obj_get input ''tls'') ''walletPassword'')
           then [(''walletPassword'', js_prop (obj_get input ''tls'') ''walletPassword'')] else []))) pool"

definition tcps_connection :: "js \<Rightarrow> exn + bool" where
  "tcps_connection connection =
     (case connection of
        Str s \<Rightarrow> Inr (starts_with (to_lower s) ''tcps:'' \<or> str_includes (to_lower s) ''protocol=tcps'')
      | _ \<Rightarrow> Inl (Error ''connection.toLowerCase is not a function''))"

text \<open>An error text, or the client name and the configuration of the driver; the TLS options may throw.\<close>

definition buildKnexConfig :: "tls_env option \<Rightarrow> obj \<Rightarrow> db_source \<Rightarrow> exn + (string + js \<times> obj)" where
  "buildKnexConfig te input source =
     (let client = obj_get input ''client'';
          connection = coalesce (obj_get input ''connectString'') (obj_get input ''connection'');
          pool = coalesce (obj_get input ''pool'') (db_pool 1 5) in
      res_bind (case te of None \<Rightarrow> Inr Undef | Some f \<Rightarrow> dbConnectorSslOptions f (obj_get input ''tls'')) (\<lambda>ssl.
      if \<not> truthy client \<or> \<not> truthy connection then
        Inr (Inl (if source = Runtime
          then ''DB_CONNECTOR_DIALECT and DB_CONNECTOR_URL are required when DB_CONNECTOR_ENABLED=true''
          else ''Missing client and connection/connectString in config''))
      else if client = Str ''sqlite3'' then
        Inr (if truthy ssl then Inl ''SQLite DB connector does not support TLS''
             else Inr (client, db_config client connection pool))
      else if client = Str ''pg'' then
        Inr (Inr (client, db_config client
          (if truthy ssl then Obj [(''connectionString'', connection), (''ssl'', ssl)] else connection) pool))
      else if client = Str ''mysql2'' then
        Inr (Inr (client, db_config client
          (if truthy ssl then Obj [(''uri'', connection), (''ssl'', ssl)] else connection) pool))
      else let user = coalesce (obj_get input ''username'') (obj_get input ''user'') in
        if \<not> truthy user \<or> \<not> truthy (obj_get input ''password'') then
          Inr (Inl (if source = Runtime
            then ''Oracle DB connector requires DB_CONNECTOR_USERNAME and DB_CONNECTOR_PASSWORD''
            else ''Oracle DB connector requires username/user and password''))
        else res_bind (if truthy ssl then tcps_connection connection else Inr True) (\<lambda>tcps.
          Inr (if \<not> tcps
               then Inl ''Oracle DB connector TLS requires a TCPS connect string (tcps://... or PROTOCOL=TCPS)''
               else Inr (client, oracle_config input connection user pool)))))"

section \<open>Lifecycle\<close>

definition db_runtime_input :: "config \<Rightarrow> tls_env option \<Rightarrow> obj" where
  "db_runtime_input cfg te =
     [(''client'', cfg ''DB_CONNECTOR_DIALECT''), (''connection'', cfg ''DB_CONNECTOR_URL''),
      (''username'', cfg ''DB_CONNECTOR_USERNAME''), (''password'', cfg ''DB_CONNECTOR_PASSWORD''), (''pool'', db_pool 1 5),
      (''tls'', case te of None \<Rightarrow> Undef | Some f \<Rightarrow> dbConnectorTlsFromEnv f)]"

text \<open>\<open>onModuleInit\<close>: the handle of the client for calls without a configuration of their own.\<close>

definition db_onModuleInit :: "'e knex \<Rightarrow> config \<Rightarrow> tls_env option \<Rightarrow> ('e, nat option) io" where
  "db_onModuleInit kx cfg te =
     (if \<not> truthy (coalesce (cfg ''DB_CONNECTOR_ENABLED'') (Bool False)) then io_return None
      else io_bind (io_of_sum (buildKnexConfig te (db_runtime_input cfg te) Runtime)) (\<lambda>knexConfig.
        (case knexConfig of
           Inl _ \<Rightarrow> io_return None
         | Inr (client, config) \<Rightarrow> io_bind (kx_open kx config) (\<lambda>c. io_return (Some c)))))"

definition db_onModuleDestroy :: "'e knex \<Rightarrow> nat option \<Rightarrow> ('e, unit) io" where
  "db_onModuleDestroy kx handle = (case handle of None \<Rightarrow> io_return () | Some c \<Rightarrow> kx_destroy kx c)"

definition dynamic_input :: "js \<Rightarrow> obj" where
  "dynamic_input config =
     [(''client'', js_prop config ''client''), (''connection'', js_prop config ''connection''),
      (''connectString'', js_prop config ''connectString''), (''username'', js_prop config ''username''),
      (''user'', js_prop config ''user''), (''password'', js_prop config ''password''),
      (''pool'', coalesce (js_prop config ''pool'') (db_pool 1 2)), (''tls'', js_prop config ''tls'')]"

definition createDynamicKnex :: "'e knex \<Rightarrow> tls_env option \<Rightarrow> js \<Rightarrow> ('e, nat option) io" where
  "createDynamicKnex kx te config =
     io_bind (io_of_sum (buildKnexConfig te (dynamic_input config) Dynamic)) (\<lambda>knexConfig.
       (case knexConfig of
          Inl _ \<Rightarrow> io_return None
        | Inr (client, config) \<Rightarrow> io_bind (kx_open kx config) (\<lambda>c. io_return (Some c))))"

section \<open>Statements\<close>

definition db_statement :: "'e knex \<Rightarrow> nat \<Rightarrow> obj \<Rightarrow> ('e, conn_result) io" where
  "db_statement kx c payload =
     (let operation = obj_get payload ''sqlOperation''; tbl = obj_get payload ''table'';
          data = obj_get payload ''data''; wh = obj_get payload ''where'';
          rawQuery = obj_get payload ''rawQuery''; bindings = obj_get payload ''bindings'';
          answer = (\<lambda>m. io_bind m (\<lambda>result. io_return (result_ok result))) in
      if truthy rawQuery then answer (kx_raw kx c rawQuery (coalesce bindings (Arr [])))
      else if \<not> truthy tbl then io_return (result_fail ''Missing table or rawQuery in payload'')
      else if operation = Str ''insert'' then answer (kx_insert kx c tbl data)
      else if operation = Str ''update'' then
        (if \<not> truthy wh then io_return (result_fail ''Missing where clause for update'')
         else answer (kx_update kx c tbl wh data))
      else if operation = Str ''delete'' then
        (if \<not> truthy wh then io_return (result_fail ''Missing where clause for delete'')
         else answer (kx_delete kx c tbl wh))
      else if operation = Str ''query'' then answer (kx_select kx c tbl (coalesce wh (Obj [])))
      else io_return (result_fail (''Unsupported SQL operation: '' @ js_string operation)))"

text \<open>Creating the dynamic client is outside the \<open>try\<close>; an error of \<open>destroy\<close> replaces the outcome.\<close>

definition db_execute :: "'e knex \<Rightarrow> tls_env option \<Rightarrow> nat option \<Rightarrow> conn_payload \<Rightarrow> ('e, conn_result) io" where
  "db_execute kx te handle payload =
     (let dynamicConfig = conn_config payload; shouldDestroy = truthy dynamicConfig in
      io_bind (if shouldDestroy then createDynamicKnex kx te dynamicConfig else io_return handle) (\<lambda>knexClient.
      (case knexClient of
         None \<Rightarrow> io_return (result_fail ''DB connector not initialized'')
       | Some c \<Rightarrow>
           io_finally (or_fail (db_statement kx c (p_payload payload)))
             (if shouldDestroy then kx_destroy kx c else io_return ()))))"

definition db_ping :: "js \<Rightarrow> js" where
  "db_ping client = Str (if client = Str ''oracledb'' then ''SELECT 1 FROM DUAL'' else ''SELECT 1'')"

definition test_input :: "obj \<Rightarrow> obj" where
  "test_input config =
     map (\<lambda>k. (k, if k = ''pool'' then db_pool 1 2 else obj_get config k))
       [''client'', ''connection'', ''connectString'', ''username'', ''user'', ''password'', ''pool'', ''tls'']"

text \<open>When opening fails there is no client to destroy.\<close>

definition db_testConnection :: "'e knex \<Rightarrow> tls_env option \<Rightarrow> obj \<Rightarrow> ('e, test_result) io" where
  "db_testConnection kx te config =
     io_bind (io_of_sum (buildKnexConfig te (test_input config) Dynamic)) (\<lambda>knexConfig.
       (case knexConfig of
          Inl e \<Rightarrow> io_return (test_fail e)
        | Inr (client, cfg) \<Rightarrow> (\<lambda>s.
            (case kx_open kx cfg s of
               (Inl e, s') \<Rightarrow> (Inr (test_fail (''DB connection failed: '' @ exn_message e)), s')
             | (Inr c, s') \<Rightarrow>
                 io_finally (or_test_fail ''DB connection failed: ''
                     (io_bind (kx_raw kx c (db_ping client) Undef) (\<lambda>_. io_return (test_ok ''DB connection OK''))))
                   (kx_destroy kx c) s'))))"

definition db_connector :: "'e knex \<Rightarrow> tls_env option \<Rightarrow> nat option \<Rightarrow> 'e connector" where
  "db_connector kx te handle =
     \<lparr>c_name = ''db'', c_execute = db_execute kx te handle, c_testConnection = db_testConnection kx te,
      c_getCapabilities = None, c_getSchema = None, c_sync = None\<rparr>"

section \<open>What reaches the database\<close>

datatype db_event =
    Opened nat
  | Statement nat
  | Changed nat js
  | Destroyed nat

text \<open>The driver with a log of what succeeds or is attempted on a handle.\<close>

definition noting :: "db_event \<Rightarrow> ('e, 'a) io \<Rightarrow> ('e \<times> db_event list, 'a) io" where
  "noting ev m = (\<lambda>(x, evs). case m x of (r, x') \<Rightarrow> (r, (x', evs @ [ev])))"

definition logged_knex :: "'e knex \<Rightarrow> ('e \<times> db_event list) knex" where
  "logged_knex kx =
     \<lparr>kx_open = (\<lambda>cfg (x, evs). case kx_open kx cfg x of
        (Inl e, x') \<Rightarrow> (Inl e, (x', evs)) | (Inr c, x') \<Rightarrow> (Inr c, (x', evs @ [Opened c]))),
      kx_raw = (\<lambda>c q b. noting (Statement c) (kx_raw kx c q b)),
      kx_insert = (\<lambda>c t d. noting (Statement c) (kx_insert kx c t d)),
      kx_update = (\<lambda>c t wh d. noting (Changed c wh) (kx_update kx c t wh d)),
      kx_delete = (\<lambda>c t wh. noting (Changed c wh) (kx_delete kx c t wh)),
      kx_select = (\<lambda>c t wh. noting (Statement c) (kx_select kx c t wh)),
      kx_destroy = (\<lambda>c. noting (Destroyed c) (kx_destroy kx c))\<rparr>"

text \<open>A computation that adds at most one statement, on the client given, to the log.\<close>

definition notes_on :: "nat \<Rightarrow> ('e \<times> db_event list, 'a) io \<Rightarrow> bool" where
  "notes_on c m \<longleftrightarrow> (\<forall>x evs. \<exists>new. snd (snd (m (x, evs))) = evs @ new \<and> length new \<le> 1 \<and>
     (\<forall>ev \<in> set new. ev = Statement c \<or> (\<exists>wh. ev = Changed c wh \<and> truthy wh)))"

lemma notes_on_return: "notes_on c (io_return r)"
  by (simp add: notes_on_def io_simps)

lemma notes_on_noting:
  "ev = Statement c \<or> (\<exists>wh. ev = Changed c wh \<and> truthy wh) \<Longrightarrow>
     notes_on c (io_bind (noting ev m) (\<lambda>result. io_return (result_ok result)))"
  by (auto simp: notes_on_def noting_def io_simps split: prod.split sum.split)

lemma statement_notes: "notes_on c (db_statement (logged_knex kx) c payload)"
  by (auto simp: db_statement_def Let_def logged_knex_def notes_on_return intro!: notes_on_noting)

lemma notes_on_or_fail:
  assumes "notes_on c m"
  shows "notes_on c (or_fail m)"
  using assms unfolding notes_on_def or_fail_def
  by (auto simp: io_simps split: prod.split sum.split) (metis snd_conv)+

text \<open>
  A call with its own configuration opens at most one client, and when it does, executes at most one
  statement on it and destroys it at the end, whether the statement succeeds, fails or is refused; an
  update or a deletion reaches the database only with a condition given (any object, also an empty one).
\<close>

theorem db_client_destroyed:
  assumes "truthy (conn_config p)" "db_execute (logged_knex kx) te handle p (x, []) = (r, (x', evs))"
  shows "evs = [] \<or> (\<exists>c new. evs = Opened c # new @ [Destroyed c] \<and> length new \<le> 1 \<and>
    (\<forall>ev \<in> set new. ev = Statement c \<or> (\<exists>wh. ev = Changed c wh \<and> truthy wh)))"
proof -
  obtain r1 x1 evs1 where open1: "createDynamicKnex (logged_knex kx) te (conn_config p) (x, []) = (r1, (x1, evs1))"
    by (metis prod.collapse)
  have evs1: "(case r1 of Inr (Some c) \<Rightarrow> evs1 = [Opened c] | _ \<Rightarrow> evs1 = [])"
    using open1 unfolding createDynamicKnex_def
    by (auto simp: io_simps logged_knex_def split: sum.splits prod.splits)
  show ?thesis
  proof (cases "\<exists>c. r1 = Inr (Some c)")
    case False
    then have "evs = evs1"
      using assms open1 by (cases r1) (auto simp: db_execute_def io_simps split: option.splits)
    with False evs1 show ?thesis by (auto split: sum.splits option.splits)
  next
    case True
    then obtain c where c: "r1 = Inr (Some c)" by blast
    with evs1 have l1: "evs1 = [Opened c]" by simp
    obtain r2 x2 evs2 where stmt: "or_fail (db_statement (logged_knex kx) c (p_payload p)) (x1, evs1) = (r2, (x2, evs2))"
      by (metis prod.collapse)
    from notes_on_or_fail [OF statement_notes [of c kx "p_payload p"]] stmt l1
    obtain new where new: "evs2 = [Opened c] @ new" "length new \<le> 1"
        "\<forall>ev \<in> set new. ev = Statement c \<or> (\<exists>wh. ev = Changed c wh \<and> truthy wh)"
      unfolding notes_on_def by (metis snd_conv)
    have "evs = evs2 @ [Destroyed c]"
      using assms open1 c stmt
      by (auto simp: db_execute_def io_simps io_finally_run logged_knex_def noting_def split: prod.splits sum.splits)
    with new show ?thesis by (intro disjI2 exI [of _ c] exI [of _ new]) simp
  qed
qed

text \<open>A driver with one client that refuses every statement.\<close>

definition demo_knex :: "unit knex" where
  "demo_knex = \<lparr>kx_open = (\<lambda>_ s. (Inr 4, s)), kx_raw = (\<lambda>_ _ _ s. (Inl (Error ''no''), s)),
     kx_insert = (\<lambda>_ _ _ s. (Inl (Error ''no''), s)), kx_update = (\<lambda>_ _ _ _ s. (Inl (Error ''no''), s)),
     kx_delete = (\<lambda>_ _ _ s. (Inl (Error ''no''), s)), kx_select = (\<lambda>_ _ _ s. (Inl (Error ''no''), s)),
     kx_destroy = (\<lambda>_ s. (Inr (), s))\<rparr>"

definition db_demo_payload :: conn_payload where
  "db_demo_payload = \<lparr>p_operation = ''user.delete'', p_targetSystem = ''d'',
     p_payload = [(''config'', Obj [(''client'', Str ''pg''), (''connection'', Str ''c'')]), (''table'', Str ''t''),
       (''sqlOperation'', Str ''delete''), (''where'', Obj [])]\<rparr>"

theorem db_client_destroyed_witness:
  "\<exists>r. db_execute (logged_knex demo_knex) None None db_demo_payload ((), []) =
     (r, ((), [Opened 4, Changed 4 (Obj []), Destroyed 4])) \<and> r = Inr (result_fail ''no'') \<and>
   (\<exists>c new. [Opened 4, Changed 4 (Obj []), Destroyed 4] = Opened c # new @ [Destroyed c] \<and> length new \<le> 1)"
proof -
  have cfg: "truthy (conn_config db_demo_payload)"
    by (simp add: conn_config_def db_demo_payload_def obj_get_def)
  have conf: "conn_config db_demo_payload = Obj [(''client'', Str ''pg''), (''connection'', Str ''c'')]"
    by (simp add: conn_config_def db_demo_payload_def obj_get_def)
  have "\<exists>cl cf. buildKnexConfig None (dynamic_input (conn_config db_demo_payload)) Dynamic = Inr (Inr (cl, cf))"
    unfolding conf by (simp add: buildKnexConfig_def dynamic_input_def js_prop_def obj_get_def Let_def)
  then obtain cl cf where "buildKnexConfig None (dynamic_input (conn_config db_demo_payload)) Dynamic = Inr (Inr (cl, cf))" by blast
  then have opened: "createDynamicKnex (logged_knex demo_knex) None (conn_config db_demo_payload) ((), []) = (Inr (Some 4), ((), [Opened 4]))"
    by (simp add: createDynamicKnex_def io_bind_value io_simps logged_knex_def demo_knex_def)
  have stmt: "db_statement (logged_knex demo_knex) 4 (p_payload db_demo_payload) ((), [Opened 4]) =
      (Inl (Error ''no''), ((), [Opened 4, Changed 4 (Obj [])]))"
    by (simp add: db_statement_def db_demo_payload_def obj_get_def logged_knex_def demo_knex_def noting_def io_simps Let_def)
  have "kx_destroy (logged_knex demo_knex) 4 ((), evs) = (Inr (), ((), evs @ [Destroyed 4]))" for evs
    by (simp add: logged_knex_def demo_knex_def noting_def)
  with opened stmt have run: "db_execute (logged_knex demo_knex) None None db_demo_payload ((), []) =
      (Inr (result_fail ''no''), ((), [Opened 4, Changed 4 (Obj []), Destroyed 4]))"
    by (simp add: db_execute_def cfg io_bind_run io_finally_run or_fail_def io_run)
  from db_client_destroyed [OF cfg run] run show ?thesis by auto
qed

text \<open>Without a configuration of its own a call runs on the handle of the start-up, and fails without one.\<close>

lemma db_without_config:
  "\<not> truthy (conn_config p) \<Longrightarrow> db_execute kx te None p s = (Inr (result_fail ''DB connector not initialized''), s)"
  by (simp add: db_execute_def io_simps)

end
