(* ===== verification/Base64_Text.thy ===== *)
theory Base64_Text
  imports Http_Client
begin

text \<open>
  Decoding of base64 (\<open>Buffer.from(text, 'base64')\<close>): both alphabets are read, characters outside them
  are skipped, and the padding ends the text. What was encoded is read back.
\<close>

definition base64_value :: "char \<Rightarrow> nat option" where
  "base64_value c =
     map_of (zip (upper_letters @ lower_letters @ ''0123456789+/'') [0..<64] @ [(CHR ''-'', 62), (CHR ''_'', 63)]) c"

text \<open>Groups of four values of six bits give three bytes.\<close>

fun sextets_bytes :: "nat list \<Rightarrow> nat list" where
  "sextets_bytes [] = []"
| "sextets_bytes [a] = []"
| "sextets_bytes [a, b] = [a * 4 + b div 16]"
| "sextets_bytes [a, b, c] = [a * 4 + b div 16, b mod 16 * 16 + c div 4]"
| "sextets_bytes (a # b # c # d # rest) =
     [a * 4 + b div 16, b mod 16 * 16 + c div 4, c mod 4 * 64 + d] @ sextets_bytes rest"

definition base64_decode :: "string \<Rightarrow> string" where
  "base64_decode s = map char_of (sextets_bytes (List.map_filter base64_value (takeWhile (\<lambda>c. c \<noteq> CHR ''='') s)))"

definition base64_alphabet :: string where
  "base64_alphabet = upper_letters @ lower_letters @ ''0123456789+/''"

lemma base64_alphabet_facts:
  "length base64_alphabet = 64" "distinct base64_alphabet" "CHR ''='' \<notin> set base64_alphabet"
  by (simp_all add: base64_alphabet_def upper_letters_def lower_letters_def)

lemma base64_char_value:
  assumes "n < 64"
  shows "base64_value (base64_char n) = Some n" "base64_char n \<noteq> CHR ''=''"
proof -
  have nth: "base64_char n = base64_alphabet ! n"
    by (simp add: base64_char_def base64_alphabet_def)
  have "map_of (zip base64_alphabet [0..<64]) (base64_alphabet ! n) = Some ([0..<64] ! n)"
    using assms base64_alphabet_facts by (intro map_of_zip_nth) simp_all
  then show "base64_value (base64_char n) = Some n"
    using assms by (simp add: base64_value_def nth base64_alphabet_def map_add_def)
  have "base64_alphabet ! n \<in> set base64_alphabet" using assms base64_alphabet_facts(1) by simp
  then show "base64_char n \<noteq> CHR ''=''" using base64_alphabet_facts(3) nth by metis
qed

text \<open>The values of the characters before the padding.\<close>

definition base64_values :: "string \<Rightarrow> nat list" where
  "base64_values s = List.map_filter base64_value (takeWhile (\<lambda>c. c \<noteq> CHR ''='') s)"

lemma base64_values_simps [simp]:
  "base64_values [] = []"
  "base64_values (CHR ''='' # s) = []"
  "n < 64 \<Longrightarrow> base64_values (base64_char n # s) = n # base64_values s"
  by (simp_all add: base64_values_def base64_char_value List.map_filter_def)

lemma bits_cut:
  fixes x y m :: nat
  assumes "y < m"
  shows "(x * m + y) div m = x" "(x * m + y) mod m = y"
  using assms by simp_all

lemma bits_join:
  fixes a b c :: nat
  shows "c < 256 \<Longrightarrow> c div 64 < 4" "b < 256 \<Longrightarrow> b div 16 < 16" "b div 16 * 16 + b mod 16 = b"
    "c div 64 * 64 + c mod 64 = c" "a div 4 * 4 + a mod 4 = a"
  by (auto simp: less_mult_imp_div_less)

lemma sextets_of_groups:
  "\<forall>x \<in> set bs. x < 256 \<Longrightarrow> sextets_bytes (base64_values (base64_groups bs)) = bs"
proof (induction bs rule: base64_groups.induct)
  case (2 a)
  have "a div 4 < 64" "a mod 4 * 16 < 64" using 2 by auto
  then show ?case by simp
next
  case (3 a b)
  have lt: "a div 4 < 64" "a mod 4 * 16 + b div 16 < 64" "b mod 16 * 4 < 64" "b div 16 < 16" using 3 by auto
  then show ?case by (simp add: bits_cut bits_join)
next
  case (4 a b c rest)
  have lt: "a div 4 < 64" "a mod 4 * 16 + b div 16 < 64" "b mod 16 * 4 + c div 64 < 64" "c mod 64 < 64" "b div 16 < 16"
    "c div 64 < 4" using 4 by auto
  with 4 show ?case by (simp add: bits_cut bits_join)
qed simp

lemma base64_round_trip: "base64_decode (base64 s) = s"
proof -
  have "sextets_bytes (base64_values (base64_groups (map of_char s))) = map of_char s"
    using of_char_less by (intro sextets_of_groups) auto
  then show ?thesis by (simp add: base64_decode_def base64_def base64_values_def comp_def)
qed

end
