(* ===== verification/Encryption.thy ===== *)
theory Encryption
  imports Base64_Text Kafka_Messaging Idempotency "HOL-Library.AList"
begin

text \<open>
  \<^verbatim>\<open>src/security/encryption.service.ts\<close> and \<^verbatim>\<open>src/database/json.helper.ts\<close>: the keyring, encryption of
  stored values and of messages, and the keyed digests of the idempotency keys. A text is the sequence
  of its bytes. AES-256-GCM, HMAC-SHA256 and the random bytes of the platform are parameters.
\<close>

section \<open>The platform\<close>

text \<open>
  \<open>cr_encrypt\<close> maps key, initialisation vector and plaintext to ciphertext and tag; \<open>cr_decrypt\<close> takes
  key, vector, tag and ciphertext; \<open>cr_hmac\<close> gives the hexadecimal digest; \<open>cr_bytes\<close> the random bytes of
  the n-th call. \<open>ee_process\<close> is \<open>process.env\<close>, \<open>ee_config\<close> the configuration service if it is injected.
\<close>

record crypto =
  cr_encrypt :: "string \<Rightarrow> string \<Rightarrow> string \<Rightarrow> string \<times> string"
  cr_decrypt :: "string \<Rightarrow> string \<Rightarrow> string \<Rightarrow> string \<Rightarrow> exn + string"
  cr_hmac :: "string \<Rightarrow> string \<Rightarrow> string"
  cr_bytes :: "nat \<Rightarrow> string"

record enc_env =
  ee_process :: "string \<Rightarrow> string option"
  ee_config :: "config option"
  ee_crypto :: crypto

text \<open>What the code relies on: decryption inverts encryption, and digests are texts without a colon that tell messages apart.\<close>

definition crypto_ok :: "crypto \<Rightarrow> bool" where
  "crypto_ok cr \<longleftrightarrow>
     (\<forall>k iv pt. cr_decrypt cr k iv (snd (cr_encrypt cr k iv pt)) (fst (cr_encrypt cr k iv pt)) = Inr pt) \<and>
     (\<forall>k a b. cr_hmac cr k a = cr_hmac cr k b \<longrightarrow> a = b) \<and> (\<forall>k a. CHR '':'' \<notin> set (cr_hmac cr k a))"

type_synonym keyring = "(string \<times> string) list"

text \<open>The state of the service: \<open>keyringCache\<close>, and how often random bytes were drawn.\<close>

record enc_state =
  ec_cache :: "keyring option"
  ec_draws :: nat

section \<open>Configuration\<close>

definition readString :: "enc_env \<Rightarrow> string \<Rightarrow> js" where
  "readString ee name =
     (case ee_process ee name of
        Some s \<Rightarrow> Str s
      | None \<Rightarrow> (case ee_config ee of None \<Rightarrow> Undef | Some cfg \<Rightarrow> cfg name))"

definition readFlag :: "enc_env \<Rightarrow> string \<Rightarrow> bool \<Rightarrow> bool" where
  "readFlag ee name fallback = (if readString ee name = Undef then fallback else readString ee name = Str ''true'')"

text \<open>The names of keys and key material are declared as texts, so nothing else is ever read for them.\<close>

definition read_text :: "enc_env \<Rightarrow> string \<Rightarrow> string option" where
  "read_text ee name = (case readString ee name of Str s \<Rightarrow> Some s | _ \<Rightarrow> None)"

definition enc_isEnabled :: "enc_env \<Rightarrow> bool" where
  "enc_isEnabled ee = readFlag ee ''ENCRYPTION_ENABLED'' False"

definition isKafkaEncryptionEnabled :: "enc_env \<Rightarrow> bool" where
  "isKafkaEncryptionEnabled ee = readFlag ee ''ENCRYPTION_KAFKA_ENABLED'' (enc_isEnabled ee)"

definition isIdempotencyHmacEnabled :: "enc_env \<Rightarrow> bool" where
  "isIdempotencyHmacEnabled ee = readFlag ee ''ENCRYPTION_IDEMPOTENCY_HMAC_ENABLED'' (enc_isEnabled ee)"

definition isRotationMode :: "enc_env \<Rightarrow> bool" where
  "isRotationMode ee = readFlag ee ''ENCRYPTION_ROTATION_MODE'' False"

definition some_text :: "string option \<Rightarrow> bool" where
  "some_text t \<longleftrightarrow> t \<noteq> None \<and> t \<noteq> Some []"

definition activeKeyId :: "enc_env \<Rightarrow> exn + string" where
  "activeKeyId ee =
     (let active = read_text ee ''ENCRYPTION_ACTIVE_KEY_ID''; fallback = read_text ee ''ENCRYPTION_KEY_ID'' in
      if some_text active then Inr (the active)
      else if some_text fallback then Inr (the fallback)
      else Inl (Error ''ENCRYPTION_ACTIVE_KEY_ID is required when encryption is enabled''))"

text \<open>\<open>JSON.parse(keys)\<close> of a text that starts with a brace.\<close>

definition parse_object :: "string \<Rightarrow> exn + obj" where
  "parse_object s = (case JSON_parse s of Some (Obj ob) \<Rightarrow> Inr ob | _ \<Rightarrow> Inl (Error ''SyntaxError''))"

definition json_keys :: "string option \<Rightarrow> bool" where
  "json_keys t = (case t of None \<Rightarrow> False | Some s \<Rightarrow> starts_with (trim s) ''{'')"

definition keyIds :: "enc_env \<Rightarrow> exn + string list" where
  "keyIds ee =
     (let keys = read_text ee ''ENCRYPTION_KEYS'' in
      if json_keys keys then res_bind (parse_object (the keys)) (\<lambda>parsed. Inr (obj_keys parsed))
      else (let listed = (case keys of None \<Rightarrow> [] | Some s \<Rightarrow> csv_values s) in
        if listed \<noteq> [] then Inr listed else res_bind (activeKeyId ee) (\<lambda>a. Inr [a])))"

section \<open>The keyring\<close>

definition isSecretReference :: "string \<Rightarrow> bool" where
  "isSecretReference value \<longleftrightarrow> starts_with (to_lower value) ''secret://'' \<or> starts_with (to_lower value) ''aapm://''"

definition parseKeyMaterial :: "string \<Rightarrow> string \<Rightarrow> exn + string" where
  "parseKeyMaterial keyId value =
     (let trimmed = trim value; key = base64_decode trimmed in
      if isSecretReference trimmed then
        Inl (Error (''Encryption key '' @ [CHR 0x27] @ keyId @ [CHR 0x27] @
          '' is still a secret reference. Enable SECRETS_PROVIDER=IndeedPamAapm before encryption startup.''))
      else if length key \<noteq> 32 then
        Inl (Error (''Encryption key '' @ [CHR 0x27] @ keyId @ [CHR 0x27] @ '' must be base64-encoded 32 bytes''))
      else Inr key)"

definition envKeySuffix :: "string \<Rightarrow> string" where
  "envKeySuffix keyId = to_upper (map (\<lambda>c. if is_alnum c then c else CHR ''_'') keyId)"

text \<open>The loop over the JSON object; \<open>keys.set\<close> replaces a key that is already there.\<close>

fun parse_keys :: "obj \<Rightarrow> keyring \<Rightarrow> exn + keyring" where
  "parse_keys [] keys = Inr keys"
| "parse_keys ((i, value) # rest) keys =
     (case value of
        Str s \<Rightarrow> res_bind (parseKeyMaterial i s) (\<lambda>key. parse_keys rest (AList.update i key keys))
      | _ \<Rightarrow> Inl (Error ''value.trim is not a function''))"

definition key_value :: "enc_env \<Rightarrow> string \<Rightarrow> exn + string option" where
  "key_value ee i =
     (case read_text ee (''ENCRYPTION_KEY_'' @ envKeySuffix i) of
        Some s \<Rightarrow> Inr (Some s)
      | None \<Rightarrow> res_bind (activeKeyId ee) (\<lambda>a. Inr (if i = a then read_text ee ''ENCRYPTION_KEY'' else None)))"

fun named_keys :: "enc_env \<Rightarrow> string list \<Rightarrow> keyring \<Rightarrow> exn + keyring" where
  "named_keys ee [] keys = Inr keys"
| "named_keys ee (i # rest) keys =
     res_bind (key_value ee i) (\<lambda>value.
       if \<not> some_text value then
         Inl (Error (''Missing encryption key material for '' @ [CHR 0x27] @ i @ [CHR 0x27] @
           ''. Set ENCRYPTION_KEY_'' @ envKeySuffix i))
       else res_bind (parseKeyMaterial i (the value)) (\<lambda>key. named_keys ee rest (AList.update i key keys)))"

definition load_keyring :: "enc_env \<Rightarrow> exn + keyring" where
  "load_keyring ee =
     (let jsonKeys = read_text ee ''ENCRYPTION_KEYS'' in
      if json_keys jsonKeys then res_bind (parse_object (the jsonKeys)) (\<lambda>parsed. parse_keys parsed [])
      else res_bind (keyIds ee) (\<lambda>ids. named_keys ee ids []))"

definition keyring :: "enc_env \<Rightarrow> (enc_state, keyring) io" where
  "keyring ee =
     io_bind (io_get ec_cache) (\<lambda>cache.
     case cache of
       Some keys \<Rightarrow> io_return keys
     | None \<Rightarrow> io_bind (io_of_sum (load_keyring ee)) (\<lambda>keys.
         io_seq (io_modify (\<lambda>s. s\<lparr>ec_cache := Some keys\<rparr>)) (io_return keys)))"

definition requireKey :: "enc_env \<Rightarrow> string \<Rightarrow> (enc_state, string) io" where
  "requireKey ee keyId =
     io_bind (keyring ee) (\<lambda>keys.
     case map_of keys keyId of
       None \<Rightarrow> io_throw (Error (''Encryption key '' @ [CHR 0x27] @ keyId @ [CHR 0x27] @ '' is not present in keyring''))
     | Some key \<Rightarrow> io_return key)"

definition validateConfiguration :: "enc_env \<Rightarrow> (enc_state, unit) io" where
  "validateConfiguration ee =
     (if \<not> enc_isEnabled ee then io_return ()
      else io_bind (keyring ee) (\<lambda>keys. io_bind (io_of_sum (activeKeyId ee)) (\<lambda>active.
        if map_of keys active = None
        then io_throw (Error (''Active encryption key '' @ [CHR 0x27] @ active @ [CHR 0x27] @
          '' is not present in ENCRYPTION_KEYS/keyring''))
        else io_return ())))"

definition keyringDescriptors :: "enc_env \<Rightarrow> (enc_state, (string \<times> string) list) io" where
  "keyringDescriptors ee = keyring ee"

section \<open>Envelopes\<close>

definition envelope :: "string \<Rightarrow> string \<Rightarrow> string \<Rightarrow> string \<Rightarrow> js" where
  "envelope kid iv tag ct = Obj [(''__enc'', Str ''idmmw.v1''), (''alg'', Str ''AES-256-GCM''), (''kid'', Str kid),
     (''iv'', Str (base64 iv)), (''tag'', Str (base64 tag)), (''ct'', Str (base64 ct))]"

definition is_Str :: "js \<Rightarrow> bool" where
  "is_Str v = (case v of Str _ \<Rightarrow> True | _ \<Rightarrow> False)"

definition isEnvelope :: "js \<Rightarrow> bool" where
  "isEnvelope value \<longleftrightarrow>
     (case value of Obj _ \<Rightarrow> True | Arr _ \<Rightarrow> True | _ \<Rightarrow> False) \<and>
     js_prop value ''__enc'' = Str ''idmmw.v1'' \<and> js_prop value ''alg'' = Str ''AES-256-GCM'' \<and>
     is_Str (js_prop value ''kid'') \<and> is_Str (js_prop value ''iv'') \<and> is_Str (js_prop value ''tag'') \<and>
     is_Str (js_prop value ''ct'')"

text \<open>\<open>Buffer.from(undefined)\<close> throws.\<close>

definition encryptObject :: "enc_env \<Rightarrow> js \<Rightarrow> (enc_state, js) io" where
  "encryptObject ee value =
     io_bind (io_of_sum (activeKeyId ee)) (\<lambda>keyId.
     io_bind (requireKey ee keyId) (\<lambda>key.
     io_bind (io_get (\<lambda>s. cr_bytes (ee_crypto ee) (ec_draws s))) (\<lambda>iv.
     io_seq (io_modify (\<lambda>s. s\<lparr>ec_draws := Suc (ec_draws s)\<rparr>))
     (case JSON_stringify value of
        Str plaintext \<Rightarrow> (let (ct, tag) = cr_encrypt (ee_crypto ee) key iv plaintext in io_return (envelope keyId iv tag ct))
      | _ \<Rightarrow> io_throw (Error ''The first argument must be of type string'')))))"

definition str_of :: "js \<Rightarrow> string" where
  "str_of v = (case v of Str s \<Rightarrow> s | _ \<Rightarrow> [])"

definition decryptObject :: "enc_env \<Rightarrow> js \<Rightarrow> (enc_state, js) io" where
  "decryptObject ee value =
     (if js_prop value ''__enc'' \<noteq> Str ''idmmw.v1'' \<or> js_prop value ''alg'' \<noteq> Str ''AES-256-GCM''
      then io_throw (Error ''Unsupported encryption envelope'')
      else io_bind (requireKey ee (str_of (js_prop value ''kid''))) (\<lambda>key.
        io_bind (io_of_sum (cr_decrypt (ee_crypto ee) key (base64_decode (str_of (js_prop value ''iv'')))
          (base64_decode (str_of (js_prop value ''tag''))) (base64_decode (str_of (js_prop value ''ct''))))) (\<lambda>plaintext.
        case JSON_parse plaintext of None \<Rightarrow> io_throw (Error ''SyntaxError'') | Some v \<Rightarrow> io_return v)))"

definition encryptForStorage :: "enc_env \<Rightarrow> js \<Rightarrow> (enc_state, js) io" where
  "encryptForStorage ee value = (if \<not> enc_isEnabled ee then io_return value else encryptObject ee value)"

definition decryptFromStorage :: "enc_env \<Rightarrow> js \<Rightarrow> (enc_state, js) io" where
  "decryptFromStorage ee value =
     (if nullish value then io_return Null
      else if isEnvelope value then decryptObject ee value
      else io_return value)"

definition encodeKafkaMessage :: "enc_env \<Rightarrow> obj \<Rightarrow> (enc_state, string) io" where
  "encodeKafkaMessage ee message =
     (if \<not> isKafkaEncryptionEnabled ee then io_return (json_text (Obj message))
      else io_bind (encryptObject ee (Obj message)) (\<lambda>e. io_return (json_text e)))"

definition decodeKafkaMessage :: "enc_env \<Rightarrow> string \<Rightarrow> (enc_state, js) io" where
  "decodeKafkaMessage ee raw =
     (case JSON_parse raw of
        None \<Rightarrow> io_throw (Error ''SyntaxError'')
      | Some parsed \<Rightarrow> if isEnvelope parsed then decryptObject ee parsed else io_return parsed)"

section \<open>Idempotency keys\<close>

definition hmac_key :: "crypto \<Rightarrow> string \<Rightarrow> string \<times> string \<Rightarrow> string" where
  "hmac_key cr sourceKey ik = ''idmmw:hmac:'' @ fst ik @ '':'' @ cr_hmac cr (snd ik) sourceKey"

definition idempotencyKeys :: "enc_env \<Rightarrow> string \<Rightarrow> (enc_state, string list) io" where
  "idempotencyKeys ee sourceKey =
     (if \<not> isIdempotencyHmacEnabled ee then io_return [sourceKey]
      else io_bind (keyringDescriptors ee) (\<lambda>keyring.
        io_bind (io_of_sum (activeKeyId ee)) (\<lambda>active.
        let ordered = filter (\<lambda>item. fst item = active) keyring @ filter (\<lambda>item. fst item \<noteq> active) keyring in
        io_return (map (hmac_key (ee_crypto ee) sourceKey) ordered))))"

section \<open>JsonHelper\<close>

text \<open>\<open>isSqlite\<close> is read from the configuration once, in the constructor.\<close>

definition isSqlite :: "config \<Rightarrow> bool" where
  "isSqlite cfg \<longleftrightarrow> cfg ''DATABASE_PROVIDER'' = Str ''sqlite''"

definition toJson :: "enc_env \<Rightarrow> bool \<Rightarrow> js \<Rightarrow> (enc_state, js) io" where
  "toJson ee sqlite value =
     io_bind (encryptForStorage ee value) (\<lambda>stored. io_return (if sqlite then JSON_stringify stored else stored))"

text \<open>A column of SQLite holds a text; \<open>JSON.parse\<close> of anything else fails.\<close>

definition fromJson :: "enc_env \<Rightarrow> bool \<Rightarrow> js \<Rightarrow> (enc_state, js) io" where
  "fromJson ee sqlite value =
     (if value = Null then io_return Null
      else if \<not> sqlite then decryptFromStorage ee value
      else (case value of
          Str s \<Rightarrow> (case JSON_parse s of
              None \<Rightarrow> io_throw (Error ''SyntaxError'')
            | Some parsed \<Rightarrow> decryptFromStorage ee parsed)
        | _ \<Rightarrow> io_throw (Error ''SyntaxError'')))"

section \<open>The cache of the keyring\<close>

text \<open>What a state may hold: no keyring, or the one the configuration gives.\<close>

definition cache_ok :: "enc_env \<Rightarrow> enc_state \<Rightarrow> bool" where
  "cache_ok ee s \<longleftrightarrow> (\<forall>keys. ec_cache s = Some keys \<longrightarrow> load_keyring ee = Inr keys)"

definition fresh_service :: "nat \<Rightarrow> enc_state" where
  "fresh_service n = \<lparr>ec_cache = None, ec_draws = n\<rparr>"

definition same_service :: "enc_env \<Rightarrow> enc_state \<Rightarrow> enc_state \<Rightarrow> bool" where
  "same_service ee s t \<longleftrightarrow> cache_ok ee s \<and> cache_ok ee t \<and> ec_draws s = ec_draws t"

definition transparent :: "enc_env \<Rightarrow> (enc_state, 'a) io \<Rightarrow> bool" where
  "transparent ee m \<longleftrightarrow> (\<forall>s t. same_service ee s t \<longrightarrow>
     fst (m s) = fst (m t) \<and> same_service ee (snd (m s)) (snd (m t)))"

named_theorems transparents \<open>computations whose outcome does not depend on the cache\<close>

lemma fresh_ok: "cache_ok ee (fresh_service n)"
  by (simp add: cache_ok_def fresh_service_def)

lemma keyring_run:
  assumes "cache_ok ee s"
  obtains s' where "keyring ee s = (load_keyring ee, s')" "cache_ok ee s'" "ec_draws s' = ec_draws s"
  using assms
  by (cases "ec_cache s"; cases "load_keyring ee") (auto simp: keyring_def io_simps cache_ok_def)

lemma requireKey_run:
  assumes "cache_ok ee s" "requireKey ee i s = (Inr key, s')"
  obtains keys where "load_keyring ee = Inr keys" "map_of keys i = Some key" "cache_ok ee s'" "ec_draws s' = ec_draws s"
proof -
  obtain s1 where s1: "keyring ee s = (load_keyring ee, s1)" "cache_ok ee s1" "ec_draws s1 = ec_draws s"
    by (rule keyring_run [OF assms(1)])
  with assms(2) show thesis
    by (cases "load_keyring ee") (auto simp: requireKey_def io_simps split: option.splits intro: that)
qed

lemma requireKey_value:
  assumes "cache_ok ee s" "load_keyring ee = Inr keys" "map_of keys i = Some key"
  obtains s' where "requireKey ee i s = (Inr key, s')" "cache_ok ee s'"
proof -
  obtain s1 where "keyring ee s = (load_keyring ee, s1)" "cache_ok ee s1"
    by (rule keyring_run [OF assms(1)])
  with assms(2,3) show thesis by (intro that [of s1]) (simp_all add: requireKey_def io_simps)
qed

lemma transparent_keyring [transparents]: "transparent ee (keyring ee)"
  unfolding transparent_def
proof (intro allI impI)
  fix s t assume st: "same_service ee s t"
  then have ok: "cache_ok ee s" "cache_ok ee t" by (simp_all add: same_service_def)
  obtain s' where "keyring ee s = (load_keyring ee, s')" "cache_ok ee s'" "ec_draws s' = ec_draws s"
    by (rule keyring_run [OF ok(1)])
  moreover obtain t' where "keyring ee t = (load_keyring ee, t')" "cache_ok ee t'" "ec_draws t' = ec_draws t"
    by (rule keyring_run [OF ok(2)])
  ultimately show "fst (keyring ee s) = fst (keyring ee t) \<and> same_service ee (snd (keyring ee s)) (snd (keyring ee t))"
    using st by (simp add: same_service_def)
qed

lemma transparent_basic [transparents]:
  "transparent ee (io_return x)" "transparent ee (io_throw e)" "transparent ee (io_of_sum r)"
  "transparent ee (io_get (\<lambda>s. f (ec_draws s)))" "transparent ee (io_modify (\<lambda>s. s\<lparr>ec_draws := Suc (ec_draws s)\<rparr>))"
  by (simp_all add: transparent_def io_simps same_service_def cache_ok_def)

lemma transparent_bind [transparents]:
  assumes "transparent ee m" "\<And>x. transparent ee (k x)"
  shows "transparent ee (io_bind m k)"
  unfolding transparent_def
proof (intro allI impI)
  fix s t assume "same_service ee s t"
  with assms(1) have 1: "fst (m s) = fst (m t)" "same_service ee (snd (m s)) (snd (m t))"
    by (simp_all add: transparent_def)
  obtain r s1 t1 where m: "m s = (r, s1)" "m t = (r, t1)" "same_service ee s1 t1"
    using 1 by (metis prod.collapse)
  with assms(2) show "fst (io_bind m k s) = fst (io_bind m k t) \<and> same_service ee (snd (io_bind m k s)) (snd (io_bind m k t))"
    by (cases r) (simp_all add: io_simps transparent_def)
qed

lemma transparent_seq [transparents]: "transparent ee m \<Longrightarrow> transparent ee n \<Longrightarrow> transparent ee (io_seq m n)"
  unfolding io_seq_def by (intro transparent_bind)

lemma transparent_if [transparents]: "transparent ee m \<Longrightarrow> transparent ee n \<Longrightarrow> transparent ee (if b then m else n)"
  by simp

lemma transparent_option [transparents]:
  "transparent ee m \<Longrightarrow> (\<And>x. transparent ee (n x)) \<Longrightarrow> transparent ee (case v of None \<Rightarrow> m | Some x \<Rightarrow> n x)"
  by (cases v) simp_all

lemma transparent_requireKey [transparents]: "transparent ee (requireKey ee i)"
  unfolding requireKey_def by (intro transparents)

lemma transparent_encryptObject [transparents]: "transparent ee (encryptObject ee v)"
  unfolding encryptObject_def JSON_stringify_def Let_def
  by (intro transparents) (auto intro: transparents split: prod.split)

lemma transparent_decryptObject [transparents]: "transparent ee (decryptObject ee v)"
  unfolding decryptObject_def by (intro transparents)

lemma transparent_storage [transparents]:
  "transparent ee (encryptForStorage ee v)" "transparent ee (decryptFromStorage ee v)"
  unfolding encryptForStorage_def decryptFromStorage_def by (intro transparents)+

lemma transparent_kafka [transparents]:
  "transparent ee (encodeKafkaMessage ee m)" "transparent ee (decodeKafkaMessage ee raw)"
  unfolding encodeKafkaMessage_def decodeKafkaMessage_def by (intro transparents)+

lemma transparent_idempotencyKeys [transparents]: "transparent ee (idempotencyKeys ee k)"
  unfolding idempotencyKeys_def keyringDescriptors_def Let_def by (intro transparents)

lemma transparent_json [transparents]:
  "transparent ee (toJson ee sqlite v)" "transparent ee (fromJson ee sqlite v)"
  unfolding toJson_def fromJson_def by (intro transparents | simp split: js.split | intro conjI allI impI)+

lemma transparent_validate [transparents]: "transparent ee (validateConfiguration ee)"
  unfolding validateConfiguration_def by (intro transparents)

text \<open>The value a call gives, whatever the service did before.\<close>

lemma transparent_value:
  assumes "transparent ee m" "cache_ok ee s"
  shows "fst (m s) = fst (m (fresh_service (ec_draws s)))"
proof -
  have "same_service ee s (fresh_service (ec_draws s))"
    using assms(2) by (simp add: same_service_def fresh_ok) (simp add: fresh_service_def)
  with assms(1) show ?thesis by (simp add: transparent_def)
qed

lemma transparent_keeps:
  assumes "transparent ee m" "cache_ok ee s" "m s = (r, s')"
  shows "cache_ok ee s'"
proof -
  have "same_service ee s s" using assms(2) by (simp add: same_service_def)
  with assms(1,3) show ?thesis by (fastforce simp: transparent_def same_service_def)
qed

section \<open>Reading back what was written\<close>

text \<open>A later configuration of the service: it may have more keys and another active one.\<close>

definition keys_kept :: "enc_env \<Rightarrow> enc_env \<Rightarrow> bool" where
  "keys_kept ee ee2 \<longleftrightarrow> ee_crypto ee2 = ee_crypto ee \<and>
     (\<forall>keys. load_keyring ee = Inr keys \<longrightarrow> (\<exists>keys2. load_keyring ee2 = Inr keys2 \<and> map_of keys \<subseteq>\<^sub>m map_of keys2))"

lemma keys_kept_refl: "keys_kept ee ee"
  by (simp add: keys_kept_def)

lemma envelope_props: "isEnvelope (envelope i iv tag ct)" "json_ok (envelope i iv tag ct)"
    "envelope i iv tag ct \<noteq> Undef" "\<not> nullish (envelope i iv tag ct)"
  by (simp_all add: envelope_def isEnvelope_def js_prop_def obj_get_def is_Str_def nullish_def)

lemma encryptObject_run:
  assumes "encryptObject ee v s = (Inr x, s')" "cache_ok ee s"
  obtains i key keys iv tag ct where "activeKeyId ee = Inr i" "load_keyring ee = Inr keys" "map_of keys i = Some key"
    "cr_encrypt (ee_crypto ee) key iv (json_text v) = (ct, tag)" "x = envelope i iv tag ct" "v \<noteq> Undef"
proof -
  from assms(1) obtain i key s1 where i: "activeKeyId ee = Inr i" and k: "requireKey ee i s = (Inr key, s1)"
    by (cases "activeKeyId ee"; cases "requireKey ee (projr (activeKeyId ee)) s"; cases "fst (requireKey ee (projr (activeKeyId ee)) s)")
      (auto simp: encryptObject_def io_simps)
  obtain keys where keys: "load_keyring ee = Inr keys" "map_of keys i = Some key"
    by (rule requireKey_run [OF assms(2) k])
  show thesis
    using assms(1) i k keys
    by (cases "cr_encrypt (ee_crypto ee) key (cr_bytes (ee_crypto ee) (ec_draws s1)) (json_text v)")
      (auto simp: encryptObject_def io_simps JSON_stringify_def split: if_splits intro: that)
qed

lemma decryptObject_envelope:
  assumes "load_keyring ee = Inr keys" "map_of keys i = Some key" "cache_ok ee s"
    and "cr_decrypt (ee_crypto ee) key iv tag ct = Inr pt" "JSON_parse pt = Some v"
  shows "fst (decryptObject ee (envelope i iv tag ct) s) = Inr v"
proof -
  obtain s' where "requireKey ee i s = (Inr key, s')"
    by (rule requireKey_value [OF assms(3,1,2)])
  with assms(4,5) show ?thesis
    by (simp add: decryptObject_def envelope_def js_prop_def obj_get_def str_of_def base64_round_trip io_simps)
qed

lemma decrypt_encrypted:
  assumes "encryptObject ee v s = (Inr x, s')" "json_ok v" "crypto_ok (ee_crypto ee)" "keys_kept ee ee2"
    and "cache_ok ee s" "cache_ok ee2 t"
  shows "isEnvelope x \<and> json_ok x \<and> \<not> nullish x \<and> fst (decryptObject ee2 x t) = Inr v"
proof -
  obtain i key keys iv tag ct where e: "load_keyring ee = Inr keys" "map_of keys i = Some key"
    "cr_encrypt (ee_crypto ee) key iv (json_text v) = (ct, tag)" "x = envelope i iv tag ct"
    by (rule encryptObject_run [OF assms(1,5)])
  from assms(4) e(1) obtain keys2 where k2: "load_keyring ee2 = Inr keys2" "map_of keys \<subseteq>\<^sub>m map_of keys2"
    by (auto simp: keys_kept_def)
  with e(2) have "map_of keys2 i = Some key" by (auto simp: map_le_def dom_def)
  moreover have "cr_decrypt (ee_crypto ee2) key iv tag ct = Inr (json_text v)"
    using assms(3,4) e(3) by (simp add: crypto_ok_def keys_kept_def) (metis fst_conv snd_conv)
  ultimately have "fst (decryptObject ee2 x t) = Inr v"
    unfolding e(4) by (rule decryptObject_envelope [OF k2(1) _ assms(6) _ json_round_trip [OF assms(2)]])
  then show ?thesis by (simp add: e(4) envelope_props)
qed

end
