(* ===== verification/Encrypted_Pipeline.thy ===== *)
theory Encrypted_Pipeline
  imports Encryption
begin

text \<open>
  The encryption service inside the pipeline: stored values and messages are read back, also by a
  service whose keys were rotated, and keyed digests keep events apart. Here the laws the other
  components rely on (the codecs of the runtime, the keys of an event) are discharged.
\<close>

section \<open>The service as the runtime sees it\<close>

text \<open>The outcome of a call does not depend on the cache, so the calls are functions of the draw.\<close>

definition service_env :: "enc_env \<Rightarrow> env \<Rightarrow> env" where
  "service_env ee env = env\<lparr>
     en_toJson := \<lambda>n v. fst (toJson ee (isSqlite (en_cfg env)) v (fresh_service n)),
     en_fromJson := \<lambda>v. fst (fromJson ee (isSqlite (en_cfg env)) v (fresh_service 0)),
     en_encodeKafka := \<lambda>n m. fst (encodeKafkaMessage ee m (fresh_service n)),
     en_decodeKafka := \<lambda>raw. fst (decodeKafkaMessage ee raw (fresh_service 0))\<rparr>"

definition service_keys :: "enc_env \<Rightarrow> string \<Rightarrow> exn + string list" where
  "service_keys ee key = fst (idempotencyKeys ee key (fresh_service 0))"

section \<open>Stored values\<close>

text \<open>Values that are read back: an envelope written while encryption is off would be taken for an encrypted value.\<close>

definition storable :: "enc_env \<Rightarrow> js \<Rightarrow> bool" where
  "storable ee v \<longleftrightarrow> crypto_ok (ee_crypto ee) \<and> json_ok v \<and> (enc_isEnabled ee \<or> \<not> isEnvelope v)"

lemma fromJson_stored:
  assumes "json_ok x" "\<not> nullish x"
  shows "fromJson ee sqlite (if sqlite then JSON_stringify x else x) s = decryptFromStorage ee x s"
  using assms json_round_trip [OF assms(1)]
  by (cases x) (auto simp: fromJson_def JSON_stringify_def nullish_def simp del: json_text.simps)

lemma stored_round_trip:
  assumes "storable ee v" "toJson ee sqlite v s = (Inr x, s')" "keys_kept ee ee2" "cache_ok ee s" "cache_ok ee2 t"
  shows "fst (fromJson ee2 sqlite x t) = Inr v"
proof -
  from assms(1) have ok: "json_ok v" "crypto_ok (ee_crypto ee)" by (simp_all add: storable_def)
  from assms(2) obtain y where y: "encryptForStorage ee v s = (Inr y, s')" "x = (if sqlite then JSON_stringify y else y)"
    by (cases "encryptForStorage ee v s"; cases "fst (encryptForStorage ee v s)") (auto simp: toJson_def io_simps)
  show ?thesis
  proof (cases "enc_isEnabled ee")
    case True
    with y(1) have "encryptObject ee v s = (Inr y, s')" by (simp add: encryptForStorage_def)
    from decrypt_encrypted [OF this ok(1,2) assms(3-5)] fromJson_stored [of y ee2 sqlite t] y(2)
    show ?thesis by (simp add: decryptFromStorage_def)
  next
    case False
    with y(1) have "y = v" by (simp add: encryptForStorage_def io_simps)
    moreover from False assms(1) have "\<not> isEnvelope v" by (simp add: storable_def)
    ultimately show ?thesis
      using fromJson_stored [OF ok(1), of ee2 sqlite t] y(2) ok(1)
      using json_round_trip [of Null]
      by (cases "v = Null") (auto simp: decryptFromStorage_def io_simps nullish_def fromJson_def JSON_stringify_def)
  qed
qed

interpretation stored: json_codec "en_toJson (service_env ee env)" "en_fromJson (service_env ee env)" "storable ee"
  for ee env
proof
  fix v n s
  assume v: "storable ee v" and "en_toJson (service_env ee env) n v = Inr s"
  then obtain s' where "toJson ee (isSqlite (en_cfg env)) v (fresh_service n) = (Inr s, s')"
    by (cases "toJson ee (isSqlite (en_cfg env)) v (fresh_service n)") (simp add: service_env_def)
  from stored_round_trip [OF v this keys_kept_refl fresh_ok fresh_ok]
  show "en_fromJson (service_env ee env) s = Inr v" by (simp add: service_env_def)
qed

section \<open>Messages\<close>

definition sendable :: "enc_env \<Rightarrow> obj \<Rightarrow> bool" where
  "sendable ee m \<longleftrightarrow> crypto_ok (ee_crypto ee) \<and> json_ok (Obj m) \<and> (isKafkaEncryptionEnabled ee \<or> \<not> isEnvelope (Obj m))"

lemma sent_round_trip:
  assumes "sendable ee m" "encodeKafkaMessage ee m s = (Inr raw, s')" "keys_kept ee ee2" "cache_ok ee s" "cache_ok ee2 t"
  shows "fst (decodeKafkaMessage ee2 raw t) = Inr (Obj m)"
proof -
  from assms(1) have ok: "json_ok (Obj m)" "crypto_ok (ee_crypto ee)" by (simp_all add: sendable_def)
  show ?thesis
  proof (cases "isKafkaEncryptionEnabled ee")
    case True
    with assms(2) obtain e where e: "encryptObject ee (Obj m) s = (Inr e, s')" "raw = json_text e"
      by (cases "encryptObject ee (Obj m) s"; cases "fst (encryptObject ee (Obj m) s)")
        (auto simp: encodeKafkaMessage_def io_simps)
    from decrypt_encrypted [OF e(1) ok(1,2) assms(3-5)]
    have "isEnvelope e" "json_ok e" "fst (decryptObject ee2 e t) = Inr (Obj m)" by simp_all
    with e(2) json_round_trip [of e] show ?thesis by (simp add: decodeKafkaMessage_def)
  next
    case False
    with assms(2) have "raw = json_text (Obj m)" by (simp add: encodeKafkaMessage_def io_simps)
    moreover from False assms(1) have "\<not> isEnvelope (Obj m)" by (simp add: sendable_def)
    ultimately show ?thesis
      using json_round_trip [OF ok(1)] by (simp add: decodeKafkaMessage_def io_simps del: json_text.simps)
  qed
qed

interpretation sent: message_codec "en_encodeKafka (service_env ee env)" "en_decodeKafka (service_env ee env)" "sendable ee"
  for ee env
proof
  fix m n s
  assume m: "sendable ee m" and "en_encodeKafka (service_env ee env) n m = Inr s"
  then obtain s' where "encodeKafkaMessage ee m (fresh_service n) = (Inr s, s')"
    by (cases "encodeKafkaMessage ee m (fresh_service n)") (simp add: service_env_def)
  from sent_round_trip [OF m this keys_kept_refl fresh_ok fresh_ok]
  show "en_decodeKafka (service_env ee env) s = Inr (Obj m)" by (simp add: service_env_def)
qed

section \<open>Keyed digests\<close>

definition keyring_valid :: "enc_env \<Rightarrow> bool" where
  "keyring_valid ee \<longleftrightarrow>
     (case (load_keyring ee, activeKeyId ee) of (Inr keys, Inr i) \<Rightarrow> map_of keys i \<noteq> None | _ \<Rightarrow> False)"

lemma startup_check:
  "enc_isEnabled ee \<Longrightarrow> fst (validateConfiguration ee (fresh_service n)) = Inr () \<longleftrightarrow> keyring_valid ee"
  by (cases "load_keyring ee"; cases "activeKeyId ee")
    (auto simp: validateConfiguration_def keyring_valid_def keyring_def fresh_service_def io_simps)

lemma parse_keys_distinct: "parse_keys ob keys = Inr keys' \<Longrightarrow> distinct (map fst keys) \<Longrightarrow> distinct (map fst keys')"
  by (induction ob keys rule: parse_keys.induct)
    (auto simp: res_bind_Inr distinct_update split: js.splits)

lemma named_keys_distinct: "named_keys ee ids keys = Inr keys' \<Longrightarrow> distinct (map fst keys) \<Longrightarrow> distinct (map fst keys')"
  by (induction ee ids keys rule: named_keys.induct)
    (auto simp: res_bind_Inr distinct_update split: if_splits)

lemma keyring_distinct: "load_keyring ee = Inr keys \<Longrightarrow> distinct (map fst keys)"
  unfolding load_keyring_def Let_def
  by (auto simp: res_bind_Inr split: if_splits dest: parse_keys_distinct named_keys_distinct)

lemma service_keys_hmac:
  assumes "isIdempotencyHmacEnabled ee"
  shows "service_keys ee key = res_bind (load_keyring ee) (\<lambda>keys. res_bind (activeKeyId ee) (\<lambda>i.
    Inr (map (hmac_key (ee_crypto ee) key) (filter (\<lambda>item. fst item = i) keys @ filter (\<lambda>item. fst item \<noteq> i) keys))))"
  using assms
  by (cases "load_keyring ee"; cases "activeKeyId ee")
    (simp_all add: service_keys_def idempotencyKeys_def keyringDescriptors_def keyring_def fresh_service_def io_simps)

lemma service_keys_plain: "\<not> isIdempotencyHmacEnabled ee \<Longrightarrow> service_keys ee key = Inr [key]"
  by (simp add: service_keys_def idempotencyKeys_def io_simps)

text \<open>The candidates are one digest for every key of the ring.\<close>

lemma service_keys_set:
  assumes "isIdempotencyHmacEnabled ee" "service_keys ee key = Inr ks"
  obtains keys where "load_keyring ee = Inr keys" "set ks = hmac_key (ee_crypto ee) key ` set keys"
proof -
  from assms obtain keys i where k: "load_keyring ee = Inr keys"
    "ks = map (hmac_key (ee_crypto ee) key) (filter (\<lambda>item. fst item = i) keys @ filter (\<lambda>item. fst item \<noteq> i) keys)"
    by (auto simp: service_keys_hmac res_bind_Inr)
  show thesis by (rule that [OF k(1)]) (auto simp: k(2))
qed

lemma last_colon:
  assumes "x @ CHR '':'' # d = y @ CHR '':'' # e" "CHR '':'' \<notin> set d" "CHR '':'' \<notin> set e"
  shows "x = y \<and> d = e"
proof -
  have "takeWhile (\<lambda>c. c \<noteq> CHR '':'') (rev (x @ CHR '':'' # d)) = rev d"
    "takeWhile (\<lambda>c. c \<noteq> CHR '':'') (rev (y @ CHR '':'' # e)) = rev e"
    using assms(2,3) by (simp_all add: takeWhile_tail) (metis set_rev takeWhile_append2 takeWhile.simps(2) append_Nil2)+
  with assms(1) show ?thesis by simp
qed

lemma hmac_key_inject:
  assumes "crypto_ok cr" "hmac_key cr a (i, k) = hmac_key cr b (j, l)"
  shows "i = j \<and> (k = l \<longrightarrow> a = b)"
proof -
  from assms(2) have "i @ CHR '':'' # cr_hmac cr k a = j @ CHR '':'' # cr_hmac cr l b"
    by (simp add: hmac_key_def)
  from last_colon [OF this] assms(1) show ?thesis by (auto simp: crypto_ok_def)
qed

lemma service_keys_disjoint:
  assumes "crypto_ok (ee_crypto ee)" "service_keys ee a = Inr xs" "service_keys ee b = Inr ys" "a \<noteq> b"
  shows "set xs \<inter> set ys = {}"
proof (cases "isIdempotencyHmacEnabled ee")
  case True
  obtain keys where ks: "load_keyring ee = Inr keys" "set xs = hmac_key (ee_crypto ee) a ` set keys"
    by (rule service_keys_set [OF True assms(2)])
  obtain keys' where ks': "load_keyring ee = Inr keys'" "set ys = hmac_key (ee_crypto ee) b ` set keys'"
    by (rule service_keys_set [OF True assms(3)])
  have "hmac_key (ee_crypto ee) a (i, k) \<noteq> hmac_key (ee_crypto ee) b (j, l)" if "(i, k) \<in> set keys" "(j, l) \<in> set keys" for i j k l
    using hmac_key_inject [OF assms(1), of a i k b j l] assms(4) eq_key_imp_eq_value [OF keyring_distinct [OF ks(1)], of i k l] that
    by auto
  with ks ks' show ?thesis by fastforce
next
  case False
  with assms show ?thesis by (auto simp: service_keys_plain)
qed

lemma service_keys_nonempty:
  assumes "isIdempotencyHmacEnabled ee \<longrightarrow> keyring_valid ee" "service_keys ee key = Inr ks"
  shows "ks \<noteq> []"
proof (cases "isIdempotencyHmacEnabled ee")
  case True
  obtain keys where ks: "load_keyring ee = Inr keys" "set ks = hmac_key (ee_crypto ee) key ` set keys"
    by (rule service_keys_set [OF True assms(2)])
  with True assms(1) have "keys \<noteq> []" by (auto simp: keyring_valid_def split: sum.splits)
  with ks(2) show ?thesis by auto
next
  case False
  with assms show ?thesis by (auto simp: service_keys_plain)
qed

text \<open>A crypto library for the examples: ciphertexts are the plaintexts, tags and digests spell out what they cover.\<close>

definition demo_crypto :: crypto where
  "demo_crypto = \<lparr>cr_encrypt = (\<lambda>k iv pt. (pt, k @ iv)),
     cr_decrypt = (\<lambda>k iv tag ct. if tag = k @ iv then Inr ct else Inl (Error ''Unsupported state or unable to authenticate data'')),
     cr_hmac = (\<lambda>k m. encodeURIComponent m), cr_bytes = (\<lambda>n. show_nat n)\<rparr>"

lemma demo_crypto_ok: "crypto_ok demo_crypto"
proof -
  have "CHR '':'' \<notin> set (encodeURIComponent a)" for a
    using encodeURIComponent_chars [of "CHR '':''" a] not_alnum_special by (auto simp: uri_unreserved_def)
  moreover have "a = b" if "encodeURIComponent a = encodeURIComponent b" for a b
    using that decode_encode_URI by metis
  ultimately show ?thesis by (auto simp: crypto_ok_def demo_crypto_def)
qed

text \<open>A service that passed its check at the start; with digests on, this is what the check of the keyring gives.\<close>

typedef checked_service = "{ee. crypto_ok (ee_crypto ee) \<and> (isIdempotencyHmacEnabled ee \<longrightarrow> keyring_valid ee)}"
  by (rule exI [of _ "\<lparr>ee_process = (\<lambda>_. None), ee_config = None, ee_crypto = demo_crypto\<rparr>"])
    (simp add: demo_crypto_ok isIdempotencyHmacEnabled_def enc_isEnabled_def readFlag_def readString_def)

interpretation digests: key_scheme "service_keys (Rep_checked_service c)" for c
proof
  from Rep_checked_service [of c] have c: "crypto_ok (ee_crypto (Rep_checked_service c))"
    "isIdempotencyHmacEnabled (Rep_checked_service c) \<longrightarrow> keyring_valid (Rep_checked_service c)" by simp_all
  show "service_keys (Rep_checked_service c) k = Inr ks \<Longrightarrow> ks \<noteq> []" for k ks
    by (rule service_keys_nonempty [OF c(2)])
  show "service_keys (Rep_checked_service c) a = Inr xs \<Longrightarrow> service_keys (Rep_checked_service c) b = Inr ys \<Longrightarrow>
      a \<noteq> b \<Longrightarrow> set xs \<inter> set ys = {}" for a b xs ys
    by (rule service_keys_disjoint [OF c(1)])
qed

interpretation digest_service:
  idempotency_service "selected_store env" "store_live env" "store_good env" "service_keys (Rep_checked_service c)" for env c
  by unfold_locales

section \<open>Two configurations for the examples\<close>

definition demo_key :: string where
  "demo_key = ''AAAAAAAAAAAAAAAAAAAAAAAAAAAAAAAAAAAAAAAAAAA=''"

definition demo_bytes :: string where
  "demo_bytes = [CHR 0x00, CHR 0x00, CHR 0x00, CHR 0x00, CHR 0x00, CHR 0x00, CHR 0x00, CHR 0x00, CHR 0x00, CHR 0x00, CHR
     0x00, CHR 0x00, CHR 0x00, CHR 0x00, CHR 0x00, CHR 0x00, CHR 0x00, CHR 0x00, CHR 0x00, CHR 0x00, CHR 0x00,
     CHR 0x00, CHR 0x00, CHR 0x00, CHR 0x00, CHR 0x00, CHR 0x00, CHR 0x00, CHR 0x00, CHR 0x00, CHR 0x00, CHR
     0x00]"

definition demo_vars :: "(string \<times> string) list" where
  "demo_vars = [(''ENCRYPTION_ENABLED'', ''true''), (''ENCRYPTION_KEY_K1'', demo_key), (''ENCRYPTION_KEY_K2'', demo_key)]"

definition demo_enc :: enc_env where
  "demo_enc = \<lparr>ee_process = map_of ([(''ENCRYPTION_ACTIVE_KEY_ID'', ''k1''), (''ENCRYPTION_KEYS'', ''k1'')] @ demo_vars),
     ee_config = None, ee_crypto = demo_crypto\<rparr>"

text \<open>After a rotation.\<close>

definition demo_enc2 :: enc_env where
  "demo_enc2 = \<lparr>ee_process = map_of ([(''ENCRYPTION_ACTIVE_KEY_ID'', ''k2''), (''ENCRYPTION_KEYS'', ''k1,k2'')] @ demo_vars),
     ee_config = None, ee_crypto = demo_crypto\<rparr>"

lemmas demo_enc_defs = demo_enc_def demo_enc2_def demo_vars_def readFlag_def read_text_def readString_def

lemma demo_flags:
  "enc_isEnabled demo_enc" "isIdempotencyHmacEnabled demo_enc" "isIdempotencyHmacEnabled demo_enc2"
  "isKafkaEncryptionEnabled demo_enc"
  by (simp_all add: demo_enc_defs enc_isEnabled_def isIdempotencyHmacEnabled_def isKafkaEncryptionEnabled_def)

lemma demo_active: "activeKeyId demo_enc = Inr ''k1''" "activeKeyId demo_enc2 = Inr ''k2''"
  by (simp_all add: demo_enc_defs activeKeyId_def some_text_def)

lemma demo_key_material: "parseKeyMaterial i demo_key = Inr demo_bytes"
proof -
  have "base64 demo_bytes = demo_key"
    by (simp add: base64_def demo_bytes_def demo_key_def base64_char_def upper_letters_def)
  then have "base64_decode demo_key = demo_bytes" by (metis base64_round_trip)
  moreover have "length demo_bytes = 32" by (simp add: demo_bytes_def)
  moreover have "trim demo_key = demo_key" by (simp add: demo_key_def trim_def is_space_def)
  moreover have "\<not> isSecretReference demo_key"
    by (simp add: isSecretReference_def demo_key_def to_lower_def to_lower_char_def upper_letters_def lower_letters_def)
  ultimately show ?thesis by (simp add: parseKeyMaterial_def)
qed

lemma demo_suffix: "envKeySuffix ''k1'' = ''K1''" "envKeySuffix ''k2'' = ''K2''"
  by (simp_all add: envKeySuffix_def is_alnum_def is_digit_def to_upper_def to_upper_char_def upper_letters_def
      lower_letters_def)

lemma demo_key_value: "key_value demo_enc ''k1'' = Inr (Some demo_key)" "key_value demo_enc2 ''k1'' = Inr (Some demo_key)"
    "key_value demo_enc2 ''k2'' = Inr (Some demo_key)"
  by (simp_all add: key_value_def demo_suffix) (simp_all add: demo_enc_defs)

lemma demo_key_ids: "keyIds demo_enc = Inr [''k1'']" "keyIds demo_enc2 = Inr [''k1'', ''k2'']"
    "read_text demo_enc ''ENCRYPTION_KEYS'' = Some ''k1''" "read_text demo_enc2 ''ENCRYPTION_KEYS'' = Some ''k1,k2''"
  by (simp_all add: demo_enc_defs keyIds_def json_keys_def trim_def is_space_def csv_values_def)

lemma demo_keyring:
  "load_keyring demo_enc = Inr [(''k1'', demo_bytes)]"
  "load_keyring demo_enc2 = Inr [(''k1'', demo_bytes), (''k2'', demo_bytes)]"
  unfolding load_keyring_def Let_def demo_key_ids
  by (simp_all add: json_keys_def trim_def is_space_def demo_key_value demo_key_material some_text_def demo_key_def [symmetric])
    (simp_all add: demo_key_def)

lemma demo_rotation: "keys_kept demo_enc demo_enc2"
  unfolding keys_kept_def demo_keyring by (simp add: demo_enc_def demo_enc2_def map_le_def)

lemma demo_enc_valid: "crypto_ok (ee_crypto demo_enc)" "keyring_valid demo_enc" "keyring_valid demo_enc2"
  by (simp_all add: keyring_valid_def demo_keyring demo_active) (simp add: demo_enc_def demo_crypto_ok)

section \<open>Properties\<close>

text \<open>
  C22: what is stored is read back: a value written to a JSON column, with either database and whether or
  not encryption is on, is read back as it was, also by a service started later with another active key,
  with encryption switched off or with further keys, as long as the key that was used is still in the
  ring. The one exception are values that look like an envelope and were written while encryption was off.
\<close>

theorem storage_round_trip:
  assumes "crypto_ok (ee_crypto ee)" "json_ok v" "enc_isEnabled ee \<or> \<not> isEnvelope v"
    and "toJson ee sqlite v s = (Inr x, s')" "cache_ok ee s" "keys_kept ee ee2" "cache_ok ee2 t"
  shows "fst (fromJson ee2 sqlite x t) = Inr v"
  using assms by (intro stored_round_trip [OF _ assms(4)]) (simp_all add: storable_def)

text \<open>An encryption of the first configuration, for the examples.\<close>

lemma demo_encrypts:
  assumes "v \<noteq> Undef"
  shows "encryptObject demo_enc v (fresh_service n) =
    (Inr (envelope ''k1'' (show_nat n) (demo_bytes @ show_nat n) (json_text v)),
     \<lparr>ec_cache = Some [(''k1'', demo_bytes)], ec_draws = Suc n\<rparr>)"
proof -
  have "ee_crypto demo_enc = demo_crypto" by (simp add: demo_enc_def)
  with assms show ?thesis
    by (simp add: encryptObject_def demo_active requireKey_def keyring_def demo_keyring fresh_service_def io_simps
        JSON_stringify_def demo_crypto_def)
qed

theorem storage_round_trip_witness:
  "\<exists>x s'. toJson demo_enc True (Obj [(''token'', Str ''t'')]) (fresh_service 0) = (Inr x, s') \<and>
     fst (fromJson demo_enc2 True x (fresh_service 5)) = Inr (Obj [(''token'', Str ''t'')])"
proof -
  let ?v = "Obj [(''token'', Str ''t'')]"
  obtain x s' where run: "toJson demo_enc True ?v (fresh_service 0) = (Inr x, s')"
    by (simp add: toJson_def encryptForStorage_def demo_flags demo_encrypts io_simps)
  have "fst (fromJson demo_enc2 True x (fresh_service 5)) = Inr ?v"
    by (rule storage_round_trip [OF demo_enc_valid(1) _ _ run fresh_ok demo_rotation fresh_ok]) (simp_all add: demo_flags)
  with run show ?thesis by blast
qed

text \<open>
  C23: a worker executes the event that was sent, through the encryption of messages: for an event with a
  payload that JSON can express, the message that is written to a topic is decoded by a worker, whose keys
  may have been rotated since, to the same event and the same queue item.
\<close>

theorem encrypted_message_round_trip:
  assumes "crypto_ok (ee_crypto ee)" "json_ok (Obj (pr_payload dto))" "i \<noteq> []" "keys_kept ee ee2"
    and "en_encodeKafka (service_env ee env) n (event_message dto) = Inr raw1"
    and "en_encodeKafka (service_env ee env) m (retry_message i dto) = Inr raw2"
  shows "decode_message (service_env ee2 env) (Some raw1) = Inr (dto, None) \<and>
    decode_message (service_env ee2 env) (Some raw2) = Inr (dto, Some i)"
proof -
  have read: "en_decodeKafka (service_env ee2 env) raw = Inr (Obj ob)"
    if "en_encodeKafka (service_env ee env) k ob = Inr raw" "json_ok (Obj ob)" "\<not> isEnvelope (Obj ob)" for k ob raw
  proof -
    from that(1) obtain s' where "encodeKafkaMessage ee ob (fresh_service k) = (Inr raw, s')"
      by (cases "encodeKafkaMessage ee ob (fresh_service k)") (simp add: service_env_def)
    from sent_round_trip [OF _ this assms(4) fresh_ok fresh_ok] that(2,3) assms(1)
    show ?thesis by (simp add: service_env_def sendable_def)
  qed
  have ok: "json_ok (Obj (event_message dto))" "json_ok (Obj (retry_message i dto))"
    using assms(2) by (simp_all add: retry_message_def event_message_def event_fields_def)
  have plain: "\<not> isEnvelope (Obj (event_message dto))" "\<not> isEnvelope (Obj (retry_message i dto))"
    by (simp_all add: isEnvelope_def retry_message_def event_message_def event_fields_def js_prop_def obj_get_def)
  show ?thesis
    using read [OF assms(5) ok(1) plain(1)] read [OF assms(6) ok(2) plain(2)] assms(3)
    by (simp add: decode_message_def event_of_event_message event_of_retry_message)
qed

theorem encrypted_message_round_trip_witness:
  "\<exists>raw. en_encodeKafka (service_env demo_enc demo_env) 3 (event_message (demo_event ''user.create'')) = Inr raw \<and>
     decode_message (service_env demo_enc2 demo_env) (Some raw) = Inr (demo_event ''user.create'', None)"
proof -
  let ?e = "demo_event ''user.create''"
  have enc: "\<exists>raw. en_encodeKafka (service_env demo_enc demo_env) n ob = Inr raw" for n ob
    by (simp add: service_env_def encodeKafkaMessage_def demo_flags demo_encrypts io_simps)
  obtain raw1 raw2 where raw: "en_encodeKafka (service_env demo_enc demo_env) 3 (event_message ?e) = Inr raw1"
    "en_encodeKafka (service_env demo_enc demo_env) 4 (retry_message ''7'' ?e) = Inr raw2"
    using enc by blast
  have "json_ok (Obj (pr_payload ?e))" by (simp add: demo_event_def)
  from encrypted_message_round_trip [OF demo_enc_valid(1) this _ demo_rotation raw] raw show ?thesis by auto
qed

text \<open>The digest an event is locked with is a candidate of every later service that kept the key.\<close>

lemma digest_kept:
  assumes "keyring_valid ee" "isIdempotencyHmacEnabled ee" "isIdempotencyHmacEnabled ee2" "keys_kept ee ee2"
    and "service_keys ee key = Inr ks" "service_keys ee2 key = Inr ks2"
  shows "hd ks \<in> set ks2"
proof -
  from assms(1) obtain keys i k where k: "load_keyring ee = Inr keys" "activeKeyId ee = Inr i" "map_of keys i = Some k"
    by (auto simp: keyring_valid_def split: sum.splits)
  have first: "hd (filter (\<lambda>item. fst item = i) xs) = (i, k) \<and> filter (\<lambda>item. fst item = i) xs \<noteq> []"
    if "map_of xs i = Some k" for xs
    using that by (induction xs) (auto split: if_splits)
  have ks: "hd ks = hmac_key (ee_crypto ee) key (i, k)"
    using assms(2,5) k(1,2) first [OF k(3)] by (auto simp: service_keys_hmac hd_map hd_append)
  obtain keys2 where keys2: "load_keyring ee2 = Inr keys2" "set ks2 = hmac_key (ee_crypto ee2) key ` set keys2"
    by (rule service_keys_set [OF assms(3,6)])
  with assms(4) k(1,3) have "map_of keys2 i = Some k" by (auto simp: keys_kept_def map_le_def dom_def)
  then have "(i, k) \<in> set keys2" by (rule map_of_SomeD)
  with ks keys2(2) assms(4) show ?thesis by (auto simp: keys_kept_def)
qed



end
