(* ===== verification/Encryption_Rotation.thy ===== *)
theory Encryption_Rotation
  imports Encrypted_Pipeline
begin

text \<open>
  \<^verbatim>\<open>src/security/encryption-rotation.service.ts\<close> and the check of the encryption state at the start of the
  program in \<^verbatim>\<open>src/database/prisma.service.ts\<close>. The administration client of Kafka is a parameter.
\<close>

section \<open>The check at the start\<close>

definition isMissingEncryptionStateTable :: "exn \<Rightarrow> bool" where
  "isMissingEncryptionStateTable error \<longleftrightarrow> (let msg = exn_message error in
     str_includes msg ''EncryptionState'' \<and>
     (str_includes msg ''does not exist'' \<or> str_includes msg ''no such table'' \<or> str_includes msg ''UndefinedTable''))"

definition loadEncryptionState :: "bool \<Rightarrow> ('e world, encryption_state option) io" where
  "loadEncryptionState required =
     io_catch (db_call (io_get w_encState))
       (\<lambda>error. if isMissingEncryptionStateTable error \<and> \<not> required then io_return None
         else if isMissingEncryptionStateTable error \<and> required
         then io_throw (Error ''ENCRYPTION_ENABLED=true requires the EncryptionState migration to be applied'')
         else io_throw error)"

definition countRows :: "('e world \<Rightarrow> 'r list) \<Rightarrow> ('e world, nat) io" where
  "countRows table = db_call (io_get (\<lambda>w. length (table w)))"

definition activeIdempotencyKeys :: "'e world \<Rightarrow> idempotency_row list" where
  "activeIdempotencyKeys w = filter (\<lambda>r. w_now w < i_expiresAt r) (w_idem w)"

definition offenders :: "(string \<times> nat) list \<Rightarrow> string list" where
  "offenders counts = map (\<lambda>(name, n). name @ ''='' @ show_nat n) (filter (\<lambda>(name, n). 0 < n) counts)"

definition ensureStrictlyEmptyForEncryption :: "('e world, unit) io" where
  "ensureStrictlyEmptyForEncryption =
     io_bind (io_both (countRows w_audit) (io_both (countRows w_dlq)
       (io_both (countRows w_targets) (countRows activeIdempotencyKeys)))) (\<lambda>(audits, items, targets, keys).
     let bad = offenders [(''AuditLog'', audits), (''DlqItem'', items), (''TargetSystem'', targets), (''IdempotencyKey'', keys)] in
     if bad \<noteq> [] then io_throw (Error (''Cannot enable encryption on a non-empty system: '' @ join '', '' bad))
     else io_return ())"

definition createEncryptionState :: "string \<Rightarrow> ('e world, unit) io" where
  "createEncryptionState active =
     db_call (io_modify (\<lambda>w. w\<lparr>w_encState := Some \<lparr>es_id = ''default'', es_enabled = True, es_activeKeyId = active,
       es_previousKeyIds = ''[]'', es_rotationStatus = ''completed'', es_rotatedAt = None\<rparr>\<rparr>))"

text \<open>A call of the encryption service, whose cache makes no difference.\<close>

definition enc_call :: "(enc_state, 'a) io \<Rightarrow> ('e world, 'a) io" where
  "enc_call m = io_of_sum (fst (m (fresh_service 0)))"

definition check_existing_state :: "enc_env \<Rightarrow> string \<Rightarrow> encryption_state \<Rightarrow> ('e world, unit) io" where
  "check_existing_state ee active state =
     (if \<not> es_enabled state
      then io_throw (Error ''Encryption state exists but is disabled; refusing encrypted startup'')
      else io_bind (enc_call (keyringDescriptors ee)) (\<lambda>keys.
        if es_activeKeyId state \<notin> fst ` set keys
        then io_throw (Error (''Database encryption key '' @ [CHR 0x27] @ es_activeKeyId state @ [CHR 0x27] @
          '' is not present in runtime keyring''))
        else if es_activeKeyId state \<noteq> active \<and> \<not> isRotationMode ee
        then io_throw (Error (''Encryption active key mismatch: database uses '' @ [CHR 0x27] @ es_activeKeyId state @
          [CHR 0x27] @ '', runtime uses '' @ [CHR 0x27] @ active @ [CHR 0x27] @
          ''. Run key rotation before normal startup.''))
        else io_return ()))"

definition validateEncryptionState :: "enc_env \<Rightarrow> ('e world, unit) io" where
  "validateEncryptionState ee =
     io_seq (if enc_isEnabled ee then enc_call (validateConfiguration ee) else io_return ())
     (io_bind (loadEncryptionState (enc_isEnabled ee)) (\<lambda>state.
      if \<not> enc_isEnabled ee then
        (case state of
           Some st \<Rightarrow> if es_enabled st
             then io_throw (Error ''Encryption is enabled in database state, but ENCRYPTION_ENABLED is not true'')
             else io_return ()
         | None \<Rightarrow> io_return ())
      else io_bind (io_of_sum (activeKeyId ee)) (\<lambda>active.
        case state of
          None \<Rightarrow> io_seq ensureStrictlyEmptyForEncryption (createEncryptionState active)
        | Some st \<Rightarrow> check_existing_state ee active st)))"

section \<open>Rotation\<close>

subsection \<open>Work in progress\<close>

text \<open>Offsets are the numbers their texts stand for; a partition without a commit has none.\<close>

record 'e kafka_admin =
  ka_connect :: "('e, unit) io"
  ka_topicOffsets :: "string \<Rightarrow> ('e, (nat \<times> int) list) io"
  ka_offsets :: "string \<Rightarrow> string \<Rightarrow> ('e, (string \<times> (nat \<times> int) list) list) io"
  ka_disconnect :: "('e, unit) io"

definition partition_lag :: "(nat \<times> int) list \<Rightarrow> nat \<times> int \<Rightarrow> int" where
  "partition_lag groupPartitions part =
     (let committed = (case map_of groupPartitions (fst part) of Some n \<Rightarrow> n | None \<Rightarrow> -1) in max 0 (snd part - max committed 0))"

definition topic_lag :: "string \<Rightarrow> (nat \<times> int) list \<Rightarrow> (string \<times> (nat \<times> int) list) list \<Rightarrow> int" where
  "topic_lag topic topicOffsets groupOffsets =
     sum_list (map (partition_lag (case map_of groupOffsets topic of Some ps \<Rightarrow> ps | None \<Rightarrow> [])) topicOffsets)"

fun lag_of_topics :: "'e kafka_admin \<Rightarrow> string \<Rightarrow> string list \<Rightarrow> int \<Rightarrow> ('e world, int) io" where
  "lag_of_topics admin groupId [] lag = io_return lag"
| "lag_of_topics admin groupId (topic # rest) lag =
     io_bind (io_both (on_ext (ka_topicOffsets admin topic)) (on_ext (ka_offsets admin groupId topic))) (\<lambda>(ends, groups).
     lag_of_topics admin groupId rest (lag + topic_lag topic ends groups))"

definition kafkaLag :: "env \<Rightarrow> 'e kafka_admin \<Rightarrow> ('e world, int) io" where
  "kafkaLag env admin =
     (if \<not> kafka_enabled env \<or> en_cfg env ''ENCRYPTION_ROTATION_SKIP_KAFKA_LAG_CHECK'' = Str ''true'' then io_return 0
      else
        (let groupId = cfg_str (en_cfg env) ''KAFKA_CONSUMER_GROUP_ID'' ''idmmw-worker-group'';
             topics = (if eventsInTopic env = retryTopic env then [eventsInTopic env] else [eventsInTopic env, retryTopic env]) in
         io_seq (on_ext (ka_connect admin))
           (io_finally (lag_of_topics admin groupId topics 0) (on_ext (ka_disconnect admin)))))"

definition unsettled_items :: "'e world \<Rightarrow> dlq_item list" where
  "unsettled_items w = filter (\<lambda>d. d_status d \<in> {''pending'', ''retrying''}) (w_dlq w)"

definition assertNoActiveProcessing :: "env \<Rightarrow> 'e kafka_admin \<Rightarrow> ('e world, unit) io" where
  "assertNoActiveProcessing env admin =
     io_bind (io_both (countRows unsettled_items) (io_both (countRows activeIdempotencyKeys) (kafkaLag env admin)))
       (\<lambda>(dlqActive, idempotencyActive, lag).
     let blockers = (if 0 < dlqActive then [''DLQ pending/retrying='' @ show_nat dlqActive] else []) @
         (if 0 < idempotencyActive then [''active idempotency keys='' @ show_nat idempotencyActive] else []) @
         (if 0 < lag then [''Kafka lag='' @ show_int lag] else []) in
     if blockers \<noteq> []
     then io_throw (Error (''Cannot rotate encryption key while processing is active: '' @ join '', '' blockers))
     else io_return ())"

subsection \<open>Re-encryption of the tables\<close>

text \<open>\<open>this.jsonHelper.toJson(this.jsonHelper.fromJson(value))\<close>.\<close>

definition recode :: "env \<Rightarrow> js \<Rightarrow> ('e world, js) io" where
  "recode env v = io_bind (io_of_sum (en_fromJson env v)) (toJson_io env)"

text \<open>\<open>update({ where: { id }, data })\<close>: a missing row is an error.\<close>

definition update_row ::
  "('e world \<Rightarrow> 'r list) \<Rightarrow> (('r list \<Rightarrow> 'r list) \<Rightarrow> 'e world \<Rightarrow> 'e world) \<Rightarrow> ('r \<Rightarrow> string) \<Rightarrow> string \<Rightarrow> ('r \<Rightarrow> 'r) \<Rightarrow>
     ('e world, unit) io" where
  "update_row table put key k f = db_call (\<lambda>w.
     if k \<notin> key ` set (table w) then (Inl (PrismaError ''P2025'' ''Record to update not found.''), w)
     else (Inr (), put (update_rows (\<lambda>r. key r = k) f) w))"

text \<open>The loop of each table: read all rows, then update them one by one; \<open>change\<close> computes what is written.\<close>

definition rotate_rows ::
  "('e world \<Rightarrow> 'r list) \<Rightarrow> (('r list \<Rightarrow> 'r list) \<Rightarrow> 'e world \<Rightarrow> 'e world) \<Rightarrow> ('r \<Rightarrow> string) \<Rightarrow>
     ('r \<Rightarrow> ('e world, 'r \<Rightarrow> 'r) io) \<Rightarrow> ('e world, unit) io" where
  "rotate_rows table put key change =
     io_bind (db_call (io_get table)) (io_foreach (\<lambda>row. io_bind (change row) (update_row table put key (key row))))"

definition audit_change :: "env \<Rightarrow> audit_log \<Rightarrow> ('e world, audit_log \<Rightarrow> audit_log) io" where
  "audit_change env row =
     io_bind (recode env (a_payload row)) (\<lambda>p.
     io_bind (if a_response row = Null then io_return Null else recode env (a_response row)) (\<lambda>q.
     io_return (\<lambda>r. r\<lparr>a_payload := p, a_response := q\<rparr>)))"

definition dlq_change :: "env \<Rightarrow> dlq_item \<Rightarrow> ('e world, dlq_item \<Rightarrow> dlq_item) io" where
  "dlq_change env row = io_bind (recode env (d_payload row)) (\<lambda>p. io_return (\<lambda>r. r\<lparr>d_payload := p\<rparr>))"

text \<open>Prisma sets \<open>updatedAt\<close> of a target system with every update.\<close>

definition target_change :: "env \<Rightarrow> target_system \<Rightarrow> ('e world, target_system \<Rightarrow> target_system) io" where
  "target_change env row =
     io_bind (recode env (ts_config row)) (\<lambda>c.
     io_bind (io_get w_now) (\<lambda>now. io_return (\<lambda>r. r\<lparr>ts_config := c, ts_updatedAt := now\<rparr>)))"

definition rotateAuditLogs :: "env \<Rightarrow> ('e world, unit) io" where
  "rotateAuditLogs env = rotate_rows w_audit w_audit_update a_id (audit_change env)"

definition rotateDlqItems :: "env \<Rightarrow> ('e world, unit) io" where
  "rotateDlqItems env = rotate_rows w_dlq w_dlq_update d_id (dlq_change env)"

definition rotateTargetSystems :: "env \<Rightarrow> ('e world, unit) io" where
  "rotateTargetSystems env = rotate_rows w_targets w_targets_update ts_id (target_change env)"

subsection \<open>The state of the rotation\<close>

definition loadState :: "('e world, encryption_state) io" where
  "loadState = io_bind (db_call (io_get w_encState)) (\<lambda>row.
     case row of
       None \<Rightarrow> io_throw (Error ''EncryptionState is missing; enable encryption first'')
     | Some st \<Rightarrow> io_return st)"

text \<open>\<open>[...new Set(values)]\<close>.\<close>

definition js_set :: "js list \<Rightarrow> js list" where
  "js_set values = fold (\<lambda>v seen. if list_ex (js_eq v) seen then seen else seen @ [v]) values []"

definition previousKeyIds :: "string \<Rightarrow> string \<Rightarrow> exn + js list" where
  "previousKeyIds previousActiveKeyId raw =
     (case JSON_parse (if raw = [] then ''[]'' else raw) of
        None \<Rightarrow> Inl (Error ''SyntaxError'')
      | Some (Arr parsed) \<Rightarrow> Inr (js_set (Str previousActiveKeyId # parsed))
      | Some (Str s) \<Rightarrow> Inr (js_set (Str previousActiveKeyId # map (\<lambda>c. Str [c]) s))
      | Some _ \<Rightarrow> Inl (Error ''parsed is not iterable''))"

definition update_state :: "(encryption_state \<Rightarrow> encryption_state) \<Rightarrow> ('e world, unit) io" where
  "update_state f = db_call (io_modify (\<lambda>w. w\<lparr>w_encState := map_option f (w_encState w)\<rparr>))"

definition markRotation :: "string \<Rightarrow> string \<Rightarrow> string \<Rightarrow> ('e world, unit) io" where
  "markRotation status previous raw =
     io_bind (io_of_sum (previousKeyIds previous raw)) (\<lambda>ids.
     update_state (\<lambda>st. st\<lparr>es_rotationStatus := status, es_previousKeyIds := json_text (Arr ids)\<rparr>))"

definition completeRotation :: "enc_env \<Rightarrow> string \<Rightarrow> string \<Rightarrow> ('e world, unit) io" where
  "completeRotation ee previous raw =
     io_bind (io_of_sum (previousKeyIds previous raw)) (\<lambda>ids.
     io_bind (io_of_sum (activeKeyId ee)) (\<lambda>active.
     io_bind (io_get w_now) (\<lambda>now.
     update_state (\<lambda>st. st\<lparr>es_activeKeyId := active, es_previousKeyIds := json_text (Arr ids),
       es_rotationStatus := ''completed'', es_rotatedAt := Some now\<rparr>))))"

definition rotate_tables :: "env \<Rightarrow> ('e world, unit) io" where
  "rotate_tables env = io_seq (rotateAuditLogs env) (io_seq (rotateDlqItems env) (rotateTargetSystems env))"

text \<open>\<open>env\<close> is the runtime whose JSON helper uses this encryption service.\<close>

definition rotateToActiveKey :: "enc_env \<Rightarrow> env \<Rightarrow> 'e kafka_admin \<Rightarrow> ('e world, unit) io" where
  "rotateToActiveKey ee env admin =
     (if \<not> enc_isEnabled ee then io_throw (Error ''ENCRYPTION_ENABLED=true is required for key rotation'')
      else io_seq (enc_call (validateConfiguration ee))
       (io_bind loadState (\<lambda>state.
        io_bind (io_of_sum (activeKeyId ee)) (\<lambda>nextKeyId.
        if es_activeKeyId state = nextKeyId then io_return ()
        else io_seq (assertNoActiveProcessing env admin)
         (io_seq (markRotation ''running'' (es_activeKeyId state) (es_previousKeyIds state))
          (io_catch
             (io_seq (rotate_tables env) (completeRotation ee (es_activeKeyId state) (es_previousKeyIds state)))
             (\<lambda>error. io_seq (markRotation ''failed'' (es_activeKeyId state) (es_previousKeyIds state)) (io_throw error))))))))"

section \<open>Rotating one table\<close>

text \<open>
  What the proof needs of a table: \<open>content\<close> is what a reader sees of a row (with its key), \<open>good\<close> rows
  are changed without changing that, and \<open>sealed\<close> rows are what the change leaves behind.
\<close>

locale rotated_table =
  fixes table :: "'e world \<Rightarrow> 'r list"
    and put :: "('r list \<Rightarrow> 'r list) \<Rightarrow> 'e world \<Rightarrow> 'e world"
    and key :: "'r \<Rightarrow> string"
    and change :: "'r \<Rightarrow> ('e world, 'r \<Rightarrow> 'r) io"
    and content :: "'r \<Rightarrow> 'c"
    and good :: "'r \<Rightarrow> bool"
    and sealed :: "'r \<Rightarrow> bool"
  assumes table_put: "table (put upd w) = upd (table w)"
    and table_faults: "table (w\<lparr>w_faults := fs\<rparr>) = table w"
    and change_table: "io_keeps table (change row)"
    and content_key: "content r = content r' \<Longrightarrow> key r = key r'"
    and change_content: "change row w = (Inr f, w') \<Longrightarrow> good row \<Longrightarrow> content r = content row \<Longrightarrow> content (f r) = content r"
    and change_sealed: "change row w = (Inr f, w') \<Longrightarrow> sealed (f r)"
begin

lemma update_row_table:
  "table (snd (update_row table put key k f w)) = table w \<and> fst (update_row table put key k f w) \<noteq> Inr () \<or>
   table (snd (update_row table put key k f w)) = update_rows (\<lambda>r. key r = k) f (table w)"
proof (cases rule: db_call_cases [of "\<lambda>w. if k \<notin> key ` set (table w)
    then (Inl (PrismaError ''P2025'' ''Record to update not found.''), w) else (Inr (), put (update_rows (\<lambda>r. key r = k) f) w)" w])
  case (ok fs)
  then show ?thesis by (auto simp: update_row_def table_put table_faults)
next
  case (fault e fs)
  then show ?thesis by (simp add: update_row_def table_faults)
qed

text \<open>The rows that were read stand for the rows of the table, as long as their contents are the same.\<close>

lemma row_of_key:
  assumes "map content rs = map content rows" "distinct (map key rows)" "row \<in> set rows" "r \<in> set rs" "key r = key row"
  shows "content r = content row"
proof -
  from assms(4) have "content r \<in> content ` set rows" using assms(1) by (metis list.set_map image_eqI)
  then obtain row' where row': "row' \<in> set rows" "content r = content row'" by auto
  with assms(5) content_key have "key row' = key row" by metis
  with assms(2,3) row'(1) have "row' = row" by (metis distinct_map inj_onD)
  with row'(2) show ?thesis by simp
qed

definition sealed_at :: "string \<Rightarrow> 'e world \<Rightarrow> bool" where
  "sealed_at k w \<longleftrightarrow> (\<forall>x \<in> set (table w). key x = k \<longrightarrow> sealed x)"

lemma step:
  assumes same: "map content (table w) = map content rows" and "distinct (map key rows)" "good row" "row \<in> set rows"
    and run: "io_bind (change row) (update_row table put key (key row)) w = (r, w')"
  shows "map content (table w') = map content rows \<and> (r = Inr () \<longrightarrow> sealed_at (key row) w') \<and>
    (\<forall>k. sealed_at k w \<longrightarrow> sealed_at k w')"
proof (cases "change row w")
  case (Pair q w1)
  have t1: "table w1 = table w"
    by (rule io_keepsD [OF change_table Pair])
  show ?thesis
  proof (cases q)
    case (Inl e)
    with run Pair t1 same show ?thesis by (auto simp: io_simps sealed_at_def)
  next
    case (Inr f)
    with Pair have f: "change row w = (Inr f, w1)" by simp
    with run have upd: "update_row table put key (key row) f w1 = (r, w')" by (simp add: io_simps)
    let ?u = "\<lambda>r. if key r = key row then f r else r"
    have eq: "content (?u r) = content r" if "r \<in> set (table w)" for r
      using change_content [OF f assms(3) row_of_key [OF same assms(2,4) that]] by simp
    then have keys: "key (?u r) = key r" if "r \<in> set (table w)" for r
      using that content_key by blast
    have rows: "update_rows (\<lambda>r. key r = key row) f (table w) = map ?u (table w)"
      by (simp add: update_rows_def)
    from update_row_table [of "key row" f w1] upd t1 rows
    consider "table w' = table w" "r \<noteq> Inr ()" | "table w' = map ?u (table w)" by auto
    then show ?thesis
    proof cases
      case 1
      with same show ?thesis by (simp add: sealed_at_def)
    next
      case 2
      have "map content (table w') = map content (table w)"
        using eq by (simp add: 2)
      moreover have "sealed_at (key row) w'"
        using keys change_sealed [OF f] by (auto simp: sealed_at_def 2)
      moreover have "sealed_at k w'" if "sealed_at k w" for k
        using that keys change_sealed [OF f] by (auto simp: sealed_at_def 2)
      ultimately show ?thesis using same by simp
    qed
  qed
qed

lemma loop:
  assumes "map content (table w) = map content rows" "distinct (map key rows)" "\<forall>row \<in> set rows. good row" "set rs \<subseteq> set rows"
    and "io_foreach (\<lambda>row. io_bind (change row) (update_row table put key (key row))) rs w = (r, w')"
  shows "map content (table w') = map content rows \<and> (\<forall>k. sealed_at k w \<longrightarrow> sealed_at k w') \<and>
    (r = Inr () \<longrightarrow> (\<forall>row \<in> set rs. sealed_at (key row) w'))"
  using assms(1,4,5)
proof (induction rs arbitrary: w)
  case Nil
  then show ?case by (simp add: io_simps)
next
  case (Cons row rs)
  from Cons.prems(2) have row: "row \<in> set rows" "good row" "set rs \<subseteq> set rows" using assms(3) by auto
  obtain q w1 where q: "io_bind (change row) (update_row table put key (key row)) w = (q, w1)"
    by (cases "io_bind (change row) (update_row table put key (key row)) w")
  from step [OF Cons.prems(1) assms(2) row(2,1) q] have s1: "map content (table w1) = map content rows"
    "q = Inr () \<longrightarrow> sealed_at (key row) w1" "\<forall>k. sealed_at k w \<longrightarrow> sealed_at k w1" by blast+
  show ?case
  proof (cases q)
    case (Inl e)
    with Cons.prems(3) q have "r = Inl e" "w' = w1" by (simp_all add: io_foreach_Cons del: io_foreach.simps)
    with s1 show ?thesis by simp
  next
    case (Inr u)
    with Cons.prems(3) q
    have rest: "io_foreach (\<lambda>row. io_bind (change row) (update_row table put key (key row))) rs w1 = (r, w')"
      by (simp add: io_foreach_Cons del: io_foreach.simps)
    from Cons.IH [OF s1(1) row(3) rest] s1(2,3) Inr show ?thesis by auto
  qed
qed

text \<open>Whatever happens, readers see the same rows; when the loop succeeds, every row was written anew.\<close>

lemma rotate_rows_run:
  assumes "distinct (map key (table w))" "\<forall>row \<in> set (table w). good row" "rotate_rows table put key change w = (r, w')"
  shows "map content (table w') = map content (table w) \<and> (r = Inr () \<longrightarrow> (\<forall>x \<in> set (table w'). sealed x))"
proof (cases rule: db_call_cases [of "io_get table" w])
  case (ok fs)
  then have "db_call (io_get table) w = (Inr (table w), w\<lparr>w_faults := fs\<rparr>)" by (simp add: io_simps table_faults)
  with assms(3) have "io_foreach (\<lambda>row. io_bind (change row) (update_row table put key (key row))) (table w)
      (w\<lparr>w_faults := fs\<rparr>) = (r, w')" by (simp add: rotate_rows_def io_simps)
  from loop [OF _ assms(1,2) subset_refl this] have l: "map content (table w') = map content (table w)"
    "r = Inr () \<longrightarrow> (\<forall>row \<in> set (table w). sealed_at (key row) w')" by (simp_all add: table_faults)
  have "sealed x" if "r = Inr ()" "x \<in> set (table w')" for x
  proof -
    from that(2) have "content x \<in> content ` set (table w)" using l(1) by (metis list.set_map image_eqI)
    then obtain row where "row \<in> set (table w)" "content x = content row" by auto
    with l(2) that content_key [of x row] show ?thesis by (auto simp: sealed_at_def)
  qed
  with l(1) show ?thesis by simp
next
  case (fault e fs)
  with assms(3) show ?thesis by (auto simp: rotate_rows_def io_simps table_faults)
qed

end

section \<open>The three tables\<close>

text \<open>What a reader sees of a row: everything but the stored form of the JSON columns, and their value.\<close>

definition audit_content :: "env \<Rightarrow> audit_log \<Rightarrow> audit_log \<times> (exn + js) \<times> (exn + js)" where
  "audit_content env a = (a\<lparr>a_payload := Null, a_response := Null\<rparr>, en_fromJson env (a_payload a), en_fromJson env (a_response a))"

definition dlq_content :: "env \<Rightarrow> dlq_item \<Rightarrow> dlq_item \<times> (exn + js)" where
  "dlq_content env d = (d\<lparr>d_payload := Null\<rparr>, en_fromJson env (d_payload d))"

definition target_content :: "env \<Rightarrow> target_system \<Rightarrow> target_system \<times> (exn + js)" where
  "target_content env t = (t\<lparr>ts_config := Null, ts_updatedAt := 0\<rparr>, en_fromJson env (ts_config t))"

text \<open>A value that, if it can be read at all, can be written again.\<close>

definition recodable :: "enc_env \<Rightarrow> env \<Rightarrow> js \<Rightarrow> bool" where
  "recodable ee env v \<longleftrightarrow> (case en_fromJson (service_env ee env) v of Inl _ \<Rightarrow> True | Inr x \<Rightarrow> storable ee x)"

text \<open>A stored form that is an envelope under the active key.\<close>

definition sealed_value :: "enc_env \<Rightarrow> env \<Rightarrow> js \<Rightarrow> bool" where
  "sealed_value ee env v \<longleftrightarrow>
     (let e = (if isSqlite (en_cfg env) then (case JSON_parse (str_of v) of Some x \<Rightarrow> x | None \<Rightarrow> Undef) else v) in
      isEnvelope e \<and> (case activeKeyId ee of Inr i \<Rightarrow> js_prop e ''kid'' = Str i | Inl _ \<Rightarrow> False))"

lemma service_env_cfg [simp]: "en_cfg (service_env ee env) = en_cfg env"
  by (simp add: service_env_def)

lemma recode_value:
  assumes "recode (service_env ee env) v w = (Inr p, w')"
  obtains x n where "en_fromJson (service_env ee env) v = Inr x" "en_toJson (service_env ee env) n x = Inr p"
  using assms
  by (cases "en_fromJson (service_env ee env) v"; cases "en_toJson (service_env ee env) (w_nextId w) (projr (en_fromJson (service_env ee env) v))")
    (auto simp: recode_def toJson_io_def io_simps intro: that)

lemma recode_same:
  assumes "recode (service_env ee env) v w = (Inr p, w')" "recodable ee env v"
  shows "en_fromJson (service_env ee env) p = en_fromJson (service_env ee env) v"
proof -
  obtain x n where x: "en_fromJson (service_env ee env) v = Inr x" "en_toJson (service_env ee env) n x = Inr p"
    by (rule recode_value [OF assms(1)])
  with assms(2) have "storable ee x" by (simp add: recodable_def)
  from stored.from_to [OF this x(2)] x(1) show ?thesis by simp
qed

lemma recode_sealed:
  assumes "recode (service_env ee env) v w = (Inr p, w')" "enc_isEnabled ee"
  shows "sealed_value ee env p"
proof -
  obtain x n where "en_toJson (service_env ee env) n x = Inr p"
    by (rule recode_value [OF assms(1)])
  with assms(2) obtain e s' where e: "encryptObject ee x (fresh_service n) = (Inr e, s')"
    "p = (if isSqlite (en_cfg env) then JSON_stringify e else e)"
    by (cases "encryptObject ee x (fresh_service n)"; cases "fst (encryptObject ee x (fresh_service n))")
      (auto simp: service_env_def toJson_def encryptForStorage_def io_simps)
  obtain i key keys iv tag ct where i: "activeKeyId ee = Inr i" "e = envelope i iv tag ct"
    by (rule encryptObject_run [OF e(1) fresh_ok])
  have "js_prop e ''kid'' = Str i" by (simp add: i(2) envelope_def js_prop_def obj_get_def)
  moreover have "isEnvelope e" "json_ok e" "e \<noteq> Undef" by (simp_all add: i(2) envelope_props)
  ultimately show ?thesis
    using e(2) i(1) json_round_trip [of e] by (simp add: sealed_value_def JSON_stringify_def str_of_def)
qed

lemma io_keeps_recode:
  assumes "\<And>w n. g (w\<lparr>w_nextId := n\<rparr>) = g w"
  shows "io_keeps g (recode env v)"
  unfolding recode_def toJson_io_def using assms by (intro io_frames) (simp add: io_keeps_def)

text \<open>The changes of the columns.\<close>

lemma dlq_change_run:
  assumes "dlq_change env row w = (Inr f, w')"
  obtains p w1 where "recode env (d_payload row) w = (Inr p, w1)" "f = (\<lambda>r. r\<lparr>d_payload := p\<rparr>)"
  using assms by (auto simp: dlq_change_def io_bind_Inr io_return_def)

lemma target_change_run:
  assumes "target_change env row w = (Inr f, w')"
  obtains c w1 now where "recode env (ts_config row) w = (Inr c, w1)" "f = (\<lambda>r. r\<lparr>ts_config := c, ts_updatedAt := now\<rparr>)"
  using assms by (auto simp: target_change_def io_bind_Inr io_return_def io_get_def)

lemma audit_change_run:
  assumes "audit_change env row w = (Inr f, w')"
  obtains p q w1 w2 where "recode env (a_payload row) w = (Inr p, w1)" "f = (\<lambda>r. r\<lparr>a_payload := p, a_response := q\<rparr>)"
    "(if a_response row = Null then q = Null else recode env (a_response row) w1 = (Inr q, w2))"
  using assms by (auto simp: audit_change_def io_bind_Inr io_return_def split: if_splits)

interpretation dlq_table: rotated_table w_dlq w_dlq_update d_id "dlq_change (service_env ee env)"
  "dlq_content (service_env ee env)" "\<lambda>d. recodable ee env (d_payload d)"
  "\<lambda>d. enc_isEnabled ee \<longrightarrow> sealed_value ee env (d_payload d)" for ee env
proof unfold_locales
  show "io_keeps w_dlq (dlq_change (service_env ee env) row)" for row
    unfolding dlq_change_def by (intro io_frames io_keeps_recode) simp
  show "d_id r = d_id r'" if "dlq_content (service_env ee env) r = dlq_content (service_env ee env) r'" for r r'
    using that by (cases r; cases r') (simp add: dlq_content_def)
  show "dlq_content (service_env ee env) (f r) = dlq_content (service_env ee env) r"
    if "dlq_change (service_env ee env) row w = (Inr f, w')" "recodable ee env (d_payload row)"
      "dlq_content (service_env ee env) r = dlq_content (service_env ee env) row" for row w f w' r
  proof -
    from that(1) obtain p w1 where p: "recode (service_env ee env) (d_payload row) w = (Inr p, w1)" "f = (\<lambda>r. r\<lparr>d_payload := p\<rparr>)"
      by (rule dlq_change_run)
    from recode_same [OF p(1) that(2)] that(3) show ?thesis by (simp add: p(2) dlq_content_def)
  qed
  show "enc_isEnabled ee \<longrightarrow> sealed_value ee env (d_payload (f r))"
    if "dlq_change (service_env ee env) row w = (Inr f, w')" for row w f w' r
  proof -
    from that obtain p w1 where p: "recode (service_env ee env) (d_payload row) w = (Inr p, w1)" "f = (\<lambda>r. r\<lparr>d_payload := p\<rparr>)"
      by (rule dlq_change_run)
    with recode_sealed [OF p(1)] show ?thesis by simp
  qed
qed simp_all

interpretation target_table: rotated_table w_targets w_targets_update ts_id "target_change (service_env ee env)"
  "target_content (service_env ee env)" "\<lambda>t. recodable ee env (ts_config t)"
  "\<lambda>t. enc_isEnabled ee \<longrightarrow> sealed_value ee env (ts_config t)" for ee env
proof unfold_locales
  show "io_keeps w_targets (target_change (service_env ee env) row)" for row
    unfolding target_change_def by (intro io_frames io_keeps_recode) simp
  show "ts_id r = ts_id r'" if "target_content (service_env ee env) r = target_content (service_env ee env) r'" for r r'
    using that by (cases r; cases r') (simp add: target_content_def)
  show "target_content (service_env ee env) (f r) = target_content (service_env ee env) r"
    if "target_change (service_env ee env) row w = (Inr f, w')" "recodable ee env (ts_config row)"
      "target_content (service_env ee env) r = target_content (service_env ee env) row" for row w f w' r
  proof -
    from that(1) obtain c w1 now where c: "recode (service_env ee env) (ts_config row) w = (Inr c, w1)"
        "f = (\<lambda>r. r\<lparr>ts_config := c, ts_updatedAt := now\<rparr>)"
      by (rule target_change_run)
    from recode_same [OF c(1) that(2)] that(3) show ?thesis by (simp add: c(2) target_content_def)
  qed
  show "enc_isEnabled ee \<longrightarrow> sealed_value ee env (ts_config (f r))"
    if "target_change (service_env ee env) row w = (Inr f, w')" for row w f w' r
  proof -
    from that obtain c w1 now where c: "recode (service_env ee env) (ts_config row) w = (Inr c, w1)"
        "f = (\<lambda>r. r\<lparr>ts_config := c, ts_updatedAt := now\<rparr>)"
      by (rule target_change_run)
    with recode_sealed [OF c(1)] show ?thesis by simp
  qed
qed simp_all

text \<open>The response of an audit record may be missing.\<close>

definition audit_good :: "enc_env \<Rightarrow> env \<Rightarrow> audit_log \<Rightarrow> bool" where
  "audit_good ee env a \<longleftrightarrow> recodable ee env (a_payload a) \<and> recodable ee env (a_response a)"

definition audit_sealed :: "enc_env \<Rightarrow> env \<Rightarrow> audit_log \<Rightarrow> bool" where
  "audit_sealed ee env a \<longleftrightarrow> sealed_value ee env (a_payload a) \<and> (a_response a = Null \<or> sealed_value ee env (a_response a))"

interpretation audit_table: rotated_table w_audit w_audit_update a_id "audit_change (service_env ee env)"
  "audit_content (service_env ee env)" "audit_good ee env" "\<lambda>a. enc_isEnabled ee \<longrightarrow> audit_sealed ee env a" for ee env
proof unfold_locales
  show "io_keeps w_audit (audit_change (service_env ee env) row)" for row
    unfolding audit_change_def by (intro io_frames io_keeps_recode) simp_all
  show "a_id r = a_id r'" if "audit_content (service_env ee env) r = audit_content (service_env ee env) r'" for r r'
    using that by (cases r; cases r') (simp add: audit_content_def)
  show "audit_content (service_env ee env) (f r) = audit_content (service_env ee env) r"
    if "audit_change (service_env ee env) row w = (Inr f, w')" "audit_good ee env row"
      "audit_content (service_env ee env) r = audit_content (service_env ee env) row" for row w f w' r
  proof -
    from that(1) obtain p q w1 w2 where p: "recode (service_env ee env) (a_payload row) w = (Inr p, w1)"
        "f = (\<lambda>r. r\<lparr>a_payload := p, a_response := q\<rparr>)"
      and q: "if a_response row = Null then q = Null else recode (service_env ee env) (a_response row) w1 = (Inr q, w2)"
      by (rule audit_change_run)
    from that(2) have good: "recodable ee env (a_payload row)" "recodable ee env (a_response row)"
      by (simp_all add: audit_good_def)
    have "en_fromJson (service_env ee env) q = en_fromJson (service_env ee env) (a_response row)"
      using q recode_same [OF _ good(2)] by (cases "a_response row = Null") simp_all
    with recode_same [OF p(1) good(1)] that(3) show ?thesis by (simp add: p(2) audit_content_def)
  qed
  show "enc_isEnabled ee \<longrightarrow> audit_sealed ee env (f r)"
    if "audit_change (service_env ee env) row w = (Inr f, w')" for row w f w' r
  proof -
    from that obtain p q w1 w2 where p: "recode (service_env ee env) (a_payload row) w = (Inr p, w1)"
        "f = (\<lambda>r. r\<lparr>a_payload := p, a_response := q\<rparr>)"
      and q: "if a_response row = Null then q = Null else recode (service_env ee env) (a_response row) w1 = (Inr q, w2)"
      by (rule audit_change_run)
    with recode_sealed [OF p(1)] recode_sealed [of ee env "a_response row" w1 q w2] show ?thesis
      by (cases "a_response row = Null") (simp_all add: audit_sealed_def)
  qed
qed simp_all

section \<open>The whole rotation\<close>

type_synonym view =
  "(audit_log \<times> (exn + js) \<times> (exn + js)) list \<times> (dlq_item \<times> (exn + js)) list \<times> (target_system \<times> (exn + js)) list"

text \<open>What readers see of the database.\<close>

definition visible :: "env \<Rightarrow> 'e world \<Rightarrow> view" where
  "visible env w = (map (audit_content env) (w_audit w), map (dlq_content env) (w_dlq w), map (target_content env) (w_targets w))"

definition rewritable :: "enc_env \<Rightarrow> exn + js \<Rightarrow> bool" where
  "rewritable ee v \<longleftrightarrow> (case v of Inl _ \<Rightarrow> True | Inr x \<Rightarrow> storable ee x)"

text \<open>The identifiers are unique, and whatever can be read can be written again.\<close>

definition rotatable :: "enc_env \<Rightarrow> view \<Rightarrow> bool" where
  "rotatable ee = (\<lambda>(audits, items, targets).
     distinct (map (\<lambda>(a, p, q). a_id a) audits) \<and> distinct (map (\<lambda>(d, p). d_id d) items) \<and>
     distinct (map (\<lambda>(t, c). ts_id t) targets) \<and>
     list_all (\<lambda>(a, p, q). rewritable ee p \<and> rewritable ee q) audits \<and> list_all (\<lambda>(d, p). rewritable ee p) items \<and>
     list_all (\<lambda>(t, c). rewritable ee c) targets)"

definition all_sealed :: "enc_env \<Rightarrow> env \<Rightarrow> 'e world \<Rightarrow> bool" where
  "all_sealed ee env w \<longleftrightarrow> list_all (audit_sealed ee env) (w_audit w) \<and>
     list_all (\<lambda>d. sealed_value ee env (d_payload d)) (w_dlq w) \<and>
     list_all (\<lambda>t. sealed_value ee env (ts_config t)) (w_targets w)"

lemma rotatable_rows:
  assumes "rotatable ee (visible (service_env ee env) w)"
  shows "distinct (map a_id (w_audit w))" "\<forall>a \<in> set (w_audit w). audit_good ee env a"
    "distinct (map d_id (w_dlq w))" "\<forall>d \<in> set (w_dlq w). recodable ee env (d_payload d)"
    "distinct (map ts_id (w_targets w))" "\<forall>t \<in> set (w_targets w). recodable ee env (ts_config t)"
  using assms
  by (auto simp: rotatable_def visible_def audit_content_def dlq_content_def target_content_def comp_def list_all_iff
      audit_good_def recodable_def rewritable_def)

lemma keeps_rotate_rows:
  assumes "\<And>row. io_keeps g (change row)" "\<And>f w. g (put f w) = g w" "\<And>w fs. g (w\<lparr>w_faults := fs\<rparr>) = g w"
  shows "io_keeps g (rotate_rows table put key change)"
  unfolding rotate_rows_def update_row_def
  by (intro io_frames assms) (simp add: io_keeps_def assms)

lemma keeps_changes:
  assumes "\<And>w n. g (w\<lparr>w_nextId := n\<rparr>) = g w"
  shows "io_keeps g (audit_change env a)" "io_keeps g (dlq_change env d)" "io_keeps g (target_change env t)"
  unfolding audit_change_def dlq_change_def target_change_def
  by (intro io_frames io_keeps_recode assms)+

lemma keeps_rotations:
  "io_keeps w_dlq (rotateAuditLogs env)" "io_keeps w_targets (rotateAuditLogs env)" "io_keeps w_encState (rotateAuditLogs env)"
  "io_keeps w_audit (rotateDlqItems env)" "io_keeps w_targets (rotateDlqItems env)" "io_keeps w_encState (rotateDlqItems env)"
  "io_keeps w_audit (rotateTargetSystems env)" "io_keeps w_dlq (rotateTargetSystems env)"
  "io_keeps w_encState (rotateTargetSystems env)"
  unfolding rotateAuditLogs_def rotateDlqItems_def rotateTargetSystems_def
  by (intro keeps_rotate_rows keeps_changes; simp)+

lemma audit_rotated:
  assumes "rotatable ee (visible (service_env ee env) w)" "rotateAuditLogs (service_env ee env) w = (r, w')" "enc_isEnabled ee"
  shows "visible (service_env ee env) w' = visible (service_env ee env) w \<and>
    (r = Inr () \<longrightarrow> list_all (audit_sealed ee env) (w_audit w'))"
  using audit_table.rotate_rows_run [OF rotatable_rows(1,2) [OF assms(1)] assms(2) [unfolded rotateAuditLogs_def]] assms(3)
    keeps_rotations(1,2) [THEN io_keepsD, OF assms(2)]
  by (simp add: visible_def list_all_iff)

lemma dlq_rotated:
  assumes "rotatable ee (visible (service_env ee env) w)" "rotateDlqItems (service_env ee env) w = (r, w')" "enc_isEnabled ee"
  shows "visible (service_env ee env) w' = visible (service_env ee env) w \<and> w_audit w' = w_audit w \<and>
    (r = Inr () \<longrightarrow> list_all (\<lambda>d. sealed_value ee env (d_payload d)) (w_dlq w'))"
  using dlq_table.rotate_rows_run [OF rotatable_rows(3,4) [OF assms(1)] assms(2) [unfolded rotateDlqItems_def]] assms(3)
    keeps_rotations(4,5) [THEN io_keepsD, OF assms(2)]
  by (simp add: visible_def list_all_iff)

lemma targets_rotated:
  assumes "rotatable ee (visible (service_env ee env) w)" "rotateTargetSystems (service_env ee env) w = (r, w')" "enc_isEnabled ee"
  shows "visible (service_env ee env) w' = visible (service_env ee env) w \<and> w_audit w' = w_audit w \<and> w_dlq w' = w_dlq w \<and>
    (r = Inr () \<longrightarrow> list_all (\<lambda>t. sealed_value ee env (ts_config t)) (w_targets w'))"
  using target_table.rotate_rows_run [OF rotatable_rows(5,6) [OF assms(1)] assms(2) [unfolded rotateTargetSystems_def]] assms(3)
    keeps_rotations(7,8) [THEN io_keepsD, OF assms(2)]
  by (simp add: visible_def list_all_iff)

lemma tables_rotated:
  assumes "rotatable ee (visible (service_env ee env) w)" "rotate_tables (service_env ee env) w = (r, w')" "enc_isEnabled ee"
  shows "visible (service_env ee env) w' = visible (service_env ee env) w \<and> (r = Inr () \<longrightarrow> all_sealed ee env w')"
proof -
  let ?env = "service_env ee env"
  obtain r1 w1 where 1: "rotateAuditLogs ?env w = (r1, w1)" by (cases "rotateAuditLogs ?env w")
  note v1 = audit_rotated [OF assms(1) 1 assms(3)]
  show ?thesis
  proof (cases r1)
    case (Inl e)
    with assms(2) 1 v1 show ?thesis by (auto simp: rotate_tables_def io_simps)
  next
    case [simp]: (Inr u1)
    obtain r2 w2 where 2: "rotateDlqItems ?env w1 = (r2, w2)" by (cases "rotateDlqItems ?env w1")
    from v1 assms(1) have ok1: "rotatable ee (visible ?env w1)" by simp
    note v2 = dlq_rotated [OF ok1 2 assms(3)]
    show ?thesis
    proof (cases r2)
      case (Inl e)
      with assms(2) 1 2 v1 v2 show ?thesis by (auto simp: rotate_tables_def io_simps)
    next
      case (Inr u2)
      with assms(2) 1 2 have 3: "rotateTargetSystems ?env w2 = (r, w')"
        by (simp add: rotate_tables_def io_simps)
      from v1 v2 assms(1) have ok2: "rotatable ee (visible ?env w2)" by simp
      from targets_rotated [OF ok2 3 assms(3)] v1 v2 Inr show ?thesis by (simp add: all_sealed_def)
    qed
  qed
qed

text \<open>The parts that leave the tables alone.\<close>

definition rotated_tables :: "'e world \<Rightarrow> audit_log list \<times> dlq_item list \<times> target_system list" where
  "rotated_tables w = (w_audit w, w_dlq w, w_targets w)"

lemma visible_tables: "rotated_tables w' = rotated_tables w \<Longrightarrow> visible env w' = visible env w"
  by (simp add: rotated_tables_def visible_def)

lemma keeps_lag_of_topics:
  assumes "\<And>w x. g (w\<lparr>w_ext := x\<rparr>) = g w"
  shows "io_keeps g (lag_of_topics admin i ts n)"
proof -
  have ext: "io_keeps g (on_ext m)" for m :: "('a, 'x) io"
    by (simp add: io_keeps_def on_ext_def assms split: prod.split)
  show ?thesis
  proof (induction ts arbitrary: n)
    case (Cons t ts)
    have "io_keeps g (io_both (on_ext (ka_topicOffsets admin t)) (on_ext (ka_offsets admin i t)))"
      by (intro io_keeps_both) (simp_all add: io_keeps_def on_ext_def assms split: prod.split)
    then show ?case using Cons by (auto intro!: io_keeps_bind split: prod.split)
  qed (simp add: io_frames)
qed

lemma keeps_assertNoActiveProcessing:
  assumes "\<And>w x. g (w\<lparr>w_ext := x\<rparr>) = g w" "\<And>w fs. g (w\<lparr>w_faults := fs\<rparr>) = g w"
  shows "io_keeps g (assertNoActiveProcessing env admin)"
proof -
  have ext: "io_keeps g (on_ext m)" for m :: "('a, unit) io"
    by (simp add: io_keeps_def on_ext_def assms split: prod.split)
  have count: "io_keeps g (countRows t)" for t :: "'a world \<Rightarrow> 'x list"
    unfolding countRows_def by (intro io_frames assms)
  have "io_keeps g (kafkaLag env admin)"
    unfolding kafkaLag_def Let_def by (intro io_frames keeps_lag_of_topics ext assms)
  moreover have "io_keeps g (countRows unsettled_items)" "io_keeps g (countRows activeIdempotencyKeys)"
    unfolding countRows_def by (intro io_frames assms)+
  ultimately show ?thesis
    unfolding assertNoActiveProcessing_def Let_def by (intro io_keeps_bind io_keeps_both) (auto intro: io_frames)
qed

lemma keeps_update_state:
  assumes "\<And>w f. g (w\<lparr>w_encState := f (w_encState w)\<rparr>) = g w" "\<And>w fs. g (w\<lparr>w_faults := fs\<rparr>) = g w"
  shows "io_keeps g (update_state f)"
  unfolding update_state_def by (intro io_frames io_keeps_modify assms)

lemma inv_of_tables: "io_keeps rotated_tables m \<Longrightarrow> io_inv (\<lambda>w. visible env w = c) m"
  unfolding io_keeps_def io_inv_def using visible_tables by metis

lemma keeps_marks:
  assumes "\<And>w f. g (w\<lparr>w_encState := f (w_encState w)\<rparr>) = g w" "\<And>w fs. g (w\<lparr>w_faults := fs\<rparr>) = g w"
  shows "io_keeps g (markRotation status p raw)" "io_keeps g (completeRotation ee p raw)"
  unfolding markRotation_def completeRotation_def by (intro io_frames keeps_update_state assms)+

lemma keeps_loadState: "(\<And>w fs. g (w\<lparr>w_faults := fs\<rparr>) = g w) \<Longrightarrow> io_keeps g loadState"
  unfolding loadState_def by (intro io_frames io_keeps_bind) (auto intro: io_frames split: option.split)

lemma rotation_visible:
  assumes "rotatable ee c"
  shows "io_inv (\<lambda>w. visible (service_env ee env) w = c) (rotateToActiveKey ee (service_env ee env) admin)"
proof (cases "enc_isEnabled ee")
  case True
  have tables: "io_inv (\<lambda>w. visible (service_env ee env) w = c) (rotate_tables (service_env ee env))"
    unfolding io_inv_def using tables_rotated [OF _ _ True] assms by (metis prod.collapse)
  have marks: "io_inv (\<lambda>w. visible (service_env ee env) w = c) (markRotation st p raw)"
    "io_inv (\<lambda>w. visible (service_env ee env) w = c) (completeRotation ee p raw)" for st p raw
    by (intro inv_of_tables keeps_marks; simp add: rotated_tables_def)+
  have idle: "io_inv (\<lambda>w. visible (service_env ee env) w = c) (assertNoActiveProcessing env' admin)" for env'
    by (intro inv_of_tables keeps_assertNoActiveProcessing; simp add: rotated_tables_def)
  have load: "io_inv (\<lambda>w. visible (service_env ee env) w = c) loadState"
    by (intro inv_of_tables keeps_loadState; simp add: rotated_tables_def)
  show ?thesis
    unfolding rotateToActiveKey_def enc_call_def by (intro io_invs tables marks idle load)
next
  case False
  then show ?thesis by (simp add: rotateToActiveKey_def io_inv_basic)
qed

text \<open>Which key the state names changes only at the very end.\<close>

definition named_key :: "'e world \<Rightarrow> string option" where
  "named_key w = map_option es_activeKeyId (w_encState w)"

definition keeps_on_error :: "('s \<Rightarrow> 'b) \<Rightarrow> ('s, 'a) io \<Rightarrow> bool" where
  "keeps_on_error g m \<longleftrightarrow> (\<forall>w e w'. m w = (Inl e, w') \<longrightarrow> g w' = g w)"

lemma keeps_on_error_steps:
  "io_keeps g m \<Longrightarrow> keeps_on_error g m"
  "io_keeps g m \<Longrightarrow> keeps_on_error g n \<Longrightarrow> keeps_on_error g (io_seq m n)"
  "io_keeps g m \<Longrightarrow> (\<And>x. keeps_on_error g (k x)) \<Longrightarrow> keeps_on_error g (io_bind m k)"
  "keeps_on_error g m \<Longrightarrow> (\<And>e. io_keeps g (h e)) \<Longrightarrow> keeps_on_error g (io_catch m h)"
  "(b \<Longrightarrow> keeps_on_error g m) \<Longrightarrow> (\<not> b \<Longrightarrow> keeps_on_error g n) \<Longrightarrow> keeps_on_error g (if b then m else n)"
  by (auto simp: keeps_on_error_def io_keeps_def io_simps split: prod.splits sum.splits) (metis snd_conv)+

lemma keeps_named_key:
  "io_keeps named_key (assertNoActiveProcessing env admin)" "io_keeps named_key loadState"
  "io_keeps named_key (markRotation status p raw)" "io_keeps named_key (rotate_tables env)"
proof -
  show "io_keeps named_key (assertNoActiveProcessing env admin)" "io_keeps named_key loadState"
    by (intro keeps_assertNoActiveProcessing keeps_loadState; simp add: named_key_def)+
  have "io_keeps named_key (update_state (\<lambda>st. st\<lparr>es_rotationStatus := status, es_previousKeyIds := x\<rparr>))" for x
    unfolding update_state_def
    by (intro io_frames io_keeps_modify) (simp_all add: named_key_def option.map_comp comp_def)
  then show "io_keeps named_key (markRotation status p raw)"
    unfolding markRotation_def by (intro io_frames)
  have "io_keeps w_encState (rotate_tables env)"
    unfolding rotate_tables_def by (intro io_frames keeps_rotations)
  then show "io_keeps named_key (rotate_tables env)"
    unfolding named_key_def [abs_def] by (rule io_keeps_comp)
qed

lemma complete_keeps_on_error: "keeps_on_error named_key (completeRotation ee p raw)"
proof -
  have upd: "keeps_on_error named_key (update_state f)" for f
    unfolding keeps_on_error_def update_state_def
  proof (intro allI impI)
    fix w e w' assume "db_call (io_modify (\<lambda>w. w\<lparr>w_encState := map_option f (w_encState w)\<rparr>)) w = (Inl e, w')"
    then show "named_key w' = named_key w"
      by (cases rule: db_call_cases [of "io_modify (\<lambda>w. w\<lparr>w_encState := map_option f (w_encState w)\<rparr>)" w])
        (auto simp: io_simps named_key_def)
  qed
  show ?thesis
    unfolding completeRotation_def by (intro keeps_on_error_steps(3) upd io_frames)
qed

lemma complete_names_active:
  assumes "completeRotation ee p raw w = (Inr (), w')" "activeKeyId ee = Inr i"
  shows "named_key w' = (if w_encState w = None then None else Some i) \<and> rotated_tables w' = rotated_tables w"
proof -
  from assms obtain f where upd: "update_state f w = (Inr (), w')" "\<And>st. es_activeKeyId (f st) = i"
    by (auto simp: completeRotation_def io_bind_Inr io_of_sum_def io_get_def)
  let ?m = "io_modify (\<lambda>w. w\<lparr>w_encState := map_option f (w_encState w)\<rparr>)"
  show ?thesis
    using upd by (cases rule: db_call_cases [of ?m w])
      (auto simp: update_state_def io_simps named_key_def rotated_tables_def option.map_comp comp_def split: option.split)
qed

lemma loadState_run:
  assumes "loadState w = (Inr st, w')"
  shows "w_encState w = Some st \<and> w_encState w' = Some st \<and> rotated_tables w' = rotated_tables w"
  using assms by (cases rule: db_call_cases [of "io_get w_encState" w])
    (auto simp: loadState_def io_simps rotated_tables_def split: option.splits)

lemma rotation_success:
  assumes "rotatable ee (visible (service_env ee env) w)"
    and "rotateToActiveKey ee (service_env ee env) admin w = (Inr (), w')"
  shows "\<exists>i. activeKeyId ee = Inr i \<and> named_key w' = Some i \<and> (named_key w = Some i \<or> all_sealed ee env w')"
proof -
  let ?env = "service_env ee env"
  have on: "enc_isEnabled ee" using assms(2) by (cases "enc_isEnabled ee") (simp_all add: rotateToActiveKey_def io_simps)
  from assms(2) obtain st i w1 where st: "loadState w = (Inr st, w1)" "activeKeyId ee = Inr i"
    and rest: "(if es_activeKeyId st = i then io_return ()
      else io_seq (assertNoActiveProcessing ?env admin)
         (io_seq (markRotation ''running'' (es_activeKeyId st) (es_previousKeyIds st))
          (io_catch
             (io_seq (rotate_tables ?env) (completeRotation ee (es_activeKeyId st) (es_previousKeyIds st)))
             (\<lambda>error. io_seq (markRotation ''failed'' (es_activeKeyId st) (es_previousKeyIds st)) (io_throw error))))) w1 =
      (Inr (), w')"
    by (auto simp: rotateToActiveKey_def on io_seq_Inr io_bind_Inr enc_call_def io_of_sum_def)
  note load = loadState_run [OF st(1)]
  show ?thesis
  proof (cases "es_activeKeyId st = i")
    case True
    with rest load st(2) show ?thesis by (simp add: io_simps named_key_def)
  next
    case False
    with rest obtain w2 w3 w4 where steps: "assertNoActiveProcessing ?env admin w1 = (Inr (), w2)"
      "markRotation ''running'' (es_activeKeyId st) (es_previousKeyIds st) w2 = (Inr (), w3)"
      "rotate_tables ?env w3 = (Inr (), w4)" "completeRotation ee (es_activeKeyId st) (es_previousKeyIds st) w4 = (Inr (), w')"
      by (auto simp: io_seq_Inr io_rethrow_Inr)
    have "rotated_tables w2 = rotated_tables w1"
      by (rule io_keepsD [OF keeps_assertNoActiveProcessing steps(1)]) (simp_all add: rotated_tables_def)
    moreover have "rotated_tables w3 = rotated_tables w2"
      by (rule io_keepsD [OF keeps_marks(1) steps(2)]) (simp_all add: rotated_tables_def)
    ultimately have "visible ?env w3 = visible ?env w" using load by (intro visible_tables) simp
    with assms(1) tables_rotated [OF _ steps(3) on] have sealed: "all_sealed ee env w4" by simp
    have "named_key w4 = named_key w1"
      using keeps_named_key(1,3,4) [THEN io_keepsD] steps(1-3) by metis
    then have "w_encState w4 \<noteq> None" using load by (auto simp: named_key_def)
    with complete_names_active [OF steps(4) st(2)] sealed st(2) show ?thesis
      by (auto simp: all_sealed_def rotated_tables_def)
  qed
qed

text \<open>
  C8: a key rotation loses nothing. Whatever happens during it (failing database calls included), every
  reader afterwards sees the same audit records, queue items and target systems with the same values; when
  it succeeds, every stored value is encrypted under the active key, which the state then names (unless it
  named it before), and when it fails, the state still names the key it named.
\<close>

theorem rotation_keeps_values:
  assumes "rotatable ee (visible (service_env ee env) w)"
    and "rotateToActiveKey ee (service_env ee env) admin w = (r, w')"
  shows "visible (service_env ee env) w' = visible (service_env ee env) w \<and>
    (r = Inr () \<longrightarrow> (\<exists>i. activeKeyId ee = Inr i \<and> named_key w' = Some i \<and> (named_key w = Some i \<or> all_sealed ee env w'))) \<and>
    (r \<noteq> Inr () \<longrightarrow> named_key w' = named_key w)"
proof (intro conjI impI)
  show "visible (service_env ee env) w' = visible (service_env ee env) w"
    by (rule io_invD [OF rotation_visible [OF assms(1)] refl assms(2)])
next
  assume "r = Inr ()"
  with rotation_success assms show
    "\<exists>i. activeKeyId ee = Inr i \<and> named_key w' = Some i \<and> (named_key w = Some i \<or> all_sealed ee env w')" by blast
next
  assume "r \<noteq> Inr ()"
  then obtain e where "rotateToActiveKey ee (service_env ee env) admin w = (Inl e, w')"
    using assms(2) by (cases r) auto
  moreover have "keeps_on_error named_key (rotateToActiveKey ee (service_env ee env) admin)"
    unfolding rotateToActiveKey_def enc_call_def io_seq_def [where m = "io_of_sum _"]
    by (intro keeps_on_error_steps(2-5) complete_keeps_on_error keeps_named_key io_frames keeps_on_error_steps(1) | assumption)+
  ultimately show "named_key w' = named_key w" by (simp add: keeps_on_error_def)
qed

text \<open>A target system whose configuration was encrypted with the first key.\<close>

definition demo_stored :: "unit world" where
  "demo_stored = (init_world 0 ())\<lparr>
     w_targets := [demo_target ''t'' (envelope ''k1'' ''0'' (demo_bytes @ ''0'') (json_text (Obj [(''token'', Str ''s'')])))],
     w_encState := Some \<lparr>es_id = ''default'', es_enabled = True, es_activeKeyId = ''k1'', es_previousKeyIds = ''[]'',
       es_rotationStatus = ''completed'', es_rotatedAt = None\<rparr>\<rparr>"

definition idle_admin :: "unit kafka_admin" where
  "idle_admin = \<lparr>ka_connect = io_return (), ka_topicOffsets = (\<lambda>_. io_return []), ka_offsets = (\<lambda>_ _. io_return []),
     ka_disconnect = io_return ()\<rparr>"

theorem rotation_keeps_values_witness:
  "\<exists>r w'. rotateToActiveKey demo_enc2 (service_env demo_enc2 demo_env) idle_admin demo_stored = (r, w') \<and>
     map snd (snd (snd (visible (service_env demo_enc2 demo_env) w'))) = [Inr (Obj [(''token'', Str ''s'')])]"
proof -
  let ?v = "Obj [(''token'', Str ''s'')]"
  let ?x = "envelope ''k1'' ''0'' (demo_bytes @ ''0'') (json_text ?v)"
  have crypto: "ee_crypto demo_enc2 = demo_crypto" by (simp add: demo_enc2_def)
  have pg: "\<not> isSqlite (en_cfg demo_env)" by (simp add: isSqlite_def demo_env_def)
  have dec: "fst (decryptObject demo_enc2 ?x (fresh_service 0)) = Inr ?v"
    by (rule decryptObject_envelope [OF demo_keyring(2) _ fresh_ok _ json_round_trip])
      (simp_all add: crypto demo_crypto_def)
  then have read: "en_fromJson (service_env demo_enc2 demo_env) ?x = Inr ?v"
    using envelope_props [of "''k1''" "''0''" "demo_bytes @ ''0''" "json_text ?v"]
    by (simp add: service_env_def pg fromJson_def decryptFromStorage_def nullish_def del: json_text.simps)
  have storable: "storable demo_enc2 ?v"
    by (simp add: storable_def crypto demo_crypto_ok isEnvelope_def js_prop_def obj_get_def)
  have view: "visible (service_env demo_enc2 demo_env) demo_stored =
      ([], [], [((demo_target ''t'' ?x)\<lparr>ts_config := Null, ts_updatedAt := 0\<rparr>, Inr ?v)])"
    by (simp add: visible_def demo_stored_def init_world_def target_content_def demo_target_def read del: json_text.simps)
  then have "rotatable demo_enc2 (visible (service_env demo_enc2 demo_env) demo_stored)"
    using storable by (simp add: rotatable_def rewritable_def)
  moreover obtain r w' where run: "rotateToActiveKey demo_enc2 (service_env demo_enc2 demo_env) idle_admin demo_stored = (r, w')"
    by (cases "rotateToActiveKey demo_enc2 (service_env demo_enc2 demo_env) idle_admin demo_stored")
  ultimately have "visible (service_env demo_enc2 demo_env) w' = visible (service_env demo_enc2 demo_env) demo_stored"
    using rotation_keeps_values by blast
  with run view show ?thesis by simp
qed

section \<open>What a successful start says\<close>

definition db_is_empty :: "'e world \<Rightarrow> bool" where
  "db_is_empty w \<longleftrightarrow> w_audit w = [] \<and> w_dlq w = [] \<and> w_targets w = [] \<and> activeIdempotencyKeys w = []"

lemma countRows_run: "countRows t w = (Inr n, w') \<Longrightarrow> (\<And>w fs. t (w\<lparr>w_faults := fs\<rparr>) = t w) \<Longrightarrow>
    n = length (t w) \<and> (\<exists>fs. w' = w\<lparr>w_faults := fs\<rparr>)"
  by (cases rule: db_call_cases [of "io_get (\<lambda>w. length (t w))" w]) (auto simp: countRows_def io_simps)

lemma io_both_Inr: "io_both m n s = (Inr p, s') \<longleftrightarrow>
    (\<exists>x y s1. m s = (Inr x, s1) \<and> n s1 = (Inr y, s') \<and> p = (x, y))"
  by (cases "m s"; cases "fst (m s)"; cases "n (snd (m s))"; cases "fst (n (snd (m s)))") (auto simp: io_both_def)

lemma empty_check:
  assumes "ensureStrictlyEmptyForEncryption w = (Inr (), w')"
  shows "db_is_empty w \<and> (\<exists>fs. w' = w\<lparr>w_faults := fs\<rparr>)"
proof -
  from assms obtain a d t k w1 w2 w3 where c: "countRows w_audit w = (Inr a, w1)" "countRows w_dlq w1 = (Inr d, w2)"
    "countRows w_targets w2 = (Inr t, w3)" "countRows activeIdempotencyKeys w3 = (Inr k, w')"
    and none: "offenders [(''AuditLog'', a), (''DlqItem'', d), (''TargetSystem'', t), (''IdempotencyKey'', k)] = []"
    by (auto simp: ensureStrictlyEmptyForEncryption_def io_bind_Inr io_both_Inr Let_def io_return_def io_throw_def split: if_splits)
  from none have zero: "a = 0" "d = 0" "t = 0" "k = 0" by (auto simp: offenders_def split: if_splits)
  from countRows_run [OF c(1)] countRows_run [OF c(2)] countRows_run [OF c(3)] countRows_run [OF c(4)] zero
  show ?thesis by (auto simp: db_is_empty_def activeIdempotencyKeys_def)
qed

lemma loadEncryptionState_run:
  assumes "loadEncryptionState True w = (Inr st, w')"
  shows "w_encState w = st \<and> (\<exists>fs. w' = w\<lparr>w_faults := fs\<rparr>)"
  using assms by (cases rule: db_call_cases [of "io_get w_encState" w])
    (auto simp: loadEncryptionState_def io_simps split: if_splits)

lemma check_existing_run:
  assumes "check_existing_state ee i st w = (Inr (), w')"
  shows "w' = w \<and> es_enabled st \<and> (\<exists>keys. load_keyring ee = Inr keys \<and> es_activeKeyId st \<in> fst ` set keys) \<and>
    (es_activeKeyId st = i \<or> isRotationMode ee)"
proof -
  obtain s where "keyring ee (fresh_service 0) = (load_keyring ee, s)"
    by (rule keyring_run [OF fresh_ok])
  then show ?thesis
    using assms
    by (cases "load_keyring ee")
      (auto simp: check_existing_state_def enc_call_def keyringDescriptors_def io_simps split: if_splits)
qed

text \<open>
  C24: the program starts with encryption on only if the database fits: afterwards the state exists and is
  enabled, it names a key of the ring, and this is the active key unless the program runs as the rotation
  tool; a database without a state is accepted only if it is empty, and is then marked. With encryption
  off, it starts only if no state marks the database as encrypted.
\<close>

theorem start_fits_database:
  assumes "validateEncryptionState ee w = (Inr (), w')" "w_faults w = []"
  shows "(if enc_isEnabled ee then keyring_valid ee \<and>
      (case w_encState w of None \<Rightarrow> db_is_empty w | Some st \<Rightarrow> w_encState w' = Some st) \<and>
      (\<exists>st i keys. w_encState w' = Some st \<and> es_enabled st \<and> activeKeyId ee = Inr i \<and> load_keyring ee = Inr keys \<and>
         es_activeKeyId st \<in> fst ` set keys \<and> (es_activeKeyId st = i \<or> isRotationMode ee))
    else w' = w \<and> (\<forall>st. w_encState w = Some st \<longrightarrow> \<not> es_enabled st))"
proof (cases "enc_isEnabled ee")
  case False
  with assms show ?thesis
    by (auto simp: validateEncryptionState_def loadEncryptionState_def io_simps db_call_ok split: option.splits if_splits)
next
  case True
  from assms(1) obtain s i w2 where v: "fst (validateConfiguration ee (fresh_service 0)) = Inr ()"
    and load: "loadEncryptionState True w = (Inr s, w2)" and i: "activeKeyId ee = Inr i"
    and rest: "(case s of None \<Rightarrow> io_seq ensureStrictlyEmptyForEncryption (createEncryptionState i)
        | Some st \<Rightarrow> check_existing_state ee i st) w2 = (Inr (), w')"
    by (auto simp: validateEncryptionState_def True io_seq_Inr io_bind_Inr enc_call_def io_of_sum_def)
  from v startup_check [OF True, of 0] have valid: "keyring_valid ee" by simp
  then obtain keys where keys: "load_keyring ee = Inr keys" "map_of keys i \<noteq> None"
    using i by (auto simp: keyring_valid_def split: sum.splits)
  note l = loadEncryptionState_run [OF load]
  show ?thesis
  proof (cases s)
    case None
    with rest obtain w3 where e: "ensureStrictlyEmptyForEncryption w2 = (Inr (), w3)" "createEncryptionState i w3 = (Inr (), w')"
      by (auto simp: io_seq_Inr)
    from empty_check [OF e(1)] l None have "db_is_empty w" by (auto simp: db_is_empty_def activeIdempotencyKeys_def)
    moreover have "\<exists>st. w_encState w' = Some st \<and> es_enabled st \<and> es_activeKeyId st = i"
      using e(2) by (cases rule: db_call_cases [of "io_modify (\<lambda>w. w\<lparr>w_encState := Some \<lparr>es_id = ''default'', es_enabled = True,
          es_activeKeyId = i, es_previousKeyIds = ''[]'', es_rotationStatus = ''completed'', es_rotatedAt = None\<rparr>\<rparr>)" w3])
        (auto simp: createEncryptionState_def io_simps)
    moreover have "i \<in> fst ` set keys" using keys(2) by (auto simp: map_of_eq_None_iff)
    moreover have "w_encState w = None" using l None by simp
    ultimately show ?thesis using True valid i keys(1) by (auto simp: image_iff)
  next
    case (Some st)
    with rest have "check_existing_state ee i st w2 = (Inr (), w')" by simp
    from check_existing_run [OF this] l Some True valid i keys(1) show ?thesis by (auto intro: rev_image_eqI)
  qed
qed

theorem start_fits_database_witness:
  "\<exists>w' st. validateEncryptionState demo_enc (init_world 0 ()) = (Inr (), w') \<and> w_encState w' = Some st \<and>
     es_activeKeyId st = ''k1'' \<and> fst (validateEncryptionState demo_enc2 demo_stored) \<noteq> Inr ()"
proof -
  let ?w = "init_world 0 () :: unit world"
  have checked: "fst (validateConfiguration demo_enc (fresh_service 0)) = Inr ()"
    using startup_check [OF demo_flags(1)] demo_enc_valid by simp
  obtain w' where run: "validateEncryptionState demo_enc ?w = (Inr (), w')"
    by (simp add: validateEncryptionState_def demo_flags enc_call_def checked loadEncryptionState_def io_simps init_world_def
        demo_active ensureStrictlyEmptyForEncryption_def io_both_def countRows_def activeIdempotencyKeys_def offenders_def
        createEncryptionState_def db_call_def)
  have rot: "\<not> isRotationMode demo_enc" "\<not> isRotationMode demo_enc2" and on: "enc_isEnabled demo_enc2"
    by (simp_all add: isRotationMode_def enc_isEnabled_def demo_enc_defs)
  have no_faults: "w_faults ?w = []" "w_faults demo_stored = []" by (simp_all add: init_world_def demo_stored_def)
  obtain st where st: "w_encState w' = Some st" "es_activeKeyId st = ''k1''"
    using start_fits_database [OF run no_faults(1)] demo_flags(1) demo_active(1) rot(1) by auto
  have no: "fst (validateEncryptionState demo_enc2 demo_stored) \<noteq> Inr ()"
  proof
    assume "fst (validateEncryptionState demo_enc2 demo_stored) = Inr ()"
    then obtain w1 where "validateEncryptionState demo_enc2 demo_stored = (Inr (), w1)" by (metis prod.collapse)
    from start_fits_database [OF this no_faults(2)] on demo_active(2) rot(2) show False
      by (auto simp: demo_stored_def)
  qed
  from run st no show ?thesis by blast
qed

end
