(* ===== verification/Web_Request.thy ===== *)
theory Web_Request
  imports Base64_Text Ip_Utils
begin

text \<open>
  What the authentication services share: a request as Express gives it, its headers, the digests of
  the platform (parameters) with their encodings, and comparisons of numbers that need not be finite.
\<close>

section \<open>Requests\<close>

datatype header_value = NoHeader | OneHeader string | ManyHeaders "string list"

record request =
  rq_method :: string
  rq_path :: string
  rq_url :: string
  rq_originalUrl :: "string option"
  rq_headers :: "string \<Rightarrow> header_value"
  rq_body :: js
  rq_ip :: "string option"
  rq_remote :: "string option"

definition req_header :: "request \<Rightarrow> string \<Rightarrow> string option" where
  "req_header req name =
     (case rq_headers req (to_lower name) of
        NoHeader \<Rightarrow> None
      | OneHeader v \<Rightarrow> Some v
      | ManyHeaders vs \<Rightarrow> (case vs of [] \<Rightarrow> None | v # _ \<Rightarrow> Some v))"

text \<open>What a middleware does with a request: hand it on, or answer it.\<close>

datatype middleware_outcome = Next | Reject nat string

section \<open>Digests\<close>

text \<open>Keys, messages and digests are texts of bytes; \<open>dg_bytes n\<close> are the random bytes of the n-th call.\<close>

record digests =
  dg_hmac :: "string \<Rightarrow> string \<Rightarrow> string"
  dg_sha256 :: "string \<Rightarrow> string"
  dg_bytes :: "nat \<Rightarrow> string"

text \<open>What the code relies on: no two messages with the same digest are ever met, and no digest is empty.\<close>

definition digests_ok :: "digests \<Rightarrow> bool" where
  "digests_ok dg \<longleftrightarrow> (\<forall>a b. dg_sha256 dg a = dg_sha256 dg b \<longrightarrow> a = b) \<and>
     (\<forall>k a b. dg_hmac dg k a = dg_hmac dg k b \<longrightarrow> a = b) \<and> (\<forall>k a. dg_hmac dg k a \<noteq> [])"

text \<open>
  Two texts compared through their digests, as \<open>timingSafeEqual\<close> wants texts of one length.
\<close>

definition safeEqual :: "digests \<Rightarrow> string \<Rightarrow> string \<Rightarrow> bool" where
  "safeEqual dg a b \<longleftrightarrow> dg_sha256 dg a = dg_sha256 dg b"

lemma safeEqual_iff: "digests_ok dg \<Longrightarrow> safeEqual dg a b \<longleftrightarrow> a = b"
  unfolding safeEqual_def digests_ok_def by metis

lemma hmac_not_empty: "digests_ok dg \<Longrightarrow> dg_hmac dg k a \<noteq> []"
  unfolding digests_ok_def by blast

definition hex_lower :: "nat \<Rightarrow> char" where
  "hex_lower n = ''0123456789abcdef'' ! n"

definition hex_text :: "string \<Rightarrow> string" where
  "hex_text s = concat (map (\<lambda>c. [hex_lower (of_char c div 16), hex_lower (of_char c mod 16)]) s)"

definition url_char :: "char \<Rightarrow> char" where
  "url_char c = (if c = CHR ''+'' then CHR ''-'' else if c = CHR ''/'' then CHR ''_'' else c)"

definition base64url :: "string \<Rightarrow> string" where
  "base64url s = map url_char (takeWhile (\<lambda>c. c \<noteq> CHR ''='') (base64 s))"

text \<open>\<open>s.split(c)\<close> and the parts after the first joined again.\<close>

definition cut_first :: "char \<Rightarrow> string \<Rightarrow> string \<times> string" where
  "cut_first c s = (case split_char c s of [] \<Rightarrow> ([], []) | k # rest \<Rightarrow> (k, join [c] rest))"

section \<open>Numbers\<close>

text \<open>\<open>a < b\<close> for numbers: false whenever one is not a number.\<close>

fun num_less :: "jsnum \<Rightarrow> jsnum \<Rightarrow> bool" where
  "num_less (Fin a) (Fin b) = (a < b)"
| "num_less (Fin a) PosInf = True"
| "num_less NegInf (Fin b) = True"
| "num_less NegInf PosInf = True"
| "num_less _ _ = False"

text \<open>\<open>n * 1000\<close>.\<close>

fun num_thousand :: "jsnum \<Rightarrow> jsnum" where
  "num_thousand (Fin r) = Fin (r * 1000)"
| "num_thousand n = n"

text \<open>\<open>now + n\<close>.\<close>

fun num_after :: "int \<Rightarrow> jsnum \<Rightarrow> jsnum" where
  "num_after now (Fin r) = Fin (of_int now + r)"
| "num_after now n = n"

section \<open>Encodings\<close>

lemma base64_value_cases:
  "base64_value c = (case map_of [(CHR ''-'', 62), (CHR ''_'', 63)] c of
     Some n \<Rightarrow> (if c \<in> set base64_alphabet then map_of (zip base64_alphabet [0..<64]) c else Some n)
   | None \<Rightarrow> map_of (zip base64_alphabet [0..<64]) c)"
proof -
  have "map_of (zip base64_alphabet [0..<64]) c = None \<longleftrightarrow> c \<notin> set base64_alphabet"
    using base64_alphabet_facts(1) by (intro map_of_zip_is_None) simp
  then show ?thesis
    by (cases "map_of (zip base64_alphabet [0..<64]) c")
      (auto simp: base64_value_def map_add_def base64_alphabet_def split: option.split)
qed

lemma base64_value_url: "base64_value (url_char c) = base64_value c"
proof -
  have "base64_value (CHR ''+'') = Some 62" "base64_value (CHR ''/'') = Some 63"
    using base64_char_value(1) [of 62] base64_char_value(1) [of 63]
    by (simp_all add: base64_char_def upper_letters_def lower_letters_def)
  moreover have "CHR ''-'' \<notin> set base64_alphabet" "CHR ''_'' \<notin> set base64_alphabet"
    by (simp_all add: base64_alphabet_def upper_letters_def lower_letters_def)
  then have "base64_value (CHR ''-'') = Some 62" "base64_value (CHR ''_'') = Some 63"
    by (simp_all add: base64_value_cases)
  ultimately show ?thesis by (simp add: url_char_def)
qed

lemma takeWhile_map_keeps: "(\<And>c. P (f c) = P c) \<Longrightarrow> takeWhile P (map f (takeWhile P xs)) = map f (takeWhile P xs)"
  by (induction xs) auto

lemma base64url_round_trip: "base64_decode (base64url s) = s"
proof -
  have tw: "takeWhile (\<lambda>c. c \<noteq> CHR ''='') (base64url s) = base64url s"
    unfolding base64url_def by (rule takeWhile_map_keeps) (simp add: url_char_def)
  have "base64_values (base64url s) = List.map_filter base64_value (base64url s)"
    by (simp only: base64_values_def tw)
  also have "\<dots> = base64_values (base64 s)"
    by (simp add: base64_values_def base64url_def List.map_filter_def filter_map comp_def base64_value_url)
  finally have "base64_decode (base64url s) = base64_decode (base64 s)"
    by (simp add: base64_decode_def base64_values_def)
  then show ?thesis by (simp add: base64_round_trip)
qed

lemma base64_groups_chars:
  "\<forall>b \<in> set bs. b < 256 \<Longrightarrow> set (base64_groups bs) \<subseteq> insert (CHR ''='') (base64_char ` {..<64})"
proof (induction bs rule: base64_groups.induct)
  case (2 a)
  then have "a div 4 < 64" "a mod 4 * 16 < 64" by auto
  then show ?case by simp
next
  case (3 a b)
  then have "a div 4 < 64" "a mod 4 * 16 + b div 16 < 64" "b mod 16 * 4 < 64" by auto
  then show ?case by simp
next
  case (4 a b c rest)
  then have "a div 4 < 64" "a mod 4 * 16 + b div 16 < 64" "b mod 16 * 4 + c div 64 < 64" "c mod 64 < 64" by auto
  with 4 show ?case by simp
qed simp

text \<open>An encoded text has none of the separators of a cookie.\<close>

lemma base64url_chars: "set (base64url s) \<inter> set ''.;= '' = {}"
proof -
  have "c \<notin> set ''.;= ''" if "c \<in> set (base64url s)" for c
  proof -
    from that obtain d where d: "d \<in> set (base64 s)" "d \<noteq> CHR ''=''" "c = url_char d"
      by (auto simp: base64url_def dest: set_takeWhileD)
    have "\<forall>b \<in> set (map of_char s). (b :: nat) < 256" using of_char_less by auto
    from base64_groups_chars [OF this] d obtain n where n: "n < 64" "d = base64_char n"
      by (auto simp: base64_def)
    have "base64_alphabet ! n \<in> set base64_alphabet" using n base64_alphabet_facts(1) by simp
    then have "d \<in> set base64_alphabet" using n(2) by (simp add: base64_char_def base64_alphabet_def)
    moreover have "set base64_alphabet \<inter> set ''.;= '' = {}"
      by (simp add: base64_alphabet_def upper_letters_def lower_letters_def)
    ultimately show ?thesis using d(3) by (auto simp: url_char_def)
  qed
  then show ?thesis by blast
qed

lemma hex_lower_in: "n < 16 \<Longrightarrow> hex_lower n \<in> set ''0123456789abcdef''"
  unfolding hex_lower_def by (rule nth_mem) simp

lemma hex_text_chars: "set (hex_text s) \<subseteq> set ''0123456789abcdef''"
proof -
  have "hex_lower (of_char c div 16) \<in> set ''0123456789abcdef''" "hex_lower (of_char c mod 16) \<in> set ''0123456789abcdef''"
    for c using of_char_less [of c] by (intro hex_lower_in less_mult_imp_div_less; simp)+
  then show ?thesis unfolding hex_text_def by fastforce
qed

lemma length_hex_text: "length (hex_text s) = 2 * length s"
  by (induction s) (simp_all add: hex_text_def)

lemma hex_lower_inject: "m < 16 \<Longrightarrow> n < 16 \<Longrightarrow> hex_lower m = hex_lower n \<Longrightarrow> m = n"
proof -
  assume *: "m < 16" "n < 16" "hex_lower m = hex_lower n"
  have "distinct ''0123456789abcdef''" "length ''0123456789abcdef'' = 16" by simp_all
  with * show "m = n" by (simp add: hex_lower_def nth_eq_iff_index_eq)
qed

lemma hex_text_inject: "hex_text a = hex_text b \<longleftrightarrow> a = b"
proof
  show "hex_text a = hex_text b \<Longrightarrow> a = b"
  proof (induction a arbitrary: b)
    case Nil
    then show ?case by (cases b) (simp_all add: hex_text_def)
  next
    case (Cons c a)
    then obtain d b' where b: "b = d # b'" by (cases b) (simp_all add: hex_text_def)
    with Cons.prems have eq: "hex_lower (of_char c div 16) = hex_lower (of_char d div 16)"
      "hex_lower (of_char c mod 16) = hex_lower (of_char d mod 16)" "hex_text a = hex_text b'"
      by (simp_all add: hex_text_def)
    have "(of_char c :: nat) div 16 = of_char d div 16" "(of_char c :: nat) mod 16 = of_char d mod 16"
      using of_char_less [of c] of_char_less [of d] eq(1,2)
      by (intro hex_lower_inject less_mult_imp_div_less; simp)+
    then have "(of_char c :: nat) = of_char d" by (metis div_mult_mod_eq)
    then have "c = d" by simp
    with Cons.IH [OF eq(3)] b show ?case by simp
  qed
qed simp

end
