(* ===== verification/Integration_Auth.thy ===== *)
theory Integration_Auth
  imports Web_Request
begin

text \<open>
  \<^verbatim>\<open>src/security/integration-auth.service.ts\<close> and its middleware: requests of the identity management
  system carry a time stamp and a keyed digest of method, path and body. \<open>localeCompare\<close>, whose order
  depends on the platform, is a parameter (is the first key before or equal to the second).
\<close>

section \<open>Which requests\<close>

definition before_query :: "string \<Rightarrow> string" where
  "before_query s = takeWhile (\<lambda>c. c \<noteq> CHR ''?'') s"

definition ia_path :: "request \<Rightarrow> string" where
  "ia_path req = (let value = before_query (case rq_originalUrl req of Some u \<Rightarrow> u | None \<Rightarrow> rq_url req) in
     if value = [] then ''/'' else value)"

definition requiresAuth :: "config \<Rightarrow> request \<Rightarrow> bool" where
  "requiresAuth cfg req =
     (let path = ia_path req in
      if path = ''/metrics'' then \<not> truthy (coalesce (cfg ''METRICS_PUBLIC_ENABLED'') (Bool True))
      else if \<not> cfg_bool cfg ''INTEGRATION_AUTH_ENABLED'' then False
      else path = ''/idm'' \<or> starts_with path ''/idm/'' \<or> starts_with path ''/webhooks/'')"

section \<open>The signed text\<close>

definition insert_entry :: "(string \<Rightarrow> string \<Rightarrow> bool) \<Rightarrow> string \<times> string \<Rightarrow> (string \<times> string) list \<Rightarrow> (string \<times> string) list" where
  "insert_entry le e es = takeWhile (\<lambda>x. \<not> le (fst e) (fst x)) es @ e # dropWhile (\<lambda>x. \<not> le (fst e) (fst x)) es"

definition sort_entries :: "(string \<Rightarrow> string \<Rightarrow> bool) \<Rightarrow> (string \<times> string) list \<Rightarrow> (string \<times> string) list" where
  "sort_entries le es = foldr (insert_entry le) es []"

text \<open>The entries are sorted by key after their values were printed, which does not change their order.\<close>

fun stableStringify :: "(string \<Rightarrow> string \<Rightarrow> bool) \<Rightarrow> js \<Rightarrow> string" where
  "stableStringify le (Arr xs) = ''['' @ join '','' (map (\<lambda>x. if x = Undef then [] else stableStringify le x) xs) @ '']''"
| "stableStringify le (Obj ob) =
     ''{'' @ join '','' (map (\<lambda>(k, t). json_quote k @ '':'' @ t)
       (sort_entries le (map (\<lambda>(k, v). (k, stableStringify le v)) ob))) @ ''}''"
| "stableStringify le v = js_string (JSON_stringify v)"

definition bodyToString :: "(string \<Rightarrow> string \<Rightarrow> bool) \<Rightarrow> js \<Rightarrow> bool \<Rightarrow> string" where
  "bodyToString le value hasBody =
     (if \<not> hasBody then []
      else if nullish value then []
      else (case value of Str s \<Rightarrow> s | _ \<Rightarrow> stableStringify le value))"

definition requestBodyToString :: "(string \<Rightarrow> string \<Rightarrow> bool) \<Rightarrow> request \<Rightarrow> string" where
  "requestBodyToString le req =
     bodyToString le (rq_body req) (rq_headers req ''content-length'' \<noteq> NoHeader \<or> rq_headers req ''transfer-encoding'' \<noteq> NoHeader)"

definition sha256_hex :: "digests \<Rightarrow> string \<Rightarrow> string" where
  "sha256_hex dg value = hex_text (dg_sha256 dg value)"

definition signed_text :: "digests \<Rightarrow> string \<Rightarrow> string \<Rightarrow> string \<Rightarrow> string \<Rightarrow> string" where
  "signed_text dg timestamp method path body =
     join [CHR 0x0A] [timestamp, to_upper method, path, sha256_hex dg body]"

definition ia_signature :: "digests \<Rightarrow> (string \<Rightarrow> string \<Rightarrow> bool) \<Rightarrow> request \<Rightarrow> string \<Rightarrow> string \<Rightarrow> string" where
  "ia_signature dg le req timestamp secret =
     hex_text (dg_hmac dg secret (signed_text dg timestamp (rq_method req) (ia_path req) (requestBodyToString le req)))"

definition signForTest ::
  "digests \<Rightarrow> (string \<Rightarrow> string \<Rightarrow> bool) \<Rightarrow> string \<Rightarrow> string \<Rightarrow> js \<Rightarrow> string \<Rightarrow> string \<Rightarrow> string" where
  "signForTest dg le method path body timestamp secret =
     hex_text (dg_hmac dg secret (signed_text dg timestamp method path (bodyToString le body True)))"

section \<open>Verification\<close>

text \<open>\<open>process.env[...] ?? config.get(...)\<close>, trimmed; a text, if anything.\<close>

definition ia_secret :: "(string \<Rightarrow> string option) \<Rightarrow> config \<Rightarrow> string option" where
  "ia_secret process cfg =
     (case (case process ''INTEGRATION_AUTH_SECRET'' of
              Some s \<Rightarrow> Some s
            | None \<Rightarrow> (case cfg ''INTEGRATION_AUTH_SECRET'' of Str s \<Rightarrow> Some s | _ \<Rightarrow> None)) of
        None \<Rightarrow> None
      | Some s \<Rightarrow> if trim s = [] then None else Some (trim s))"

definition parseTimestamp :: "string \<Rightarrow> rat option" where
  "parseTimestamp value =
     (case string_to_number value of
        Fin parsed \<Rightarrow> if parsed \<le> 0 then None
          else Some (if 1000000000000 < parsed then parsed else parsed * 1000)
      | _ \<Rightarrow> None)"

text \<open>\<open>replace(/^sha256=/i, '')\<close>, then 64 hexadecimal digits.\<close>

definition strip_scheme :: "string \<Rightarrow> string" where
  "strip_scheme s = (if to_lower (take 7 s) = ''sha256='' then drop 7 s else s)"

definition normalizeSignature :: "string \<Rightarrow> string option" where
  "normalizeSignature value =
     (let normalized = strip_scheme (trim value) in
      if length normalized = 64 \<and> list_all (\<lambda>c. c \<in> set ''0123456789abcdef'') (to_lower normalized)
      then Some (to_lower normalized) else None)"

datatype auth_result = AuthOk | AuthFail nat string

definition outside_skew :: "config \<Rightarrow> int \<Rightarrow> rat \<Rightarrow> bool" where
  "outside_skew cfg now timestamp =
     num_less (num_thousand (to_number (coalesce (cfg ''INTEGRATION_AUTH_ALLOWED_CLOCK_SKEW_SECONDS'') (JInt 300))))
       (Fin \<bar>of_int now - timestamp\<bar>)"

definition ia_verify ::
  "digests \<Rightarrow> (string \<Rightarrow> string \<Rightarrow> bool) \<Rightarrow> (string \<Rightarrow> string option) \<Rightarrow> config \<Rightarrow> int \<Rightarrow> request \<Rightarrow> auth_result" where
  "ia_verify dg le process cfg now req =
     (case ia_secret process cfg of
        None \<Rightarrow> AuthFail 503 ''Integration authentication is not configured''
      | Some secret \<Rightarrow>
        (case (req_header req ''x-idmmw-timestamp'', req_header req ''x-idmmw-signature'') of
           (Some (tc # ts), Some (sc # ss)) \<Rightarrow>
             (case parseTimestamp (tc # ts) of
                None \<Rightarrow> AuthFail 401 ''Invalid integration authentication timestamp''
              | Some timestamp \<Rightarrow>
                 if outside_skew cfg now timestamp
                 then AuthFail 401 ''Integration authentication timestamp is outside allowed skew''
                 else (case normalizeSignature (sc # ss) of
                     None \<Rightarrow> AuthFail 401 ''Invalid integration authentication signature''
                   | Some actual \<Rightarrow>
                      if safeEqual dg actual (ia_signature dg le req (tc # ts) secret) then AuthOk
                      else AuthFail 401 ''Invalid integration authentication signature''))
         | _ \<Rightarrow> AuthFail 401 ''Integration authentication headers are required''))"

definition integration_middleware ::
  "digests \<Rightarrow> (string \<Rightarrow> string \<Rightarrow> bool) \<Rightarrow> (string \<Rightarrow> string option) \<Rightarrow> config \<Rightarrow> int \<Rightarrow> request \<Rightarrow> middleware_outcome" where
  "integration_middleware dg le process cfg now req =
     (if \<not> requiresAuth cfg req then Next
      else (case ia_verify dg le process cfg now req of
          AuthOk \<Rightarrow> Next
        | AuthFail status message \<Rightarrow> Reject status message))"

section \<open>Digests and signatures\<close>

lemma to_lower_char_id: "c \<notin> set upper_letters \<Longrightarrow> to_lower_char c = c"
proof -
  assume "c \<notin> set upper_letters"
  moreover have "length upper_letters = length lower_letters" by (simp add: upper_letters_def lower_letters_def)
  ultimately have "map_of (zip upper_letters lower_letters) c = None" by simp
  then show ?thesis by (simp add: to_lower_char_def)
qed

definition hex_digits :: string where
  "hex_digits = ''0123456789abcdef''"

lemma hex_digits_facts:
  "set hex_digits \<inter> set upper_letters = {}" "CHR ''='' \<notin> set hex_digits" "CHR 0x0A \<notin> set hex_digits"
  "\<forall>c \<in> set hex_digits. \<not> is_space c"
  by (simp_all add: hex_digits_def upper_letters_def is_space_def)

lemma hex_text_digits: "set (hex_text d) \<subseteq> set hex_digits"
  using hex_text_chars [of d] by (simp add: hex_digits_def)

lemma to_lower_hex: "set s \<subseteq> set hex_digits \<Longrightarrow> to_lower s = s"
  unfolding to_lower_def using hex_digits_facts(1) to_lower_char_id by (intro map_idI) blast

text \<open>A signature is accepted in the form in which it is made.\<close>

lemma normalize_hex:
  assumes "length d = 32"
  shows "normalizeSignature (hex_text d) = Some (hex_text d)"
proof -
  have sub: "set (hex_text d) \<subseteq> set hex_digits" by (rule hex_text_digits)
  have "trim (hex_text d) = hex_text d"
    using sub hex_digits_facts(4) by (intro trim_no_space) blast
  moreover have "strip_scheme (hex_text d) = hex_text d"
  proof -
    have part: "set (take 7 (hex_text d)) \<subseteq> set hex_digits"
      using sub set_take_subset [of 7 "hex_text d"] by blast
    have "CHR ''='' \<in> set ''sha256=''" by simp
    then have "take 7 (hex_text d) \<noteq> ''sha256=''" using part hex_digits_facts(2) by (metis subsetD)
    with to_lower_hex [OF part] show ?thesis by (simp add: strip_scheme_def)
  qed
  moreover have "list_all (\<lambda>c. c \<in> set ''0123456789abcdef'') (hex_text d)"
    unfolding list_all_iff hex_digits_def [symmetric] using sub by blast
  ultimately show ?thesis
    using to_lower_hex [OF sub] assms by (simp add: normalizeSignature_def length_hex_text)
qed

lemma verify_iff:
  assumes "digests_ok dg" "ia_secret process cfg = Some secret"
    and "req_header req ''x-idmmw-timestamp'' = Some ts" "req_header req ''x-idmmw-signature'' = Some sig"
    and "ts \<noteq> []" "sig \<noteq> []"
  shows "ia_verify dg le process cfg now req = AuthOk \<longleftrightarrow>
    (\<exists>t. parseTimestamp ts = Some t \<and> \<not> outside_skew cfg now t) \<and>
    normalizeSignature sig = Some (ia_signature dg le req ts secret)"
  using assms
  by (cases ts; cases sig) (auto simp: ia_verify_def safeEqual_iff split: option.split)

lemma first_separator:
  assumes "x @ c # r = y @ c # s" "c \<notin> set x" "c \<notin> set y"
  shows "x = y \<and> r = s"
proof -
  have "takeWhile (\<lambda>d. d \<noteq> c) (x @ c # r) = x" "takeWhile (\<lambda>d. d \<noteq> c) (y @ c # s) = y"
    using assms(2,3) by (auto simp: takeWhile_append)
  with assms(1) show ?thesis by (metis append_eq_append_conv list.inject)
qed

lemma newline_to_upper: "CHR 0x0A \<notin> set m \<Longrightarrow> CHR 0x0A \<notin> set (to_upper m)"
proof
  assume m: "CHR 0x0A \<notin> set m" "CHR 0x0A \<in> set (to_upper m)"
  then obtain c where c: "c \<in> set m" "to_upper_char c = CHR 0x0A" by (auto simp: to_upper_def)
  then have "map_of (zip lower_letters upper_letters) c = Some (CHR 0x0A)"
    using m(1) by (auto simp: to_upper_char_def split: option.splits)
  then have "CHR 0x0A \<in> set upper_letters" by (auto dest!: map_of_SomeD set_zip_rightD)
  then show False by (simp add: upper_letters_def)
qed

lemma signed_text_inject:
  assumes "signed_text dg ts m p b = signed_text dg ts m' p' b'" "digests_ok dg"
    and "CHR 0x0A \<notin> set m" "CHR 0x0A \<notin> set m'" "CHR 0x0A \<notin> set p" "CHR 0x0A \<notin> set p'"
  shows "to_upper m = to_upper m' \<and> p = p' \<and> b = b'"
proof -
  have 1: "to_upper m @ CHR 0x0A # p @ CHR 0x0A # sha256_hex dg b = to_upper m' @ CHR 0x0A # p' @ CHR 0x0A # sha256_hex dg b'"
    using assms(1) by (simp add: signed_text_def)
  have m: "to_upper m = to_upper m'" and 2: "p @ CHR 0x0A # sha256_hex dg b = p' @ CHR 0x0A # sha256_hex dg b'"
    using first_separator [OF 1] newline_to_upper assms(3,4) by blast+
  have "p = p'" "sha256_hex dg b = sha256_hex dg b'"
    using first_separator [OF 2 assms(5,6)] by blast+
  then have "dg_sha256 dg b = dg_sha256 dg b'" by (simp add: sha256_hex_def hex_text_inject)
  then have "b = b'" using assms(2) unfolding digests_ok_def by blast
  with m \<open>p = p'\<close> show ?thesis by simp
qed

section \<open>Properties\<close>

text \<open>
  C16: the check accepts exactly what the reference signer of the same file produces: a request with a body
  and both headers is accepted if and only if its time stamp is a positive number within the allowed skew
  and its signature, however it is written, is the one \<open>signForTest\<close> makes for its method, path and body.
\<close>

theorem verified_iff_signed:
  assumes "digests_ok dg" "ia_secret process cfg = Some secret"
    and "req_header req ''x-idmmw-timestamp'' = Some ts" "req_header req ''x-idmmw-signature'' = Some sig"
    and "ts \<noteq> []" "sig \<noteq> []" "rq_headers req ''content-length'' \<noteq> NoHeader"
  shows "ia_verify dg le process cfg now req = AuthOk \<longleftrightarrow>
    (\<exists>t. parseTimestamp ts = Some t \<and> \<not> outside_skew cfg now t) \<and>
    normalizeSignature sig = Some (signForTest dg le (rq_method req) (ia_path req) (rq_body req) ts secret)"
  using verify_iff [OF assms(1-6)] assms(7)
  by (simp add: ia_signature_def signForTest_def requestBodyToString_def)

text \<open>
  A signature authorises one request: two requests that are accepted with the same time stamp and
  signature, at whatever times, have the same method, path and body text.
\<close>

theorem signature_binds_request:
  assumes "digests_ok dg" "ia_secret process cfg = Some secret"
    and "req_header r1 ''x-idmmw-timestamp'' = Some ts" "req_header r1 ''x-idmmw-signature'' = Some sig"
    and "req_header r2 ''x-idmmw-timestamp'' = Some ts" "req_header r2 ''x-idmmw-signature'' = Some sig"
    and "ia_verify dg le process cfg now1 r1 = AuthOk" "ia_verify dg le process cfg now2 r2 = AuthOk"
    and "\<forall>r \<in> {r1, r2}. CHR 0x0A \<notin> set (rq_method r) \<and> CHR 0x0A \<notin> set (ia_path r)"
  shows "to_upper (rq_method r1) = to_upper (rq_method r2) \<and> ia_path r1 = ia_path r2 \<and>
    requestBodyToString le r1 = requestBodyToString le r2"
proof -
  have ne: "ts \<noteq> []" "sig \<noteq> []"
    using assms(2-4,7) by (auto simp: ia_verify_def split: list.splits)
  have "ia_signature dg le r1 ts secret = ia_signature dg le r2 ts secret"
    using verify_iff [OF assms(1-4) ne, of le now1] verify_iff [OF assms(1,2,5,6) ne, of le now2] assms(7,8) by simp
  then have "signed_text dg ts (rq_method r1) (ia_path r1) (requestBodyToString le r1) =
      signed_text dg ts (rq_method r2) (ia_path r2) (requestBodyToString le r2)"
    using assms(1) unfolding ia_signature_def hex_text_inject digests_ok_def by blast
  from signed_text_inject [OF this assms(1)] assms(9) show ?thesis by simp
qed

text \<open>The check looks at the path as it is written, while the router of Express does not distinguish case.\<close>

lemma other_case_not_required:
  assumes "rq_originalUrl req = Some ''/IDM/user/create''"
  shows "\<not> requiresAuth cfg req"
  using assms by (simp add: requiresAuth_def ia_path_def before_query_def)

text \<open>A skew that is not a number switches the check of the time stamp off.\<close>

lemma skew_not_a_number: "cfg ''INTEGRATION_AUTH_ALLOWED_CLOCK_SKEW_SECONDS'' = Num NaN \<Longrightarrow> \<not> outside_skew cfg now t"
  by (simp add: outside_skew_def coalesce_def nullish_def)

section \<open>An example\<close>

text \<open>Digests of an example: one message has a digest of the usual length, every other one a longer digest.\<close>

definition demo_digests :: "string \<Rightarrow> digests" where
  "demo_digests m0 = \<lparr>dg_hmac = (\<lambda>k m. if m = m0 then replicate 32 (CHR ''x'') else replicate 33 (CHR ''y'') @ m),
     dg_sha256 = (\<lambda>m. m), dg_bytes = (\<lambda>n. show_nat n)\<rparr>"

lemma demo_digests_ok: "digests_ok (demo_digests m0)"
proof -
  have "length (replicate 32 (CHR ''x'')) \<noteq> length (replicate 33 (CHR ''y'') @ m)" for m by simp
  then have "replicate 32 (CHR ''x'') \<noteq> replicate 33 (CHR ''y'') @ m" "replicate 33 (CHR ''y'') @ m \<noteq> replicate 32 (CHR ''x'')"
    for m by metis+
  then show ?thesis by (simp add: digests_ok_def demo_digests_def)
qed

definition demo_request :: "string \<Rightarrow> request" where
  "demo_request sig = \<lparr>rq_method = ''post'', rq_path = ''/idm/user/create'', rq_url = ''/idm/user/create'', rq_originalUrl = None,
     rq_headers = (\<lambda>h. if h = ''x-idmmw-timestamp'' then OneHeader ''1700000000''
       else if h = ''x-idmmw-signature'' then OneHeader sig else if h = ''content-length'' then OneHeader ''7'' else NoHeader),
     rq_body = Obj [(''id'', JInt 7)], rq_ip = None, rq_remote = None\<rparr>"

definition demo_secret :: config where
  "demo_secret name = (if name = ''INTEGRATION_AUTH_SECRET'' then Str ''s'' else Undef)"

definition demo_sig :: "(string \<Rightarrow> string \<Rightarrow> bool) \<Rightarrow> digests \<Rightarrow> string" where
  "demo_sig le dg = signForTest dg le ''post'' ''/idm/user/create'' (Obj [(''id'', JInt 7)]) ''1700000000'' ''s''"

definition demo_signed :: "(string \<Rightarrow> string \<Rightarrow> bool) \<Rightarrow> digests" where
  "demo_signed le = demo_digests (signed_text (demo_digests []) ''1700000000'' ''post'' ''/idm/user/create''
     (bodyToString le (Obj [(''id'', JInt 7)]) True))"

lemma demo_request_facts:
  "ia_secret (\<lambda>_. None) demo_secret = Some ''s''"
  "req_header (demo_request sig) ''x-idmmw-timestamp'' = Some ''1700000000''"
  "req_header (demo_request sig) ''x-idmmw-signature'' = Some sig"
  "rq_headers (demo_request sig) ''content-length'' \<noteq> NoHeader"
  "rq_method (demo_request sig) = ''post''" "rq_body (demo_request sig) = Obj [(''id'', JInt 7)]"
  "ia_path (demo_request sig) = ''/idm/user/create''"
proof -
  have low: "to_lower ''x-idmmw-timestamp'' = ''x-idmmw-timestamp''" "to_lower ''x-idmmw-signature'' = ''x-idmmw-signature''"
    by (simp_all add: to_lower_def to_lower_char_id upper_letters_def)
  show "ia_secret (\<lambda>_. None) demo_secret = Some ''s''"
    by (simp add: ia_secret_def demo_secret_def trim_def is_space_def)
  show "req_header (demo_request sig) ''x-idmmw-timestamp'' = Some ''1700000000''"
    "req_header (demo_request sig) ''x-idmmw-signature'' = Some sig"
    by (simp_all only: req_header_def low) (simp_all add: demo_request_def)
  show "rq_headers (demo_request sig) ''content-length'' \<noteq> NoHeader" "rq_method (demo_request sig) = ''post''"
    "rq_body (demo_request sig) = Obj [(''id'', JInt 7)]" by (simp_all add: demo_request_def)
  show "ia_path (demo_request sig) = ''/idm/user/create''"
    by (simp add: ia_path_def demo_request_def before_query_def)
qed

lemma demo_time:
  "parseTimestamp ''1700000000'' = Some 1700000000000" "\<not> outside_skew demo_secret 1700000100000 1700000000000"
proof -
  have n: "show_int 1700000000 = ''1700000000''"
    by (simp add: show_int_def show_nat.simps digit_char_def)
  show "parseTimestamp ''1700000000'' = Some 1700000000000"
    using string_to_number_show [of 1700000000] unfolding n by (simp add: parseTimestamp_def)
  show "\<not> outside_skew demo_secret 1700000100000 1700000000000"
    by (simp add: outside_skew_def demo_secret_def coalesce_def nullish_def)
qed

lemma demo_sig_normal: "normalizeSignature (demo_sig le (demo_signed le)) = Some (demo_sig le (demo_signed le))"
proof -
  have "signed_text (demo_digests m) ts me p b = signed_text (demo_digests []) ts me p b" for m ts me p b
    by (simp add: signed_text_def sha256_hex_def demo_digests_def)
  then have "demo_sig le (demo_signed le) = hex_text (replicate 32 (CHR ''x''))"
    by (simp add: demo_sig_def signForTest_def demo_signed_def) (simp add: demo_digests_def)
  then show ?thesis by (simp add: normalize_hex)
qed

theorem verified_iff_signed_witness:
  "ia_verify (demo_signed (\<lambda>_ _. True)) (\<lambda>_ _. True) (\<lambda>_. None) demo_secret 1700000100000
     (demo_request (demo_sig (\<lambda>_ _. True) (demo_signed (\<lambda>_ _. True)))) = AuthOk"
proof -
  let ?le = "\<lambda>_ _. True"
  let ?r = "demo_request (demo_sig ?le (demo_signed ?le))"
  have ok: "digests_ok (demo_signed ?le)" by (simp add: demo_signed_def demo_digests_ok)
  have ne: "''1700000000'' \<noteq> []" "demo_sig ?le (demo_signed ?le) \<noteq> []"
    using demo_sig_normal [of ?le] by (auto simp: normalizeSignature_def Let_def trim_def strip_scheme_def split: if_splits)
  from verified_iff_signed [OF ok demo_request_facts(1-3) ne demo_request_facts(4), of ?le 1700000100000]
  show ?thesis
    using demo_time demo_sig_normal [of ?le] by (simp only: demo_request_facts demo_sig_def [symmetric]) blast
qed

text \<open>The same request from another address some seconds later.\<close>

lemma path_ip: "ia_path (r\<lparr>rq_ip := x\<rparr>) = ia_path r"
  by (cases "rq_originalUrl r") (simp_all add: ia_path_def)

lemma verify_ip: "ia_verify dg le process cfg now (r\<lparr>rq_ip := x\<rparr>) = ia_verify dg le process cfg now r"
proof -
  have "req_header (r\<lparr>rq_ip := x\<rparr>) n = req_header r n" for n by (simp add: req_header_def)
  moreover have "ia_signature dg le (r\<lparr>rq_ip := x\<rparr>) ts secret = ia_signature dg le r ts secret" for ts secret
    by (simp add: ia_signature_def path_ip requestBodyToString_def)
  ultimately show ?thesis by (simp only: ia_verify_def)
qed

lemma demo_accepted:
  assumes "\<not> outside_skew demo_secret now 1700000000000"
  shows "ia_verify (demo_signed le) le (\<lambda>_. None) demo_secret now (demo_request (demo_sig le (demo_signed le))) = AuthOk"
proof -
  let ?r = "demo_request (demo_sig le (demo_signed le))"
  have ok: "digests_ok (demo_signed le)" by (simp add: demo_signed_def demo_digests_ok)
  have ne: "''1700000000'' \<noteq> []" "demo_sig le (demo_signed le) \<noteq> []"
    using demo_sig_normal [of le] by (auto simp: normalizeSignature_def Let_def trim_def strip_scheme_def split: if_splits)
  have "ia_signature (demo_signed le) le ?r ''1700000000'' ''s'' = demo_sig le (demo_signed le)"
    using demo_request_facts(4-7) [of "demo_sig le (demo_signed le)"]
    by (simp add: ia_signature_def demo_sig_def signForTest_def requestBodyToString_def)
  with verify_iff [OF ok demo_request_facts(1-3) ne, of le now] show ?thesis
    using demo_time(1) assms demo_sig_normal [of le] by simp
qed

theorem signature_binds_request_witness:
  "\<exists>r1 r2. ia_verify (demo_signed (\<lambda>_ _. True)) (\<lambda>_ _. True) (\<lambda>_. None) demo_secret 1700000100000 r1 = AuthOk \<and>
     ia_verify (demo_signed (\<lambda>_ _. True)) (\<lambda>_ _. True) (\<lambda>_. None) demo_secret 1700000200000 r2 = AuthOk \<and>
     rq_ip r1 \<noteq> rq_ip r2 \<and> requestBodyToString (\<lambda>_ _. True) r1 = requestBodyToString (\<lambda>_ _. True) r2"
proof -
  let ?le = "\<lambda>_ _. True" and ?r = "demo_request (demo_sig (\<lambda>_ _. True) (demo_signed (\<lambda>_ _. True)))"
  let ?r2 = "?r\<lparr>rq_ip := Some ''10.0.0.1''\<rparr>"
  have ok: "digests_ok (demo_signed ?le)" by (simp add: demo_signed_def demo_digests_ok)
  have later: "\<not> outside_skew demo_secret 1700000200000 1700000000000"
    by (simp add: outside_skew_def demo_secret_def coalesce_def nullish_def)
  have acc: "ia_verify (demo_signed ?le) ?le (\<lambda>_. None) demo_secret 1700000100000 ?r = AuthOk"
    "ia_verify (demo_signed ?le) ?le (\<lambda>_. None) demo_secret 1700000200000 ?r2 = AuthOk"
    by (simp_all only: verify_ip demo_accepted [OF demo_time(2)] demo_accepted [OF later])
  have h2: "req_header ?r2 ''x-idmmw-timestamp'' = Some ''1700000000''"
    "req_header ?r2 ''x-idmmw-signature'' = Some (demo_sig ?le (demo_signed ?le))"
    using demo_request_facts(2,3) [of "demo_sig ?le (demo_signed ?le)"] by (simp_all add: req_header_def)
  have "ia_path ?r2 = ia_path ?r" "rq_method ?r2 = rq_method ?r" by (simp_all add: path_ip)
  then have nl: "\<forall>r \<in> {?r, ?r2}. CHR 0x0A \<notin> set (rq_method r) \<and> CHR 0x0A \<notin> set (ia_path r)"
    by (simp add: demo_request_facts)
  from signature_binds_request [OF ok demo_request_facts(1-3) h2 acc nl]
  have "requestBodyToString ?le ?r = requestBodyToString ?le ?r2" by blast
  moreover have "rq_ip ?r \<noteq> rq_ip ?r2" by (simp add: demo_request_def)
  ultimately show ?thesis using acc by blast
qed

end
