(* ===== verification/Admin_Auth.thy ===== *)
theory Admin_Auth
  imports Web_Request
begin

text \<open>
  \<^verbatim>\<open>src/auth\<close>: sessions of administrators in a signed cookie, local login, single sign-on through the
  headers of a trusted proxy, the token against cross-site requests, and the middleware in front of
  \<open>/admin\<close>. A session is the JSON object the cookie carries.
\<close>

section \<open>State and configuration\<close>

text \<open>The clock, how often random bytes were drawn, and the \<open>Set-Cookie\<close> header of the response.\<close>

record web_state =
  ws_now :: int
  ws_draws :: nat
  ws_cookie :: "string option"

record auth_env =
  au_cfg :: config
  au_digests :: digests

definition auth_isEnabled :: "config \<Rightarrow> bool" where
  "auth_isEnabled cfg = cfg_bool cfg ''ADMIN_AUTH_ENABLED''"

definition auth_mode :: "config \<Rightarrow> string" where
  "auth_mode cfg = (let mode = cfg_str cfg ''ADMIN_AUTH_MODE'' ''local'' in
     if mode = ''sso'' \<or> mode = ''both'' then mode else ''local'')"

definition cookieName :: "config \<Rightarrow> string" where
  "cookieName cfg = cfg_str cfg ''ADMIN_AUTH_COOKIE_NAME'' ''idmmw_admin_session''"

definition sessionSecret :: "config \<Rightarrow> exn + string" where
  "sessionSecret cfg = (let secret = cfg_str cfg ''ADMIN_AUTH_SESSION_SECRET'' [] in
     if secret = [] then Inl (Error ''ADMIN_AUTH_SESSION_SECRET is required when ADMIN_AUTH_ENABLED=true'') else Inr secret)"

definition ttlSeconds :: "config \<Rightarrow> js" where
  "ttlSeconds cfg = coalesce (cfg ''ADMIN_AUTH_SESSION_TTL_SECONDS'') (JInt 28800)"

definition sameSite :: "config \<Rightarrow> string" where
  "sameSite cfg = (let configured = cfg_str cfg ''ADMIN_AUTH_COOKIE_SAMESITE'' ''Strict'' in
     if configured \<in> set [''Strict'', ''Lax'', ''None''] then configured else ''Strict'')"

definition secureCookie :: "config \<Rightarrow> bool" where
  "secureCookie cfg =
     (if cfg ''ADMIN_AUTH_COOKIE_SECURE'' \<noteq> Undef then truthy (cfg ''ADMIN_AUTH_COOKIE_SECURE'')
      else cfg ''NODE_ENV'' = Str ''production'' \<or> cfg_bool cfg ''HTTP_TLS_ENABLED'')"

definition auth_csv :: "config \<Rightarrow> string \<Rightarrow> string list" where
  "auth_csv cfg name = csv_values (cfg_str cfg name [])"

section \<open>Cookies\<close>

definition cookieAttributes :: "config \<Rightarrow> string" where
  "cookieAttributes cfg = ''Max-Age='' @ js_string (ttlSeconds cfg) @ ''; Path=/; HttpOnly; SameSite='' @ sameSite cfg @
     (if secureCookie cfg then ''; Secure'' else [])"

definition clearCookieHeader :: "config \<Rightarrow> string" where
  "clearCookieHeader cfg = cookieName cfg @ ''=; Max-Age=0; Path=/; HttpOnly; SameSite='' @ sameSite cfg"

definition sign_payload :: "auth_env \<Rightarrow> string \<Rightarrow> exn + string" where
  "sign_payload ae payload =
     res_bind (sessionSecret (au_cfg ae)) (\<lambda>secret. Inr (base64url (dg_hmac (au_digests ae) secret payload)))"

text \<open>The pairs of the \<open>Cookie\<close> header; \<open>Object.fromEntries\<close> keeps the last value of a name.\<close>

definition cookie_pairs :: "request \<Rightarrow> (string \<times> string) list" where
  "cookie_pairs req =
     (case rq_headers req ''cookie'' of
        OneHeader raw \<Rightarrow> if raw = [] then [] else map (\<lambda>part. cut_first (CHR ''='') (trim part)) (split_char (CHR '';'') raw)
      | _ \<Rightarrow> [])"

definition cookie_value :: "request \<Rightarrow> string \<Rightarrow> string option" where
  "cookie_value req name = map_of (rev (cookie_pairs req)) name"

section \<open>Sessions\<close>

definition session_object :: "string \<Rightarrow> string \<Rightarrow> string \<Rightarrow> string \<Rightarrow> jsnum \<Rightarrow> js" where
  "session_object sub name provider csrfToken expiresAt =
     Obj [(''sub'', Str sub), (''name'', Str name), (''provider'', Str provider), (''csrfToken'', Str csrfToken),
       (''expiresAt'', Num expiresAt)]"

definition createSession :: "auth_env \<Rightarrow> string \<Rightarrow> string \<Rightarrow> string \<Rightarrow> (web_state, js) io" where
  "createSession ae sub name provider =
     io_bind (io_get (\<lambda>s. base64url (dg_bytes (au_digests ae) (ws_draws s)))) (\<lambda>csrfToken.
     io_seq (io_modify (\<lambda>s. s\<lparr>ws_draws := Suc (ws_draws s)\<rparr>))
     (io_bind (io_get ws_now) (\<lambda>now.
      io_return (session_object sub name provider csrfToken
        (num_after now (num_thousand (to_number (ttlSeconds (au_cfg ae)))))))))"

text \<open>\<open>JSON.stringify\<close> writes a number that is not finite as null.\<close>

definition session_payload :: "js \<Rightarrow> string" where
  "session_payload session = base64url (json_text session)"

definition writeSessionCookie :: "auth_env \<Rightarrow> js \<Rightarrow> (web_state, unit) io" where
  "writeSessionCookie ae session =
     io_bind (io_of_sum (sign_payload ae (session_payload session))) (\<lambda>signature.
     io_modify (\<lambda>s. s\<lparr>ws_cookie := Some (cookieName (au_cfg ae) @ ''='' @ session_payload session @ ''.'' @ signature @ ''; '' @
       cookieAttributes (au_cfg ae))\<rparr>))"

text \<open>Whatever fails inside the \<open>try\<close> counts as no session; a missing secret is thrown outside of it.\<close>

definition open_payload :: "int \<Rightarrow> string \<Rightarrow> js option" where
  "open_payload now payload =
     (case JSON_parse (base64_decode payload) of
        None \<Rightarrow> None
      | Some session \<Rightarrow>
          if nullish session then None
          else if \<not> truthy (js_prop session ''expiresAt'') \<or>
                  num_less (to_number (js_prop session ''expiresAt'')) (Fin (of_int now)) then None
          else Some session)"

definition readSession :: "auth_env \<Rightarrow> request \<Rightarrow> int \<Rightarrow> exn + js option" where
  "readSession ae req now =
     (case cookie_value req (cookieName (au_cfg ae)) of
        None \<Rightarrow> Inr None
      | Some raw \<Rightarrow>
          if raw = [] then Inr None
          else (case split_char (CHR ''.'') raw of
              payload # signature # _ \<Rightarrow>
                if payload = [] \<or> signature = [] then Inr None
                else res_bind (sign_payload ae payload) (\<lambda>expected.
                  if \<not> safeEqual (au_digests ae) signature expected then Inr None
                  else Inr (open_payload now payload))
            | _ \<Rightarrow> Inr None))"

section \<open>Single sign-on\<close>

record sso_identity =
  si_user :: string
  si_groups :: "string list"

definition split_text :: "string \<Rightarrow> string \<Rightarrow> string list" where
  "split_text sep s = (if sep = [] then map (\<lambda>c. [c]) s else split_str sep s)"

definition extractSsoIdentity :: "config \<Rightarrow> request \<Rightarrow> sso_identity option" where
  "extractSsoIdentity cfg req =
     (case req_header req (cfg_str cfg ''ADMIN_AUTH_SSO_USER_HEADER'' ''x-authenticated-user'') of
        None \<Rightarrow> None
      | Some user \<Rightarrow>
          if user = [] then None
          else (let raw = (case req_header req (cfg_str cfg ''ADMIN_AUTH_SSO_GROUPS_HEADER'' ''x-authenticated-groups'') of
                    Some g \<Rightarrow> g | None \<Rightarrow> []) in
            Some \<lparr>si_user = user,
              si_groups = filter (\<lambda>g. g \<noteq> []) (map trim (split_text (cfg_str cfg ''ADMIN_AUTH_SSO_GROUPS_DELIMITER'' '','') raw))\<rparr>))"

definition isTrustedSsoSource :: "config \<Rightarrow> request \<Rightarrow> bool" where
  "isTrustedSsoSource cfg req =
     (let allowlist = auth_csv cfg ''ADMIN_AUTH_TRUSTED_PROXY_CIDRS'' in
      if allowlist = [] then False
      else list_ex (\<lambda>candidate. isIpAllowed candidate allowlist) [rq_ip req, rq_remote req])"

definition isSsoAllowed :: "config \<Rightarrow> sso_identity \<Rightarrow> bool" where
  "isSsoAllowed cfg identity \<longleftrightarrow>
     si_user identity \<in> set (auth_csv cfg ''ADMIN_AUTH_ALLOWLIST'') \<or>
     list_ex (\<lambda>g. g \<in> set (auth_csv cfg ''ADMIN_AUTH_ALLOWED_GROUPS'')) (si_groups identity)"

section \<open>Login and logout\<close>

record session_status =
  ss_authEnabled :: bool
  ss_authenticated :: bool
  ss_user :: "(js \<times> js \<times> js) option"
  ss_csrfToken :: js
  ss_mode :: string

definition issueDisabledStatus :: session_status where
  "issueDisabledStatus = \<lparr>ss_authEnabled = False, ss_authenticated = True,
     ss_user = Some (Str ''auth-disabled'', Str ''Auth disabled'', Str ''disabled''), ss_csrfToken = Undef, ss_mode = ''disabled''\<rparr>"

definition sessionStatusFromSession :: "config \<Rightarrow> js \<Rightarrow> session_status" where
  "sessionStatusFromSession cfg session = \<lparr>ss_authEnabled = True, ss_authenticated = True,
     ss_user = Some (js_prop session ''sub'', js_prop session ''name'', js_prop session ''provider''),
     ss_csrfToken = js_prop session ''csrfToken'', ss_mode = auth_mode cfg\<rparr>"

definition sessionStatus :: "auth_env \<Rightarrow> request \<Rightarrow> int \<Rightarrow> exn + session_status" where
  "sessionStatus ae req now =
     (if \<not> auth_isEnabled (au_cfg ae) then Inr issueDisabledStatus
      else res_bind (readSession ae req now) (\<lambda>session.
        Inr (case session of
            None \<Rightarrow> \<lparr>ss_authEnabled = True, ss_authenticated = False, ss_user = None, ss_csrfToken = Undef,
              ss_mode = auth_mode (au_cfg ae)\<rparr>
          | Some s \<Rightarrow> sessionStatusFromSession (au_cfg ae) s)))"

text \<open>\<open>createHash(...).update(value)\<close> throws unless the value is a text.\<close>

definition safe_equal_js :: "digests \<Rightarrow> js \<Rightarrow> string \<Rightarrow> exn + bool" where
  "safe_equal_js dg a b =
     (case a of Str s \<Rightarrow> Inr (safeEqual dg s b) | _ \<Rightarrow> Inl (Error ''The data argument must be of type string''))"

definition credentials_ok :: "auth_env \<Rightarrow> js \<Rightarrow> js \<Rightarrow> exn + bool" where
  "credentials_ok ae username password =
     (let expectedUser = cfg_str (au_cfg ae) ''ADMIN_AUTH_LOCAL_USERNAME'' [];
          expectedPassword = cfg_str (au_cfg ae) ''ADMIN_AUTH_LOCAL_PASSWORD'' [] in
      if expectedUser = [] \<or> expectedPassword = [] then Inr False
      else res_bind (safe_equal_js (au_digests ae) username expectedUser) (\<lambda>u.
        if \<not> u then Inr False else safe_equal_js (au_digests ae) password expectedPassword))"

definition open_session :: "auth_env \<Rightarrow> string \<Rightarrow> string \<Rightarrow> (web_state, js) io" where
  "open_session ae user provider =
     io_bind (createSession ae user user provider) (\<lambda>session.
     io_seq (writeSessionCookie ae session) (io_return session))"

definition loginLocal :: "auth_env \<Rightarrow> js \<Rightarrow> js \<Rightarrow> (web_state, session_status) io" where
  "loginLocal ae username password =
     (if \<not> auth_isEnabled (au_cfg ae) then io_return issueDisabledStatus
      else if auth_mode (au_cfg ae) = ''sso'' then io_throw (UnauthorizedException ''Local admin login is disabled'')
      else io_bind (io_of_sum (credentials_ok ae username password)) (\<lambda>ok.
        if \<not> ok then io_throw (UnauthorizedException ''Invalid admin credentials'')
        else io_bind (open_session ae (js_string username) ''local'') (\<lambda>session.
          io_return (sessionStatusFromSession (au_cfg ae) session))))"

definition loginSso :: "auth_env \<Rightarrow> request \<Rightarrow> (web_state, session_status) io" where
  "loginSso ae req =
     (if \<not> auth_isEnabled (au_cfg ae) then io_return issueDisabledStatus
      else if auth_mode (au_cfg ae) = ''local'' then io_throw (UnauthorizedException ''SSO admin login is disabled'')
      else if \<not> isTrustedSsoSource (au_cfg ae) req
      then io_throw (UnauthorizedException ''SSO headers require a trusted proxy'')
      else (case extractSsoIdentity (au_cfg ae) req of
          None \<Rightarrow> io_throw (UnauthorizedException ''SSO user is not allowed for Admin UI'')
        | Some identity \<Rightarrow>
            if \<not> isSsoAllowed (au_cfg ae) identity
            then io_throw (UnauthorizedException ''SSO user is not allowed for Admin UI'')
            else io_bind (open_session ae (si_user identity) ''sso'') (\<lambda>session.
              io_return (sessionStatusFromSession (au_cfg ae) session))))"

definition auth_logout :: "auth_env \<Rightarrow> (web_state, unit) io" where
  "auth_logout ae = io_modify (\<lambda>s. s\<lparr>ws_cookie := Some (clearCookieHeader (au_cfg ae))\<rparr>)"

section \<open>Requests\<close>

text \<open>\<open>hasRes\<close> says whether the caller passed the response.\<close>

definition authenticateRequest :: "auth_env \<Rightarrow> request \<Rightarrow> bool \<Rightarrow> (web_state, js option) io" where
  "authenticateRequest ae req hasRes =
     (if \<not> auth_isEnabled (au_cfg ae) then
        io_bind (io_get ws_now) (\<lambda>now.
        io_return (Some (session_object ''auth-disabled'' ''Auth disabled'' ''disabled'' ''auth-disabled''
          (Fin (of_int (now + 60000))))))
      else io_bind (io_get ws_now) (\<lambda>now.
        io_bind (io_of_sum (readSession ae req now)) (\<lambda>session.
        if session \<noteq> None then io_return session
        else if auth_mode (au_cfg ae) \<noteq> ''local'' \<and> hasRes then
          (case (if isTrustedSsoSource (au_cfg ae) req then extractSsoIdentity (au_cfg ae) req else None) of
             None \<Rightarrow> io_return None
           | Some identity \<Rightarrow>
               if \<not> isSsoAllowed (au_cfg ae) identity then io_return None
               else io_bind (open_session ae (si_user identity) ''sso'') (\<lambda>ssoSession. io_return (Some ssoSession)))
        else io_return None)))"

definition verifyCsrf :: "auth_env \<Rightarrow> request \<Rightarrow> js \<Rightarrow> exn + bool" where
  "verifyCsrf ae req session =
     (if \<not> auth_isEnabled (au_cfg ae) then Inr True
      else (case req_header req ''x-csrf-token'' of
          None \<Rightarrow> Inr False
        | Some value \<Rightarrow>
            if value = [] then Inr False
            else (case js_prop session ''csrfToken'' of
                Str token \<Rightarrow> Inr (safeEqual (au_digests ae) value token)
              | _ \<Rightarrow> Inl (Error ''The data argument must be of type string''))))"

definition requiresAdminAuth :: "string \<Rightarrow> bool" where
  "requiresAdminAuth path \<longleftrightarrow> path = ''/admin'' \<or> starts_with path ''/admin/''"

definition SAFE_METHODS :: "string list" where
  "SAFE_METHODS = [''GET'', ''HEAD'', ''OPTIONS'']"

definition admin_middleware :: "auth_env \<Rightarrow> request \<Rightarrow> (web_state, middleware_outcome) io" where
  "admin_middleware ae req =
     (if \<not> requiresAdminAuth (rq_path req) then io_return Next
      else io_bind (authenticateRequest ae req True) (\<lambda>session.
        case session of
          None \<Rightarrow> io_return (Reject 401 ''Admin authentication required'')
        | Some s \<Rightarrow>
            if rq_method req \<in> set SAFE_METHODS then io_return Next
            else io_bind (io_of_sum (verifyCsrf ae req s)) (\<lambda>ok.
              io_return (if ok then Next else Reject 403 ''Invalid CSRF token''))))"

text \<open>The routes of \<^verbatim>\<open>auth.controller.ts\<close>; a missing field of the body is an empty text.\<close>

definition auth_login :: "auth_env \<Rightarrow> js \<Rightarrow> (web_state, session_status) io" where
  "auth_login ae body =
     loginLocal ae (coalesce (js_prop body ''username'') (Str [])) (coalesce (js_prop body ''password'') (Str []))"

definition auth_session :: "auth_env \<Rightarrow> request \<Rightarrow> (web_state, session_status) io" where
  "auth_session ae req = io_bind (io_get ws_now) (\<lambda>now. io_of_sum (sessionStatus ae req now))"

definition auth_ssoLogin :: "auth_env \<Rightarrow> request \<Rightarrow> (web_state, session_status) io" where
  "auth_ssoLogin ae req = loginSso ae req"

definition auth_postLogout :: "auth_env \<Rightarrow> (web_state, js) io" where
  "auth_postLogout ae = io_seq (auth_logout ae) (io_return (Obj [(''success'', Bool True)]))"

section \<open>What a cookie stands for\<close>

text \<open>A name of a cookie that needs no quoting.\<close>

definition cookie_name_ok :: "string \<Rightarrow> bool" where
  "cookie_name_ok name \<longleftrightarrow> list_all (\<lambda>c. c \<noteq> CHR ''='' \<and> c \<noteq> CHR '';'' \<and> \<not> is_space c) name"

lemma split_char_whole: "c \<notin> set s \<Longrightarrow> split_char c s = [s]"
  by (induction s) auto

lemma split_char_head: "c \<notin> set a \<Longrightarrow> split_char c (a @ c # b) = a # split_char c b"
  by (induction a) auto

lemma base64url_not: "c \<in> set ''.;= '' \<Longrightarrow> c \<notin> set (base64url s)"
  using base64url_chars [of s] by blast

lemma base64url_no_space: "c \<in> set (base64url s) \<Longrightarrow> \<not> is_space c"
proof -
  assume "c \<in> set (base64url s)"
  then obtain d where d: "d \<in> set (base64 s)" "d \<noteq> CHR ''=''" "c = url_char d"
    by (auto simp: base64url_def dest: set_takeWhileD)
  have bytes: "\<forall>b \<in> set (map of_char s). (b :: nat) < 256" using of_char_less by auto
  from base64_groups_chars [OF this] d obtain n where n: "n < 64" "d = base64_char n"
    by (auto simp: base64_def)
  then have "d \<in> set base64_alphabet"
    using base64_alphabet_facts(1) nth_mem [of n base64_alphabet] by (simp add: base64_char_def base64_alphabet_def)
  moreover have "\<forall>c \<in> set base64_alphabet. \<not> is_space c"
    by (simp add: base64_alphabet_def upper_letters_def lower_letters_def is_space_def)
  ultimately show ?thesis using d(3) by (auto simp: url_char_def is_space_def)
qed

lemma base64url_Nil: "base64url s = [] \<longleftrightarrow> s = []"
proof
  assume "base64url s = []"
  then have "base64_decode (base64url s) = []" by (simp add: base64_decode_def List.map_filter_def)
  then show "s = []" by (simp add: base64url_round_trip)
qed (simp add: base64url_def base64_def)

lemma cookie_of_header:
  assumes "rq_headers req ''cookie'' = OneHeader (name @ CHR ''='' # base64url a @ CHR ''.'' # base64url b)"
    and "cookie_name_ok name"
  shows "cookie_value req name = Some (base64url a @ CHR ''.'' # base64url b)"
proof -
  let ?v = "base64url a @ CHR ''.'' # base64url b"
  have name: "CHR ''='' \<notin> set name" "CHR '';'' \<notin> set name" "\<forall>c \<in> set name. \<not> is_space c"
    using assms(2) by (auto simp: cookie_name_ok_def list_all_iff)
  have v: "CHR '';'' \<notin> set ?v" "CHR ''='' \<notin> set ?v" by (simp_all add: base64url_not)
  have "\<forall>c \<in> set (name @ CHR ''='' # ?v). \<not> is_space c"
    using name(3) base64url_no_space by (auto simp: is_space_def)
  then have "trim (name @ CHR ''='' # ?v) = name @ CHR ''='' # ?v" by (rule trim_no_space)
  moreover have "split_char (CHR '';'') (name @ CHR ''='' # ?v) = [name @ CHR ''='' # ?v]"
    using name(2) v(1) by (intro split_char_whole) simp
  moreover have "cut_first (CHR ''='') (name @ CHR ''='' # ?v) = (name, ?v)"
    by (simp only: cut_first_def split_char_head [OF name(1)] split_char_whole [OF v(2)]) simp
  ultimately show ?thesis
    using assms(1) by (simp add: cookie_value_def cookie_pairs_def)
qed

lemma read_written:
  assumes "digests_ok (au_digests ae)" "cookie_name_ok (cookieName (au_cfg ae))" "sessionSecret (au_cfg ae) = Inr secret"
    and "rq_headers req ''cookie'' = OneHeader (cookieName (au_cfg ae) @ CHR ''='' # base64url t @ CHR ''.'' #
       base64url (dg_hmac (au_digests ae) secret (base64url t)))" "t \<noteq> []"
  shows "readSession ae req now = Inr (open_payload now (base64url t))"
proof -
  let ?sig = "base64url (dg_hmac (au_digests ae) secret (base64url t))"
  note cookie = cookie_of_header [OF assms(4,2)]
  have "split_char (CHR ''.'') (base64url t @ CHR ''.'' # ?sig) = [base64url t, ?sig]"
    by (simp add: split_char_head split_char_whole base64url_not)
  moreover have "?sig \<noteq> []" "base64url t \<noteq> []"
    using hmac_not_empty [OF assms(1)] assms(5) by (simp_all add: base64url_Nil)
  ultimately show ?thesis
    using cookie assms(3) by (simp add: readSession_def sign_payload_def safeEqual_def)
qed

lemma open_written:
  assumes "e \<noteq> 0"
  shows "open_payload now (session_payload (session_object u n p t (Fin (of_int e)))) =
    (if e < now then None else Some (session_object u n p t (Fin (of_int e))))"
proof -
  have "json_ok (session_object u n p t (Fin (of_int e)))" by (simp add: session_object_def num_int_of_int)
  from json_round_trip [OF this] assms show ?thesis
    by (simp add: open_payload_def session_payload_def base64url_round_trip)
      (simp add: session_object_def js_prop_def obj_get_def nullish_def)
qed

text \<open>What a local login writes and answers, and how its cookie is read later.\<close>

lemma login_opens:
  assumes "digests_ok (au_digests ae)" "auth_isEnabled (au_cfg ae)" "cookie_name_ok (cookieName (au_cfg ae))"
    and "to_number (ttlSeconds (au_cfg ae)) = Fin (of_int ttl)" "0 < ws_now s + ttl * 1000"
    and "loginLocal ae (Str u) password s = (Inr st, s')"
  shows "\<exists>value token. ws_cookie s' = Some (cookieName (au_cfg ae) @ ''='' @ value @ ''; '' @ cookieAttributes (au_cfg ae)) \<and>
    ss_csrfToken st = Str token \<and> token = base64url (dg_bytes (au_digests ae) (ws_draws s)) \<and>
    (\<forall>req now. rq_headers req ''cookie'' = OneHeader (cookieName (au_cfg ae) @ ''='' @ value) \<longrightarrow>
      readSession ae req now = Inr (if ws_now s + ttl * 1000 < now then None
        else Some (session_object u u ''local'' token (Fin (of_int (ws_now s + ttl * 1000))))))"
proof -
  let ?e = "ws_now s + ttl * 1000" and ?token = "base64url (dg_bytes (au_digests ae) (ws_draws s))"
  let ?session = "session_object u u ''local'' ?token (Fin (of_int ?e))"
  have time: "num_after (ws_now s) (num_thousand (to_number (ttlSeconds (au_cfg ae)))) = Fin (of_int ?e)"
    by (simp add: assms(4))
  from assms(2,6) obtain secret where secret: "sessionSecret (au_cfg ae) = Inr secret"
    and cookie: "ws_cookie s' = Some (cookieName (au_cfg ae) @ ''='' @ session_payload ?session @ ''.'' @
        base64url (dg_hmac (au_digests ae) secret (session_payload ?session)) @ ''; '' @ cookieAttributes (au_cfg ae))"
    and st: "st = sessionStatusFromSession (au_cfg ae) ?session"
    by (cases "sessionSecret (au_cfg ae)"; cases "credentials_ok ae (Str u) password")
      (auto simp: loginLocal_def open_session_def createSession_def writeSessionCookie_def sign_payload_def io_simps time
        split: if_splits)
  have ne: "json_text ?session \<noteq> []" by (simp add: session_object_def)
  have "readSession ae req now = Inr (if ?e < now then None else Some ?session)"
    if "rq_headers req ''cookie'' = OneHeader (cookieName (au_cfg ae) @ ''='' @ session_payload ?session @ ''.'' @
        base64url (dg_hmac (au_digests ae) secret (session_payload ?session)))" for req now
    using read_written [OF assms(1,3) secret, of req "json_text ?session" now] that ne open_written [of ?e now] assms(5)
    by (simp add: session_payload_def)
  then show ?thesis
    by (intro exI [of _ "session_payload ?session @ ''.'' @
        base64url (dg_hmac (au_digests ae) secret (session_payload ?session))"] exI [of _ ?token])
      (simp add: cookie st sessionStatusFromSession_def session_object_def js_prop_def obj_get_def)
qed

text \<open>
  C32: a local login opens a session that its cookie carries: after a successful login, a request that sends
  the cookie back is recognised as this user's, with the token the login returned, up to the end of the
  time to live and not a moment longer.
\<close>

theorem login_session_round_trip:
  assumes "digests_ok (au_digests ae)" "auth_isEnabled (au_cfg ae)" "cookie_name_ok (cookieName (au_cfg ae))"
    and "to_number (ttlSeconds (au_cfg ae)) = Fin (of_int ttl)" "0 < ws_now s + ttl * 1000"
    and "loginLocal ae (Str u) password s = (Inr st, s')"
  shows "\<exists>value token. ws_cookie s' = Some (cookieName (au_cfg ae) @ ''='' @ value @ ''; '' @ cookieAttributes (au_cfg ae)) \<and>
    ss_csrfToken st = Str token \<and>
    (\<forall>req now. rq_headers req ''cookie'' = OneHeader (cookieName (au_cfg ae) @ ''='' @ value) \<longrightarrow>
      readSession ae req now = Inr (if ws_now s + ttl * 1000 < now then None
        else Some (session_object u u ''local'' token (Fin (of_int (ws_now s + ttl * 1000))))))"
  using login_opens [OF assms] by blast

definition demo_auth_cfg :: config where
  "demo_auth_cfg k =
     (if k = ''ADMIN_AUTH_ENABLED'' then Bool True else if k = ''ADMIN_AUTH_SESSION_SECRET'' then Str ''s''
      else if k = ''ADMIN_AUTH_LOCAL_USERNAME'' then Str ''root'' else if k = ''ADMIN_AUTH_LOCAL_PASSWORD'' then Str ''pw''
      else Undef)"

definition demo_auth :: auth_env where
  "demo_auth = \<lparr>au_cfg = demo_auth_cfg,
     au_digests = \<lparr>dg_hmac = (\<lambda>k m. CHR ''x'' # m), dg_sha256 = (\<lambda>m. m), dg_bytes = (\<lambda>n. replicate 32 (CHR ''r''))\<rparr>\<rparr>"

definition demo_web :: web_state where
  "demo_web = \<lparr>ws_now = 1000, ws_draws = 0, ws_cookie = None\<rparr>"

definition demo_visit :: "string \<Rightarrow> string \<Rightarrow> request" where
  "demo_visit method cookie = \<lparr>rq_method = method, rq_path = ''/admin/dlq'', rq_url = ''/admin/dlq'', rq_originalUrl = None,
     rq_headers = (\<lambda>h. if h = ''cookie'' then OneHeader cookie else if h = ''x-csrf-token'' then OneHeader ''t'' else NoHeader), rq_body = Undef, rq_ip = None, rq_remote = None\<rparr>"

lemma demo_auth_facts:
  "digests_ok (au_digests demo_auth)" "auth_isEnabled (au_cfg demo_auth)"
  "cookieName (au_cfg demo_auth) = ''idmmw_admin_session''" "sessionSecret (au_cfg demo_auth) = Inr ''s''"
  "ttlSeconds (au_cfg demo_auth) = JInt 28800" "auth_mode (au_cfg demo_auth) = ''local''"
  "credentials_ok demo_auth (Str ''root'') (Str ''pw'') = Inr True"
proof -
  have cfg: "au_cfg demo_auth = demo_auth_cfg" by (simp add: demo_auth_def)
  show "digests_ok (au_digests demo_auth)" by (simp add: demo_auth_def digests_ok_def)
  show "auth_isEnabled (au_cfg demo_auth)"
    by (simp add: cfg demo_auth_cfg_def auth_isEnabled_def cfg_bool_def coalesce_def nullish_def)
  show "cookieName (au_cfg demo_auth) = ''idmmw_admin_session''"
    by (simp add: cfg demo_auth_cfg_def cookieName_def cfg_str_def)
  show "sessionSecret (au_cfg demo_auth) = Inr ''s''"
    by (simp add: cfg demo_auth_cfg_def sessionSecret_def cfg_str_def)
  show "ttlSeconds (au_cfg demo_auth) = JInt 28800"
    by (simp add: cfg demo_auth_cfg_def ttlSeconds_def coalesce_def nullish_def)
  show "auth_mode (au_cfg demo_auth) = ''local''"
    by (simp add: cfg demo_auth_cfg_def auth_mode_def cfg_str_def)
  have "safe_equal_js (au_digests demo_auth) (Str a) b = Inr (a = b)" for a b
    by (simp add: demo_auth_def safe_equal_js_def safeEqual_def)
  then show "credentials_ok demo_auth (Str ''root'') (Str ''pw'') = Inr True"
    by (simp add: credentials_ok_def cfg demo_auth_cfg_def cfg_str_def)
qed

lemma login_session_round_trip_witness:
  "\<exists>value token. ws_cookie (snd (loginLocal demo_auth (Str ''root'') (Str ''pw'') demo_web)) =
       Some (''idmmw_admin_session='' @ value @ ''; '' @ cookieAttributes (au_cfg demo_auth)) \<and>
     readSession demo_auth (demo_visit ''GET'' (''idmmw_admin_session='' @ value)) 28801000 =
       Inr (Some (session_object ''root'' ''root'' ''local'' token (Fin 28801000))) \<and>
     readSession demo_auth (demo_visit ''GET'' (''idmmw_admin_session='' @ value)) 28801001 = Inr None"
proof -
  have name: "cookie_name_ok (cookieName (au_cfg demo_auth))"
    by (simp add: demo_auth_facts cookie_name_ok_def is_space_def)
  have ttl: "to_number (ttlSeconds (au_cfg demo_auth)) = Fin (of_int 28800)" by (simp add: demo_auth_facts)
  obtain st s' where run: "loginLocal demo_auth (Str ''root'') (Str ''pw'') demo_web = (Inr st, s')"
    by (simp add: loginLocal_def open_session_def createSession_def writeSessionCookie_def sign_payload_def demo_auth_facts io_simps)
  have visit: "rq_headers (demo_visit m c) ''cookie'' = OneHeader c" for m c by (simp add: demo_visit_def)
  from login_session_round_trip [OF demo_auth_facts(1,2) name ttl _ run] obtain v token where
    cookie: "ws_cookie s' = Some (cookieName (au_cfg demo_auth) @ ''='' @ v @ ''; '' @ cookieAttributes (au_cfg demo_auth))"
    and again: "\<forall>req now. rq_headers req ''cookie'' = OneHeader (cookieName (au_cfg demo_auth) @ ''='' @ v) \<longrightarrow>
      readSession demo_auth req now = Inr (if ws_now demo_web + 28800 * 1000 < now then None
        else Some (session_object ''root'' ''root'' ''local'' token (Fin (of_int (ws_now demo_web + 28800 * 1000)))))"
    by (auto simp: demo_web_def)
  have "readSession demo_auth (demo_visit ''GET'' (''idmmw_admin_session='' @ v)) now =
      Inr (if 28801000 < now then None else Some (session_object ''root'' ''root'' ''local'' token (Fin 28801000)))" for now
    using again [rule_format, of "demo_visit ''GET'' (''idmmw_admin_session='' @ v)" now]
    by (simp add: visit demo_auth_facts(3)) (simp add: demo_web_def)
  with cookie show ?thesis by (intro exI [of _ v] exI [of _ token]) (simp add: run demo_auth_facts(3))
qed

section \<open>The middleware\<close>

text \<open>What a session read from a request means: its cookie carries the payload under its signature.\<close>

definition cookie_session :: "auth_env \<Rightarrow> request \<Rightarrow> int \<Rightarrow> js \<Rightarrow> bool" where
  "cookie_session ae req now session \<longleftrightarrow> (\<exists>raw payload secret rest.
     cookie_value req (cookieName (au_cfg ae)) = Some raw \<and> sessionSecret (au_cfg ae) = Inr secret \<and>
     split_char (CHR ''.'') raw = payload # base64url (dg_hmac (au_digests ae) secret payload) # rest \<and>
     JSON_parse (base64_decode payload) = Some session \<and>
     \<not> num_less (to_number (js_prop session ''expiresAt'')) (Fin (of_int now)))"

lemma readSession_Some:
  assumes "digests_ok (au_digests ae)" "readSession ae req now = Inr (Some session)"
  shows "cookie_session ae req now session"
proof -
  from assms(2) obtain raw payload signature rest where raw: "cookie_value req (cookieName (au_cfg ae)) = Some raw"
    and parts: "split_char (CHR ''.'') raw = payload # signature # rest"
    by (auto simp: readSession_def split: option.splits list.splits if_splits)
  with assms(2) obtain secret where secret: "sessionSecret (au_cfg ae) = Inr secret"
    and eq: "safeEqual (au_digests ae) signature (base64url (dg_hmac (au_digests ae) secret payload))"
    and opened: "open_payload now payload = Some session"
    by (cases "sessionSecret (au_cfg ae)") (auto simp: readSession_def sign_payload_def split: if_splits)
  from opened have "JSON_parse (base64_decode payload) = Some session"
    "\<not> num_less (to_number (js_prop session ''expiresAt'')) (Fin (of_int now))"
    by (auto simp: open_payload_def split: option.splits if_splits)
  with raw parts secret eq show ?thesis by (auto simp: cookie_session_def safeEqual_iff [OF assms(1)])
qed

text \<open>An identity the proxy vouches for: from a trusted address and on the list of administrators.\<close>

definition sso_admin :: "config \<Rightarrow> request \<Rightarrow> bool" where
  "sso_admin cfg req \<longleftrightarrow> auth_mode cfg \<noteq> ''local'' \<and> isTrustedSsoSource cfg req \<and>
     (case extractSsoIdentity cfg req of None \<Rightarrow> False | Some identity \<Rightarrow> isSsoAllowed cfg identity)"

lemma authenticated:
  assumes "auth_isEnabled (au_cfg ae)" "digests_ok (au_digests ae)" "authenticateRequest ae req True s = (Inr (Some session), s')"
  shows "cookie_session ae req (ws_now s) session \<or> sso_admin (au_cfg ae) req"
proof (cases "readSession ae req (ws_now s)")
  case (Inl e)
  with assms show ?thesis by (simp add: authenticateRequest_def io_simps)
next
  case (Inr r)
  show ?thesis
  proof (cases r)
    case None
    with assms(1,3) Inr have "sso_admin (au_cfg ae) req"
      by (auto simp: authenticateRequest_def io_simps sso_admin_def split: if_splits option.splits)
    then show ?thesis ..
  next
    case (Some x)
    with assms(1,3) Inr have "x = session" by (auto simp: authenticateRequest_def io_simps)
    with Inr Some readSession_Some [OF assms(2)] show ?thesis by blast
  qed
qed

text \<open>What a request must carry to pass.\<close>

definition admin_request :: "auth_env \<Rightarrow> request \<Rightarrow> int \<Rightarrow> bool" where
  "admin_request ae req now \<longleftrightarrow> (\<exists>session. (cookie_session ae req now session \<or> sso_admin (au_cfg ae) req) \<and>
    (rq_method req \<in> {''GET'', ''HEAD'', ''OPTIONS''} \<or>
     (\<exists>token. token \<noteq> [] \<and> req_header req ''x-csrf-token'' = Some token \<and> js_prop session ''csrfToken'' = Str token)))"

lemma admin_passed:
  assumes "auth_isEnabled (au_cfg ae)" "digests_ok (au_digests ae)" "requiresAdminAuth (rq_path req)"
    and "admin_middleware ae req s = (Inr Next, s')"
  shows "admin_request ae req (ws_now s)"
proof -
  from assms(3,4) obtain session s1 where auth: "authenticateRequest ae req True s = (Inr (Some session), s1)"
    and ok: "rq_method req \<in> set SAFE_METHODS \<or> verifyCsrf ae req session = Inr True"
    by (auto simp: admin_middleware_def io_simps split: prod.splits sum.splits option.splits if_splits)
  from ok have "rq_method req \<in> {''GET'', ''HEAD'', ''OPTIONS''} \<or>
     (\<exists>token. token \<noteq> [] \<and> req_header req ''x-csrf-token'' = Some token \<and> js_prop session ''csrfToken'' = Str token)"
  proof
    assume "verifyCsrf ae req session = Inr True"
    with assms(1) show ?thesis
      by (auto simp: verifyCsrf_def safeEqual_iff [OF assms(2)] split: option.splits if_splits js.splits)
  qed (simp add: SAFE_METHODS_def)
  with authenticated [OF assms(1,2) auth] show ?thesis unfolding admin_request_def by blast
qed


definition demo_cookie :: string where
  "demo_cookie = ''idmmw_admin_session'' @ CHR ''='' # session_payload (session_object ''u'' ''u'' ''local'' ''t'' (Fin (of_int 5000)))
     @ CHR ''.'' # base64url (CHR ''x'' # session_payload (session_object ''u'' ''u'' ''local'' ''t'' (Fin (of_int 5000))))"

lemma demo_visit_session:
  "readSession demo_auth (demo_visit m demo_cookie) 1000 = Inr (Some (session_object ''u'' ''u'' ''local'' ''t'' (Fin (of_int 5000))))"
proof -
  let ?session = "session_object ''u'' ''u'' ''local'' ''t'' (Fin (of_int 5000))"
  have name: "cookie_name_ok (cookieName (au_cfg demo_auth))"
    by (simp add: demo_auth_facts cookie_name_ok_def is_space_def)
  have hmac: "dg_hmac (au_digests demo_auth) = (\<lambda>k m. CHR ''x'' # m)" by (simp add: demo_auth_def)
  have "rq_headers (demo_visit m demo_cookie) ''cookie'' = OneHeader (cookieName (au_cfg demo_auth) @ CHR ''='' #
      base64url (json_text ?session) @ CHR ''.'' # base64url (dg_hmac (au_digests demo_auth) ''s'' (base64url (json_text ?session))))"
    by (simp only: demo_auth_facts(3) hmac) (simp add: demo_visit_def demo_cookie_def session_payload_def)
  moreover have "json_text ?session \<noteq> []" by (simp add: session_object_def)
  ultimately have "readSession demo_auth (demo_visit m demo_cookie) 1000 = Inr (open_payload 1000 (base64url (json_text ?session)))"
    by (rule read_written [OF demo_auth_facts(1) name demo_auth_facts(4)])
  then show ?thesis using open_written [of 5000 1000 "''u''" "''u''" "''local''" "''t''"] by (simp add: session_payload_def)
qed

lemma demo_visit_passes: "admin_middleware demo_auth (demo_visit ''POST'' demo_cookie) demo_web = (Inr Next, demo_web)"
proof -
  let ?req = "demo_visit ''POST'' demo_cookie"
  let ?session = "session_object ''u'' ''u'' ''local'' ''t'' (Fin (of_int 5000))"
  have path: "requiresAdminAuth (rq_path ?req)" by (simp add: requiresAdminAuth_def demo_visit_def)
  have token: "req_header ?req ''x-csrf-token'' = Some ''t''"
    by (simp add: req_header_def to_lower_def to_lower_char_def upper_letters_def lower_letters_def demo_visit_def)
  have "js_prop ?session ''csrfToken'' = Str ''t''" by (simp add: session_object_def js_prop_def obj_get_def)
  with token have csrf: "verifyCsrf demo_auth ?req ?session = Inr True"
    by (simp add: verifyCsrf_def demo_auth_facts(2) safeEqual_iff [OF demo_auth_facts(1)])
  have now: "ws_now demo_web = 1000" by (simp add: demo_web_def)
  have auth: "authenticateRequest demo_auth ?req True demo_web = (Inr (Some ?session), demo_web)"
    using demo_visit_session [of "''POST''"] by (simp add: authenticateRequest_def demo_auth_facts(2) io_run io_bind_run now)
  show ?thesis
    using path auth csrf by (simp add: admin_middleware_def io_run io_bind_run)
qed


text \<open>
  The check of the path is case-sensitive, while the router of Express matches the routes of the
  administration whatever their case (\<open>caseSensitive\<close> is off unless the program sets it): such a request
  passes the middleware without any session.
\<close>

lemma admin_other_case_not_guarded:
  "admin_middleware ae (demo_visit ''POST'' c\<lparr>rq_path := ''/Admin/dlq''\<rparr>) s = (Inr Next, s)"
  by (simp add: admin_middleware_def requiresAdminAuth_def io_simps)

end
