(* ===== verification/App_Config.thy ===== *)
theory App_Config
  imports Admin_Auth Integration_Auth
begin

text \<open>
  \<^verbatim>\<open>src/config/app.config.ts\<close>: the schema of the environment and the rules between its variables. The
  program starts only on an environment this schema accepts, so every other component reads its settings
  from the outcome of \<open>appConfig_parse\<close>. A field is a type and the value an absent variable stands for.
\<close>

section \<open>Fields\<close>

text \<open>
  \<open>z.string()\<close>, \<open>z.string().transform(Number)\<close>, \<open>z.string().transform(v => v === 'true')\<close> and \<open>z.enum\<close>;
  with a default, or optional. \<open>Required\<close> is \<open>z.string().min(1)\<close>.
\<close>

datatype field_type = Text | Numeric | Flag | Choice "string list"

datatype field = Field field_type "js option" | Required

type_synonym schema = "(string \<times> field) list"

definition read_type :: "field_type \<Rightarrow> string \<Rightarrow> js option" where
  "read_type t s =
     (case t of
        Text \<Rightarrow> Some (Str s)
      | Numeric \<Rightarrow> Some (Num (string_to_number s))
      | Flag \<Rightarrow> Some (Bool (s = ''true''))
      | Choice vs \<Rightarrow> if s \<in> set vs then Some (Str s) else None)"

definition read_field :: "field \<Rightarrow> js \<Rightarrow> js option" where
  "read_field f v =
     (case f of
        Required \<Rightarrow> (case v of Str s \<Rightarrow> if s = [] then None else Some v | _ \<Rightarrow> None)
      | Field t d \<Rightarrow>
          (case v of
             Undef \<Rightarrow> Some (case d of Some x \<Rightarrow> x | None \<Rightarrow> Undef)
           | Str s \<Rightarrow> read_type t s
           | _ \<Rightarrow> None))"

section \<open>The schema\<close>

definition schema_server :: schema where
  "schema_server = [
     (''NODE_ENV'', Field (Choice [''development'', ''production'', ''test'']) (Some (Str ''development''))),
     (''PORT'', Field Numeric (Some (JInt 3010))),
     (''DATABASE_URL'', Required),
     (''DATABASE_PROVIDER'', Field (Choice [''postgresql'', ''sqlite'']) (Some (Str ''postgresql''))),
     (''DATABASE_FLAVOR'', Field (Choice [''postgresql'', ''yugabytedb'', ''cockroachdb'']) (Some (Str ''postgresql''))),
     (''LIGHTWEIGHT_MODE'', Field Flag (Some (Bool False)))]"

definition schema_redis :: schema where
  "schema_redis = [
     (''REDIS_ENABLED'', Field Flag (Some (Bool False))),
     (''REDIS_HOST'', Field Text None),
     (''REDIS_PORT'', Field Numeric (Some (JInt 6379))),
     (''REDIS_PASSWORD'', Field Text None),
     (''REDIS_DB'', Field Numeric (Some (JInt 0))),
     (''REDIS_TLS_ENABLED'', Field Flag (Some (Bool False))),
     (''REDIS_TLS_VERIFY'', Field Text None),
     (''REDIS_TLS_REJECT_UNAUTHORIZED'', Field Text None),
     (''REDIS_TLS_CA'', Field Text None),
     (''REDIS_TLS_CA_PATH'', Field Text None),
     (''REDIS_TLS_CERT'', Field Text None),
     (''REDIS_TLS_CERT_PATH'', Field Text None),
     (''REDIS_TLS_KEY'', Field Text None),
     (''REDIS_TLS_KEY_PATH'', Field Text None),
     (''REDIS_TLS_SERVER_NAME'', Field Text None)]"

definition schema_kafka :: schema where
  "schema_kafka = [
     (''KAFKA_ENABLED'', Field Flag (Some (Bool False))),
     (''KAFKA_BROKERS'', Field Text (Some (Str ''localhost:9092''))),
     (''KAFKA_CLIENT_ID'', Field Text (Some (Str ''idmmw''))),
     (''KAFKA_CONSUMER_GROUP_ID'', Field Text (Some (Str ''idmmw-worker-group''))),
     (''KAFKA_TOPIC_EVENTS_IN'', Field Text (Some (Str ''idm.events.in''))),
     (''KAFKA_TOPIC_EVENTS_OUT'', Field Text (Some (Str ''idm.events.out''))),
     (''KAFKA_TOPIC_DLQ_RETRY'', Field Text (Some (Str ''idm.dlq.retry''))),
     (''KAFKA_TLS_ENABLED'', Field Flag (Some (Bool False))),
     (''KAFKA_TLS_VERIFY'', Field Text None),
     (''KAFKA_TLS_REJECT_UNAUTHORIZED'', Field Text None),
     (''KAFKA_TLS_CA'', Field Text None),
     (''KAFKA_TLS_CA_PATH'', Field Text None),
     (''KAFKA_TLS_CERT'', Field Text None),
     (''KAFKA_TLS_CERT_PATH'', Field Text None),
     (''KAFKA_TLS_KEY'', Field Text None),
     (''KAFKA_TLS_KEY_PATH'', Field Text None),
     (''KAFKA_TLS_SERVER_NAME'', Field Text None)]"

definition schema_processing :: schema where
  "schema_processing = [
     (''IDMMW_PROCESSING_MODE'', Field (Choice [''sync'', ''async'']) (Some (Str ''sync''))),
     (''DLQ_RETRY_LEASE_SECONDS'', Field Numeric (Some (JInt 300))),
     (''INTEGRATION_AUTH_ENABLED'', Field Flag (Some (Bool False))),
     (''INTEGRATION_AUTH_SECRET'', Field Text None),
     (''INTEGRATION_AUTH_ALLOWED_CLOCK_SKEW_SECONDS'', Field Numeric (Some (JInt 300)))]"

definition schema_db :: schema where
  "schema_db = [
     (''DB_CONNECTOR_ENABLED'', Field Flag (Some (Bool False))),
     (''DB_CONNECTOR_URL'', Field Text None),
     (''DB_CONNECTOR_DIALECT'', Field (Choice [''pg'', ''mysql2'', ''sqlite3'', ''oracledb'']) None),
     (''DB_CONNECTOR_USERNAME'', Field Text None),
     (''DB_CONNECTOR_PASSWORD'', Field Text None),
     (''DB_CONNECTOR_TLS_ENABLED'', Field Flag (Some (Bool False))),
     (''DB_CONNECTOR_TLS_VERIFY'', Field Text None),
     (''DB_CONNECTOR_TLS_REJECT_UNAUTHORIZED'', Field Text None),
     (''DB_CONNECTOR_TLS_CA'', Field Text None),
     (''DB_CONNECTOR_TLS_CA_PATH'', Field Text None),
     (''DB_CONNECTOR_TLS_CERT'', Field Text None),
     (''DB_CONNECTOR_TLS_CERT_PATH'', Field Text None),
     (''DB_CONNECTOR_TLS_KEY'', Field Text None),
     (''DB_CONNECTOR_TLS_KEY_PATH'', Field Text None),
     (''DB_CONNECTOR_TLS_SERVER_NAME'', Field Text None),
     (''DB_CONNECTOR_TLS_WALLET_LOCATION'', Field Text None),
     (''DB_CONNECTOR_TLS_WALLET_PASSWORD'', Field Text None)]"

definition schema_mock :: schema where
  "schema_mock = [
     (''MOCK_IDM_ENABLED'', Field Flag (Some (Bool False))),
     (''MOCK_IDM_PORT'', Field Numeric (Some (JInt 5100))),
     (''MOCK_IDM_MIDDLEWARE_URL'', Field Text None)]"

definition schema_admin :: schema where
  "schema_admin = [
     (''ADMIN_UI_ENABLED'', Field Flag (Some (Bool False))),
     (''ADMIN_UI_SERVE_STATIC'', Field Flag (Some (Bool False))),
     (''ADMIN_AUTH_ENABLED'', Field Flag (Some (Bool False))),
     (''ADMIN_AUTH_MODE'', Field (Choice [''local'', ''sso'', ''both'']) (Some (Str ''local''))),
     (''ADMIN_AUTH_LOCAL_USERNAME'', Field Text None),
     (''ADMIN_AUTH_LOCAL_PASSWORD'', Field Text None),
     (''ADMIN_AUTH_SESSION_SECRET'', Field Text None),
     (''ADMIN_AUTH_SESSION_TTL_SECONDS'', Field Numeric (Some (JInt 28800))),
     (''ADMIN_AUTH_COOKIE_NAME'', Field Text (Some (Str ''idmmw_admin_session''))),
     (''ADMIN_AUTH_COOKIE_SECURE'', Field Flag None),
     (''ADMIN_AUTH_COOKIE_SAMESITE'', Field (Choice [''Strict'', ''Lax'', ''None'']) (Some (Str ''Strict''))),
     (''ADMIN_AUTH_ALLOWLIST'', Field Text None),
     (''ADMIN_AUTH_ALLOWED_GROUPS'', Field Text None),
     (''ADMIN_AUTH_SSO_USER_HEADER'', Field Text (Some (Str ''x-authenticated-user''))),
     (''ADMIN_AUTH_SSO_GROUPS_HEADER'', Field Text (Some (Str ''x-authenticated-groups''))),
     (''ADMIN_AUTH_SSO_GROUPS_DELIMITER'', Field Text (Some (Str '',''))),
     (''ADMIN_AUTH_TRUSTED_PROXY_CIDRS'', Field Text None)]"

definition schema_http :: schema where
  "schema_http = [
     (''HTTP_TLS_ENABLED'', Field Flag (Some (Bool False))),
     (''HTTP_TLS_VERIFY'', Field Text None),
     (''HTTP_TLS_REJECT_UNAUTHORIZED'', Field Text None),
     (''HTTP_TLS_CA'', Field Text None),
     (''HTTP_TLS_CA_PATH'', Field Text None),
     (''HTTP_TLS_CERT'', Field Text None),
     (''HTTP_TLS_CERT_PATH'', Field Text None),
     (''HTTP_TLS_KEY'', Field Text None),
     (''HTTP_TLS_KEY_PATH'', Field Text None),
     (''HTTP_TLS_SERVER_NAME'', Field Text None),
     (''HTTP_TLS_REQUEST_CLIENT_CERT'', Field Text None)]"

definition schema_secrets :: schema where
  "schema_secrets = [
     (''SECRETS_PROVIDER'', Field (Choice [''None'', ''IndeedPamAapm'']) (Some (Str ''None''))),
     (''SECRETS_INDEEDPAMAAPM_TOKEN_TRANSPORT'', Field (Choice [''header'', ''query'']) (Some (Str ''header''))),
     (''ENCRYPTION_ENABLED'', Field Flag (Some (Bool False))),
     (''ENCRYPTION_KAFKA_ENABLED'', Field Text None),
     (''ENCRYPTION_IDEMPOTENCY_HMAC_ENABLED'', Field Text None),
     (''ENCRYPTION_ROTATION_MODE'', Field Text None),
     (''ENCRYPTION_ROTATION_SKIP_KAFKA_LAG_CHECK'', Field Text None),
     (''ENCRYPTION_ACTIVE_KEY_ID'', Field Text None),
     (''ENCRYPTION_KEY_ID'', Field Text None),
     (''ENCRYPTION_KEYS'', Field Text None),
     (''ENCRYPTION_KEY'', Field Text None)]"

definition schema_logging :: schema where
  "schema_logging = [
     (''DebugLogging__Enabled'', Field Flag (Some (Bool False))),
     (''DebugLogging__Level'', Field (Choice [''Basic'', ''Verbose'']) (Some (Str ''Basic''))),
     (''DEBUG_LOGGING_ENABLED'', Field Flag (Some (Bool False))),
     (''DEBUG_LOGGING_LEVEL'', Field (Choice [''Basic'', ''Verbose'']) None),
     (''LOG_SINK'', Field (Choice [''stdout'', ''file'']) (Some (Str ''stdout''))),
     (''LOG_FILE_PATH'', Field Text (Some (Str ''/tmp/idmmw.log''))),
     (''METRICS_PUBLIC_ENABLED'', Field Flag (Some (Bool True))),
     (''STATIC_CONNECTOR_ALLOWLIST'', Field Text None),
     (''TARGET_SYSTEM_REGISTRY_REFRESH_SECONDS'', Field Numeric (Some (JInt 10)))]"

definition appConfigFields :: schema where
  "appConfigFields = schema_server @ schema_redis @ schema_kafka @ schema_processing @ schema_db @ schema_mock @
     schema_admin @ schema_http @ schema_secrets @ schema_logging"

section \<open>Rules between the variables\<close>

text \<open>Each rule gives the variables it complains about.\<close>

definition rule_processing :: "config \<Rightarrow> string list" where
  "rule_processing cfg =
     (if cfg ''IDMMW_PROCESSING_MODE'' = Str ''async'' \<and> \<not> truthy (cfg ''KAFKA_ENABLED'') then [''IDMMW_PROCESSING_MODE''] else [])"

definition rule_mock :: "config \<Rightarrow> string list" where
  "rule_mock cfg =
     (if cfg ''NODE_ENV'' = Str ''production'' \<and> truthy (cfg ''MOCK_IDM_ENABLED'') then [''MOCK_IDM_ENABLED''] else [])"

definition rule_integration :: "config \<Rightarrow> string list" where
  "rule_integration cfg =
     (if truthy (cfg ''INTEGRATION_AUTH_ENABLED'') \<and> \<not> truthy (cfg ''INTEGRATION_AUTH_SECRET'')
      then [''INTEGRATION_AUTH_SECRET''] else [])"

definition rule_metrics :: "config \<Rightarrow> string list" where
  "rule_metrics cfg =
     (if \<not> truthy (cfg ''METRICS_PUBLIC_ENABLED'') \<and> \<not> truthy (cfg ''INTEGRATION_AUTH_SECRET'')
      then [''INTEGRATION_AUTH_SECRET''] else [])"

definition mode_in :: "config \<Rightarrow> string list \<Rightarrow> bool" where
  "mode_in cfg modes \<longleftrightarrow> list_ex (\<lambda>m. cfg ''ADMIN_AUTH_MODE'' = Str m) modes"

definition rule_admin_auth :: "config \<Rightarrow> string list" where
  "rule_admin_auth cfg =
     (if \<not> truthy (cfg ''ADMIN_AUTH_ENABLED'') then []
      else (if \<not> truthy (cfg ''ADMIN_AUTH_SESSION_SECRET'') then [''ADMIN_AUTH_SESSION_SECRET''] else []) @
        (if mode_in cfg [''local'', ''both''] \<and>
            (\<not> truthy (cfg ''ADMIN_AUTH_LOCAL_USERNAME'') \<or> \<not> truthy (cfg ''ADMIN_AUTH_LOCAL_PASSWORD''))
         then [''ADMIN_AUTH_LOCAL_USERNAME''] else []) @
        (if mode_in cfg [''sso'', ''both''] \<and> \<not> truthy (cfg ''ADMIN_AUTH_ALLOWLIST'') \<and> \<not> truthy (cfg ''ADMIN_AUTH_ALLOWED_GROUPS'')
         then [''ADMIN_AUTH_ALLOWLIST''] else []) @
        (if mode_in cfg [''sso'', ''both''] \<and> \<not> truthy (cfg ''ADMIN_AUTH_TRUSTED_PROXY_CIDRS'')
         then [''ADMIN_AUTH_TRUSTED_PROXY_CIDRS''] else []))"

definition superRefine :: "config \<Rightarrow> string list" where
  "superRefine cfg = rule_processing cfg @ rule_mock cfg @ rule_integration cfg @ rule_metrics cfg @ rule_admin_auth cfg"

section \<open>Parsing\<close>

definition field_issues :: "schema \<Rightarrow> config \<Rightarrow> string list" where
  "field_issues sch input = map fst (filter (\<lambda>(k, f). read_field f (input k) = None) sch)"

text \<open>Variables outside of the schema are passed through.\<close>

definition parsed_config :: "schema \<Rightarrow> config \<Rightarrow> config" where
  "parsed_config sch input k =
     (case map_of sch k of
        Some f \<Rightarrow> (case read_field f (input k) of Some v \<Rightarrow> v | None \<Rightarrow> Undef)
      | None \<Rightarrow> input k)"

text \<open>The left outcome lists the variables at fault; the rules are only asked about well-formed fields (an empty
  \<open>DATABASE_URL\<close> alone does not keep zod from adding their complaints to its own).\<close>

definition appConfig_parse :: "config \<Rightarrow> string list + config" where
  "appConfig_parse input =
     (let issues = field_issues appConfigFields input; cfg = parsed_config appConfigFields input in
      if issues \<noteq> [] then Inl issues
      else if superRefine cfg \<noteq> [] then Inl (superRefine cfg)
      else Inr cfg)"

section \<open>Types\<close>

definition has_type :: "field_type \<Rightarrow> js \<Rightarrow> bool" where
  "has_type t v \<longleftrightarrow>
     (case t of
        Text \<Rightarrow> (case v of Str s \<Rightarrow> True | _ \<Rightarrow> False)
      | Numeric \<Rightarrow> (case v of Num n \<Rightarrow> True | _ \<Rightarrow> False)
      | Flag \<Rightarrow> (case v of Bool b \<Rightarrow> True | _ \<Rightarrow> False)
      | Choice vs \<Rightarrow> (case v of Str s \<Rightarrow> s \<in> set vs | _ \<Rightarrow> False))"

definition field_value :: "field \<Rightarrow> js \<Rightarrow> bool" where
  "field_value f v \<longleftrightarrow>
     (case f of
        Required \<Rightarrow> (case v of Str s \<Rightarrow> s \<noteq> [] | _ \<Rightarrow> False)
      | Field t None \<Rightarrow> v = Undef \<or> has_type t v
      | Field t (Some _) \<Rightarrow> has_type t v)"

definition default_ok :: "field \<Rightarrow> bool" where
  "default_ok f \<longleftrightarrow> (case f of Field t (Some d) \<Rightarrow> has_type t d | _ \<Rightarrow> True)"

lemma defaults_ok: "list_all (\<lambda>kf. default_ok (snd kf)) appConfigFields"
proof -
  note defs = default_ok_def has_type_def list_all_append
  have "list_all (\<lambda>kf. default_ok (snd kf)) schema_server" by (simp add: schema_server_def defs)
  moreover have "list_all (\<lambda>kf. default_ok (snd kf)) schema_redis" by (simp add: schema_redis_def defs)
  moreover have "list_all (\<lambda>kf. default_ok (snd kf)) schema_kafka" by (simp add: schema_kafka_def defs)
  moreover have "list_all (\<lambda>kf. default_ok (snd kf)) schema_processing" by (simp add: schema_processing_def defs)
  moreover have "list_all (\<lambda>kf. default_ok (snd kf)) schema_db" by (simp add: schema_db_def defs)
  moreover have "list_all (\<lambda>kf. default_ok (snd kf)) schema_mock" by (simp add: schema_mock_def defs)
  moreover have "list_all (\<lambda>kf. default_ok (snd kf)) schema_admin" by (simp add: schema_admin_def defs)
  moreover have "list_all (\<lambda>kf. default_ok (snd kf)) schema_http" by (simp add: schema_http_def defs)
  moreover have "list_all (\<lambda>kf. default_ok (snd kf)) schema_secrets" by (simp add: schema_secrets_def defs)
  moreover have "list_all (\<lambda>kf. default_ok (snd kf)) schema_logging" by (simp add: schema_logging_def defs)
  ultimately show ?thesis by (simp add: appConfigFields_def)
qed

lemma read_type_typed: "read_type t s = Some v \<Longrightarrow> has_type t v"
  by (auto simp: read_type_def has_type_def split: field_type.splits if_splits)

lemma read_field_typed:
  assumes "read_field f v = Some x" "default_ok f"
  shows "field_value f x"
proof (cases f)
  case Required
  with assms(1) show ?thesis by (auto simp: read_field_def field_value_def split: js.splits if_splits)
next
  case (Field t d)
  show ?thesis
  proof (cases v)
    case Undef
    with assms Field show ?thesis by (cases d) (auto simp: read_field_def field_value_def default_ok_def)
  next
    case (Str s)
    with assms(1) Field have "has_type t x" by (auto simp: read_field_def dest: read_type_typed)
    with Field show ?thesis by (cases d) (auto simp: field_value_def)
  qed (use assms(1) Field in \<open>simp_all add: read_field_def\<close>)
qed

lemma accepted_config:
  assumes "appConfig_parse input = Inr cfg"
  shows "cfg = parsed_config appConfigFields input" "superRefine cfg = []"
    "\<forall>kf \<in> set appConfigFields. read_field (snd kf) (input (fst kf)) \<noteq> None"
proof -
  show "cfg = parsed_config appConfigFields input" "superRefine cfg = []"
    using assms by (auto simp: appConfig_parse_def Let_def split: if_splits)
  have "field_issues appConfigFields input = []"
    using assms by (auto simp: appConfig_parse_def Let_def split: if_splits)
  then show "\<forall>kf \<in> set appConfigFields. read_field (snd kf) (input (fst kf)) \<noteq> None"
    by (auto simp: field_issues_def filter_empty_conv)
qed

lemma accepted_field:
  assumes "appConfig_parse input = Inr cfg" "map_of appConfigFields k = Some f"
  shows "field_value f (cfg k)"
proof -
  have mem: "(k, f) \<in> set appConfigFields" by (rule map_of_SomeD [OF assms(2)])
  with accepted_config(3) [OF assms(1)] obtain v where v: "read_field f (input k) = Some v" by fastforce
  have "default_ok f" using mem defaults_ok by (auto simp: list_all_iff)
  with v have "field_value f v" by (rule read_field_typed)
  then show ?thesis using accepted_config(1) [OF assms(1)] assms(2) v by (simp add: parsed_config_def)
qed


definition demo_environment :: config where
  "demo_environment k =
     (if k = ''DATABASE_URL'' then Str ''file'' else if k = ''ADMIN_AUTH_ENABLED'' then Str ''true''
      else if k = ''ADMIN_AUTH_MODE'' then Str ''both'' else if k = ''ADMIN_AUTH_SESSION_SECRET'' then Str ''s''
      else if k = ''ADMIN_AUTH_LOCAL_USERNAME'' then Str ''root'' else if k = ''ADMIN_AUTH_LOCAL_PASSWORD'' then Str ''pw''
      else if k = ''ADMIN_AUTH_ALLOWLIST'' then Str ''root'' else if k = ''ADMIN_AUTH_TRUSTED_PROXY_CIDRS'' then Str ''10.0.0.0/8''
      else if k = ''IDMMW_PROCESSING_MODE'' then Str ''async'' else if k = ''KAFKA_ENABLED'' then Str ''true'' else Undef)"

lemmas schema_groups = schema_server_def schema_redis_def schema_kafka_def schema_processing_def schema_db_def schema_mock_def
  schema_admin_def schema_http_def schema_secrets_def schema_logging_def

lemma rule_fields:
  "map_of appConfigFields ''NODE_ENV'' = Some (Field (Choice [''development'', ''production'', ''test'']) (Some (Str ''development'')))"
  "map_of appConfigFields ''KAFKA_ENABLED'' = Some (Field Flag (Some (Bool False)))"
  "map_of appConfigFields ''IDMMW_PROCESSING_MODE'' = Some (Field (Choice [''sync'', ''async'']) (Some (Str ''sync'')))"
  "map_of appConfigFields ''MOCK_IDM_ENABLED'' = Some (Field Flag (Some (Bool False)))"
  "map_of appConfigFields ''INTEGRATION_AUTH_ENABLED'' = Some (Field Flag (Some (Bool False)))"
  "map_of appConfigFields ''INTEGRATION_AUTH_SECRET'' = Some (Field Text None)"
  "map_of appConfigFields ''METRICS_PUBLIC_ENABLED'' = Some (Field Flag (Some (Bool True)))"
  "map_of appConfigFields ''ADMIN_AUTH_ENABLED'' = Some (Field Flag (Some (Bool False)))"
  "map_of appConfigFields ''ADMIN_AUTH_MODE'' = Some (Field (Choice [''local'', ''sso'', ''both'']) (Some (Str ''local'')))"
  "map_of appConfigFields ''ADMIN_AUTH_SESSION_SECRET'' = Some (Field Text None)"
  "map_of appConfigFields ''ADMIN_AUTH_LOCAL_USERNAME'' = Some (Field Text None)"
  "map_of appConfigFields ''ADMIN_AUTH_LOCAL_PASSWORD'' = Some (Field Text None)"
  "map_of appConfigFields ''ADMIN_AUTH_ALLOWLIST'' = Some (Field Text None)"
  "map_of appConfigFields ''ADMIN_AUTH_ALLOWED_GROUPS'' = Some (Field Text None)"
  "map_of appConfigFields ''ADMIN_AUTH_TRUSTED_PROXY_CIDRS'' = Some (Field Text None)"
  "map_of appConfigFields ''INTEGRATION_AUTH_ALLOWED_CLOCK_SKEW_SECONDS'' = Some (Field Numeric (Some (JInt 300)))"
  unfolding appConfigFields_def schema_groups append.simps map_of.simps fst_conv snd_conv fun_upd_apply by simp_all

lemma demo_environment_accepted: "appConfig_parse demo_environment = Inr (parsed_config appConfigFields demo_environment)"
proof -
  note defs = field_issues_def read_field_def read_type_def demo_environment_def
  have "field_issues schema_server demo_environment = []" by (simp add: schema_server_def defs)
  moreover have "field_issues schema_redis demo_environment = []" by (simp add: schema_redis_def defs)
  moreover have "field_issues schema_kafka demo_environment = []" by (simp add: schema_kafka_def defs)
  moreover have "field_issues schema_processing demo_environment = []" by (simp add: schema_processing_def defs)
  moreover have "field_issues schema_db demo_environment = []" by (simp add: schema_db_def defs)
  moreover have "field_issues schema_mock demo_environment = []" by (simp add: schema_mock_def defs)
  moreover have "field_issues schema_admin demo_environment = []" by (simp add: schema_admin_def defs)
  moreover have "field_issues schema_http demo_environment = []" by (simp add: schema_http_def defs)
  moreover have "field_issues schema_secrets demo_environment = []" by (simp add: schema_secrets_def defs)
  moreover have "field_issues schema_logging demo_environment = []" by (simp add: schema_logging_def defs)
  ultimately have "field_issues appConfigFields demo_environment = []"
    by (simp add: appConfigFields_def field_issues_def)
  moreover have "superRefine (parsed_config appConfigFields demo_environment) = []"
    by (simp add: superRefine_def rule_processing_def rule_mock_def rule_integration_def rule_metrics_def rule_admin_auth_def
        mode_in_def parsed_config_def rule_fields read_field_def read_type_def demo_environment_def)
  ultimately show ?thesis by (simp add: appConfig_parse_def)
qed


section \<open>Safety\<close>

lemma given_text:
  assumes "appConfig_parse input = Inr cfg" "map_of appConfigFields k = Some (Field Text None)" "truthy (cfg k)"
  shows "cfg_str cfg k [] \<noteq> []"
  using accepted_field [OF assms(1,2)] assms(3)
  by (auto simp: field_value_def has_type_def cfg_str_def split: js.splits)

lemma given_flag:
  assumes "appConfig_parse input = Inr cfg" "map_of appConfigFields k = Some (Field Flag (Some d))"
  shows "cfg_bool cfg k = truthy (cfg k)"
  using accepted_field [OF assms] by (auto simp: field_value_def has_type_def cfg_bool_def split: js.splits)

lemma given_mode:
  assumes "appConfig_parse input = Inr cfg"
  shows "cfg ''ADMIN_AUTH_MODE'' = Str (auth_mode cfg)" "auth_mode cfg \<in> {''local'', ''sso'', ''both''}"
  using accepted_field [OF assms rule_fields(9)]
  by (auto simp: field_value_def has_type_def auth_mode_def cfg_str_def split: js.splits)

lemma rules_hold:
  assumes "appConfig_parse input = Inr cfg"
  shows "cfg ''IDMMW_PROCESSING_MODE'' = Str ''async'' \<Longrightarrow> truthy (cfg ''KAFKA_ENABLED'')"
    "cfg ''NODE_ENV'' = Str ''production'' \<Longrightarrow> \<not> truthy (cfg ''MOCK_IDM_ENABLED'')"
    "truthy (cfg ''INTEGRATION_AUTH_ENABLED'') \<or> \<not> truthy (cfg ''METRICS_PUBLIC_ENABLED'') \<Longrightarrow> truthy (cfg ''INTEGRATION_AUTH_SECRET'')"
    "truthy (cfg ''ADMIN_AUTH_ENABLED'') \<Longrightarrow> rule_admin_auth cfg = []"
  using accepted_config(2) [OF assms]
  by (auto simp: superRefine_def rule_processing_def rule_mock_def rule_integration_def rule_metrics_def split: if_splits)

lemma admin_rules:
  assumes "appConfig_parse input = Inr cfg" "auth_isEnabled cfg"
  shows "truthy (cfg ''ADMIN_AUTH_SESSION_SECRET'')"
    "auth_mode cfg \<noteq> ''sso'' \<Longrightarrow> truthy (cfg ''ADMIN_AUTH_LOCAL_USERNAME'') \<and> truthy (cfg ''ADMIN_AUTH_LOCAL_PASSWORD'')"
    "auth_mode cfg \<noteq> ''local'' \<Longrightarrow> truthy (cfg ''ADMIN_AUTH_ALLOWLIST'') \<or> truthy (cfg ''ADMIN_AUTH_ALLOWED_GROUPS'')"
    "auth_mode cfg \<noteq> ''local'' \<Longrightarrow> truthy (cfg ''ADMIN_AUTH_TRUSTED_PROXY_CIDRS'')"
proof -
  have on: "truthy (cfg ''ADMIN_AUTH_ENABLED'')"
    using assms(2) given_flag [OF assms(1) rule_fields(8)] by (simp add: auth_isEnabled_def)
  note rule = rules_hold(4) [OF assms(1) on, unfolded rule_admin_auth_def]
  show "truthy (cfg ''ADMIN_AUTH_SESSION_SECRET'')" using rule on by (simp split: if_splits)
  show "auth_mode cfg \<noteq> ''sso'' \<Longrightarrow> truthy (cfg ''ADMIN_AUTH_LOCAL_USERNAME'') \<and> truthy (cfg ''ADMIN_AUTH_LOCAL_PASSWORD'')"
    using rule on given_mode [OF assms(1)] by (auto simp: mode_in_def split: if_splits)
  show "auth_mode cfg \<noteq> ''local'' \<Longrightarrow> truthy (cfg ''ADMIN_AUTH_ALLOWLIST'') \<or> truthy (cfg ''ADMIN_AUTH_ALLOWED_GROUPS'')"
    using rule on given_mode [OF assms(1)] by (auto simp: mode_in_def split: if_splits)
  show "auth_mode cfg \<noteq> ''local'' \<Longrightarrow> truthy (cfg ''ADMIN_AUTH_TRUSTED_PROXY_CIDRS'')"
    using rule on given_mode [OF assms(1)] by (auto simp: mode_in_def split: if_splits)
qed



text \<open>
  A setting that is meant to be a number is any text: one that is no number is accepted and stands for \<open>NaN\<close>.
\<close>

lemma not_a_number_accepted:
  "field_issues [(''INTEGRATION_AUTH_ALLOWED_CLOCK_SKEW_SECONDS'', Field Numeric (Some (JInt 300)))]
     ((\<lambda>_. Undef)(''INTEGRATION_AUTH_ALLOWED_CLOCK_SKEW_SECONDS'' := Str ''5m'')) = []"
  by (simp add: field_issues_def read_field_def read_type_def)

end
