(* ===== verification/Target_Systems.thy ===== *)
theory Target_Systems
  imports Admin Secret_Redaction
begin

text \<open>
  \<^verbatim>\<open>src/admin/target-system.service.ts\<close>, \<^verbatim>\<open>src/admin/target-system.controller.ts\<close> and
  \<^verbatim>\<open>src/admin/dto/target-system.dto.ts\<close>: the administration of the target systems. Every answer shows a
  configuration with its secrets masked; an update that brings masks back keeps the stored secrets; every
  change reloads the registry of connectors.
\<close>

section \<open>Requests\<close>

record create_target =
  ct_name :: string
  ct_type :: string
  ct_label :: string
  ct_config :: obj
  ct_enabled :: js

record update_target =
  ut_name :: js
  ut_type :: js
  ut_label :: js
  ut_config :: js
  ut_enabled :: js

definition optional_bool :: "js \<Rightarrow> bool" where
  "optional_bool v \<longleftrightarrow> nullish v \<or> v = Bool True \<or> v = Bool False"

definition optional_text :: "js \<Rightarrow> bool" where
  "optional_text v \<longleftrightarrow> nullish v \<or> (case v of Str s \<Rightarrow> True | _ \<Rightarrow> False)"

definition optional_object :: "js \<Rightarrow> bool" where
  "optional_object v \<longleftrightarrow> nullish v \<or> (case v of Obj ob \<Rightarrow> True | _ \<Rightarrow> False)"

text \<open>The validation pipe over the decorators; \<open>IsOptional\<close> lets undefined and null pass.\<close>

definition validate_create :: "js \<Rightarrow> exn + create_target" where
  "validate_create body =
     (case (js_prop body ''name'', js_prop body ''type'', js_prop body ''label'', js_prop body ''config'') of
        (Str n, Str t, Str l, Obj c) \<Rightarrow>
          if optional_bool (js_prop body ''enabled'')
          then Inr \<lparr>ct_name = n, ct_type = t, ct_label = l, ct_config = c, ct_enabled = js_prop body ''enabled''\<rparr>
          else Inl (BadRequestException ''Bad Request Exception'')
      | _ \<Rightarrow> Inl (BadRequestException ''Bad Request Exception''))"

definition validate_update :: "js \<Rightarrow> exn + update_target" where
  "validate_update body =
     (if optional_text (js_prop body ''name'') \<and> optional_text (js_prop body ''type'') \<and> optional_text (js_prop body ''label'') \<and>
         optional_object (js_prop body ''config'') \<and> optional_bool (js_prop body ''enabled'')
      then Inr \<lparr>ut_name = js_prop body ''name'', ut_type = js_prop body ''type'', ut_label = js_prop body ''label'',
        ut_config = js_prop body ''config'', ut_enabled = js_prop body ''enabled''\<rparr>
      else Inl (BadRequestException ''Bad Request Exception''))"

section \<open>The table\<close>

definition find_target_id :: "string \<Rightarrow> target_system list \<Rightarrow> target_system option" where
  "find_target_id i rows = find (\<lambda>t. ts_id t = i) rows"

definition find_target_name :: "string \<Rightarrow> target_system list \<Rightarrow> target_system option" where
  "find_target_name name rows = find (\<lambda>t. ts_name t = name) rows"

text \<open>
  \<open>take\<close> and \<open>skip\<close> of the client: a negative \<open>take\<close> counts from the end; values that are no whole numbers,
  and a negative \<open>skip\<close>, are refused.
\<close>

definition page_rows :: "js \<Rightarrow> js \<Rightarrow> 'a list \<Rightarrow> exn + 'a list" where
  "page_rows limit offset rows =
     (case (num_int (to_number limit), num_int (to_number offset)) of
        (Some n, Some k) \<Rightarrow>
          if k < 0 then Inl (Error ''Invalid value for skip argument'')
          else if n < 0 then Inr (rev (take (nat (- n)) (drop (nat k) (rev rows))))
          else Inr (take (nat n) (drop (nat k) rows))
      | _ \<Rightarrow> Inl (Error ''Invalid value for argument''))"

section \<open>Reading\<close>

definition read_config :: "env \<Rightarrow> target_system \<Rightarrow> exn + js" where
  "read_config env t = res_bind (en_fromJson env (ts_config t)) (\<lambda>c. Inr (coalesce c (Obj [])))"

definition toPublicTargetSystem :: "env \<Rightarrow> target_system \<Rightarrow> exn + target_system" where
  "toPublicTargetSystem env item =
     res_bind (read_config env item) (\<lambda>config. Inr (item\<lparr>ts_config := redactSecrets config\<rparr>))"

fun public_all :: "env \<Rightarrow> target_system list \<Rightarrow> exn + target_system list" where
  "public_all env [] = Inr []"
| "public_all env (t # ts) =
     res_bind (toPublicTargetSystem env t) (\<lambda>p. res_bind (public_all env ts) (\<lambda>ps. Inr (p # ps)))"

record target_query =
  tq_type :: "string option"
  tq_enabled :: "bool option"
  tq_limit :: js
  tq_offset :: js

definition target_matches :: "target_query \<Rightarrow> target_system \<Rightarrow> bool" where
  "target_matches params t \<longleftrightarrow>
     (case tq_type params of None \<Rightarrow> True | Some ty \<Rightarrow> ty = [] \<or> ts_type t = ty) \<and>
     (case tq_enabled params of None \<Rightarrow> True | Some b \<Rightarrow> ts_enabled t = b)"

definition target_findAll :: "env \<Rightarrow> target_query \<Rightarrow> ('e world, target_system list) io" where
  "target_findAll env params =
     io_bind (db_call (io_get w_targets)) (\<lambda>rows.
     io_bind (io_of_sum (page_rows (coalesce (tq_limit params) (JInt 50)) (coalesce (tq_offset params) (JInt 0))
         (sort_key (\<lambda>t. - ts_createdAt t) (filter (target_matches params) rows)))) (\<lambda>items.
     io_of_sum (public_all env items)))"

definition public_option :: "env \<Rightarrow> target_system option \<Rightarrow> exn + target_system option" where
  "public_option env item =
     (case item of None \<Rightarrow> Inr None | Some t \<Rightarrow> res_bind (toPublicTargetSystem env t) (\<lambda>p. Inr (Some p)))"

definition target_findById :: "env \<Rightarrow> string \<Rightarrow> ('e world, target_system option) io" where
  "target_findById env i =
     io_bind (db_call (io_get (\<lambda>w. find_target_id i (w_targets w)))) (\<lambda>item. io_of_sum (public_option env item))"

definition target_findByName :: "env \<Rightarrow> string \<Rightarrow> ('e world, target_system option) io" where
  "target_findByName env name =
     io_bind (db_call (io_get (\<lambda>w. find_target_name name (w_targets w)))) (\<lambda>item. io_of_sum (public_option env item))"

definition findRawConfigByName :: "env \<Rightarrow> string \<Rightarrow> ('e world, js option) io" where
  "findRawConfigByName env name =
     io_bind (db_call (io_get (\<lambda>w. find_target_name name (w_targets w)))) (\<lambda>item.
     case item of
       None \<Rightarrow> io_return None
     | Some t \<Rightarrow> io_bind (io_of_sum (read_config env t)) (\<lambda>c. io_return (Some c)))"

section \<open>Writing\<close>

text \<open>\<open>handlePrismaMutationError\<close>.\<close>

definition mutation_error :: "exn \<Rightarrow> exn" where
  "mutation_error e =
     (case e of
        PrismaError code m \<Rightarrow>
          if code = ''P2002'' then ConflictException ''TargetSystem name already exists''
          else if code = ''P2025'' then NotFoundException ''TargetSystem not found''
          else e
      | _ \<Rightarrow> e)"

definition row_insert :: "create_target \<Rightarrow> js \<Rightarrow> ('e world, target_system) io" where
  "row_insert dto config =
     db_call (\<lambda>w. if ct_name dto \<in> ts_name ` set (w_targets w)
       then (Inl (PrismaError ''P2002'' ''Unique constraint failed''), w)
       else (case fresh_id w of (i, w1) \<Rightarrow>
         let item = \<lparr>ts_id = i, ts_name = ct_name dto, ts_type = ct_type dto, ts_label = ct_label dto, ts_config = config,
               ts_enabled = truthy (coalesce (ct_enabled dto) (Bool True)), ts_createdAt = w_now w, ts_updatedAt = w_now w\<rparr>
         in (Inr item, w1\<lparr>w_targets := w_targets w1 @ [item]\<rparr>)))"

definition target_create :: "env \<Rightarrow> create_target \<Rightarrow> ('e world, target_system) io" where
  "target_create env dto =
     io_catch (io_bind (toJson_io env (Obj (ct_config dto))) (\<lambda>config.
       io_bind (row_insert dto config) (\<lambda>item. io_of_sum (toPublicTargetSystem env item))))
     (\<lambda>e. io_throw (mutation_error e))"

text \<open>The columns a change sets: an undefined field is left out.\<close>

definition set_text :: "js \<Rightarrow> string \<Rightarrow> string" where
  "set_text v old = (case v of Str s \<Rightarrow> s | _ \<Rightarrow> old)"

definition change_row :: "int \<Rightarrow> update_target \<Rightarrow> js option \<Rightarrow> target_system \<Rightarrow> target_system" where
  "change_row now dto config t =
     t\<lparr>ts_name := set_text (ut_name dto) (ts_name t), ts_type := set_text (ut_type dto) (ts_type t),
       ts_label := set_text (ut_label dto) (ts_label t),
       ts_config := (case config of None \<Rightarrow> ts_config t | Some c \<Rightarrow> c),
       ts_enabled := (case ut_enabled dto of Bool b \<Rightarrow> b | _ \<Rightarrow> ts_enabled t), ts_updatedAt := now\<rparr>"

text \<open>The client refuses null for a column that cannot be null.\<close>

definition no_null :: "update_target \<Rightarrow> bool" where
  "no_null dto \<longleftrightarrow> Null \<notin> set [ut_name dto, ut_type dto, ut_label dto, ut_enabled dto]"

definition row_update :: "string \<Rightarrow> update_target \<Rightarrow> js option \<Rightarrow> ('e world, target_system) io" where
  "row_update i dto config =
     (if \<not> no_null dto then io_throw (Error ''Argument must not be null'')
      else db_call (\<lambda>w. case find_target_id i (w_targets w) of
          None \<Rightarrow> (Inl (PrismaError ''P2025'' ''Record to update not found''), w)
        | Some t \<Rightarrow>
            if set_text (ut_name dto) (ts_name t) \<in> ts_name ` (set (filter (\<lambda>u. ts_id u \<noteq> i) (w_targets w)))
            then (Inl (PrismaError ''P2002'' ''Unique constraint failed''), w)
            else (Inr (change_row (w_now w) dto config t),
              w\<lparr>w_targets := update_rows (\<lambda>u. ts_id u = i) (change_row (w_now w) dto config) (w_targets w)\<rparr>)))"

text \<open>\<open>Object.entries(null)\<close> throws.\<close>

definition next_config :: "js \<Rightarrow> js \<Rightarrow> exn + js" where
  "next_config current incoming =
     (case incoming of
        Obj ob \<Rightarrow> Inr (Obj (mergeConfigPreservingSecrets (as_record current) ob))
      | _ \<Rightarrow> Inl (Error ''Cannot convert undefined or null to object''))"

definition new_config :: "env \<Rightarrow> string \<Rightarrow> update_target \<Rightarrow> ('e world, js option) io" where
  "new_config env i dto =
     (if ut_config dto = Undef then io_return None
      else io_bind (db_call (io_get (\<lambda>w. find_target_id i (w_targets w)))) (\<lambda>current.
        io_bind (io_of_sum (case current of None \<Rightarrow> Inr (Obj []) | Some t \<Rightarrow> read_config env t)) (\<lambda>currentConfig.
        io_bind (io_of_sum (next_config currentConfig (ut_config dto))) (\<lambda>config.
        io_bind (toJson_io env config) (\<lambda>stored. io_return (Some stored))))))"

definition target_update :: "env \<Rightarrow> string \<Rightarrow> update_target \<Rightarrow> ('e world, target_system) io" where
  "target_update env i dto =
     io_catch (io_bind (new_config env i dto) (\<lambda>config.
       io_bind (row_update i dto config) (\<lambda>item. io_of_sum (toPublicTargetSystem env item))))
     (\<lambda>e. io_throw (mutation_error e))"

definition row_delete :: "string \<Rightarrow> ('e world, target_system) io" where
  "row_delete i =
     db_call (\<lambda>w. case find_target_id i (w_targets w) of
         None \<Rightarrow> (Inl (PrismaError ''P2025'' ''Record to delete does not exist''), w)
       | Some t \<Rightarrow> (Inr t, w\<lparr>w_targets := filter (\<lambda>u. ts_id u \<noteq> i) (w_targets w)\<rparr>))"

definition target_delete :: "env \<Rightarrow> string \<Rightarrow> ('e world, target_system) io" where
  "target_delete env i =
     io_catch (io_bind (row_delete i) (\<lambda>item. io_of_sum (toPublicTargetSystem env item)))
     (\<lambda>e. io_throw (mutation_error e))"

definition target_testConnection :: "'e registry \<Rightarrow> env \<Rightarrow> string \<Rightarrow> ('e world, test_result) io" where
  "target_testConnection rg env i =
     io_bind (db_call (io_get (\<lambda>w. find_target_id i (w_targets w)))) (\<lambda>item.
     case item of
       None \<Rightarrow> io_return (test_fail ''TargetSystem not found'')
     | Some t \<Rightarrow> io_bind (io_of_sum (read_config env t)) (\<lambda>config.
         on_ext (registry_testConnection rg (ts_type t) (as_record config))))"

section \<open>The controller\<close>

text \<open>Every change reloads the registry before it is answered.\<close>

definition controller_create :: "env \<Rightarrow> js \<Rightarrow> ('e registry \<times> 'e world, target_system) io" where
  "controller_create env body =
     io_bind (io_of_sum (validate_create body)) (\<lambda>dto.
     io_bind (on_world (target_create env dto)) (\<lambda>result. io_seq (reloadInternal env) (io_return result)))"

definition controller_update :: "env \<Rightarrow> string \<Rightarrow> js \<Rightarrow> ('e registry \<times> 'e world, target_system) io" where
  "controller_update env i body =
     io_bind (io_of_sum (validate_update body)) (\<lambda>dto.
     io_bind (on_world (target_update env i dto)) (\<lambda>result. io_seq (reloadInternal env) (io_return result)))"

definition controller_delete :: "env \<Rightarrow> string \<Rightarrow> ('e registry \<times> 'e world, target_system) io" where
  "controller_delete env i =
     io_bind (on_world (target_delete env i)) (\<lambda>result. io_seq (reloadInternal env) (io_return result))"

definition controller_findAll ::
  "env \<Rightarrow> string option \<Rightarrow> string option \<Rightarrow> string option \<Rightarrow> string option \<Rightarrow> ('e world, target_system list) io" where
  "controller_findAll env type enabled limit offset =
     target_findAll env \<lparr>tq_type = type, tq_enabled = map_option (\<lambda>e. e = ''true'') enabled,
       tq_limit = query_int limit, tq_offset = query_int offset\<rparr>"

section \<open>Answers\<close>

text \<open>Answers in which every secret is masked.\<close>

definition masked_answer :: "exn + target_system \<Rightarrow> bool" where
  "masked_answer r \<longleftrightarrow> (case r of Inl e \<Rightarrow> True | Inr p \<Rightarrow> secrets_masked (ts_config p))"

lemma public_masked: "masked_answer (toPublicTargetSystem env t)"
  by (cases "read_config env t") (simp_all add: masked_answer_def toPublicTargetSystem_def redact_masks)

lemma public_masked_Inr: "toPublicTargetSystem env t = Inr p \<Longrightarrow> secrets_masked (ts_config p)"
  using public_masked [of env t] by (simp add: masked_answer_def)

lemma public_all_masked: "public_all env ts = Inr ps \<Longrightarrow> \<forall>p \<in> set ps. secrets_masked (ts_config p)"
proof (induction ts arbitrary: ps)
  case (Cons t ts)
  then obtain q qs where "toPublicTargetSystem env t = Inr q" "public_all env ts = Inr qs" "ps = q # qs"
    by (auto simp: res_bind_Inr)
  with Cons.IH public_masked [of env t] show ?case by (simp add: masked_answer_def)
qed simp

lemma answer_bind: "(\<And>x. masked_answer (k x)) \<Longrightarrow> masked_answer (fst (io_bind m (\<lambda>x. io_of_sum (k x)) w))"
  by (cases "m w"; cases "fst (m w)") (auto simp: io_bind_def io_of_sum_def masked_answer_def)

lemma answer_catch: "masked_answer (fst (m w)) \<Longrightarrow> masked_answer (fst (io_catch m (\<lambda>e. io_throw (h e)) w))"
  by (cases "m w"; cases "fst (m w)") (auto simp: io_catch_def io_throw_def masked_answer_def)

lemma answer_bind_any: "(\<And>x v. masked_answer (fst (k x v))) \<Longrightarrow> masked_answer (fst (io_bind m k w))"
  by (cases "m w"; cases "fst (m w)") (auto simp: io_bind_def masked_answer_def)

lemma answer_service:
  "masked_answer (fst (target_create env dto w))"
  "masked_answer (fst (target_update env i udto w))"
  "masked_answer (fst (target_delete env i w))"
  unfolding target_create_def target_update_def target_delete_def
  by (intro answer_catch answer_bind answer_bind_any public_masked)+

lemma answer_controller:
  assumes "\<And>x w. masked_answer (fst (m x w))"
  shows "masked_answer (fst (io_bind (on_world (m x)) (\<lambda>r. io_seq c (io_return r)) (rg, w)))"
  using assms [of x w]
  by (cases "m x w"; cases "fst (m x w)"; cases "c (rg, snd (m x w))"; cases "fst (c (rg, snd (m x w)))")
    (auto simp: io_bind_def io_seq_def on_world_def io_return_def masked_answer_def)


section \<open>The table stays consistent\<close>

text \<open>Names and identifiers are unique, and no identifier is one still to be drawn.\<close>

definition target_table_ok :: "'e world \<Rightarrow> bool" where
  "target_table_ok w \<longleftrightarrow> distinct (map ts_name (w_targets w)) \<and> distinct (map ts_id (w_targets w)) \<and>
     (\<forall>t \<in> set (w_targets w). \<exists>n < w_nextId w. ts_id t = show_nat n)"

lemma table_frame:
  "target_table_ok (w\<lparr>w_faults := fs\<rparr>) = target_table_ok w"
  "target_table_ok w \<Longrightarrow> target_table_ok (w\<lparr>w_nextId := Suc (w_nextId w)\<rparr>)"
  by (auto simp: target_table_ok_def less_Suc_eq)

lemma inv_db_call:
  assumes "\<And>w. target_table_ok w \<Longrightarrow> target_table_ok (snd (f w))"
  shows "io_inv target_table_ok (db_call f)"
  unfolding io_inv_def
proof (intro allI impI)
  fix w :: "'a world"
  assume ok: "target_table_ok w"
  show "target_table_ok (snd (db_call f w))"
    by (cases rule: db_call_cases [of f w]) (simp_all add: assms ok table_frame)
qed

lemma inv_toJson: "io_inv target_table_ok (toJson_io env v)"
  by (simp add: io_inv_def toJson_io_def table_frame)

lemma inv_row_insert: "io_inv target_table_ok (row_insert dto c)"
  unfolding row_insert_def
proof (rule inv_db_call)
  fix w :: "'a world"
  assume ok: "target_table_ok w"
  have "show_nat (w_nextId w) \<notin> ts_id ` set (w_targets w)"
    using ok by (auto simp: target_table_ok_def dest!: show_nat_inj)
  with ok show "target_table_ok (snd (if ct_name dto \<in> ts_name ` set (w_targets w)
       then (Inl (PrismaError ''P2002'' ''Unique constraint failed''), w)
       else (case fresh_id w of (i, w1) \<Rightarrow>
         let item = \<lparr>ts_id = i, ts_name = ct_name dto, ts_type = ct_type dto, ts_label = ct_label dto, ts_config = c,
               ts_enabled = truthy (coalesce (ct_enabled dto) (Bool True)), ts_createdAt = w_now w, ts_updatedAt = w_now w\<rparr>
         in (Inr item, w1\<lparr>w_targets := w_targets w1 @ [item]\<rparr>))))"
    by (auto simp: fresh_id_def target_table_ok_def less_Suc_eq Let_def)
qed

lemma change_row_id [simp]: "ts_id (change_row now dto c t) = ts_id t"
  by (simp add: change_row_def)

lemma distinct_update_names:
  assumes "distinct (map ts_name rows)" "distinct (map ts_id rows)" "t \<in> set rows" "ts_id t = i"
    and "set_text v (ts_name t) \<notin> ts_name ` set (filter (\<lambda>u. ts_id u \<noteq> i) rows)"
    and "\<And>u. ts_name (f u) = set_text v (ts_name u)"
  shows "distinct (map ts_name (update_rows (\<lambda>u. ts_id u = i) f rows))"
  using assms(1-5)
proof (induction rows)
  case (Cons r rows)
  show ?case
  proof (cases "ts_id r = i")
    case True
    with Cons.prems have "i \<notin> ts_id ` set rows" by auto
    then have "update_rows (\<lambda>u. ts_id u = i) f rows = rows" by (induction rows) (auto simp: update_rows_def)
    moreover have "r = t" using Cons.prems(2-4) True by auto
    moreover have "filter (\<lambda>u. ts_id u \<noteq> i) rows = rows" using \<open>i \<notin> ts_id ` set rows\<close> by (auto simp: filter_id_conv)
    ultimately show ?thesis using Cons.prems True assms(6) by (simp add: update_rows_def)
  next
    case False
    then have t: "t \<in> set rows" using Cons.prems(3,4) by auto
    with Cons False have "distinct (map ts_name (update_rows (\<lambda>u. ts_id u = i) f rows))" by simp
    moreover have "ts_name r \<notin> ts_name ` set (update_rows (\<lambda>u. ts_id u = i) f rows)"
    proof
      assume "ts_name r \<in> ts_name ` set (update_rows (\<lambda>u. ts_id u = i) f rows)"
      then obtain u where u: "u \<in> set rows" "ts_name r = ts_name (if ts_id u = i then f u else u)"
        by (auto simp: set_update_rows)
      show False
      proof (cases "ts_id u = i")
        case True
        with u(1) t Cons.prems(2,4) have "u = t" by (auto simp: distinct_map inj_on_def)
        with u(2) True assms(6) Cons.prems(5) False show False by auto
      next
        case False
        with u Cons.prems(1) show False by (auto simp: image_iff)
      qed
    qed
    ultimately show ?thesis using False unfolding update_rows_def by (simp only: list.map distinct.simps if_False list.set_map) blast
  qed
qed simp

lemma inv_row_update: "io_inv target_table_ok (row_update i dto c)"
  unfolding row_update_def
proof (intro io_inv_if io_invs inv_db_call)
  fix w :: "'a world"
  assume ok: "target_table_ok w"
  show "target_table_ok (snd (case find_target_id i (w_targets w) of
          None \<Rightarrow> (Inl (PrismaError ''P2025'' ''Record to update not found''), w)
        | Some t \<Rightarrow>
            if set_text (ut_name dto) (ts_name t) \<in> ts_name ` (set (filter (\<lambda>u. ts_id u \<noteq> i) (w_targets w)))
            then (Inl (PrismaError ''P2002'' ''Unique constraint failed''), w)
            else (Inr (change_row (w_now w) dto c t),
              w\<lparr>w_targets := update_rows (\<lambda>u. ts_id u = i) (change_row (w_now w) dto c) (w_targets w)\<rparr>)))"
  proof (cases "find_target_id i (w_targets w)")
    case (Some t)
    then have t: "t \<in> set (w_targets w)" "ts_id t = i" by (auto simp: find_target_id_def find_Some_iff)
    let ?rows = "update_rows (\<lambda>u. ts_id u = i) (change_row (w_now w) dto c) (w_targets w)"
    have "map ts_id ?rows = map ts_id (w_targets w)" by (rule map_update_rows) simp
    moreover have "\<forall>r \<in> set ?rows. \<exists>n < w_nextId w. ts_id r = show_nat n"
      using ok by (auto simp: set_update_rows target_table_ok_def)
    moreover have "distinct (map ts_name ?rows)"
      if "set_text (ut_name dto) (ts_name t) \<notin> ts_name ` set (filter (\<lambda>u. ts_id u \<noteq> i) (w_targets w))"
      using ok t that by (intro distinct_update_names) (auto simp: target_table_ok_def change_row_def)
    ultimately show ?thesis using ok Some by (auto simp: target_table_ok_def)
  qed (simp add: ok)
qed

lemma inv_row_delete: "io_inv target_table_ok (row_delete i)"
  unfolding row_delete_def
  by (rule inv_db_call) (auto simp: target_table_ok_def distinct_map_filter split: option.split)

lemma inv_new_config: "io_inv target_table_ok (new_config env i dto)"
  unfolding new_config_def
  by (intro io_inv_if io_invs inv_toJson inv_db_call) (simp add: io_simps)

lemma target_update_inv: "io_inv target_table_ok (target_update env i udto)"
  unfolding target_update_def by (intro io_invs inv_row_update inv_new_config)


section \<open>Editing a target system\<close>

lemma update_Inr:
  assumes "target_update env i dto w = (Inr answer, w')"
  obtains c w1 fs t where "new_config env i dto w = (Inr c, w1)" "find_target_id i (w_targets w1) = Some t"
    "toPublicTargetSystem env (change_row (w_now w1) dto c t) = Inr answer"
    "w' = w1\<lparr>w_faults := fs, w_targets := update_rows (\<lambda>u. ts_id u = i) (change_row (w_now w1) dto c) (w_targets w1)\<rparr>"
proof -
  from assms obtain c w1 item w2 where c: "new_config env i dto w = (Inr c, w1)"
    and row: "row_update i dto c w1 = (Inr item, w2)" and pub: "toPublicTargetSystem env item = Inr answer" "w' = w2"
    by (auto simp: target_update_def io_catch_def io_bind_Inr io_of_sum_def io_throw_def split: prod.splits sum.splits)
  define f where "f = (\<lambda>w :: 'a world. case find_target_id i (w_targets w) of
          None \<Rightarrow> (Inl (PrismaError ''P2025'' ''Record to update not found''), w)
        | Some t \<Rightarrow>
            if set_text (ut_name dto) (ts_name t) \<in> ts_name ` (set (filter (\<lambda>u. ts_id u \<noteq> i) (w_targets w)))
            then (Inl (PrismaError ''P2002'' ''Unique constraint failed''), w)
            else (Inr (change_row (w_now w) dto c t),
              w\<lparr>w_targets := update_rows (\<lambda>u. ts_id u = i) (change_row (w_now w) dto c) (w_targets w)\<rparr>))"
  from row have call: "db_call f w1 = (Inr item, w2)"
    by (auto simp: row_update_def f_def io_throw_def split: if_splits)
  then obtain fs where run: "f (w1\<lparr>w_faults := fs\<rparr>) = (Inr item, w2)"
    by (cases rule: db_call_cases [of f w1]) auto
  then obtain t where t: "find_target_id i (w_targets w1) = Some t"
    by (auto simp: f_def split: option.splits)
  with run have "item = change_row (w_now w1) dto c t"
    "w2 = w1\<lparr>w_faults := fs, w_targets := update_rows (\<lambda>u. ts_id u = i) (change_row (w_now w1) dto c) (w_targets w1)\<rparr>"
    by (auto simp: f_def split: if_splits)
  with c t pub show ?thesis using that by blast
qed

lemma new_config_frame: "frame_targets = (\<lambda>w. (w_targets w)) \<Longrightarrow> io_keeps frame_targets (new_config env i dto)"
  unfolding new_config_def
  by (intro io_frames io_keeps_db_call) (simp_all add: io_keeps_def toJson_io_def)

lemma new_config_merged:
  assumes "new_config env i dto w = (Inr c, w1)" "ut_config dto = Obj ob" "find_target_id i (w_targets w) = Some t"
    and "read_config env t = Inr (Obj config)"
  obtains n stored where "c = Some stored" "en_toJson env n (Obj (mergeConfigPreservingSecrets config ob)) = Inr stored"
proof -
  have "db_call (io_get (\<lambda>w. find_target_id i (w_targets w))) w = (Inr x, v) \<Longrightarrow> x = Some t" for x v
    using assms(3) by (cases rule: db_call_cases [of "io_get (\<lambda>w. find_target_id i (w_targets w))" w]) (auto simp: io_get_def)
  with assms(1,2,4) have "\<exists>n stored. c = Some stored \<and> en_toJson env n (Obj (mergeConfigPreservingSecrets config ob)) = Inr stored"
    by (auto simp: new_config_def io_bind_Inr io_run next_config_def toJson_io_def as_record_Obj) blast
  then show ?thesis using that by blast
qed

lemma on_world_Inr: "on_world m (rg, w) = (Inr x, s') \<longleftrightarrow> (\<exists>w'. m w = (Inr x, w') \<and> s' = (rg, w'))"
  by (cases "m w") (auto simp: on_world_def)

lemma controller_update_Inr:
  assumes "controller_update env i body (rg, w) = (Inr answer, (rg', w'))"
  obtains dto w1 where "validate_update body = Inr dto" "target_update env i dto w = (Inr answer, w1)"
    "reloadInternal env (rg, w1) = (Inr (), (rg', w'))"
  using assms by (auto simp: controller_update_def io_bind_Inr io_seq_Inr io_run on_world_Inr)

lemma reload_of_row:
  assumes "reloadInternal env (rg, w) = (Inr (), (rg', w'))" "target_table_ok w" "t \<in> set (w_targets w)" "ts_enabled t"
    and "read_config env t = Inr (Obj config)" "map_of (rg_static rg) (ts_type t) \<noteq> None"
  shows "registry_get rg' (ts_name t) = createProxy (rg_static rg) (ts_type t) (ts_name t) config"
proof -
  have d: "distinct (map ts_name (w_targets w))" using assms(2) by (simp add: target_table_ok_def)
  have "find (\<lambda>u. ts_name u = ts_name t) (w_targets w) = Some t"
  proof (cases "find (\<lambda>u. ts_name u = ts_name t) (w_targets w)")
    case None
    then show ?thesis using assms(3) by (auto simp: find_None_iff)
  next
    case (Some u)
    then have "u \<in> set (w_targets w)" "ts_name u = ts_name t" using find_by_key [of ts_name "ts_name t"] by auto
    with d assms(3) Some show ?thesis by (auto simp: distinct_map inj_on_def)
  qed
  with d assms(4) have found: "find (\<lambda>u. ts_name u = ts_name t) (enabled_targets (w_targets w)) = Some t"
    by (simp add: enabled_targets_def find_filter_distinct)
  from assms(5) obtain c where "en_fromJson env (ts_config t) = Inr c" "coalesce c (Obj []) = Obj config"
    by (auto simp: read_config_def res_bind_Inr)
  then have "row_proxy env (rg_static rg) t = createProxy (rg_static rg) (ts_type t) (ts_name t) config"
    by (simp add: row_proxy_def as_record_Obj)
  moreover obtain p where "createProxy (rg_static rg) (ts_type t) (ts_name t) config = Some p"
    using assms(6) by (auto simp: createProxy_def)
  ultimately show ?thesis using reload_routes [OF assms(1) d, of "ts_name t"] found by (simp add: Let_def)
qed

text \<open>
  An accepted update of a configuration is answered masked, and the registry then routes the name to the
  connector with the merged configuration.
\<close>

lemma update_routes:
  assumes "target_table_ok w" "find_target_id i (w_targets w) = Some t" "read_config env t = Inr (Obj config)"
    and "js_prop body ''config'' = Obj incoming" "mergeConfigPreservingSecrets config incoming = merged"
    and "\<And>n s. en_toJson env n (Obj merged) = Inr s \<Longrightarrow> en_fromJson env s = Inr (Obj merged)"
    and "controller_update env i body (rg, w) = (Inr answer, (rg', w'))"
  shows "ts_config answer = redactSecrets (Obj merged) \<and>
    (ts_enabled answer \<and> map_of (rg_static rg) (ts_type answer) \<noteq> None \<longrightarrow>
      registry_get rg' (ts_name answer) = createProxy (rg_static rg) (ts_type answer) (ts_name answer) merged)"
proof -
  from assms(7) obtain dto w1 where dto: "validate_update body = Inr dto" and upd: "target_update env i dto w = (Inr answer, w1)"
    and reload: "reloadInternal env (rg, w1) = (Inr (), (rg', w'))" by (rule controller_update_Inr)
  from dto assms(4) have cfg: "ut_config dto = Obj incoming" by (auto simp: validate_update_def split: if_splits)
  from upd obtain c w2 fs u where new: "new_config env i dto w = (Inr c, w2)" and u: "find_target_id i (w_targets w2) = Some u"
    and pub: "toPublicTargetSystem env (change_row (w_now w2) dto c u) = Inr answer"
    and w1: "w1 = w2\<lparr>w_faults := fs, w_targets := update_rows (\<lambda>u. ts_id u = i) (change_row (w_now w2) dto c) (w_targets w2)\<rparr>"
    by (rule update_Inr)
  let ?row = "change_row (w_now w2) dto c u"
  from new_config_merged [OF new cfg assms(2,3)] obtain n stored where "c = Some stored"
    "en_toJson env n (Obj merged) = Inr stored" unfolding assms(5) .
  then have read: "read_config env ?row = Inr (Obj merged)"
    using assms(6) by (simp add: read_config_def change_row_def)
  have answer: "answer = ?row\<lparr>ts_config := redactSecrets (Obj merged)\<rparr>"
    using pub read by (simp add: toPublicTargetSystem_def)
  have ok: "target_table_ok w1" using io_invD [OF target_update_inv assms(1) upd] .
  from u have "u \<in> set (w_targets w2)" "ts_id u = i" by (auto simp: find_target_id_def find_Some_iff)
  then have row: "?row \<in> set (w_targets w1)" by (force simp: w1 set_update_rows)
  have "registry_get rg' (ts_name ?row) = createProxy (rg_static rg) (ts_type ?row) (ts_name ?row) merged"
    if "ts_enabled ?row" "map_of (rg_static rg) (ts_type ?row) \<noteq> None"
    by (rule reload_of_row [OF reload ok row that(1) read that(2)])
  then show ?thesis by (simp add: answer)
qed


definition demo_row_of :: "obj \<Rightarrow> target_system" where
  "demo_row_of config = (demo_target ''z1'' (Obj config))\<lparr>ts_id := show_nat 0\<rparr>"

definition demo_table_of :: "obj \<Rightarrow> unit world" where
  "demo_table_of config = (init_world 0 ())\<lparr>w_targets := [demo_row_of config], w_nextId := 1\<rparr>"

lemma demo_row_fields [simp]:
  "ts_id (demo_row_of c) = show_nat 0" "ts_name (demo_row_of c) = ''z1''" "ts_type (demo_row_of c) = ''zabbix''"
  "ts_enabled (demo_row_of c)" "ts_config (demo_row_of c) = Obj c" "ts_label (demo_row_of c) = ''z1''"
  by (simp_all add: demo_row_of_def demo_target_def)

lemma demo_table_of_fields [simp]:
  "w_targets (demo_table_of c) = [demo_row_of c]" "w_faults (demo_table_of c) = []" "w_nextId (demo_table_of c) = 1"
  "w_now (demo_table_of c) = 0"
  by (simp_all add: demo_table_of_def init_world_def)

lemma demo_table_facts:
  "target_table_ok (demo_table_of c)" "find_target_id (show_nat 0) (w_targets (demo_table_of c)) = Some (demo_row_of c)"
  "read_config demo_env (demo_row_of c) = Inr (Obj c)" "en_fromJson demo_env = Inr" "en_toJson demo_env = (\<lambda>n. Inr)"
  by (auto simp: target_table_ok_def find_target_id_def read_config_def demo_env_def)

lemma demo_load_runs: "\<exists>rg'. load_connectors demo_env rg rows = Inr rg'"
proof -
  have "\<exists>r. add_proxies demo_env (rg_static rg) rows acc = Inr r" for acc
    by (induction rows arbitrary: acc) (simp_all add: demo_table_facts split: option.split)
  from this [of "allowed_statics demo_env rg"] show ?thesis by (auto simp: load_connectors_def)
qed

text \<open>An update of the only row succeeds, with any registry.\<close>

lemma demo_update_runs:
  assumes "validate_update body = Inr dto" "ut_config dto = Obj inc" "no_null dto"
  obtains answer rg' w' where "controller_update demo_env (show_nat 0) body (rg, demo_table_of c) = (Inr answer, (rg', w'))"
    "ts_name answer = set_text (ut_name dto) ''z1''" "ts_type answer = set_text (ut_type dto) ''zabbix''"
    "ts_label answer = set_text (ut_label dto) ''z1''" "ts_enabled answer = (case ut_enabled dto of Bool b \<Rightarrow> b | _ \<Rightarrow> True)"
proof -
  let ?w = "demo_table_of c"
  let ?stored = "Obj (mergeConfigPreservingSecrets c inc)"
  have new: "new_config demo_env (show_nat 0) dto ?w = (Inr (Some ?stored), ?w\<lparr>w_nextId := 2\<rparr>)"
    by (simp add: new_config_def assms(2) io_simps find_target_id_def demo_table_facts next_config_def as_record_Obj toJson_io_def)
  obtain answer w1 where upd: "target_update demo_env (show_nat 0) dto ?w = (Inr answer, w1)" "w_faults w1 = []"
    and answer: "answer = (change_row 0 dto (Some ?stored) (demo_row_of c))\<lparr>ts_config := redactSecrets ?stored\<rparr>"
    by (simp add: target_update_def io_catch_def io_bind_def new row_update_def assms(3) db_call_def find_target_id_def
        io_of_sum_def toPublicTargetSystem_def read_config_def change_row_def demo_table_facts)
  obtain rg2 where load: "load_connectors demo_env rg (enabled_targets (w_targets w1)) = Inr rg2" using demo_load_runs by blast
  obtain rg' w' where "controller_update demo_env (show_nat 0) body (rg, ?w) = (Inr answer, (rg', w'))"
    by (simp add: controller_update_def assms(1) io_bind_value io_simps on_world_def upd reloadInternal_def load registryVersion_def)
  then show ?thesis by (rule that) (simp_all add: answer change_row_def split: js.split)
qed

definition demo_edit :: js where
  "demo_edit = Obj [(''label'', Str ''L''), (''config'', Obj [(''token'', Str ''***'')])]"


end
