(* ===== verification/Idm_Controller.thy ===== *)
theory Idm_Controller
  imports Target_Systems
begin

text \<open>
  \<^verbatim>\<open>src/inbound/idm/idm.controller.ts\<close>: what the identity management system reads directly: the catalog of
  target systems with their capabilities, and the users, groups, schema and synchronisation of one of them.
  A request of the second kind becomes one call to the connector the registry has for the name.
\<close>

section \<open>Catalog\<close>

record catalog_item =
  ci_name :: string
  ci_type :: string
  ci_label :: string
  ci_enabled :: bool
  ci_capabilities :: connector_capabilities

definition toCatalogItem :: "'e registry \<Rightarrow> target_system \<Rightarrow> catalog_item option" where
  "toCatalogItem rg system =
     (case registry_get rg (ts_name system) of
        None \<Rightarrow> None
      | Some connector \<Rightarrow> Some \<lparr>ci_name = ts_name system, ci_type = ts_type system, ci_label = ts_label system,
          ci_enabled = ts_enabled system,
          ci_capabilities = (case c_getCapabilities connector of
             Some capabilities \<Rightarrow> capabilities
           | None \<Rightarrow> createConnectorCapabilities [] no_overrides)\<rparr>)"

definition listTargetSystems :: "'e registry \<Rightarrow> env \<Rightarrow> ('e world, catalog_item list) io" where
  "listTargetSystems rg env =
     io_bind (target_findAll env \<lparr>tq_type = None, tq_enabled = Some True, tq_limit = JInt 1000, tq_offset = JInt 0\<rparr>) (\<lambda>systems.
     io_return (List.map_filter (toCatalogItem rg) systems))"

definition target_not_found :: "string \<Rightarrow> exn" where
  "target_not_found name = NotFoundException (''Target system not found: '' @ name)"

definition getTargetSystem :: "'e registry \<Rightarrow> env \<Rightarrow> string \<Rightarrow> ('e world, catalog_item) io" where
  "getTargetSystem rg env name =
     io_bind (target_findByName env name) (\<lambda>system.
     case system of
       None \<Rightarrow> io_throw (target_not_found name)
     | Some t \<Rightarrow>
         if \<not> ts_enabled t then io_throw (target_not_found name)
         else (case toCatalogItem rg t of None \<Rightarrow> io_throw (target_not_found name) | Some item \<Rightarrow> io_return item))"

section \<open>Reading through a connector\<close>

definition idm_payload :: "string \<Rightarrow> js option \<Rightarrow> string \<Rightarrow> obj \<Rightarrow> conn_payload" where
  "idm_payload name config operation params =
     \<lparr>p_operation = operation, p_targetSystem = name,
      p_payload = (case config of
          Some c \<Rightarrow> if truthy c then [(''config'', c), (''params'', Obj params)] else [(''params'', Obj params)]
        | None \<Rightarrow> [(''params'', Obj params)])\<rparr>"

definition idm_call :: "'e connector \<Rightarrow> conn_payload \<Rightarrow> string option \<Rightarrow> ('e, conn_result) io" where
  "idm_call connector p syncMode =
     (let operation = p_operation p in
      case (operation = ''schema.get'', c_getSchema connector) of
        (True, Some getSchema) \<Rightarrow> getSchema p
      | _ \<Rightarrow>
          (case (operation = ''sync.full'' \<or> operation = ''sync.incremental'', c_sync connector) of
             (True, Some sync) \<Rightarrow>
               sync p (case syncMode of Some mode \<Rightarrow> mode
                 | None \<Rightarrow> if operation = ''sync.incremental'' then ''incremental'' else ''full'')
           | _ \<Rightarrow> c_execute connector p))"

definition executeRead ::
  "'e registry \<Rightarrow> env \<Rightarrow> string \<Rightarrow> string \<Rightarrow> obj \<Rightarrow> string option \<Rightarrow> ('e world, conn_result) io" where
  "executeRead rg env name operation params syncMode =
     io_bind (findRawConfigByName env name) (\<lambda>config.
     case registry_get rg name of
       None \<Rightarrow> io_throw (target_not_found name)
     | Some connector \<Rightarrow>
         io_bind (on_ext (idm_call connector (idm_payload name config operation params) syncMode)) (\<lambda>result.
         if r_success result then io_return result
         else io_throw (BadRequestException (case r_error result of Some e \<Rightarrow> e | None \<Rightarrow> ''Connector failed''))))"

text \<open>\<open>Number(limit)\<close> must be a positive whole number.\<close>

definition parseLimit :: "string option \<Rightarrow> exn + int" where
  "parseLimit limit =
     (case limit of
        None \<Rightarrow> Inr 50
      | Some s \<Rightarrow>
          (case num_int (string_to_number s) of
             Some n \<Rightarrow> if n \<le> 0 then Inl (BadRequestException ''limit must be a positive integer'') else Inr n
           | None \<Rightarrow> Inl (BadRequestException ''limit must be a positive integer'')))"

definition parseSyncMode :: "js \<Rightarrow> exn + string" where
  "parseSyncMode mode =
     (if mode = Undef then Inr ''full''
      else if mode = Str ''full'' then Inr ''full''
      else if mode = Str ''incremental'' then Inr ''incremental''
      else Inl (BadRequestException ''mode must be full or incremental''))"

section \<open>Routes\<close>

definition opt_text :: "string option \<Rightarrow> js" where
  "opt_text s = (case s of None \<Rightarrow> Undef | Some t \<Rightarrow> Str t)"

definition read_data ::
  "'e registry \<Rightarrow> env \<Rightarrow> string \<Rightarrow> string \<Rightarrow> obj \<Rightarrow> string option \<Rightarrow> ('e world, js) io" where
  "read_data rg env name operation params syncMode =
     io_bind (executeRead rg env name operation params syncMode) (\<lambda>result. io_return (r_data result))"

definition testTargetSystem :: "'e registry \<Rightarrow> env \<Rightarrow> string \<Rightarrow> ('e world, js) io" where
  "testTargetSystem rg env name = read_data rg env name ''system.test'' [] None"

definition idm_search_params :: "string option \<Rightarrow> string option \<Rightarrow> exn + obj" where
  "idm_search_params filt limit =
     res_bind (parseLimit limit) (\<lambda>n. Inr [(''filter'', opt_text filt), (''limit'', JInt n)])"

definition listUsers :: "'e registry \<Rightarrow> env \<Rightarrow> string \<Rightarrow> string option \<Rightarrow> string option \<Rightarrow> ('e world, js) io" where
  "listUsers rg env name filt limit =
     io_bind (io_of_sum (idm_search_params filt limit)) (\<lambda>params. read_data rg env name ''user.search'' params None)"

definition resolveUser ::
  "'e registry \<Rightarrow> env \<Rightarrow> string \<Rightarrow> string option \<Rightarrow> string option \<Rightarrow> string option \<Rightarrow> ('e world, js) io" where
  "resolveUser rg env name username login filt =
     read_data rg env name ''user.resolve''
       [(''username'', opt_text username), (''login'', opt_text login), (''filter'', opt_text filt)] None"

definition getUser :: "'e registry \<Rightarrow> env \<Rightarrow> string \<Rightarrow> string \<Rightarrow> ('e world, js) io" where
  "getUser rg env name i = read_data rg env name ''user.get'' [(''id'', Str i)] None"

definition listGroups :: "'e registry \<Rightarrow> env \<Rightarrow> string \<Rightarrow> string option \<Rightarrow> string option \<Rightarrow> ('e world, js) io" where
  "listGroups rg env name filt limit =
     io_bind (io_of_sum (idm_search_params filt limit)) (\<lambda>params. read_data rg env name ''group.search'' params None)"

definition getGroup :: "'e registry \<Rightarrow> env \<Rightarrow> string \<Rightarrow> string \<Rightarrow> ('e world, js) io" where
  "getGroup rg env name i = read_data rg env name ''group.get'' [(''id'', Str i)] None"

definition getSchema_route :: "'e registry \<Rightarrow> env \<Rightarrow> string \<Rightarrow> ('e world, js) io" where
  "getSchema_route rg env name = read_data rg env name ''schema.get'' [] None"

definition sync_route :: "'e registry \<Rightarrow> env \<Rightarrow> string \<Rightarrow> js \<Rightarrow> ('e world, js) io" where
  "sync_route rg env name mode0 =
     io_bind (io_of_sum (parseSyncMode mode0)) (\<lambda>mode.
       read_data rg env name (if mode = ''incremental'' then ''sync.incremental'' else ''sync.full'') [] (Some mode))"

text \<open>The routes under \<open>/idm/:targetSystem\<close>, with their parameters.\<close>

datatype idm_request =
    Test
  | Users "string option" "string option"
  | Resolve "string option" "string option" "string option"
  | User string
  | Groups "string option" "string option"
  | Group string
  | Schema
  | Sync js

definition idm_route :: "'e registry \<Rightarrow> env \<Rightarrow> string \<Rightarrow> idm_request \<Rightarrow> ('e world, js) io" where
  "idm_route rg env name request =
     (case request of
        Test \<Rightarrow> testTargetSystem rg env name
      | Users filt limit \<Rightarrow> listUsers rg env name filt limit
      | Resolve username login filt \<Rightarrow> resolveUser rg env name username login filt
      | User i \<Rightarrow> getUser rg env name i
      | Groups filt limit \<Rightarrow> listGroups rg env name filt limit
      | Group i \<Rightarrow> getGroup rg env name i
      | Schema \<Rightarrow> getSchema_route rg env name
      | Sync mode \<Rightarrow> sync_route rg env name mode)"

section \<open>What a request reaches\<close>

text \<open>One read of the connector registered for the name, or none.\<close>

definition reads_connector :: "'e registry \<Rightarrow> string \<Rightarrow> 'e world \<Rightarrow> exn + js \<Rightarrow> 'e world \<Rightarrow> bool" where
  "reads_connector rg name w r w' \<longleftrightarrow>
     (\<exists>fs x. w' = w\<lparr>w_faults := fs, w_ext := x\<rparr>) \<and>
     ((w_ext w' = w_ext w \<and> (\<exists>e. r = Inl e)) \<or>
      (\<exists>connector p mode outcome. registry_get rg name = Some connector \<and> p_targetSystem p = name \<and>
        p_operation p \<in> set READ_OPERATIONS \<and> idm_call connector p mode (w_ext w) = (outcome, w_ext w') \<and>
        (\<forall>d. r = Inr d \<longrightarrow> (\<exists>result. outcome = Inr result \<and> r_success result \<and> d = r_data result)) \<and>
        (\<forall>result. outcome = Inr result \<longrightarrow> \<not> r_success result \<longrightarrow> (\<exists>m. r = Inl (BadRequestException m)))))"

lemma raw_config_frame: "findRawConfigByName env name w = (r, w') \<Longrightarrow> \<exists>fs. w' = w\<lparr>w_faults := fs\<rparr>"
  by (cases rule: db_call_cases [of "io_get (\<lambda>w. find_target_name name (w_targets w))" w])
    (auto simp: findRawConfigByName_def io_simps split: option.splits sum.splits)

lemma world_same_ext: "w\<lparr>w_faults := fs, w_ext := w_ext w\<rparr> = w\<lparr>w_faults := fs\<rparr>"
  by (cases w) simp

lemma read_data_reads:
  assumes "operation \<in> set READ_OPERATIONS" "read_data rg env name operation params mode w = (r, w')"
  shows "reads_connector rg name w r w'"
proof -
  obtain r1 w1 where raw: "findRawConfigByName env name w = (r1, w1)" by fastforce
  from raw_config_frame [OF this] obtain fs where w1: "w1 = w\<lparr>w_faults := fs\<rparr>" by blast
  have still: "reads_connector rg name w r w'" if "w' = w1" "\<exists>e. r = Inl e"
  proof -
    have "w' = w\<lparr>w_faults := fs, w_ext := w_ext w\<rparr>" "w_ext w' = w_ext w"
      using that(1) w1 by (simp_all add: world_same_ext)
    with that(2) show ?thesis unfolding reads_connector_def by blast
  qed
  show ?thesis
  proof (cases r1)
    case (Inl e)
    with assms(2) raw show ?thesis by (intro still) (auto simp: read_data_def executeRead_def io_simps)
  next
    case (Inr config)
    show ?thesis
    proof (cases "registry_get rg name")
      case None
      with assms(2) raw Inr show ?thesis by (intro still) (auto simp: read_data_def executeRead_def io_simps)
    next
      case (Some connector)
      let ?p = "idm_payload name config operation params"
      obtain outcome x where call: "idm_call connector ?p mode (w_ext w) = (outcome, x)" by fastforce
      have p: "p_targetSystem ?p = name" "p_operation ?p \<in> set READ_OPERATIONS"
        using assms(1) by (simp_all add: idm_payload_def)
      have "w' = w\<lparr>w_faults := fs, w_ext := x\<rparr>"
        "\<forall>d. r = Inr d \<longrightarrow> (\<exists>result. outcome = Inr result \<and> r_success result \<and> d = r_data result)"
        "\<forall>result. outcome = Inr result \<longrightarrow> \<not> r_success result \<longrightarrow> (\<exists>m. r = Inl (BadRequestException m))"
        using assms(2) raw Inr Some w1 call
        by (cases outcome; auto simp: read_data_def executeRead_def io_simps on_ext_def split: if_splits)+
      with Some p call show ?thesis unfolding reads_connector_def
        by (intro conjI disjI2 exI [of _ fs] exI [of _ x] exI [of _ connector] exI [of _ ?p] exI [of _ mode]
            exI [of _ outcome]) simp_all
    qed
  qed
qed

lemma refused_reads: "reads_connector rg name w (Inl e) w"
proof -
  have "w = w\<lparr>w_faults := w_faults w, w_ext := w_ext w\<rparr>" by (cases w) simp
  then show ?thesis unfolding reads_connector_def by blast
qed

text \<open>
  What the identity management system asks of a target system only reads: a request reaches at most
  the connector registered under the name it gives, with one of the read operations; everything else of
  the middleware (queue, idempotency keys, target systems, broker, metrics) is untouched; data is answered
  only when the connector reported success, and a reported failure is an error of the request.
\<close>

theorem idm_requests_only_read:
  assumes "idm_route rg env name request w = (r, w')"
  shows "reads_connector rg name w r w'"
proof -
  have ops: "''system.test'' \<in> set READ_OPERATIONS" "''user.search'' \<in> set READ_OPERATIONS"
    "''user.resolve'' \<in> set READ_OPERATIONS" "''user.get'' \<in> set READ_OPERATIONS" "''group.search'' \<in> set READ_OPERATIONS"
    "''group.get'' \<in> set READ_OPERATIONS" "''schema.get'' \<in> set READ_OPERATIONS" "''sync.full'' \<in> set READ_OPERATIONS"
    "''sync.incremental'' \<in> set READ_OPERATIONS"
    by (simp_all add: READ_OPERATIONS_def)
  note run = assms [unfolded idm_route_def]
  show ?thesis
  proof (cases request)
    case Test
    with run ops show ?thesis by (auto simp: testTargetSystem_def intro: read_data_reads)
  next
    case (Users filt limit)
    with run ops show ?thesis
      by (cases "idm_search_params filt limit") (auto simp: listUsers_def io_bind_value io_run intro: read_data_reads refused_reads)
  next
    case (Resolve username login filt)
    with run ops show ?thesis by (auto simp: resolveUser_def intro: read_data_reads)
  next
    case (User i)
    with run ops show ?thesis by (auto simp: getUser_def intro: read_data_reads)
  next
    case (Groups filt limit)
    with run ops show ?thesis
      by (cases "idm_search_params filt limit") (auto simp: listGroups_def io_bind_value io_run intro: read_data_reads refused_reads)
  next
    case (Group i)
    with run ops show ?thesis by (auto simp: getGroup_def intro: read_data_reads)
  next
    case Schema
    with run ops show ?thesis by (auto simp: getSchema_route_def intro: read_data_reads)
  next
    case (Sync mode)
    with run ops show ?thesis
      by (cases "parseSyncMode mode")
        (auto simp: sync_route_def io_bind_value io_run intro: read_data_reads refused_reads split: if_splits)
  qed
qed

lemma idm_requests_only_read_witness:
  "\<exists>w'. idm_route (demo_registry (echo_connector ''z'')) demo_env ''z'' (User ''u1'') (init_world 0 ()) =
      (Inr (Obj [(''params'', Obj [(''id'', Str ''u1'')])]), w') \<and>
    reads_connector (demo_registry (echo_connector ''z'')) ''z'' (init_world 0 ())
      (Inr (Obj [(''params'', Obj [(''id'', Str ''u1'')])])) w'"
proof -
  obtain w' where run: "idm_route (demo_registry (echo_connector ''z'')) demo_env ''z'' (User ''u1'') (init_world 0 ()) =
      (Inr (Obj [(''params'', Obj [(''id'', Str ''u1'')])]), w')"
    by (simp add: idm_route_def getUser_def read_data_def executeRead_def findRawConfigByName_def demo_process_simps
        find_target_name_def idm_call_def idm_payload_def)
  from idm_requests_only_read [OF run] run show ?thesis by blast
qed

end
