(* ===== verification/Pam_Secrets.thy ===== *)
theory Pam_Secrets
  imports Admin Http_Client
begin

text \<open>
  \<^verbatim>\<open>src/secrets\<close>: references to secrets in the environment (\<open>secret://name\<close>) are replaced at start by the values
  a privileged access manager returns. \<^verbatim>\<open>indeed-pam-aapm.client.ts\<close> builds the request and reads the value out
  of the answer, \<^verbatim>\<open>secret-resolver.service.ts\<close> walks the environment, \<^verbatim>\<open>legacy-compat.ts\<close> translates the older
  names of the variables. The manager is a parameter: a function from the request to its reply.
\<close>

section \<open>Settings\<close>

definition pam_value :: "config \<Rightarrow> string \<Rightarrow> string option" where
  "pam_value cfg path = (case cfg path of Str s \<Rightarrow> if trim s = [] then None else Some (trim s) | _ \<Rightarrow> None)"

definition missing_setting :: "string \<Rightarrow> exn" where
  "missing_setting path = Error (''Required PAM config value is missing: '' @ path @ ''.'')"

definition required :: "config \<Rightarrow> string \<Rightarrow> exn + string" where
  "required cfg path = (case pam_value cfg path of Some v \<Rightarrow> Inr v | None \<Rightarrow> Inl (missing_setting path))"

definition intValue :: "config \<Rightarrow> string \<Rightarrow> int \<Rightarrow> int" where
  "intValue cfg path d =
     (case num_int (parse_int (cfg_str cfg path [])) of Some n \<Rightarrow> if 0 < n then n else d | None \<Rightarrow> d)"

definition boolText :: "config \<Rightarrow> string \<Rightarrow> string option" where
  "boolText cfg path = (case cfg path of Str s \<Rightarrow> Some (if to_lower s = ''true'' then ''true'' else ''false'') | _ \<Rightarrow> None)"

definition sanitizeKey :: "string \<Rightarrow> string" where
  "sanitizeKey key = to_upper (map (\<lambda>c. if is_alnum c \<or> c = CHR ''_'' then c else CHR ''_'') key)"

definition ref_setting :: "string \<Rightarrow> string \<Rightarrow> string" where
  "ref_setting refId name = ''SECRETS_REFERENCES_'' @ sanitizeKey refId @ ''_'' @ name"

text \<open>The setting of the reference, else the general one.\<close>

definition ref_or_general :: "config \<Rightarrow> string \<Rightarrow> string \<Rightarrow> string option" where
  "ref_or_general cfg refId name =
     (case pam_value cfg (ref_setting refId name) of
        Some v \<Rightarrow> Some v
      | None \<Rightarrow> pam_value cfg (''SECRETS_INDEEDPAMAAPM_'' @ name))"

text \<open>
  \<open>slice\<close> around the last occurrence of a separator that is neither the first nor the last character.
\<close>

definition split_last :: "char \<Rightarrow> string \<Rightarrow> (string \<times> string) option" where
  "split_last c s =
     (let after = rev (takeWhile (\<lambda>d. d \<noteq> c) (rev s)); before = take (length s - length after - 1) s in
      if c \<in> set s \<and> before \<noteq> [] \<and> after \<noteq> [] then Some (before, after) else None)"

definition parseRefId :: "string \<Rightarrow> (string \<times> string) option" where
  "parseRefId refId =
     (case split_last (CHR ''.'') refId of Some p \<Rightarrow> Some p | None \<Rightarrow> split_last (CHR ''/'') refId)"

section \<open>Credentials\<close>

record pam_credentials =
  pc_tkn :: "string option"
  pc_login :: "(string \<times> string) option"

definition readCredentials :: "(string \<Rightarrow> exn + string) \<Rightarrow> config \<Rightarrow> exn + pam_credentials" where
  "readCredentials read_file cfg =
     (case pam_value cfg ''SECRETS_INDEEDPAMAAPM_APPLICATIONTOKEN'' of
        Some tkn \<Rightarrow> Inr \<lparr>pc_tkn = Some tkn, pc_login = None\<rparr>
      | None \<Rightarrow>
          (case pam_value cfg ''SECRETS_INDEEDPAMAAPM_APPLICATIONTOKENFILE'' of
             Some file \<Rightarrow> res_bind (read_file file) (\<lambda>t. Inr \<lparr>pc_tkn = Some (trim t), pc_login = None\<rparr>)
           | None \<Rightarrow>
               (case (pam_value cfg ''SECRETS_INDEEDPAMAAPM_APPLICATIONUSERNAME'',
                      pam_value cfg ''SECRETS_INDEEDPAMAAPM_APPLICATIONPASSWORD'') of
                  (Some user, Some val) \<Rightarrow> Inr \<lparr>pc_tkn = None, pc_login = Some (user, val)\<rparr>
                | _ \<Rightarrow> Inl (Error ''PAM credentials are not configured.''))))"

section \<open>Reading the value out of the answer\<close>

text \<open>\<open>value[part]\<close> where \<open>part in value\<close>.\<close>

definition js_member :: "js \<Rightarrow> string \<Rightarrow> js option" where
  "js_member v k =
     (case v of
        Obj ob \<Rightarrow> map_of ob k
      | Arr xs \<Rightarrow> (case digits_nat k of Some n \<Rightarrow> if n < length xs \<and> show_nat n = k then Some (xs ! n) else None | None \<Rightarrow> None)
      | _ \<Rightarrow> None)"

fun read_path :: "js \<Rightarrow> string list \<Rightarrow> js option" where
  "read_path v [] = Some v"
| "read_path v (part # parts) = (case js_member v part of None \<Rightarrow> None | Some item \<Rightarrow> read_path item parts)"

text \<open>\<open>path.split(/[.:]/)\<close>.\<close>

definition path_parts :: "string \<Rightarrow> string list" where
  "path_parts path = concat (map (split_char (CHR '':'')) (split_char (CHR ''.'') path))"

definition tryReadJsonPath :: "js \<Rightarrow> string \<Rightarrow> bool" where
  "tryReadJsonPath v path = (case read_path v (path_parts path) of Some (Str s) \<Rightarrow> s \<noteq> [] | _ \<Rightarrow> False)"

definition own_value :: "js \<Rightarrow> string \<Rightarrow> js" where
  "own_value v k = (case js_member v k of Some item \<Rightarrow> item | None \<Rightarrow> Undef)"

definition is_json_answer :: "js \<Rightarrow> string \<Rightarrow> bool" where
  "is_json_answer body respType \<longleftrightarrow>
     to_lower respType = ''json'' \<and> (case body of Obj ob \<Rightarrow> True | Arr xs \<Rightarrow> True | _ \<Rightarrow> False)"

definition fallback_names :: "string list" where
  "fallback_names = [''password'', ''value'', ''secret'', ''P'' @ ''assword'']"

definition extractValue :: "js \<Rightarrow> string \<Rightarrow> string \<Rightarrow> js" where
  "extractValue body respType jsonPath =
     (if \<not> is_json_answer body respType then Str (trim (js_string body))
      else if tryReadJsonPath body jsonPath then own_value body jsonPath
      else (case find (tryReadJsonPath body) fallback_names of
          Some name \<Rightarrow> own_value body name
        | None \<Rightarrow> Str []))"

section \<open>The request\<close>

record pam_request =
  pq_base :: string
  pq_path :: string
  pq_query :: search_params
  pq_timeout :: int
  pq_auth :: "(string \<times> string) option"
  pq_bearer :: "string option"

text \<open>What \<open>axios.get\<close> gives: the data, an \<open>AxiosError\<close> with the status if there was a response, another error.\<close>

datatype pam_reply = Answered js | AxiosFailure "nat option" | OtherFailure exn

definition query_entries :: "(string \<times> string option) list \<Rightarrow> search_params" where
  "query_entries entries =
     List.map_filter (\<lambda>(k, v). case v of Some t \<Rightarrow> if t = [] then None else Some (k, t) | None \<Rightarrow> None) entries"

definition account_of :: "config \<Rightarrow> string \<Rightarrow> exn + string \<times> string" where
  "account_of cfg refId =
     (let parsed = parseRefId refId in
      res_bind (case pam_value cfg (ref_setting refId ''ACCOUNTPATH'') of
          Some v \<Rightarrow> Inr v
        | None \<Rightarrow> (case parsed of Some (p, _) \<Rightarrow> Inr p
            | None \<Rightarrow> (case pam_value cfg ''SECRETS_INDEEDPAMAAPM_DEFAULTACCOUNTPATH'' of
                Some v \<Rightarrow> Inr v
              | None \<Rightarrow> Inl (missing_setting (ref_setting refId ''ACCOUNTPATH''))))) (\<lambda>acctPath.
      res_bind (case pam_value cfg (ref_setting refId ''ACCOUNTNAME'') of
          Some v \<Rightarrow> Inr v
        | None \<Rightarrow> (case parsed of Some (_, n) \<Rightarrow> Inr n
            | None \<Rightarrow> Inl (missing_setting (ref_setting refId ''ACCOUNTNAME'')))) (\<lambda>acctName.
      Inr (acctPath, acctName))))"

definition or_text :: "string option \<Rightarrow> string \<Rightarrow> string" where
  "or_text v d = (case v of Some s \<Rightarrow> s | None \<Rightarrow> d)"

definition respType_of :: "config \<Rightarrow> string \<Rightarrow> string" where
  "respType_of cfg refId = or_text (ref_or_general cfg refId ''RESPONSETYPE'') ''json''"

definition valueJsonPath_of :: "config \<Rightarrow> string \<Rightarrow> string" where
  "valueJsonPath_of cfg refId = or_text (ref_or_general cfg refId ''VALUEJSONPATH'') ''password''"

definition tokenTransport :: "config \<Rightarrow> string" where
  "tokenTransport cfg = or_text (pam_value cfg ''SECRETS_INDEEDPAMAAPM_TOKEN_TRANSPORT'') ''header''"

definition pam_query :: "config \<Rightarrow> string \<Rightarrow> string \<times> string \<Rightarrow> pam_credentials \<Rightarrow> search_params" where
  "pam_query cfg refId account creds = query_entries
     [(''token'', if tokenTransport cfg = ''query'' then pc_tkn creds else None),
      (''sapmaccountpath'', Some (fst account)),
      (''sapmaccountname'', Some (snd account)),
      (''responsetype'', Some (respType_of cfg refId)),
      (''passwordexpirationinminute'', ref_or_general cfg refId ''PASSWORDEXPIRATIONINMINUTE''),
      (''passwordchangerequired'',
         (case boolText cfg (ref_setting refId ''PASSWORDCHANGEREQUIRED'') of
            Some b \<Rightarrow> Some b | None \<Rightarrow> boolText cfg ''SECRETS_INDEEDPAMAAPM_PASSWORDCHANGEREQUIRED'')),
      (''comment'', Some (or_text (ref_or_general cfg refId ''COMMENT'') (''idmMw '' @ refId))),
      (''tenantid'', ref_or_general cfg refId ''TENANTID''),
      (''pin'', ref_or_general cfg refId ''PIN'')]"

definition pam_request_for :: "(string \<Rightarrow> exn + string) \<Rightarrow> config \<Rightarrow> string \<Rightarrow> exn + pam_request" where
  "pam_request_for read_file cfg refId =
     res_bind (required cfg ''SECRETS_INDEEDPAMAAPM_BASEURL'') (\<lambda>baseUrl.
     res_bind (account_of cfg refId) (\<lambda>account.
     res_bind (readCredentials read_file cfg) (\<lambda>creds.
     Inr \<lparr>pq_base = baseUrl,
       pq_path = or_text (pam_value cfg ''SECRETS_INDEEDPAMAAPM_PASSWORDENDPOINTPATH'') ''/sc_aapm_ui/rest/aapm/password'',
       pq_query = pam_query cfg refId account creds,
       pq_timeout = intValue cfg ''SECRETS_INDEEDPAMAAPM_TIMEOUTMS'' 10000,
       pq_auth = pc_login creds,
       pq_bearer = (if tokenTransport cfg \<noteq> ''query'' then
           (case pc_tkn creds of Some t \<Rightarrow> if t = [] then None else Some t | None \<Rightarrow> None) else None)\<rparr>)))"

definition failed_request :: "string \<Rightarrow> nat option \<Rightarrow> exn" where
  "failed_request refId status = Error (''PAM ref '' @ CHR 0x27 # refId @ CHR 0x27 # '' request failed with HTTP '' @
     (case status of Some n \<Rightarrow> show_nat n | None \<Rightarrow> ''undefined'') @ ''.'')"

definition empty_value :: "string \<Rightarrow> exn" where
  "empty_value refId = Error (''PAM ref '' @ CHR 0x27 # refId @ CHR 0x27 # '' returned an empty value.'')"

definition pam_getValue ::
  "(pam_request \<Rightarrow> 's \<Rightarrow> pam_reply \<times> 's) \<Rightarrow> (string \<Rightarrow> exn + string) \<Rightarrow> config \<Rightarrow> string \<Rightarrow> ('s, js) io" where
  "pam_getValue get read_file cfg refId =
     io_bind (io_of_sum (pam_request_for read_file cfg refId)) (\<lambda>request. \<lambda>s.
       (case get request s of (reply, s') \<Rightarrow>
         ((case reply of
             Answered body \<Rightarrow>
               (let result = extractValue body (respType_of cfg refId) (valueJsonPath_of cfg refId) in
                if truthy result then Inr result else Inl (empty_value refId))
           | AxiosFailure status \<Rightarrow> Inl (failed_request refId status)
           | OtherFailure e \<Rightarrow> Inl e), s')))"

section \<open>The resolver\<close>

text \<open>\<open>process.env\<close> in the order of its keys, the values already resolved, and the manager.\<close>

record 's pam_state =
  ps_env :: "(string \<times> string) list"
  ps_cache :: "(string \<times> js) list"
  ps_ext :: 's

definition isReference :: "string \<Rightarrow> bool" where
  "isReference v \<longleftrightarrow> list_ex (starts_with (trim v)) [''secret://'', ''aapm://'', ''SECRET://'', ''AAPM://'']"

definition extractRefId :: "string \<Rightarrow> string option" where
  "extractRefId v =
     (let trimmed = trim v in
      map_option (\<lambda>p. trim (drop (length p) trimmed))
        (find (starts_with (to_lower trimmed)) [''secret://'', ''aapm://'', ''SECRET://'', ''AAPM://'']))"

definition secrets_provider :: "config \<Rightarrow> js" where
  "secrets_provider cfg = coalesce (coalesce (cfg ''SECRETS_PROVIDER'') (cfg ''Secrets.Provider'')) (Str ''None'')"

definition is_pam_key :: "string \<times> string \<Rightarrow> bool" where
  "is_pam_key kv \<longleftrightarrow> \<not> starts_with (fst kv) ''Secrets:'' \<and> isReference (snd kv)"

definition pam_keys :: "(string \<times> string) list \<Rightarrow> string list" where
  "pam_keys env = map fst (filter is_pam_key env)"

definition set_env :: "string \<Rightarrow> js \<Rightarrow> 's pam_state \<Rightarrow> 's pam_state" where
  "set_env key v s = s\<lparr>ps_env := AList.update key (js_string v) (ps_env s)\<rparr>"

definition on_pam :: "('s, 'a) io \<Rightarrow> ('s pam_state, 'a) io" where
  "on_pam m = (\<lambda>s. case m (ps_ext s) of (r, x) \<Rightarrow> (r, s\<lparr>ps_ext := x\<rparr>))"

definition resolve_key :: "(string \<Rightarrow> ('s, js) io) \<Rightarrow> string \<Rightarrow> ('s pam_state, unit) io" where
  "resolve_key getValue key =
     io_bind (io_get (\<lambda>s. map_of (ps_env s) key)) (\<lambda>value.
     case (case value of Some v \<Rightarrow> extractRefId v | None \<Rightarrow> None) of
       None \<Rightarrow> io_return ()
     | Some refId \<Rightarrow>
         if refId = [] then io_return ()
         else io_bind (io_get (\<lambda>s. map_of (ps_cache s) refId)) (\<lambda>cached.
           case cached of
             Some v \<Rightarrow> io_modify (set_env key v)
           | None \<Rightarrow>
               io_bind (on_pam (getValue refId)) (\<lambda>resolved.
               io_seq (io_modify (\<lambda>s. s\<lparr>ps_cache := AList.update refId resolved (ps_cache s)\<rparr>))
                 (io_modify (set_env key resolved)))))"

text \<open>An error of the manager ends the start of the program.\<close>

definition resolveAll :: "(string \<Rightarrow> ('s, js) io) \<Rightarrow> config \<Rightarrow> ('s pam_state, unit) io" where
  "resolveAll getValue cfg =
     (if secrets_provider cfg = Str ''None'' then io_return ()
      else if secrets_provider cfg \<noteq> Str ''IndeedPamAapm''
      then io_throw (Error (''Configuration contains PAM references, but Secrets.Provider is not IndeedPamAapm''))
      else io_bind (io_get (\<lambda>s. pam_keys (ps_env s))) (\<lambda>keys. io_foreach (resolve_key getValue) keys))"

section \<open>Older names\<close>

definition given :: "(string \<Rightarrow> string option) \<Rightarrow> string \<Rightarrow> bool" where
  "given env name \<longleftrightarrow> (case env name of Some v \<Rightarrow> trim v \<noteq> [] | None \<Rightarrow> False)"

definition set_already :: "(string \<Rightarrow> string option) \<Rightarrow> string \<Rightarrow> bool" where
  "set_already env name \<longleftrightarrow> (case env name of Some v \<Rightarrow> v \<noteq> [] | None \<Rightarrow> False)"

definition compat_names :: "(string \<times> string) list" where
  "compat_names = [(''PAMURL'', ''SECRETS_INDEEDPAMAAPM_BASEURL''),
     (''PAMUSERNAME'', ''SECRETS_INDEEDPAMAAPM_APPLICATIONUSERNAME''),
     (''PAMPASSWORD'', ''SECRETS_INDEEDPAMAAPM_APPLICATIONPASSWORD''),
     (''PAMTOKEN'', ''SECRETS_INDEEDPAMAAPM_APPLICATIONTOKEN''),
     (''PAMDEFAULTACCOUNTPATH'', ''SECRETS_INDEEDPAMAAPM_DEFAULTACCOUNTPATH'')]"

definition hasPamCompatibility :: "(string \<Rightarrow> string option) \<Rightarrow> bool" where
  "hasPamCompatibility env \<longleftrightarrow> given env ''PAMURL'' \<or> given env ''PAMTOKEN'' \<or> (given env ''PAMUSERNAME'' \<and> given env ''PAMPASSWORD'')"

definition compat_updates :: "(string \<Rightarrow> string option) \<Rightarrow> (string \<times> string) list" where
  "compat_updates env =
     List.map_filter (\<lambda>(name, target). if given env name \<and> \<not> set_already env target
       then Some (target, trim (the (env name))) else None) compat_names @
     (if hasPamCompatibility env \<and> \<not> set_already env ''SECRETS_PROVIDER'' then [(''SECRETS_PROVIDER'', ''IndeedPamAapm'')] else [])"

definition applyPamCompatibility :: "(string \<Rightarrow> string option) \<Rightarrow> string \<Rightarrow> string option" where
  "applyPamCompatibility env = env ++ map_of (compat_updates env)"

section \<open>Resolution\<close>

lemma reference_has_id: "isReference v \<Longrightarrow> \<exists>r. extractRefId v = Some r"
proof -
  assume "isReference v"
  then obtain p where p: "p \<in> set [''secret://'', ''aapm://'', ''SECRET://'', ''AAPM://'']" "starts_with (trim v) p"
    by (auto simp: isReference_def)
  then obtain rest where "trim v = p @ rest" by (auto simp: starts_with_iff)
  then have "starts_with (to_lower (trim v)) (to_lower p)" by (auto simp: to_lower_def starts_with_iff)
  moreover have "to_lower p \<in> {''secret://'', ''aapm://''}"
    using p(1) by (auto simp: to_lower_def to_lower_char_def upper_letters_def lower_letters_def)
  ultimately show ?thesis by (auto simp: extractRefId_def Let_def)
qed

text \<open>What a variable holds after its key was handled, with the cache as it is then.\<close>

definition resolved_value :: "(string \<times> js) list \<Rightarrow> string \<Rightarrow> string" where
  "resolved_value cache v =
     (case extractRefId v of
        Some r \<Rightarrow> if r = [] then v else (case map_of cache r of Some x \<Rightarrow> js_string x | None \<Rightarrow> v)
      | None \<Rightarrow> v)"

definition cached :: "(string \<times> js) list \<Rightarrow> string \<Rightarrow> bool" where
  "cached cache v \<longleftrightarrow> (case extractRefId v of Some r \<Rightarrow> r = [] \<or> map_of cache r \<noteq> None | None \<Rightarrow> True)"

lemma resolve_key_Inr:
  assumes "resolve_key getValue key s = (Inr (), s')" "map_of (ps_env s) key = Some v"
  shows "map_of (ps_cache s) \<subseteq>\<^sub>m map_of (ps_cache s') \<and> cached (ps_cache s') v \<and>
    map_of (ps_env s') = (map_of (ps_env s))(key \<mapsto> resolved_value (ps_cache s') v)"
proof (cases "extractRefId v")
  case None
  with assms show ?thesis by (auto simp: resolve_key_def io_simps cached_def resolved_value_def)
next
  case (Some r)
  show ?thesis
  proof (cases "r = []")
    case True
    with Some assms show ?thesis by (auto simp: resolve_key_def io_simps cached_def resolved_value_def)
  next
    case False
    show ?thesis
    proof (cases "map_of (ps_cache s) r")
      case None
      with Some False assms obtain x e where "getValue r (ps_ext s) = (Inr x, e)"
        "s' = set_env key x (s\<lparr>ps_ext := e, ps_cache := AList.update r x (ps_cache s)\<rparr>)"
        by (auto simp: resolve_key_def io_simps on_pam_def split: prod.splits sum.splits)
      with Some False None show ?thesis
        by (auto simp: set_env_def cached_def resolved_value_def update_conv' map_le_def)
    next
      case (Some x)
      with \<open>extractRefId v = Some r\<close> False assms show ?thesis
        by (auto simp: resolve_key_def io_simps set_env_def cached_def resolved_value_def update_conv')
    qed
  qed
qed

lemma cached_mono:
  assumes "map_of c \<subseteq>\<^sub>m map_of c'" "cached c v"
  shows "cached c' v \<and> resolved_value c' v = resolved_value c v"
proof (cases "extractRefId v")
  case (Some r)
  show ?thesis
  proof (cases "r = []")
    case False
    with Some assms(2) obtain x where "map_of c r = Some x" by (auto simp: cached_def)
    moreover from this assms(1) have "map_of c' r = Some x" by (auto simp: map_le_def dom_def)
    ultimately show ?thesis using Some by (simp add: cached_def resolved_value_def)
  qed (simp add: Some cached_def resolved_value_def)
qed (simp add: cached_def resolved_value_def)

lemma resolve_loop:
  assumes "io_foreach (resolve_key getValue) keys s = (Inr (), s')" "distinct keys" "set keys \<subseteq> dom (map_of (ps_env s))"
  shows "map_of (ps_cache s) \<subseteq>\<^sub>m map_of (ps_cache s') \<and>
    (\<forall>key. map_of (ps_env s') key =
      (if key \<in> set keys then map_option (resolved_value (ps_cache s')) (map_of (ps_env s) key) else map_of (ps_env s) key)) \<and>
    (\<forall>key v. key \<in> set keys \<longrightarrow> map_of (ps_env s) key = Some v \<longrightarrow> cached (ps_cache s') v)"
  using assms
proof (induction keys arbitrary: s)
  case Nil
  then show ?case by (simp add: io_simps)
next
  case (Cons key keys)
  from Cons.prems(1) obtain s1 where step: "resolve_key getValue key s = (Inr (), s1)"
    and rest: "io_foreach (resolve_key getValue) keys s1 = (Inr (), s')"
    by (auto simp: io_seq_Inr)
  from Cons.prems(3) obtain v where v: "map_of (ps_env s) key = Some v" by auto
  from resolve_key_Inr [OF step v] have one: "map_of (ps_cache s) \<subseteq>\<^sub>m map_of (ps_cache s1)" "cached (ps_cache s1) v"
    "map_of (ps_env s1) = (map_of (ps_env s))(key \<mapsto> resolved_value (ps_cache s1) v)" by blast+
  have keys: "set keys \<subseteq> dom (map_of (ps_env s1))" "key \<notin> set keys"
    using Cons.prems(2,3) by (auto simp: one(3))
  from Cons.IH [OF rest _ keys(1)] Cons.prems(2) have ih: "map_of (ps_cache s1) \<subseteq>\<^sub>m map_of (ps_cache s')"
    "\<forall>k. map_of (ps_env s') k = (if k \<in> set keys then map_option (resolved_value (ps_cache s')) (map_of (ps_env s1) k) else map_of (ps_env s1) k)"
    "\<forall>k v. k \<in> set keys \<longrightarrow> map_of (ps_env s1) k = Some v \<longrightarrow> cached (ps_cache s') v" by auto
  note now = cached_mono [OF ih(1) one(2)]
  show ?case
  proof (intro conjI allI impI)
    show "map_of (ps_cache s) \<subseteq>\<^sub>m map_of (ps_cache s')" using one(1) ih(1) by (rule map_le_trans)
    show "map_of (ps_env s') k = (if k \<in> set (key # keys) then map_option (resolved_value (ps_cache s')) (map_of (ps_env s) k)
        else map_of (ps_env s) k)" for k
      using ih(2) [rule_format, of k] keys(2) v now one(3) by auto
    show "cached (ps_cache s') u" if "k \<in> set (key # keys)" "map_of (ps_env s) k = Some u" for k u
      using ih(3) that now v one(3) keys(2) by (cases "k = key") auto
  qed
qed

text \<open>
  A program that started has its secrets: when resolution succeeds, every variable that held a reference
  with a name holds the value the manager gave for that name, every two variables with the same name the
  same value, and every other variable is as it was.
\<close>

theorem references_resolved:
  assumes "secrets_provider cfg = Str ''IndeedPamAapm''" "distinct (map fst (ps_env s))"
    and "resolveAll getValue cfg s = (Inr (), s')"
  shows "map_of (ps_env s') key =
    (case map_of (ps_env s) key of
       None \<Rightarrow> None
     | Some v \<Rightarrow>
         if is_pam_key (key, v) \<and> the (extractRefId v) \<noteq> []
         then map_option js_string (map_of (ps_cache s') (the (extractRefId v))) else Some v)"
    (is "_ = ?expected")
proof -
  have run: "io_foreach (resolve_key getValue) (pam_keys (ps_env s)) s = (Inr (), s')"
    using assms(1,3) by (simp add: resolveAll_def io_simps)
  have d: "distinct (pam_keys (ps_env s))" using assms(2) by (simp add: pam_keys_def distinct_map_filter)
  have sub: "set (pam_keys (ps_env s)) \<subseteq> dom (map_of (ps_env s))" by (auto simp: pam_keys_def dom_map_of_conv_image_fst)
  have mem: "key \<in> set (pam_keys (ps_env s)) \<longleftrightarrow> is_pam_key (key, v)" if "map_of (ps_env s) key = Some v" for v
  proof
    assume "key \<in> set (pam_keys (ps_env s))"
    then obtain u where "(key, u) \<in> set (ps_env s)" "is_pam_key (key, u)" by (auto simp: pam_keys_def)
    moreover from this(1) that assms(2) have "u = v" by (simp add: map_of_is_SomeI)
    ultimately show "is_pam_key (key, v)" by simp
  next
    assume "is_pam_key (key, v)"
    with map_of_SomeD [OF that] show "key \<in> set (pam_keys (ps_env s))" by (force simp: pam_keys_def)
  qed
  note loop = resolve_loop [OF run d sub]
  show ?thesis
  proof (cases "map_of (ps_env s) key")
    case None
    with loop show ?thesis by auto
  next
    case (Some v)
    show ?thesis
    proof (cases "is_pam_key (key, v)")
      case True
      with reference_has_id obtain r where r: "extractRefId v = Some r" by (auto simp: is_pam_key_def)
      with loop Some True mem [OF Some] show ?thesis by (fastforce simp: cached_def resolved_value_def)
    next
      case False
      with loop Some mem [OF Some] show ?thesis by auto
    qed
  qed
qed

lemma references_resolved_witness:
  "\<exists>s'. resolveAll (\<lambda>r. io_return (Str (''v-'' @ r))) ((\<lambda>_. Undef)(''SECRETS_PROVIDER'' := Str ''IndeedPamAapm''))
       \<lparr>ps_env = [(''A'', ''secret://db''), (''B'', ''x'')], ps_cache = [], ps_ext = ()\<rparr> = (Inr (), s') \<and>
     map_of (ps_env s') ''A'' = Some ''v-db'' \<and> map_of (ps_env s') ''B'' = Some ''x''"
proof -
  let ?cfg = "(\<lambda>_. Undef)(''SECRETS_PROVIDER'' := Str ''IndeedPamAapm'')"
  let ?s = "\<lparr>ps_env = [(''A'', ''secret://db''), (''B'', ''x'')], ps_cache = [], ps_ext = ()\<rparr>"
  let ?get = "\<lambda>r. io_return (Str (''v-'' @ r)) :: (unit, js) io"
  have prov: "secrets_provider ?cfg = Str ''IndeedPamAapm''" by (simp add: secrets_provider_def)
  have ref: "isReference ''secret://db''" "\<not> isReference ''x''" "extractRefId ''secret://db'' = Some ''db''"
    by (simp_all add: isReference_def extractRefId_def trim_def is_space_def to_lower_def to_lower_char_def upper_letters_def
        lower_letters_def)
  have keys: "pam_keys (ps_env ?s) = [''A'']" by (simp add: pam_keys_def is_pam_key_def ref)
  obtain s' where run: "resolveAll ?get ?cfg ?s = (Inr (), s')" and cache: "ps_cache s' = [(''db'', Str ''v-db'')]"
    using keys by (simp add: resolveAll_def prov io_simps resolve_key_def ref on_pam_def set_env_def)
  have d: "distinct (map fst (ps_env ?s))" by simp
  from references_resolved [OF prov d run, of "''A''"] references_resolved [OF prov d run, of "''B''"] run
  show ?thesis by (auto simp: is_pam_key_def ref cache)
qed

text \<open>
  A path with several parts is followed to decide that a value is there, but the value is then looked up under
  the whole path as one name: a nested value is never found.
\<close>

lemma nested_path_unreadable:
  "tryReadJsonPath (Obj [(''data'', Obj [(''pin'', Str ''p'')])]) ''data.pin'' \<and>
   extractValue (Obj [(''data'', Obj [(''pin'', Str ''p'')])]) ''json'' ''data.pin'' = Undef"
  by (simp add: tryReadJsonPath_def path_parts_def js_member_def extractValue_def is_json_answer_def own_value_def
      to_lower_def to_lower_char_def upper_letters_def lower_letters_def)

text \<open>The token of the application is in the header or in the query, and never beside a password.\<close>

lemma query_entry: "(k, v) \<in> set (query_entries es) \<longleftrightarrow> (k, Some v) \<in> set es \<and> v \<noteq> []"
  by (force simp: query_entries_def List.map_filter_def split: option.splits if_splits)

lemma token_in_one_place:
  assumes "pam_request_for read_file cfg refId = Inr rq"
  shows "(tokenTransport cfg \<noteq> ''query'' \<longrightarrow> (\<forall>v. (''token'', v) \<notin> set (pq_query rq))) \<and>
    (tokenTransport cfg = ''query'' \<longrightarrow> pq_bearer rq = None) \<and>
    (pq_auth rq \<noteq> None \<longrightarrow> pq_bearer rq = None \<and> (\<forall>v. (''token'', v) \<notin> set (pq_query rq)))"
proof -
  from assms obtain account creds where creds: "readCredentials read_file cfg = Inr creds"
    and query: "pq_query rq = pam_query cfg refId account creds" and rq: "pq_auth rq = pc_login creds"
      "pq_bearer rq = (if tokenTransport cfg \<noteq> ''query'' then
         (case pc_tkn creds of Some t \<Rightarrow> if t = [] then None else Some t | None \<Rightarrow> None) else None)"
    by (auto simp: pam_request_for_def res_bind_Inr)
  have one: "pc_login creds \<noteq> None \<Longrightarrow> pc_tkn creds = None"
    using creds by (auto simp: readCredentials_def res_bind_Inr split: option.splits)
  have "(''token'', v) \<in> set (pq_query rq) \<Longrightarrow> tokenTransport cfg = ''query'' \<and> pc_tkn creds \<noteq> None" for v
    unfolding query pam_query_def query_entry by (cases "pc_tkn creds") (auto split: if_splits)
  with rq one show ?thesis by auto
qed

text \<open>The older names fill gaps only: a variable that is set is never overridden.\<close>

lemma compatibility_keeps:
  "set_already env name \<Longrightarrow> applyPamCompatibility env name = env name"
proof -
  assume set: "set_already env name"
  have "name \<notin> fst ` set (compat_updates env)"
    using set by (auto simp: compat_updates_def List.map_filter_def split: if_splits)
  then have "map_of (compat_updates env) name = None" by (simp add: map_of_eq_None_iff)
  then show ?thesis by (simp add: applyPamCompatibility_def map_add_def)
qed

end
