(* ===== verification/Observability.thy ===== *)
theory Observability
  imports App_Config Target_Systems Idempotency
begin

text \<open>
  What the program writes about itself: \<^verbatim>\<open>src/config/logging.config.ts\<close> (the options of the logger),
  \<^verbatim>\<open>src/diagnostics/diagnostic-logger.service.ts\<close> (diagnostic records, with secrets taken out) and
  \<^verbatim>\<open>src/core/audit/audit.interceptor.ts\<close> (one row of the audit log for every webhook request), and the
  readiness check of \<^verbatim>\<open>src/health/health.controller.ts\<close>.
\<close>

section \<open>Options of the logger\<close>

type_synonym process_env = "string \<Rightarrow> string option"

definition envFlag :: "process_env \<Rightarrow> string \<Rightarrow> string option \<Rightarrow> bool" where
  "envFlag penv primary fallback \<longleftrightarrow>
     penv primary = Some ''true'' \<or> (case fallback of Some f \<Rightarrow> penv f = Some ''true'' | None \<Rightarrow> False)"

definition debugLevel :: "process_env \<Rightarrow> string" where
  "debugLevel penv =
     (let v = (case penv ''DebugLogging__Level'' of Some l \<Rightarrow> Some l | None \<Rightarrow> penv ''DEBUG_LOGGING_LEVEL'') in
      if v = Some ''Verbose'' then ''Verbose'' else ''Basic'')"

record logging_config =
  lc_debugEnabled :: bool
  lc_debugLevel :: string
  lc_logSink :: string
  lc_logFilePath :: string
  lc_pinoLevel :: string

definition runtimeLoggingConfig :: "process_env \<Rightarrow> logging_config" where
  "runtimeLoggingConfig penv =
     (let debugEnabled = envFlag penv ''DebugLogging__Enabled'' (Some ''DEBUG_LOGGING_ENABLED''); level = debugLevel penv in
      \<lparr>lc_debugEnabled = debugEnabled, lc_debugLevel = level,
       lc_logSink = (if penv ''LOG_SINK'' = Some ''file'' then ''file'' else ''stdout''),
       lc_logFilePath = (case penv ''LOG_FILE_PATH'' of Some p \<Rightarrow> p | None \<Rightarrow> ''/tmp/idmmw.log''),
       lc_pinoLevel = (if debugEnabled \<and> level = ''Verbose'' then ''debug''
         else if penv ''NODE_ENV'' = Some ''production'' then ''info'' else ''debug'')\<rparr>)"

definition secret_fields :: "string list" where
  "secret_fields = [''password'', ''passwd'', ''token'', ''accessToken'', ''apiToken'', ''refreshToken'', ''masterKey'',
     ''masterKeyHash'', ''credential'', ''apiKey'', ''key'', ''secret'']"

definition tls_fields :: "string list" where
  "tls_fields = [''key'', ''cert'', ''ca'', ''walletPassword'']"

definition under :: "string \<Rightarrow> string list \<Rightarrow> string list" where
  "under path names = map (\<lambda>n. path @ ''.'' @ n) names"

definition SECRET_REDACTION_PATHS :: "string list" where
  "SECRET_REDACTION_PATHS =
     [''req.headers.authorization'', ''req.headers.cookie'', ''headers.Authorization'', ''headers.authorization''] @
     under ''payload.config'' secret_fields @ under ''payload.config.tls'' tls_fields @
     under ''payload.data'' [''password'', ''passwd'', ''newValue'', ''oldValue'', ''value'', ''credential''] @
     under ''payload.params'' [''password'', ''passwd'', ''token'', ''secret'', ''newValue'', ''oldValue'', ''value'', ''credential''] @
     under ''config'' secret_fields @ under ''config.tls'' tls_fields @ under ''tls'' tls_fields @
     [''ENCRYPTION_KEY'', ''ENCRYPTION_KEYS'', ''HTTP_TLS_KEY'', ''REDIS_TLS_KEY'', ''KAFKA_TLS_KEY'', ''DB_CONNECTOR_TLS_KEY''] @
     under ''*'' [''password'', ''passwd'', ''token'', ''accessToken'', ''apiToken'', ''refreshToken'', ''masterKey'',
       ''masterKeyHash'', ''credential'', ''newValue'', ''oldValue'', ''value'', ''apiKey'', ''key'', ''secret'', ''cert'', ''ca'',
       ''walletPassword'']"

text \<open>The options given to the logger; with a file as sink the records go to standard output as well.\<close>

record pino_options =
  po_level :: string
  po_redact :: "string list"
  po_censor :: string
  po_pretty :: bool
  po_streams :: "string list"

definition createPinoHttpConfig :: "process_env \<Rightarrow> pino_options" where
  "createPinoHttpConfig penv =
     (let cfg = runtimeLoggingConfig penv in
      \<lparr>po_level = lc_pinoLevel cfg, po_redact = SECRET_REDACTION_PATHS, po_censor = SECRET_REDACTION_CENSOR,
       po_pretty = (lc_logSink cfg = ''stdout'' \<and> penv ''NODE_ENV'' \<noteq> Some ''production''),
       po_streams = (if lc_logSink cfg \<noteq> ''file'' then [] else [''stdout'', lc_logFilePath cfg])\<rparr>)"

section \<open>Diagnostic records\<close>

definition diagnostics_enabled :: "config \<Rightarrow> bool" where
  "diagnostics_enabled cfg \<longleftrightarrow> cfg_bool cfg ''DebugLogging__Enabled'' \<or> cfg_bool cfg ''DEBUG_LOGGING_ENABLED''"

definition diagnostics_level :: "config \<Rightarrow> string" where
  "diagnostics_level cfg =
     (if coalesce (cfg ''DebugLogging__Level'') (cfg ''DEBUG_LOGGING_LEVEL'') = Str ''Verbose'' then ''Verbose'' else ''Basic'')"

definition is_object :: "js \<Rightarrow> bool" where
  "is_object v \<longleftrightarrow> (case v of Obj ob \<Rightarrow> True | Arr xs \<Rightarrow> True | _ \<Rightarrow> False)"

fun diag_redact :: "bool \<Rightarrow> js \<Rightarrow> js" where
  "diag_redact keep (Arr xs) = Arr (map (diag_redact keep) xs)"
| "diag_redact keep (Obj ob) =
     Obj (map (\<lambda>(key, item). (key,
       if isSecretKey key then Str SECRET_REDACTION_CENSOR
       else if \<not> keep \<and> is_object item then Str ''[omitted]''
       else diag_redact keep item)) ob)"
| "diag_redact keep v = v"

definition diag_record :: "string \<Rightarrow> string \<Rightarrow> bool \<Rightarrow> obj \<Rightarrow> obj" where
  "diag_record level event keep flds =
     obj_spread [(''diagnostic'', Bool True), (''diagnosticLevel'', Str level), (''event'', Str event)]
       (as_record (diag_redact keep (Obj flds)))"

text \<open>The record written, if any.\<close>

definition diag_basic :: "config \<Rightarrow> string \<Rightarrow> obj \<Rightarrow> obj option" where
  "diag_basic cfg event flds = (if diagnostics_enabled cfg then Some (diag_record ''Basic'' event False flds) else None)"

definition diag_verbose :: "config \<Rightarrow> string \<Rightarrow> obj \<Rightarrow> obj option" where
  "diag_verbose cfg event flds =
     (if \<not> diagnostics_enabled cfg \<or> diagnostics_level cfg \<noteq> ''Verbose'' then None
      else Some (diag_record ''Verbose'' event True flds))"

section \<open>The audit log\<close>

record audit_data =
  ad_eventId :: string
  ad_operation :: js
  ad_targetSystem :: js
  ad_payload :: js
  ad_response :: js
  ad_status :: string
  ad_errorMessage :: "string option"

text \<open>
  The client refuses an operation or target system that is no text, and an event identifier that exists; the
  interceptor ignores every error of the write.
\<close>

definition audit_create :: "audit_data \<Rightarrow> ('e world, unit) io" where
  "audit_create d =
     io_catch
       (case (ad_operation d, ad_targetSystem d) of
          (Str op, Str ts) \<Rightarrow> db_call (\<lambda>w.
            if ad_eventId d \<in> a_eventId ` set (w_audit w) then (Inl (PrismaError ''P2002'' ''Unique constraint failed''), w)
            else (case fresh_id w of (i, w1) \<Rightarrow>
              (Inr (), w1\<lparr>w_audit := w_audit w1 @ [\<lparr>a_id = i, a_eventId = ad_eventId d, a_source = ''avanpost'', a_operation = op,
                 a_targetSystem = ts, a_payload = ad_payload d, a_response = ad_response d, a_status = ad_status d,
                 a_errorMessage = ad_errorMessage d, a_createdAt = w_now w\<rparr>]\<rparr>)))
        | _ \<Rightarrow> io_throw (Error ''Invalid value provided''))
       (\<lambda>_. io_return ())"

definition body_field :: "js \<Rightarrow> string \<Rightarrow> js" where
  "body_field body k = coalesce (js_prop body k) (Str ''unknown'')"

definition audit_eventId :: "js \<Rightarrow> int \<Rightarrow> string" where
  "audit_eventId body now = js_string (body_field body ''eventId'') @ ''-'' @ show_int now"

definition audit_payload :: "env \<Rightarrow> request \<Rightarrow> ('e world, js) io" where
  "audit_payload env req =
     toJson_io env (Obj [(''request'', rq_body req), (''method'', Str (rq_method req)), (''url'', Str (rq_url req))])"

definition audit_success :: "env \<Rightarrow> request \<Rightarrow> js \<Rightarrow> ('e world, unit) io" where
  "audit_success env req response =
     io_bind (io_get w_now) (\<lambda>now.
     io_bind (audit_payload env req) (\<lambda>payload.
     io_bind (toJson_io env (Obj [(''response'', response)])) (\<lambda>stored.
     audit_create \<lparr>ad_eventId = audit_eventId (rq_body req) now, ad_operation = body_field (rq_body req) ''operation'',
       ad_targetSystem = body_field (rq_body req) ''targetSystem'', ad_payload = payload, ad_response = stored,
       ad_status = ''success'', ad_errorMessage = None\<rparr>)))"

definition audit_failure :: "env \<Rightarrow> request \<Rightarrow> exn \<Rightarrow> ('e world, unit) io" where
  "audit_failure env req error =
     io_bind (io_get w_now) (\<lambda>now.
     io_bind (audit_payload env req) (\<lambda>payload.
     audit_create \<lparr>ad_eventId = audit_eventId (rq_body req) now, ad_operation = body_field (rq_body req) ''operation'',
       ad_targetSystem = body_field (rq_body req) ''targetSystem'', ad_payload = payload, ad_response = Undef,
       ad_status = ''error'', ad_errorMessage = Some (exn_message error)\<rparr>))"

text \<open>
  \<open>tap\<close> and \<open>catchError\<close>: the write is started, not awaited; here it happens at once. What throws while the
  row is built becomes the outcome.
\<close>

definition audit_intercept :: "env \<Rightarrow> request \<Rightarrow> ('e world, js) io \<Rightarrow> ('e world, js) io" where
  "audit_intercept env req handler =
     io_catch (io_bind handler (\<lambda>response. io_seq (audit_success env req response) (io_return response)))
       (\<lambda>error. io_seq (audit_failure env req error) (io_throw error))"

section \<open>Readiness\<close>

record readiness =
  rd_database :: bool
  rd_redis :: redis_health
  rd_kafka_enabled :: bool
  rd_kafka_brokers :: js

text \<open>The checks of \<open>/ready\<close>; the program is ready when the database answers and Redis is not down.\<close>

definition health_ready :: "env \<Rightarrow> ('e world, readiness) io" where
  "health_ready env =
     io_bind (io_catch (io_seq (db_call (io_return ())) (io_return True)) (\<lambda>_. io_return False)) (\<lambda>database.
     io_bind (redis_healthCheck env) (\<lambda>redis.
     io_return \<lparr>rd_database = database, rd_redis = redis, rd_kafka_enabled = cfg_bool (en_cfg env) ''KAFKA_ENABLED'',
       rd_kafka_brokers = coalesce (en_cfg env ''KAFKA_BROKERS'') Null\<rparr>))"

definition is_ready :: "readiness \<Rightarrow> bool" where
  "is_ready r \<longleftrightarrow> rd_database r \<and> (case rd_redis r of RedisUp _ \<Rightarrow> True | RedisDown _ _ \<Rightarrow> False)"

section \<open>Diagnostics show no secret\<close>

fun diag_clean :: "js \<Rightarrow> bool" where
  "diag_clean (Arr xs) = list_all diag_clean xs"
| "diag_clean (Obj ob) =
     list_all (\<lambda>(key, item). if isSecretKey key then item = Str SECRET_REDACTION_CENSOR else diag_clean item) ob"
| "diag_clean v = True"

lemma diag_redact_clean: "diag_clean (diag_redact keep v)"
  by (induction keep v rule: diag_redact.induct) (auto simp: list_all_iff)

lemma clean_entries: "diag_clean (Obj ob) \<longleftrightarrow>
    (\<forall>(key, item) \<in> set ob. if isSecretKey key then item = Str SECRET_REDACTION_CENSOR else diag_clean item)"
  by (simp add: list_all_iff)

lemma obj_set_entries: "set (obj_set ob k v) \<subseteq> insert (k, v) (set ob)"
  unfolding obj_set_def by (induction ob) auto

lemma obj_spread_entries: "set (obj_spread a b) \<subseteq> set a \<union> set b"
proof (induction b arbitrary: a)
  case (Cons kv b)
  have "set (obj_spread (obj_set a (fst kv) (snd kv)) b) \<subseteq> insert kv (set a) \<union> set b"
    using Cons [of "obj_set a (fst kv) (snd kv)"] obj_set_entries [of a "fst kv" "snd kv"] by auto
  then show ?case by (auto simp: obj_spread_def case_prod_beta)
qed (simp add: obj_spread_def)

lemma diag_record_clean: "diag_clean (Obj (diag_record level event keep flds))"
proof -
  let ?head = "[(''diagnostic'', Bool True), (''diagnosticLevel'', Str level), (''event'', Str event)]"
  have "\<not> isSecretKey ''diagnostic''" "\<not> isSecretKey ''diagnosticLevel''" "\<not> isSecretKey ''event''"
    by (simp_all add: secret_key_eval)
  then have head: "diag_clean (Obj ?head)" by simp
  have "diag_clean (Obj (as_record (diag_redact keep (Obj flds))))"
    using diag_redact_clean [of keep "Obj flds"] by (simp add: as_record_def)
  with head show ?thesis
    unfolding clean_entries diag_record_def using obj_spread_entries [of ?head "as_record (diag_redact keep (Obj flds))"] by blast
qed

text \<open>
  Diagnostics show no secret: in every record that is written, basic or verbose, the value under every
  secret key is the censor, at every depth; and a basic record carries no nested value of its fields at all.
\<close>

theorem diagnostics_hide_secrets:
  "(case diag_basic cfg event flds of None \<Rightarrow> True | Some r \<Rightarrow> diag_clean (Obj r) \<and> list_all (\<lambda>kv. \<not> is_object (snd kv)) r) \<and>
   (case diag_verbose cfg event flds of None \<Rightarrow> True | Some r \<Rightarrow> diag_clean (Obj r))"
proof -
  let ?head = "[(''diagnostic'', Bool True), (''diagnosticLevel'', Str ''Basic''), (''event'', Str event)]"
  have flat: "\<not> is_object (diag_redact keep v)" if "\<not> is_object v" for keep v
    using that by (cases v) (simp_all add: is_object_def)
  have "\<forall>kv \<in> set (as_record (diag_redact False (Obj flds))). \<not> is_object (snd kv)"
    using flat by (auto simp: as_record_def is_object_def [of "Str x" for x] split: if_splits)
  then have "\<forall>kv \<in> set (diag_record ''Basic'' event False flds). \<not> is_object (snd kv)"
    using obj_spread_entries [of ?head "as_record (diag_redact False (Obj flds))"]
    unfolding diag_record_def by (fastforce simp: is_object_def)
  then show ?thesis
    by (simp add: diag_basic_def diag_verbose_def diag_record_clean list_all_iff del: diag_clean.simps split: option.splits)
qed

text \<open>
  The schema gives \<open>DebugLogging__Level\<close> the default \<open>Basic\<close>, so in an accepted configuration the diagnostics
  never fall back to \<open>DEBUG_LOGGING_LEVEL\<close>, while the logger, which reads the environment itself, does.
\<close>

lemma second_name_ignored:
  assumes "appConfig_parse input = Inr cfg" "input ''DebugLogging__Level'' = Undef"
  shows "diagnostics_level cfg = ''Basic'' \<and> debugLevel [''DEBUG_LOGGING_LEVEL'' \<mapsto> ''Verbose''] = ''Verbose''"
proof -
  have "map_of appConfigFields ''DebugLogging__Level'' = Some (Field (Choice [''Basic'', ''Verbose'']) (Some (Str ''Basic'')))"
    unfolding appConfigFields_def schema_groups append.simps map_of.simps fst_conv snd_conv fun_upd_apply by simp
  with assms accepted_config(1) [OF assms(1)] have "cfg ''DebugLogging__Level'' = Str ''Basic''"
    by (simp add: parsed_config_def read_field_def)
  then show ?thesis by (simp add: diagnostics_level_def debugLevel_def)
qed

section \<open>Every request is audited\<close>

definition audit_row :: "audit_data \<Rightarrow> audit_log \<Rightarrow> bool" where
  "audit_row d r \<longleftrightarrow> a_eventId r = ad_eventId d \<and> Str (a_operation r) = ad_operation d \<and>
     Str (a_targetSystem r) = ad_targetSystem d \<and> a_status r = ad_status d \<and> a_errorMessage r = ad_errorMessage d"

lemma audit_create_effect:
  obtains fs n rows where "audit_create d w = (Inr (), w\<lparr>w_faults := fs, w_nextId := n, w_audit := w_audit w @ rows\<rparr>)"
    "length rows \<le> 1" "\<forall>r \<in> set rows. audit_row d r"
    "w_faults w = [] \<and> (\<exists>op. ad_operation d = Str op) \<and> (\<exists>ts. ad_targetSystem d = Str ts) \<and>
       ad_eventId d \<notin> a_eventId ` set (w_audit w) \<longrightarrow> rows \<noteq> []"
proof -
  define f where "f = (\<lambda>op ts (w :: 'a world).
            if ad_eventId d \<in> a_eventId ` set (w_audit w) then (Inl (PrismaError ''P2002'' ''Unique constraint failed''), w)
            else (case fresh_id w of (i, w1) \<Rightarrow>
              (Inr (), w1\<lparr>w_audit := w_audit w1 @ [\<lparr>a_id = i, a_eventId = ad_eventId d, a_source = ''avanpost'', a_operation = op,
                 a_targetSystem = ts, a_payload = ad_payload d, a_response = ad_response d, a_status = ad_status d,
                 a_errorMessage = ad_errorMessage d, a_createdAt = w_now w\<rparr>]\<rparr>)))"
  have same: "w\<lparr>w_faults := fs, w_nextId := w_nextId w, w_audit := w_audit w @ []\<rparr> = w\<lparr>w_faults := fs\<rparr>" for fs by (cases w) simp
  have same2: "w\<lparr>w_faults := w_faults w\<rparr> = w" by (cases w) simp
  show ?thesis
  proof (cases "\<exists>op ts. ad_operation d = Str op \<and> ad_targetSystem d = Str ts")
    case False
    then have "audit_create d w = (Inr (), w)"
      by (auto simp: audit_create_def io_catch_def io_throw_def io_return_def split: js.splits)
    with False same [of "w_faults w"] show ?thesis by (intro that [where fs = "w_faults w" and n = "w_nextId w" and rows = "[]"]) (auto simp: same2)
  next
    case True
    then obtain op ts where d: "ad_operation d = Str op" "ad_targetSystem d = Str ts" by blast
    then have create: "audit_create d w = io_catch (db_call (f op ts)) (\<lambda>_. io_return ()) w"
      by (simp add: audit_create_def f_def)
    show ?thesis
    proof (cases rule: db_call_cases [of "f op ts" w])
      case (ok fs)
      show ?thesis
      proof (cases "ad_eventId d \<in> a_eventId ` set (w_audit w)")
        case True
        with ok create have "audit_create d w = (Inr (), w\<lparr>w_faults := fs\<rparr>)"
          by (simp add: f_def io_catch_def io_return_def)
        with True same [of fs] show ?thesis by (intro that [where fs = fs and n = "w_nextId w" and rows = "[]"]) auto
      next
        case False
        with ok create d show ?thesis
          by (intro that [where fs = fs and n = "Suc (w_nextId w)" and rows = "[\<lparr>a_id = show_nat (w_nextId w), a_eventId = ad_eventId d, a_source = ''avanpost'',
                 a_operation = op, a_targetSystem = ts, a_payload = ad_payload d, a_response = ad_response d, a_status = ad_status d,
                 a_errorMessage = ad_errorMessage d, a_createdAt = w_now w\<rparr>]"])
            (simp_all add: f_def io_catch_def fresh_id_def audit_row_def)
      qed
    next
      case (fault e fs)
      then have "w_faults w \<noteq> [] \<or> ad_eventId d \<in> a_eventId ` set (w_audit w)"
        by (auto simp: db_call_def f_def fresh_id_def split: if_splits)
      with fault create same [of fs] show ?thesis
        by (intro that [where fs = fs and n = "w_nextId w" and rows = "[]"]) (auto simp: io_catch_def io_return_def)
    qed
  qed
qed

lemma audit_steps:
  assumes "\<forall>n v. \<exists>s. en_toJson env n v = Inr s"
  shows "\<exists>payload stored. audit_success env req response w =
      audit_create \<lparr>ad_eventId = audit_eventId (rq_body req) (w_now w), ad_operation = body_field (rq_body req) ''operation'',
       ad_targetSystem = body_field (rq_body req) ''targetSystem'', ad_payload = payload, ad_response = stored,
       ad_status = ''success'', ad_errorMessage = None\<rparr> (w\<lparr>w_nextId := Suc (Suc (w_nextId w))\<rparr>)"
    "\<exists>payload. audit_failure env req error w =
      audit_create \<lparr>ad_eventId = audit_eventId (rq_body req) (w_now w), ad_operation = body_field (rq_body req) ''operation'',
       ad_targetSystem = body_field (rq_body req) ''targetSystem'', ad_payload = payload, ad_response = Undef,
       ad_status = ''error'', ad_errorMessage = Some (exn_message error)\<rparr> (w\<lparr>w_nextId := Suc (w_nextId w)\<rparr>)"
proof -
  let ?p = "Obj [(''request'', rq_body req), (''method'', Str (rq_method req)), (''url'', Str (rq_url req))]"
  from assms obtain p where p: "en_toJson env (w_nextId w) ?p = Inr p" by blast
  from assms obtain q where q: "en_toJson env (Suc (w_nextId w)) (Obj [(''response'', response)]) = Inr q" by blast
  show "\<exists>payload stored. audit_success env req response w =
      audit_create \<lparr>ad_eventId = audit_eventId (rq_body req) (w_now w), ad_operation = body_field (rq_body req) ''operation'',
       ad_targetSystem = body_field (rq_body req) ''targetSystem'', ad_payload = payload, ad_response = stored,
       ad_status = ''success'', ad_errorMessage = None\<rparr> (w\<lparr>w_nextId := Suc (Suc (w_nextId w))\<rparr>)"
    by (intro exI [of _ p] exI [of _ q]) (simp add: audit_success_def io_run io_bind_run audit_payload_def toJson_io_def p q)
  show "\<exists>payload. audit_failure env req error w =
      audit_create \<lparr>ad_eventId = audit_eventId (rq_body req) (w_now w), ad_operation = body_field (rq_body req) ''operation'',
       ad_targetSystem = body_field (rq_body req) ''targetSystem'', ad_payload = payload, ad_response = Undef,
       ad_status = ''error'', ad_errorMessage = Some (exn_message error)\<rparr> (w\<lparr>w_nextId := Suc (w_nextId w)\<rparr>)"
    by (intro exI [of _ p]) (simp add: audit_failure_def io_run io_bind_run audit_payload_def toJson_io_def p)
qed

text \<open>
  Auditing a request never changes what it is answered: as long as rows can be encoded, the outcome is
  the handler's, value or error, nothing but the audit log (and the counters of the client) is touched, and at
  most one row is written, with the status of the outcome and the message of the error; it is written
  whenever the database answers, the body names its operation and target system and the row is new.
\<close>

theorem audit_leaves_outcome:
  assumes "\<forall>n v. \<exists>s. en_toJson env n v = Inr s" "handler w = (r, w1)"
  shows "\<exists>fs n rows. audit_intercept env req handler w = (r, w1\<lparr>w_faults := fs, w_nextId := n, w_audit := w_audit w1 @ rows\<rparr>) \<and>
    length rows \<le> 1 \<and>
    (\<forall>row \<in> set rows. a_status row = (if isl r then ''error'' else ''success'') \<and>
      a_errorMessage row = (case r of Inl e \<Rightarrow> Some (exn_message e) | Inr _ \<Rightarrow> None)) \<and>
    (w_faults w1 = [] \<and> (\<exists>op. body_field (rq_body req) ''operation'' = Str op) \<and>
      (\<exists>ts. body_field (rq_body req) ''targetSystem'' = Str ts) \<and>
      audit_eventId (rq_body req) (w_now w1) \<notin> a_eventId ` set (w_audit w1) \<longrightarrow> rows \<noteq> [])"
proof (cases r)
  case (Inl e)
  from audit_steps(2) [OF assms(1)] obtain payload where step: "audit_failure env req e w1 =
      audit_create \<lparr>ad_eventId = audit_eventId (rq_body req) (w_now w1), ad_operation = body_field (rq_body req) ''operation'',
       ad_targetSystem = body_field (rq_body req) ''targetSystem'', ad_payload = payload, ad_response = Undef,
       ad_status = ''error'', ad_errorMessage = Some (exn_message e)\<rparr> (w1\<lparr>w_nextId := Suc (w_nextId w1)\<rparr>)"
    (is "_ = audit_create ?d ?w") by blast
  have run: "audit_intercept env req handler w = io_seq (audit_failure env req e) (io_throw e) w1"
    by (simp add: audit_intercept_def io_catch_def io_bind_def assms(2) Inl)
  obtain fs n rows where "audit_create ?d ?w = (Inr (), ?w\<lparr>w_faults := fs, w_nextId := n, w_audit := w_audit ?w @ rows\<rparr>)"
    "length rows \<le> 1" "\<forall>r \<in> set rows. audit_row ?d r"
    "w_faults ?w = [] \<and> (\<exists>op. ad_operation ?d = Str op) \<and> (\<exists>ts. ad_targetSystem ?d = Str ts) \<and>
       ad_eventId ?d \<notin> a_eventId ` set (w_audit ?w) \<longrightarrow> rows \<noteq> []" by (rule audit_create_effect)
  then show ?thesis
    by (intro exI [of _ fs] exI [of _ n] exI [of _ rows]) (simp add: run io_run io_bind_run step Inl audit_row_def)
next
  case (Inr x)
  from audit_steps(1) [OF assms(1)] obtain payload stored where step: "audit_success env req x w1 =
      audit_create \<lparr>ad_eventId = audit_eventId (rq_body req) (w_now w1), ad_operation = body_field (rq_body req) ''operation'',
       ad_targetSystem = body_field (rq_body req) ''targetSystem'', ad_payload = payload, ad_response = stored,
       ad_status = ''success'', ad_errorMessage = None\<rparr> (w1\<lparr>w_nextId := Suc (Suc (w_nextId w1))\<rparr>)"
    (is "_ = audit_create ?d ?w") by blast
  obtain fs n rows where "audit_create ?d ?w = (Inr (), ?w\<lparr>w_faults := fs, w_nextId := n, w_audit := w_audit ?w @ rows\<rparr>)"
    "length rows \<le> 1" "\<forall>r \<in> set rows. audit_row ?d r"
    "w_faults ?w = [] \<and> (\<exists>op. ad_operation ?d = Str op) \<and> (\<exists>ts. ad_targetSystem ?d = Str ts) \<and>
       ad_eventId ?d \<notin> a_eventId ` set (w_audit ?w) \<longrightarrow> rows \<noteq> []" by (rule audit_create_effect)
  then show ?thesis
    by (intro exI [of _ fs] exI [of _ n] exI [of _ rows])
      (simp add: audit_intercept_def io_run io_bind_run assms(2) step Inr audit_row_def)
qed

lemma audit_leaves_outcome_witness:
  "\<exists>fs n row. audit_intercept demo_env ((demo_request [])\<lparr>rq_body := Obj [(''operation'', Str ''user.get''), (''targetSystem'', Str ''z'')]\<rparr>)
     (io_throw (Error ''refused'')) (init_world 0 ()) =
       (Inl (Error ''refused''), (init_world 0 ())\<lparr>w_faults := fs, w_nextId := n, w_audit := [row]\<rparr>) \<and>
     a_status row = ''error'' \<and> a_errorMessage row = Some ''refused''"
proof -
  let ?req = "(demo_request [])\<lparr>rq_body := Obj [(''operation'', Str ''user.get''), (''targetSystem'', Str ''z'')]\<rparr>"
  let ?w = "init_world 0 () :: unit world"
  have json: "\<forall>n v. \<exists>s. en_toJson demo_env n v = Inr s" by (simp add: demo_env_def)
  have run: "io_throw (Error ''refused'') ?w = (Inl (Error ''refused''), ?w)" by (simp add: io_run)
  let ?body = "Obj [(''operation'', Str ''user.get''), (''targetSystem'', Str ''z'')]"
  have body: "body_field ?body ''operation'' = Str ''user.get''" "body_field ?body ''targetSystem'' = Str ''z''"
    by (simp_all add: body_field_def js_prop_def obj_get_def)
  have fields: "w_faults ?w = []" "w_audit ?w = []" by (simp_all add: init_world_def)
  from audit_leaves_outcome [where req = ?req and handler = "io_throw (Error ''refused'')", OF json run] obtain fs n rows where
    "audit_intercept demo_env ?req (io_throw (Error ''refused'')) ?w =
      (Inl (Error ''refused''), ?w\<lparr>w_faults := fs, w_nextId := n, w_audit := w_audit ?w @ rows\<rparr>)"
    "length rows \<le> 1" "rows \<noteq> []" "\<forall>row \<in> set rows. a_status row = ''error'' \<and> a_errorMessage row = Some ''refused''"
    by (auto simp: body fields)
  then show ?thesis by (cases rows) (auto simp: fields)
qed

end
