(* ===== verification/Pipeline.thy ===== *)
theory Pipeline
  imports Admin Idempotency Zabbix_Connector Cmdbuild_Connector Passwork_Connector Fake_Connector
begin

text \<open>
  Properties that span components: the stores of idempotency keys against an abstract table of locks, the
  time one delivery can take, how often a connector is called, and what becomes of an item of the queue that
  is retried.
\<close>

section \<open>The abstract table of locks\<close>

text \<open>What admission of events promises: a key is locked from its admission up to a time.\<close>

type_synonym lock_table = "string \<Rightarrow> int option"

definition spec_locked :: "int \<Rightarrow> string \<Rightarrow> lock_table \<Rightarrow> bool" where
  "spec_locked now k m \<longleftrightarrow> (case m k of Some e \<Rightarrow> now < e | None \<Rightarrow> False)"

definition spec_lock :: "int \<Rightarrow> int \<Rightarrow> string \<Rightarrow> lock_table \<Rightarrow> bool \<times> lock_table" where
  "spec_lock now ttl k m = (if spec_locked now k m then (False, m) else (True, m(k \<mapsto> now + ttl * 1000)))"

inductive spec_run :: "int \<Rightarrow> lock_table \<Rightarrow> idem_action list \<Rightarrow> int \<Rightarrow> lock_table \<Rightarrow> bool" where
  spec_done: "spec_run now m [] now m"
| spec_step_lock: "spec_lock now ttl key m = (b, m') \<Longrightarrow> 0 < ttl \<Longrightarrow> spec_run now m' as now' m'' \<Longrightarrow>
    spec_run now m (Lock key ttl b # as) now' m''"
| spec_step_release: "spec_run now (m(key := None)) as now' m'' \<Longrightarrow> spec_run now m (Release key # as) now' m''"
| spec_step_tick: "0 \<le> d \<Longrightarrow> spec_run (now + d) m as now' m'' \<Longrightarrow> spec_run now m (Tick d # as) now' m''"

text \<open>From now on the store answers as the table does.\<close>

definition represents :: "('e world \<Rightarrow> string \<Rightarrow> int \<Rightarrow> bool) \<Rightarrow> 'e world \<Rightarrow> lock_table \<Rightarrow> bool" where
  "represents live w m \<longleftrightarrow> (\<forall>k t. w_now w \<le> t \<longrightarrow> live w k t = spec_locked t k m)"

lemma plain_check: "checkAndLock st plain_keys key ttl = st_setIfNotExists st key ttl"
  by (simp add: checkAndLock_def plain_keys_def io_bind_value)

lemma plain_release:
  "st_delete st key w = (Inr (), w') \<Longrightarrow> idem_release st plain_keys key w = (Inr (), w')"
  by (simp add: idem_release_def plain_keys_def io_bind_value io_simps)

context idempotency_store
begin

lemma lock_simulated:
  assumes "good w" "represents live w m" "0 < ttl" "st_setIfNotExists st key ttl w = (r, w')"
  shows "r = Inr (fst (spec_lock (w_now w) ttl key m)) \<and> good w' \<and> w_now w' = w_now w \<and>
    represents live w' (snd (spec_lock (w_now w) ttl key m))"
proof (cases "live w key (w_now w)")
  case True
  then have "spec_locked (w_now w) key m" using assms(2) by (auto simp: represents_def)
  with True set_live [OF assms(1,3) True] assms show ?thesis by (simp add: spec_lock_def)
next
  case False
  then have free: "\<not> spec_locked (w_now w) key m" using assms(2) by (auto simp: represents_def)
  from set_free [OF assms(1,3) False] obtain w1 where w1: "st_setIfNotExists st key ttl w = (Inr True, w1)" "good w1"
    "w_now w1 = w_now w" "\<forall>t \<ge> w_now w. live w1 key t = (t < w_now w + ttl * 1000)"
    "\<forall>j t. j \<noteq> key \<longrightarrow> w_now w \<le> t \<longrightarrow> live w1 j t = live w j t" by blast
  have "live w1 k t = spec_locked t k (m(key \<mapsto> w_now w + ttl * 1000))" if "w_now w \<le> t" for k t
    using that w1(4,5) assms(2) by (cases "k = key") (auto simp: represents_def spec_locked_def)
  with w1 assms(4) free show ?thesis by (auto simp: spec_lock_def represents_def)
qed

lemma release_simulated:
  assumes "good w" "represents live w m"
  shows "\<exists>w'. idem_release st plain_keys key w = (Inr (), w') \<and> good w' \<and> w_now w' = w_now w \<and>
    represents live w' (m(key := None))"
proof -
  from delete_law [OF assms(1)] obtain w' where w': "st_delete st key w = (Inr (), w')" "good w'" "w_now w' = w_now w"
    "\<forall>t. \<not> live w' key t" "\<forall>j t. j \<noteq> key \<longrightarrow> live w' j t = live w j t" by blast
  have "live w' k t = spec_locked t k (m(key := None))" if "w_now w \<le> t" for k t
    using that w'(4,5) assms(2) by (cases "k = key") (auto simp: represents_def spec_locked_def)
  with w' plain_release [OF w'(1)] show ?thesis by (auto simp: represents_def)
qed

lemma run_simulated:
  assumes "idem_run st plain_keys w as w'" "good w" "represents live w m"
  shows "\<exists>m'. spec_run (w_now w) m as (w_now w') m' \<and> good w' \<and> represents live w' m'"
  using assms
proof (induction w as w' arbitrary: m rule: idem_run.induct [consumes 1, case_names idone lock release tick])
  case (idone w)
  then show ?case by (auto intro: spec_run.intros)
next
  case (lock key ttl w r w' as w'')
  from lock_simulated [OF lock.prems lock.hyps(2)] lock.hyps(1)
  have sim: "r = Inr (fst (spec_lock (w_now w) ttl key m))" "good w'" "w_now w' = w_now w"
    "represents live w' (snd (spec_lock (w_now w) ttl key m))" by (auto simp: plain_check)
  from lock.IH [OF sim(2,4)] obtain m' where "spec_run (w_now w') (snd (spec_lock (w_now w) ttl key m)) as (w_now w'') m'"
    "good w''" "represents live w'' m'" by blast
  with sim(1,3) lock.hyps(2) show ?case by (intro exI [of _ m']) (auto intro!: spec_step_lock)
next
  case (release key w r w' as w'')
  from release_simulated [OF release.prems, of key] release.hyps(1)
  have sim: "good w'" "w_now w' = w_now w" "represents live w' (m(key := None))" by auto
  from release.IH [OF sim(1,3)] obtain m' where "spec_run (w_now w) (m(key := None)) as (w_now w'') m'" "good w''"
    "represents live w'' m'" unfolding sim(2) by blast
  then show ?case by (intro exI [of _ m'] conjI spec_step_release)
next
  case (tick d w as w'')
  have "represents live (w\<lparr>w_now := w_now w + d\<rparr>) m"
    using tick.prems(2) tick.hyps(1) by (auto simp: represents_def live_tick)
  from tick.IH [OF good_tick [OF tick.prems(1)] this] tick.hyps(1) show ?case by (auto intro: spec_step_tick)
qed

end

text \<open>
  C4: whichever store is in use, the admission of events behaves as the abstract table of locks: starting from
  a store that stands for a table, every sequence of deliveries, releases and waits the service can make,
  with the answers it gave, is one the table makes, and the store then stands for the table's outcome.
\<close>

theorem store_refines_locks:
  assumes "idem_run (selected_store env) plain_keys w as w'" "store_good env w" "represents (store_live env) w m"
  shows "\<exists>m'. spec_run (w_now w) m as (w_now w') m' \<and> store_good env w' \<and> represents (store_live env) w' m'"
  by (rule selected.run_simulated [OF assms])

lemma demo_lock_run:
  "\<exists>w'. idem_run (selected_store demo_env) plain_keys (init_world 0 ()) [Lock ''k'' 60 True, Tick 5000, Lock ''k'' 60 False] w'"
proof -
  let ?w1 = "(init_world 0 ())\<lparr>w_idem := [\<lparr>i_key = ''k'', i_lockedAt = 0, i_expiresAt = 60000\<rparr>]\<rparr>"
  let ?w2 = "?w1\<lparr>w_now := w_now ?w1 + 5000\<rparr>"
  have "checkAndLock (selected_store demo_env) plain_keys ''k'' 60 (init_world 0 ()) = (Inr True, ?w1)"
    by (simp add: pg_eval)
  moreover have "checkAndLock (selected_store demo_env) plain_keys ''k'' 60 ?w2 = (Inr False, ?w2)"
    by (simp add: pg_eval)
  moreover have "idem_run (selected_store demo_env) plain_keys ?w2 [Lock ''k'' 60 (Inr False = (Inr True :: exn + bool))] ?w2"
    by (rule idem_run.idem_lock [OF calculation(2)]) (simp_all add: idem_run.idem_done)
  then have "idem_run (selected_store demo_env) plain_keys ?w1 [Tick 5000, Lock ''k'' 60 False] ?w2"
    by (intro idem_run.idem_tick) simp_all
  ultimately have "idem_run (selected_store demo_env) plain_keys (init_world 0 ())
      (Lock ''k'' 60 (Inr True = (Inr True :: exn + bool)) # [Tick 5000, Lock ''k'' 60 False]) ?w2"
    by (intro idem_run.idem_lock [OF _ _]) simp_all
  then show ?thesis by auto
qed

lemma store_refines_locks_witness:
  "\<exists>now' m'. spec_run 0 (\<lambda>_. None) [Lock ''k'' 60 True, Tick 5000, Lock ''k'' 60 False] now' m'"
proof -
  obtain w' where run: "idem_run (selected_store demo_env) plain_keys (init_world 0 ())
      [Lock ''k'' 60 True, Tick 5000, Lock ''k'' 60 False] w'" using demo_lock_run by blast
  have "store_good demo_env (init_world 0 ())" "represents (store_live demo_env) (init_world 0 ()) (\<lambda>_. None)"
    by (simp_all add: store_good_def store_live_def represents_def spec_locked_def pg_good_def pg_live_def init_world_def
        demo_env_def cfg_bool_def find_key_def)
  from store_refines_locks [OF run this] show ?thesis by (auto simp: init_world_def)
qed

section \<open>Calls and time of one delivery\<close>

text \<open>
  C38: a target system of Zabbix, CMDBuild, Passwork or the fake connector is called exactly once for a
  delivery, with its stored configuration, whatever its retry policy: these connectors report a failure
  instead of throwing, and only what is thrown is repeated; a reported failure is counted and fails the
  delivery.
\<close>

theorem reporting_targets_called_once:
  assumes "base \<in> {zabbix_connector ce, cmdbuild_connector ce, passwork_connector ce, fake_connector ce}"
    and "createProxy statics type name config = Some pr" "map_of statics type = Some base"
    and "registry_get rg (pr_targetSystem dto) = Some pr"
  shows "executeWithRetry rg env dto =
     io_bind (forTarget env (pr_targetSystem dto)) (\<lambda>policy.
     io_bind (on_ext (c_execute base (inject_config config (to_conn_payload dto)))) (\<lambda>result.
       if r_success result then io_return ()
       else io_seq (metrics_io (recordConnectorError (pr_targetSystem dto) (pr_operation dto)))
              (io_throw (connector_error result))))"
  using assms(1) zabbix.executed_once [OF assms(2) _ assms(4)] cmdbuild.executed_once [OF assms(2) _ assms(4)]
    passwork.executed_once [OF assms(2) _ assms(4)] fake.executed_once [OF assms(2) _ assms(4)] assms(3)
  by (elim insertE emptyE) simp_all

lemma reporting_targets_called_once_witness:
  "\<exists>pr. createProxy [(''zabbix'', zabbix_connector demo_conn_env)] ''zabbix'' ''z'' [] = Some pr \<and>
     executeWithRetry (demo_registry pr) demo_env (demo_event ''user.get'') =
       io_bind (forTarget demo_env ''z'') (\<lambda>policy.
       io_bind (on_ext (c_execute (zabbix_connector demo_conn_env) (inject_config [] (to_conn_payload (demo_event ''user.get''))))) (\<lambda>result.
         if r_success result then io_return ()
         else io_seq (metrics_io (recordConnectorError ''z'' ''user.get'')) (io_throw (connector_error result))))"
proof -
  obtain pr where pr: "createProxy [(''zabbix'', zabbix_connector demo_conn_env)] ''zabbix'' ''z'' [] = Some pr"
    by (simp add: createProxy_def)
  have reg: "registry_get (demo_registry pr) (pr_targetSystem (demo_event ''user.get'')) = Some pr"
    by (simp add: demo_registry_def demo_event_def registry_get_def)
  have call: "executeWithRetry (demo_registry pr) demo_env (demo_event ''user.get'') =
     io_bind (forTarget demo_env (pr_targetSystem (demo_event ''user.get''))) (\<lambda>policy.
     io_bind (on_ext (c_execute (zabbix_connector demo_conn_env) (inject_config [] (to_conn_payload (demo_event ''user.get''))))) (\<lambda>result.
       if r_success result then io_return ()
       else io_seq (metrics_io (recordConnectorError (pr_targetSystem (demo_event ''user.get'')) (pr_operation (demo_event ''user.get''))))
              (io_throw (connector_error result))))"
    by (rule reporting_targets_called_once [of "zabbix_connector demo_conn_env" demo_conn_env, OF _ pr _ reg]) simp_all
  have ev: "pr_targetSystem (demo_event ''user.get'') = ''z''" "pr_operation (demo_event ''user.get'') = ''user.get''"
    by (simp_all add: demo_event_def)
  from call pr show ?thesis unfolding ev by blast
qed

text \<open>Random numbers as \<open>Math.random\<close> gives them.\<close>

definition rands_ok :: "'e world \<Rightarrow> bool" where
  "rands_ok w \<longleftrightarrow> (\<forall>r \<in> set (w_rand w). 0 \<le> r \<and> r < 1)"

lemma world_delay:
  assumes "0 < baseDelayMs opts" "0 < maxDelayMs opts" "rands_ok w" "calculateDelay world_runtime k opts w = (d, w')"
  shows "0 \<le> d \<and> d \<le> maxDelayMs opts \<and> w_now w' = w_now w \<and> rands_ok w'"
proof -
  let ?c = "capped_delay k opts"
  have c: "0 < ?c" "?c \<le> maxDelayMs opts" using capped_delay_bounds [OF assms(1,2)] by simp_all
  obtain r w1 where rnd: "rt_random world_runtime w = (r, w1)" by fastforce
  then have r: "0 \<le> r" "r < 1" "w_now w1 = w_now w" "rands_ok w1"
    using assms(3) by (auto simp: world_runtime_def rands_ok_def split: list.splits)
  from jitter_floor_bounds [OF c(1) r(1,2)] c have "0 \<le> \<lfloor>of_int ?c * (1 / 2 + r * (1 / 2))\<rfloor>"
    "\<lfloor>of_int ?c * (1 / 2 + r * (1 / 2))\<rfloor> \<le> maxDelayMs opts" by linarith+
  with assms(3,4) c r rnd show ?thesis by (auto simp: calculateDelay_def Let_def split: if_splits)
qed

lemma retry_loop_time:
  assumes "0 < baseDelayMs opts" "0 < maxDelayMs opts" "attempt \<le> maxRetries opts"
    and "\<And>w r w'. fn w = (r, w') \<Longrightarrow> w_now w' = w_now w \<and> w_rand w' = w_rand w"
    and "rands_ok w" "retry_loop world_runtime opts fn attempt e w = (r, w')"
  shows "w_now w \<le> w_now w' \<and> w_now w' \<le> w_now w + (maxRetries opts - attempt) * maxDelayMs opts"
  using assms(3,5,6)
proof (induction "nat (maxRetries opts - attempt)" arbitrary: attempt e w)
  case 0
  then have "attempt = maxRetries opts" by simp
  moreover obtain q w1 where "fn w = (q, w1)" by fastforce
  ultimately show ?case using 0(4) assms(4) [of w q w1]
    by (subst (asm) retry_loop.simps) (auto split: sum.splits)
next
  case (Suc n)
  obtain q w1 where fn: "fn w = (q, w1)" by fastforce
  note keep = assms(4) [OF fn]
  have lt: "attempt < maxRetries opts" using Suc.hyps(2) by simp
  have room: "0 \<le> (maxRetries opts - attempt) * maxDelayMs opts" using lt assms(2) by simp
  show ?case
  proof (cases q)
    case (Inr x)
    with Suc.prems(3) fn lt have "w' = w1"
      by (subst (asm) retry_loop.simps) simp
    with keep room show ?thesis by simp
  next
    case (Inl err)
    obtain d w2 where d: "calculateDelay world_runtime attempt opts w1 = (d, w2)" by fastforce
    have "rands_ok w1" using keep Suc.prems(2) by (simp add: rands_ok_def)
    from world_delay [OF assms(1,2) this d] have w2: "0 \<le> d" "d \<le> maxDelayMs opts" "w_now w2 = w_now w1" "rands_ok w2" by auto
    let ?w3 = "rt_sleep world_runtime d w2"
    have w3: "w_now ?w3 = w_now w + d" "rands_ok ?w3" using w2 keep by (simp_all add: world_runtime_def now_plus_def rands_ok_def)
    have run: "retry_loop world_runtime opts fn (attempt + 1) (Some err) ?w3 = (r, w')"
      using Suc.prems(3) by (subst (asm) retry_loop.simps) (use fn Inl lt d in simp)
    have step: "n = nat (maxRetries opts - (attempt + 1))" using Suc.hyps(2) by simp
    from Suc.hyps(1) [OF step _ w3(2) run] lt w3(1) w2(1,2) show ?thesis by (simp add: algebra_simps)
  qed
qed

text \<open>
  C37: a delivery ends: the retry loop of one event, for whatever connector, waits in total at most as often
  as the policy of the target system allows retries, each time at most its longest delay; without a readable
  policy it does not wait at all.
\<close>

theorem delivery_time_bounded:
  assumes "rands_ok w" "executeWithRetry rg env dto w = (r, w')"
  shows "w_now w \<le> w_now w' \<and> w_now w' \<le> w_now w +
    (case fst (forTarget env (pr_targetSystem dto) w) of
       Inl e \<Rightarrow> 0
     | Inr policy \<Rightarrow> maxRetries (tp_options policy) * maxDelayMs (tp_options policy))"
proof -
  obtain q w1 where f: "forTarget env (pr_targetSystem dto) w = (q, w1)" by fastforce
  have keep: "w_now w1 = w_now w" "w_rand w1 = w_rand w"
    using io_keepsD [OF io_keeps_forTarget f, of w_now] io_keepsD [OF io_keeps_forTarget f, of w_rand] by simp_all
  have policy: "0 < maxRetries (tp_options p) \<and> 0 < baseDelayMs (tp_options p) \<and> 0 < maxDelayMs (tp_options p)" if "q = Inr p" for p
  proof -
    from f that forTarget_value obtain v where "p = spread_policy (default_lease env) (normalizePolicy v)" by blast
    then show ?thesis using spread_policy_ok [of "default_lease env" v] by (simp add: policy_ok_def)
  qed
  show ?thesis
  proof (cases "registry_get rg (pr_targetSystem dto)")
    case None
    with assms(2) have "w' = w" by (simp add: executeWithRetry_def io_simps)
    moreover have "0 \<le> maxRetries (tp_options p) * maxDelayMs (tp_options p)" if "q = Inr p" for p
      using policy [OF that] by simp
    ultimately show ?thesis by (auto simp: f split: sum.split)
  next
    case (Some c)
    show ?thesis
    proof (cases q)
      case (Inl e)
      with assms(2) Some f keep show ?thesis by (auto simp: executeWithRetry_def io_simps)
    next
      case (Inr p)
      note ok = policy [OF Inr]
      obtain q2 w2 where loop: "retry_execute world_runtime (on_ext (c_execute c (to_conn_payload dto))) (tp_options p) w1 = (q2, w2)"
        by fastforce
      have "w_now w1 \<le> w_now w2 \<and> w_now w2 \<le> w_now w1 + (maxRetries (tp_options p) - 0) * maxDelayMs (tp_options p)"
        by (rule retry_loop_time [OF _ _ _ _ _ loop [unfolded retry_execute_def]])
          (use ok assms(1) keep in \<open>auto simp: rands_ok_def on_ext_def split: prod.splits\<close>)
      moreover have "w_now w' = w_now w2"
        using assms(2) Some f Inr loop
        by (cases q2) (auto simp: executeWithRetry_def io_simps metrics_io_def split: if_splits)
      ultimately show ?thesis using keep Inr f by simp
    qed
  qed
qed

lemma delivery_time_bounded_witness:
  "\<exists>r w'. executeWithRetry (demo_registry failing_connector) demo_env (demo_event ''user.create'') (init_world 0 ()) = (r, w') \<and>
     w_now w' \<le> 90000"
proof -
  obtain r w' where run: "executeWithRetry (demo_registry failing_connector) demo_env (demo_event ''user.create'') (init_world 0 ()) =
    (r, w')" by fastforce
  have rands: "rands_ok (init_world 0 ())" by (simp add: rands_ok_def init_world_def)
  obtain p where "fst (forTarget demo_env ''z'' (init_world 0 ())) = Inr p" "maxRetries (tp_options p) = 3" "maxDelayMs (tp_options p) = 30000"
    by (simp add: demo_process_simps demo_env_def)
  with delivery_time_bounded [OF rands run] run show ?thesis by (auto simp: demo_event_def init_world_def)
qed

section \<open>A retried item is delivered\<close>

lemma answering_forTarget:
  assumes "w_faults w = []" "forTarget env name w = (Inr p, w)" "w_faults w1 = []" "w_targets w1 = w_targets w"
  shows "forTarget env name w1 = (Inr p, w1)"
  using assms by (auto simp: forTarget_def io_simps split: option.splits sum.splits)

lemma keeps_updateMetrics:
  assumes "\<And>w x. g (w\<lparr>w_faults := x\<rparr>) = g w" "\<And>w x. g (w\<lparr>w_metrics := x\<rparr>) = g w"
  shows "io_keeps g updateMetrics"
  unfolding updateMetrics_def metrics_io_def
  using assms by (intro io_frames io_keeps_db_call io_keeps_modify) simp_all

lemma keeps_dlq_retry:
  assumes "\<And>w x. g (w\<lparr>w_faults := x\<rparr>) = g w" "\<And>w x. g (w\<lparr>w_metrics := x\<rparr>) = g w" "\<And>w x. g (w\<lparr>w_dlq := x\<rparr>) = g w"
  shows "io_keeps g (dlq_retry env i)"
proof -
  have claim: "io_keeps g (claim_rows i eb pid)" for eb pid
    using assms(3) by (simp add: io_keeps_def claim_rows_def Let_def)
  show ?thesis
    unfolding dlq_retry_def Let_def
    using assms claim
    by (intro io_frames keeps_updateMetrics)
      (auto split: option.split intro!: io_frames keeps_updateMetrics)
qed

lemma answering_updateMetrics: "io_inv answering updateMetrics"
  unfolding updateMetrics_def metrics_io_def
  by (intro io_invs io_inv_modify) (simp add: answering_def)

lemma answering_dlq_retry: "io_inv answering (dlq_retry env i)"
proof -
  have claim: "io_inv answering (claim_rows i eb pid)" for eb pid
    by (simp add: io_inv_def claim_rows_def Let_def answering_def)
  have policy: "io_inv answering (forTarget env ts)" for ts
    unfolding forTarget_def find_target_def by (intro io_invs) (auto split: option.split intro!: io_invs)
  show ?thesis
    unfolding dlq_retry_def Let_def
    by (intro io_invs answering_updateMetrics) (auto split: option.split intro!: io_invs claim policy)
qed

lemma success_once:
  assumes "fn w = (Inr x, w')" "0 \<le> maxRetries opts"
  shows "retry_execute rt fn opts w = (Inr x, w')"
  unfolding retry_execute_def by (subst retry_loop.simps) (simp add: assms)

lemma io_catch_Inr: "m w = (Inr a, w') \<Longrightarrow> io_catch m h w = (Inr a, w')"
  by (simp add: io_catch_def)

lemma resolve_run:
  assumes "w_faults w = []" "find_dlq i (w_dlq w) = Some d" "dlq_resolve i w = (r, w')"
  shows "r = Inr () \<and> w_faults w' = [] \<and> w_ext w' = w_ext w \<and> find_dlq i (w_dlq w') = Some (settle_item ''resolved'' d)"
proof -
  let ?u = "w\<lparr>w_dlq := update_rows (\<lambda>d. d_id d = i) (settle_item ''resolved'') (w_dlq w)\<rparr>"
  from find_dlq_id [OF assms(2)] have i: "d_id d = i" by simp
  from assms have run: "updateMetrics ?u = (r, w')"
    by (simp add: dlq_resolve_def io_simps update_item_def)
  have "r = Inr ()" "w_dlq w' = w_dlq ?u" using gauges_after_update [OF _ run] assms(1) by simp_all
  moreover have "w_ext w' = w_ext w" using io_keepsD [OF keeps_updateMetrics run, of w_ext] by simp
  moreover have "w_faults w' = []" using io_invD [OF answering_updateMetrics _ run] assms(1) by (simp add: answering_def)
  ultimately show ?thesis using assms(2) i by (simp add: find_dlq_update)
qed

text \<open>
  C7: a failed event is not stuck: whoever held it before, once its lease has passed (or when nobody holds it) a
  retry by an administrator claims the item and calls the connector of its target system with the stored
  payload, and when the connector reports success the item ends as resolved; all of this in one call, with
  the database answering and events processed in place.
\<close>

theorem retry_delivers:
  assumes "dlq_ok w" "w_faults w = []" "find_dlq i (w_dlq w) = Some d"
    and "d_status d \<notin> {''skipped'', ''resolved''}"
    and "forTarget env (d_targetSystem d) w = (Inr policy, w)" "tp_dlqLeaseSeconds policy = JInt n"
    and "\<And>t. d_status d = ''retrying'' \<Longrightarrow> d_lockedAt d = Some t \<Longrightarrow> t < w_now w - n * 1000"
    and "\<bar>w_now w - n * 1000\<bar> \<le> 8640000000000000"
    and "\<not> kafka_enabled env" "en_fromJson env (d_payload d) = Inr (Obj payload)"
    and "registry_get rg (d_targetSystem d) = Some c"
    and "c_execute c \<lparr>p_operation = d_operation d, p_targetSystem = d_targetSystem d, p_payload = payload\<rparr> (w_ext w) = (Inr result, x)"
    and "r_success result"
  shows "\<exists>w' d'. admin_retry rg env i w = (Inr (), w') \<and> w_ext w' = x \<and>
    find_dlq i (w_dlq w') = Some d' \<and> d_status d' = ''resolved''"
proof -
  have claimable: "claimable (w_now w - n * 1000) d" using assms(4,7) by (cases "d_lockedAt d") (auto simp: claimable_def)
  obtain r w1 where retry: "dlq_retry env i w = (r, w1)" by fastforce
  let ?d = "claim_item (w_now w) (en_pid env) d"
  from retry_claims [OF assms(1-3,5,6,8) retry] claimable have r: "r = Inr True" and item: "find_dlq i (w_dlq w1) = Some ?d" by auto
  have w1: "w_faults w1 = []" "w_ext w1 = w_ext w" "w_targets w1 = w_targets w"
    using io_invD [OF answering_dlq_retry _ retry] assms(2) io_keepsD [OF keeps_dlq_retry retry, of w_ext]
      io_keepsD [OF keeps_dlq_retry retry, of w_targets] by (simp_all add: answering_def)
  have d: "d_targetSystem ?d = d_targetSystem d" "d_operation ?d = d_operation d" "d_payload ?d = d_payload d" "d_id ?d = i"
    using find_dlq_id [OF assms(3)] by (simp_all add: claim_item_def)
  let ?dto = "event_of_item ?d payload"
  have dto: "pr_targetSystem ?dto = d_targetSystem d"
    "to_conn_payload ?dto = \<lparr>p_operation = d_operation d, p_targetSystem = d_targetSystem d, p_payload = payload\<rparr>"
    by (simp_all add: event_of_item_def to_conn_payload_def d)
  have policy: "forTarget env (d_targetSystem d) w1 = (Inr policy, w1)"
    by (rule answering_forTarget [OF assms(2,5) w1(1,3)])
  obtain v where "policy = spread_policy (default_lease env) (normalizePolicy v)" using forTarget_value [OF policy] by blast
  then have "0 \<le> maxRetries (tp_options policy)"
    using spread_policy_ok [of "default_lease env" v] by (simp add: policy_ok_def)
  then have call: "retry_execute world_runtime (on_ext (c_execute c (to_conn_payload ?dto))) (tp_options policy) w1 =
      (Inr result, w1\<lparr>w_ext := x\<rparr>)"
    by (intro success_once) (simp_all add: on_ext_def dto w1(2) assms(12))
  have exec: "executeWithRetry rg env ?dto w1 = (Inr (), w1\<lparr>w_ext := x\<rparr>)"
    by (simp add: executeWithRetry_def dto(1) assms(11) io_bind_run policy call assms(13) io_run)
  obtain w2 where rec: "recordEvent_io ''success'' (d_targetSystem d) (w1\<lparr>w_ext := x\<rparr>) = (Inr (), w2)"
    and w2: "w_faults w2 = []" "w_ext w2 = x" "find_dlq i (w_dlq w2) = Some ?d"
    by (simp add: recordEvent_io_def io_run w1(1) item)
  obtain r3 w3 where resolve: "dlq_resolve i w2 = (r3, w3)" by fastforce
  from resolve_run [OF w2(1,3) resolve] w2(2) have w3: "r3 = Inr ()" "w_faults w3 = []" "w_ext w3 = x"
    "find_dlq i (w_dlq w3) = Some (settle_item ''resolved'' ?d)" by auto
  have process: "processRetry rg env ?dto i w1 = (Inr (), w3)"
    unfolding processRetry_def dto(1)
    by (rule io_catch_Inr) (intro iffD2 [OF io_seq_Inr] exI conjI, rule exec, rule rec, rule resolve [unfolded w3(1)])
  obtain r4 w4 where metrics: "updateMetrics w3 = (r4, w4)" by fastforce
  have w4: "r4 = Inr ()" "w_dlq w4 = w_dlq w3" "w_ext w4 = w_ext w3"
    using gauges_after_update [OF w3(2) metrics] io_keepsD [OF keeps_updateMetrics metrics, of w_ext] by simp_all
  have "retryItem rg env ?d w1 = (Inr (), w3)"
    by (simp add: retryItem_def d find_dlq_id [OF assms(3)] assms(9,10) io_bind_value as_record_Obj process)
  then have "admin_retry rg env i w = (Inr (), w4)"
    by (simp add: admin_retry_def io_bind_run retry r db_call_ok w1(1) io_run item metrics w4(1))
  with w3(3,4) w4(2,3) show ?thesis by (simp add: settle_item_def)
qed

theorem retry_delivers_witness:
  "\<exists>w' d'. admin_retry (demo_registry (echo_connector ''z'')) demo_env ''0'' (demo_queue 300002 (demo_item ''retrying'' (Some 1))) =
     (Inr (), w') \<and> find_dlq ''0'' (w_dlq w') = Some d' \<and> d_status d' = ''resolved''"
proof -
  let ?d = "demo_item ''retrying'' (Some 1)" and ?w = "demo_queue 300002 (demo_item ''retrying'' (Some 1))"
    and ?rg = "demo_registry (echo_connector ''z'') :: unit registry"
  have ok: "dlq_ok ?w" by (rule demo_queue_ok) (simp_all add: dlq_statuses_def)
  have w: "w_faults ?w = []" "find_dlq ''0'' (w_dlq ?w) = Some ?d" "w_now ?w = 300002"
    by (simp_all add: demo_queue_def init_world_def find_dlq_def demo_item_def)
  have d: "d_status ?d \<notin> {''skipped'', ''resolved''}" "d_status ?d = ''retrying'' \<Longrightarrow> d_lockedAt ?d = Some t \<Longrightarrow> t < w_now ?w - 300 * 1000" for t
    unfolding w(3) by (simp_all add: demo_item_def)
  obtain p where p: "forTarget demo_env (d_targetSystem ?d) ?w = (Inr p, ?w)" "tp_dlqLeaseSeconds p = JInt 300"
    by (simp add: demo_claim_simps)
  have near: "\<bar>w_now ?w - 300 * 1000\<bar> \<le> 8640000000000000" by (simp add: w(3))
  have event: "\<not> kafka_enabled demo_env" "en_fromJson demo_env (d_payload ?d) = Inr (Obj [])"
    by (simp_all add: kafka_enabled_def cfg_bool_def demo_env_def demo_item_def)
  have conn: "registry_get ?rg (d_targetSystem ?d) = Some (echo_connector ''z'')"
    by (simp add: demo_registry_def registry_get_def demo_item_def)
  have call: "c_execute (echo_connector ''z'') \<lparr>p_operation = d_operation ?d, p_targetSystem = d_targetSystem ?d, p_payload = []\<rparr> (w_ext ?w) =
      (Inr (result_ok (Obj [])), w_ext ?w)"
    by (simp add: echo_connector_def io_run)
  have yes: "r_success (result_ok (Obj []))" by (simp add: result_ok_def)
  from retry_delivers [OF ok w(1,2) d(1) p d(2) near event conn call yes] show ?thesis by blast
qed

end
