(* ===== verification/Registry_Reload.thy ===== *)
theory Registry_Reload
  imports Connector_Registry
begin

text \<open>
  \<^verbatim>\<open>src/connectors/connector.registry.ts\<close> as it runs: a reload awaits three queries, other requests write the
  table in between, calls of \<open>reload\<close> share the one in flight, and the timer starts polls that may overlap. The
  steps between two awaits are the actions of a state machine, and every interleaving is a run of it.
\<close>

section \<open>Start\<close>

definition registry_onModuleInit :: "env \<Rightarrow> ('e registry \<times> 'e world, rat option) io" where
  "registry_onModuleInit env = io_seq (reloadInternal env) (io_return (polling_period env))"

section \<open>State and steps\<close>

text \<open>The two queries of \<open>registryVersion\<close> are answered on their own, in either order.\<close>

datatype version_query = Count | Latest

type_synonym version_answers = "nat option \<times> int option option"

definition answer_query :: "target_system list \<Rightarrow> version_query \<Rightarrow> version_answers \<Rightarrow> version_answers" where
  "answer_query rows q r =
     (case q of Count \<Rightarrow> (Some (fst (version_of rows)), snd r) | Latest \<Rightarrow> (fst r, Some (snd (version_of rows))))"

fun version_read :: "version_answers \<Rightarrow> registry_version option" where
  "version_read (Some n, Some m) = Some (n, m)"
| "version_read _ = None"

text \<open>
  Where the reload in flight is: none (\<open>reloadInFlight\<close> is undefined), waiting for the rows, waiting for the
  version.
\<close>

datatype reload_phase = Idle | Reading | Versioning version_answers

record 'e reloading =
  rl_registry :: "'e registry"
  rl_rows :: "target_system list"
  rl_phase :: reload_phase
  rl_polls :: "version_answers list"

definition request_reload :: "'e reloading \<Rightarrow> 'e reloading" where
  "request_reload s = (if rl_phase s = Idle then s\<lparr>rl_phase := Reading\<rparr> else s)"

definition loaded :: "env \<Rightarrow> 'e reloading \<Rightarrow> exn + 'e registry" where
  "loaded env s = load_connectors env (rl_registry s) (enabled_targets (rl_rows s))"

definition rows_arrive :: "env \<Rightarrow> 'e reloading \<Rightarrow> 'e reloading" where
  "rows_arrive env s =
     (case loaded env s of
        Inl e \<Rightarrow> s\<lparr>rl_phase := Idle\<rparr>
      | Inr rg \<Rightarrow> s\<lparr>rl_registry := rg, rl_phase := Versioning (None, None)\<rparr>)"

definition version_arrives :: "registry_version \<Rightarrow> 'e reloading \<Rightarrow> 'e reloading" where
  "version_arrives v s = s\<lparr>rl_registry := (rl_registry s)\<lparr>rg_lastVersion := Some v\<rparr>, rl_phase := Idle\<rparr>"

definition drop_poll :: "nat \<Rightarrow> 'e reloading \<Rightarrow> 'e reloading" where
  "drop_poll i s = s\<lparr>rl_polls := take i (rl_polls s) @ drop (Suc i) (rl_polls s)\<rparr>"

definition compare_version :: "registry_version \<Rightarrow> 'e reloading \<Rightarrow> 'e reloading" where
  "compare_version v s = (if rg_lastVersion (rl_registry s) = Some v then s else request_reload s)"

datatype reload_action =
    WriteTable "target_system list"
  | Request
  | Rows
  | VersionAnswer version_query
  | Version
  | QueryFails
  | PollStart
  | PollAnswer nat version_query
  | PollEnd nat
  | PollFails nat

text \<open>One step; \<open>None\<close> where it cannot be taken.\<close>

fun reload_step :: "env \<Rightarrow> reload_action \<Rightarrow> 'e reloading \<Rightarrow> 'e reloading option" where
  "reload_step env (WriteTable rows) s = Some (s\<lparr>rl_rows := rows\<rparr>)"
| "reload_step env Request s = Some (request_reload s)"
| "reload_step env Rows s = (if rl_phase s = Reading then Some (rows_arrive env s) else None)"
| "reload_step env (VersionAnswer q) s =
     (case rl_phase s of
        Versioning r \<Rightarrow> Some (s\<lparr>rl_phase := Versioning (answer_query (rl_rows s) q r)\<rparr>) | _ \<Rightarrow> None)"
| "reload_step env Version s =
     (case rl_phase s of Versioning r \<Rightarrow> map_option (\<lambda>v. version_arrives v s) (version_read r) | _ \<Rightarrow> None)"
| "reload_step env QueryFails s = (if rl_phase s = Idle then None else Some (s\<lparr>rl_phase := Idle\<rparr>))"
| "reload_step env PollStart s = Some (s\<lparr>rl_polls := rl_polls s @ [(None, None)]\<rparr>)"
| "reload_step env (PollAnswer i q) s =
     (if i < length (rl_polls s)
      then Some (s\<lparr>rl_polls := (rl_polls s)[i := answer_query (rl_rows s) q (rl_polls s ! i)]\<rparr>) else None)"
| "reload_step env (PollEnd i) s =
     (if i < length (rl_polls s)
      then map_option (\<lambda>v. compare_version v (drop_poll i s)) (version_read (rl_polls s ! i)) else None)"
| "reload_step env (PollFails i) s = (if i < length (rl_polls s) then Some (drop_poll i s) else None)"

inductive reload_run :: "env \<Rightarrow> 'e reloading \<Rightarrow> reload_action list \<Rightarrow> 'e reloading \<Rightarrow> bool" for env where
  reload_none: "reload_run env s [] s"
| reload_more: "reload_step env a s = Some s1 \<Longrightarrow> reload_run env s1 as s2 \<Longrightarrow> reload_run env s (a # as) s2"

inductive_simps reload_run_simps [simp]:
  "reload_run env s [] s'"
  "reload_run env s (a # as) s'"

fun writes_table :: "reload_action \<Rightarrow> bool" where
  "writes_table (WriteTable rows) = True"
| "writes_table _ = False"

fun polls :: "reload_action \<Rightarrow> bool" where
  "polls PollStart = True"
| "polls (PollAnswer i q) = True"
| "polls (PollEnd i) = True"
| "polls (PollFails i) = True"
| "polls _ = False"

lemmas reload_defs = request_reload_def rows_arrive_def version_arrives_def drop_poll_def compare_version_def answer_query_def

section \<open>Rules of a run\<close>

text \<open>A property that every step keeps holds at the end of a run.\<close>

lemma reload_run_keeps:
  assumes "reload_run env s as s'" "\<And>a s s1. a \<in> set as \<Longrightarrow> I s \<Longrightarrow> reload_step env a s = Some s1 \<Longrightarrow> I s1" "I s"
  shows "I s'"
  using assms by (induction rule: reload_run.induct) (simp_all, metis)

lemma load_connectors_cong:
  assumes "rg_static rg = rg_static rg'" "load_connectors env rg rows = Inr r" "load_connectors env rg' rows = Inr r'"
  shows "rg_connectors r = rg_connectors r'" "rg_static r = rg_static rg"
  using assms by (auto simp: load_connectors_def allowed_statics_def split: sum.splits)

lemma load_connectors_again:
  assumes "rg_static rg = rg_static rg'" "load_connectors env rg rows = Inr r"
  shows "\<exists>r'. load_connectors env rg' rows = Inr r'"
  using assms by (auto simp: load_connectors_def allowed_statics_def split: sum.splits)

lemma request_keeps [simp]:
  "rl_registry (request_reload s) = rl_registry s" "rl_rows (request_reload s) = rl_rows s"
  "rl_polls (request_reload s) = rl_polls s"
  by (simp_all add: request_reload_def)

lemma compare_keeps [simp]:
  "rl_registry (compare_version v s) = rl_registry s" "rl_rows (compare_version v s) = rl_rows s"
  "rl_polls (compare_version v s) = rl_polls s"
  by (simp_all add: compare_version_def)

lemma drop_poll_keeps [simp]:
  "rl_registry (drop_poll i s) = rl_registry s" "rl_rows (drop_poll i s) = rl_rows s" "rl_phase (drop_poll i s) = rl_phase s"
  by (simp_all add: drop_poll_def)

text \<open>What a name resolves to when the registry agrees with a table.\<close>

definition table_route :: "env \<Rightarrow> 'e registry \<Rightarrow> target_system list \<Rightarrow> string \<Rightarrow> 'e connector option" where
  "table_route env rg rows name =
    (let fallback = (if name \<in> set (staticConnectorAllowlist env) then map_of (rg_static rg) name else None)
     in case find (\<lambda>t. ts_name t = name) (enabled_targets rows) of
          None \<Rightarrow> fallback
        | Some t \<Rightarrow> (case row_proxy env (rg_static rg) t of None \<Rightarrow> fallback | Some p \<Rightarrow> Some p))"

lemma load_routes:
  assumes "load_connectors env rg (enabled_targets rows) = Inr rg'" "distinct (map ts_name rows)"
  shows "registry_get rg' name = table_route env rg rows name"
proof -
  from assms(1) obtain cs where cs: "add_proxies env (rg_static rg) (enabled_targets rows) (allowed_statics env rg) = Inr cs"
    "rg_connectors rg' = cs" by (auto simp: load_connectors_def split: sum.splits)
  have "distinct (map ts_name (enabled_targets rows))"
    using assms(2) by (simp add: enabled_targets_def distinct_map_filter)
  from add_proxies_map_of [OF cs(1) this, of name] cs(2) show ?thesis
    by (simp add: registry_get_def allowed_statics_map_of table_route_def Let_def cong: option.case_cong)
qed

section \<open>A reload nobody writes into\<close>

text \<open>The connectors are those of these rows, and a further reload of the same rows finds the same.\<close>

definition serves :: "env \<Rightarrow> 'e registry \<Rightarrow> target_system list \<Rightarrow> 'e reloading \<Rightarrow> bool" where
  "serves env rg rows s \<longleftrightarrow> rl_rows s = rows \<and> rg_static (rl_registry s) = rg_static rg \<and>
     rg_connectors (rl_registry s) = rg_connectors rg"

lemma serves_step:
  assumes "load_connectors env rg0 (enabled_targets rows) = Inr rg" "\<not> writes_table a" "serves env rg rows s"
    and "reload_step env a s = Some s1"
  shows "serves env rg rows s1"
proof (cases a)
  case Rows
  have static: "rg_static rg0 = rg_static (rl_registry s)" using assms(1,3) by (auto simp: serves_def load_connectors_def split: sum.splits)
  from load_connectors_again [OF this assms(1)] obtain r where
    r: "load_connectors env (rl_registry s) (enabled_targets rows) = Inr r" by blast
  from load_connectors_cong [OF static assms(1) r] load_connectors_cong [OF static [symmetric] r assms(1)] assms(3) static
  have "rg_connectors r = rg_connectors rg" "rg_static r = rg_static rg" by (simp_all add: serves_def)
  with assms(3,4) Rows r show ?thesis
    by (auto simp: serves_def rows_arrive_def loaded_def split: if_splits)
qed (use assms in \<open>auto simp: serves_def version_arrives_def split: if_splits reload_phase.splits\<close>)


section \<open>A write into a reload\<close>

text \<open>All polls in flight have read the version of these rows, as far as they have read.\<close>

definition polls_of :: "target_system list \<Rightarrow> version_answers \<Rightarrow> bool" where
  "polls_of rows r \<longleftrightarrow> fst r \<in> {None, Some (fst (version_of rows))} \<and> snd r \<in> {None, Some (snd (version_of rows))}"

definition settled :: "target_system list \<Rightarrow> 'e registry \<Rightarrow> 'e reloading \<Rightarrow> bool" where
  "settled rows rg s \<longleftrightarrow> rl_phase s = Idle \<and> rl_rows s = rows \<and> rl_registry s = rg \<and>
     rg_lastVersion rg = Some (version_of rows) \<and> (\<forall>r \<in> set (rl_polls s). polls_of rows r)"

lemma polls_of_answer: "polls_of rows r \<Longrightarrow> polls_of rows (answer_query rows q r)"
  by (cases q) (auto simp: polls_of_def answer_query_def)

lemma polls_of_read: "polls_of rows r \<Longrightarrow> version_read r = Some v \<Longrightarrow> v = version_of rows"
  by (cases r rule: version_read.cases) (auto simp: polls_of_def)

lemma polls_of_start: "polls_of rows (None, None)"
  by (simp add: polls_of_def)

lemma settled_drop: "settled rows rg s \<Longrightarrow> settled rows rg (drop_poll i s)"
  by (auto simp: settled_def drop_poll_def dest: in_set_takeD in_set_dropD)

lemma settled_step:
  assumes "polls a" "settled rows rg s" "reload_step env a s = Some s1"
  shows "settled rows rg s1"
proof (cases a)
  case (PollEnd i)
  with assms obtain v where v: "i < length (rl_polls s)" "version_read (rl_polls s ! i) = Some v"
    "s1 = compare_version v (drop_poll i s)" by (auto split: if_splits)
  have "polls_of rows (rl_polls s ! i)" using assms(2) v(1) by (simp add: settled_def)
  from polls_of_read [OF this v(2)] have "v = version_of rows" .
  with v settled_drop [OF assms(2), of i] assms(2) show ?thesis by (simp add: compare_version_def settled_def)
next
  case (PollAnswer i q)
  with assms have s1: "s1 = s\<lparr>rl_polls := (rl_polls s)[i := answer_query rows q (rl_polls s ! i)]\<rparr>" "i < length (rl_polls s)"
    by (auto simp: settled_def split: if_splits)
  have "polls_of rows (answer_query rows q (rl_polls s ! i))"
    using assms(2) s1(2) by (intro polls_of_answer) (simp add: settled_def)
  with s1 assms(2) show ?thesis by (auto simp: settled_def dest: subsetD [OF set_update_subset_insert])
next
  case (PollFails i)
  with assms(3) settled_drop [OF assms(2), of i] show ?thesis by (simp split: if_splits)
next
  case PollStart
  with assms(2,3) show ?thesis by (auto simp: settled_def polls_of_start)
qed (use assms(1) in simp_all)

text \<open>
  C14: a change of the table that falls between the two queries of a reload is lost: the reload started before
  it keeps the connectors of the old rows but records the version of the new ones, the reload requested by
  the change itself only joins it, and no number of later polls starts another one, until the table is
  written again.
\<close>

theorem write_into_reload_lost:
  assumes "rl_phase s = Reading" "rl_polls s = []" "loaded env s = Inr rg"
  shows "\<exists>s1. reload_run env s [Rows, WriteTable rows', Request, VersionAnswer Count, VersionAnswer Latest, Version] s1 \<and>
    rl_rows s1 = rows' \<and> rg_connectors (rl_registry s1) = rg_connectors rg \<and>
    (\<forall>as s2. reload_run env s1 as s2 \<longrightarrow> (\<forall>a \<in> set as. polls a) \<longrightarrow>
       rl_phase s2 = Idle \<and> rl_rows s2 = rows' \<and> rl_registry s2 = rl_registry s1)"
proof -
  let ?rg = "rg\<lparr>rg_lastVersion := Some (version_of rows')\<rparr>"
  let ?s1 = "s\<lparr>rl_registry := ?rg, rl_rows := rows', rl_phase := Idle\<rparr>"
  have run: "reload_run env s [Rows, WriteTable rows', Request, VersionAnswer Count, VersionAnswer Latest, Version] ?s1"
    by (simp add: assms reload_defs)
  have settled: "settled rows' ?rg ?s1" by (simp add: settled_def assms(2))
  have "settled rows' ?rg s2" if "reload_run env ?s1 as s2" "\<forall>a \<in> set as. polls a" for as s2
    using that settled_step by (intro reload_run_keeps [where I = "settled rows' ?rg", OF that(1) _ settled]) blast
  then have "\<forall>as s2. reload_run env ?s1 as s2 \<longrightarrow> (\<forall>a \<in> set as. polls a) \<longrightarrow>
      rl_phase s2 = Idle \<and> rl_rows s2 = rows' \<and> rl_registry s2 = ?rg" by (simp add: settled_def)
  with run show ?thesis by (intro exI [of _ ?s1]) simp
qed

definition demo_reloading :: "unit reloading" where
  "demo_reloading = \<lparr>rl_registry = \<lparr>rg_static = [(''zabbix'', echo_connector ''zabbix'')], rg_connectors = [], rg_lastVersion = None\<rparr>,
     rl_rows = [], rl_phase = Reading, rl_polls = []\<rparr>"

lemma demo_reloading_loaded:
  "loaded demo_env (demo_reloading\<lparr>rl_rows := rows\<rparr>) =
     load_connectors demo_env (rl_registry demo_reloading) (enabled_targets rows)"
  "rl_phase demo_reloading = Reading" "rl_polls demo_reloading = []"
  by (simp_all add: loaded_def demo_reloading_def)

lemma demo_load:
  "load_connectors demo_env (rl_registry demo_reloading) [] = Inr (rl_registry demo_reloading)"
  by (simp add: load_connectors_def allowed_statics_def staticConnectorAllowlist_def demo_env_def demo_reloading_def)

theorem write_into_reload_lost_witness:
  "\<exists>s1. reload_run demo_env demo_reloading
       [Rows, WriteTable [demo_target ''z1'' (Obj [])], Request, VersionAnswer Count, VersionAnswer Latest, Version] s1 \<and>
     rl_rows s1 = [demo_target ''z1'' (Obj [])] \<and> registry_get (rl_registry s1) ''z1'' = None \<and>
     (\<forall>s2. reload_run demo_env s1 [PollStart, PollAnswer 0 Latest, PollAnswer 0 Count, PollEnd 0] s2 \<longrightarrow>
        registry_get (rl_registry s2) ''z1'' = None)"
proof -
  have load: "loaded demo_env demo_reloading = Inr (rl_registry demo_reloading)"
    using demo_reloading_loaded(1) [of "[]"] demo_load by (simp add: demo_reloading_def enabled_targets_def)
  from write_into_reload_lost [OF demo_reloading_loaded(2,3) load, of "[demo_target ''z1'' (Obj [])]"] obtain s1 where s1:
    "reload_run demo_env demo_reloading
       [Rows, WriteTable [demo_target ''z1'' (Obj [])], Request, VersionAnswer Count, VersionAnswer Latest, Version] s1"
    "rl_rows s1 = [demo_target ''z1'' (Obj [])]" "rg_connectors (rl_registry s1) = []"
    "\<And>as s2. reload_run demo_env s1 as s2 \<Longrightarrow> \<forall>a \<in> set as. polls a \<Longrightarrow> rl_registry s2 = rl_registry s1"
    by (auto simp: demo_reloading_def simp del: reload_run_simps)
  have "registry_get (rl_registry s2) ''z1'' = None"
    if "reload_run demo_env s1 [PollStart, PollAnswer 0 Latest, PollAnswer 0 Count, PollEnd 0] s2" for s2
    using s1(4) [OF that] s1(3) by (simp add: registry_get_def)
  with s1(1-3) show ?thesis by (intro exI [of _ s1]) (simp add: registry_get_def del: reload_run_simps)
qed


section \<open>Polling catches up\<close>

text \<open>
  C13: a change that is not lost is picked up by one poll: in a registry at rest whose recorded version is not the
  one of the table, the next poll starts a reload, and when nobody writes and no query fails the reload ends
  at rest with the version of the table recorded and every name resolved as the table says.
\<close>

theorem poll_catches_up:
  assumes "rl_phase s = Idle" "rl_polls s = []" "rg_lastVersion (rl_registry s) \<noteq> Some (version_of (rl_rows s))"
    and "loaded env s = Inr rg" "distinct (map ts_name (rl_rows s))" "{q1, q2} = {Count, Latest}" "{q3, q4} = {Count, Latest}"
  shows "\<exists>s'. reload_run env s [PollStart, PollAnswer 0 q1, PollAnswer 0 q2, PollEnd 0,
       Rows, VersionAnswer q3, VersionAnswer q4, Version] s' \<and>
     rl_phase s' = Idle \<and> rl_polls s' = [] \<and> rl_rows s' = rl_rows s \<and>
     rg_lastVersion (rl_registry s') = Some (version_of (rl_rows s)) \<and>
     (\<forall>name. registry_get (rl_registry s') name = table_route env (rl_registry s) (rl_rows s) name)"
proof -
  let ?s = "s\<lparr>rl_registry := rg\<lparr>rg_lastVersion := Some (version_of (rl_rows s))\<rparr>\<rparr>"
  have reads: "version_read (answer_query (rl_rows s) q2 (answer_query (rl_rows s) q1 (None, None))) = Some (version_of (rl_rows s))"
    "version_read (answer_query (rl_rows s) q4 (answer_query (rl_rows s) q3 (None, None))) = Some (version_of (rl_rows s))"
    using assms(6,7) by (cases q1; cases q2; cases q3; cases q4; auto simp: answer_query_def)+
  have load: "load_connectors env (rl_registry s) (enabled_targets (rl_rows s)) = Inr rg"
    using assms(4) by (simp add: loaded_def)
  have "reload_run env s [PollStart, PollAnswer 0 q1, PollAnswer 0 q2, PollEnd 0,
       Rows, VersionAnswer q3, VersionAnswer q4, Version] ?s"
    using assms(1-3) reads load
    by (simp add: compare_version_def request_reload_def drop_poll_def rows_arrive_def loaded_def version_arrives_def)
  moreover have "registry_get (rl_registry ?s) name = table_route env (rl_registry s) (rl_rows s) name" for name
    using load_routes [OF load assms(5), of name] by (simp add: registry_get_def)
  ultimately show ?thesis using assms(1,2) by (intro exI [of _ ?s]) simp
qed

theorem poll_catches_up_witness:
  "\<exists>s'. reload_run demo_env (demo_reloading\<lparr>rl_phase := Idle\<rparr>) [PollStart, PollAnswer 0 Latest, PollAnswer 0 Count, PollEnd 0,
       Rows, VersionAnswer Count, VersionAnswer Latest, Version] s' \<and> rg_lastVersion (rl_registry s') = Some (0, None)"
proof -
  let ?s = "demo_reloading\<lparr>rl_phase := Idle\<rparr>"
  have s: "rl_phase ?s = Idle" "rl_polls ?s = []" "rl_rows ?s = []" "rg_lastVersion (rl_registry ?s) \<noteq> Some (version_of (rl_rows ?s))"
    "loaded demo_env ?s = Inr (rl_registry demo_reloading)" "distinct (map ts_name (rl_rows ?s))"
    using demo_load by (simp_all add: demo_reloading_def loaded_def enabled_targets_def)
  have q: "{Latest, Count} = {Count, Latest}" "{Count, Latest} = {Count, Latest}" by auto
  from poll_catches_up [OF s(1,2,4-6) q] s(3) show ?thesis
    by (auto simp: version_of_def max_opt_def simp del: reload_run_simps)
qed

section \<open>Agreement with the calls in sequence\<close>

text \<open>A reload whose queries nobody disturbs is the computation \<open>reloadInternal\<close>.\<close>

theorem reload_undisturbed:
  assumes "w_faults w = []" "reloadInternal env (rg, w) = (Inr (), (rg', w'))"
  shows "reload_run env \<lparr>rl_registry = rg, rl_rows = w_targets w, rl_phase = Reading, rl_polls = ps\<rparr>
      [Rows, VersionAnswer Count, VersionAnswer Latest, Version]
      \<lparr>rl_registry = rg', rl_rows = w_targets w', rl_phase = Idle, rl_polls = ps\<rparr>"
  using assms
  by (auto simp: reloadInternal_def io_simps on_world_def registryVersion_def rows_arrive_def loaded_def
      answer_query_def version_arrives_def split: sum.splits prod.splits)

end
