(* ===== verification/Ui_Client.thy ===== *)
theory Ui_Client
  imports Http_Client
begin

text \<open>
  \<^verbatim>\<open>ui/src/api/client.ts\<close> and \<^verbatim>\<open>ui/src/App.tsx\<close>: the client of the administration interface. It keeps the token
  against cross-site requests that the session answered with, adds it to every request that changes something,
  and turns a failed answer into one readable message. The server and the network are a parameter.
\<close>

section \<open>Requests\<close>

record ui_request =
  uq_method :: string
  uq_url :: string
  uq_headers :: obj
  uq_params :: js
  uq_body :: js

text \<open>What axios gets back: an answer with its status, or a failure with the message of the error.\<close>

datatype ui_answer = Answered nat js | Unanswered string

record 's ui_env =
  ue_apiUrl :: string
  ue_apiKey :: string
  ue_send :: "ui_request \<Rightarrow> 's \<Rightarrow> ui_answer \<times> 's"

text \<open>The module's variable \<open>csrfToken\<close>, beside the state of everything outside.\<close>

type_synonym 's ui_state = "js \<times> 's"

definition extractResponseMessage :: "js \<Rightarrow> string option" where
  "extractResponseMessage data =
     (case data of
        Str s \<Rightarrow> if trim s \<noteq> [] then Some s else None
      | Obj payload \<Rightarrow>
          (case (obj_get payload ''message'', obj_get payload ''error'') of
             (Str m, e) \<Rightarrow> if trim m \<noteq> [] then Some m else (case e of Str t \<Rightarrow> if trim t \<noteq> [] then Some t else None | _ \<Rightarrow> None)
           | (Arr (x # xs), e) \<Rightarrow> Some (join ''; '' (map js_string (x # xs)))
           | (_, Str t) \<Rightarrow> if trim t \<noteq> [] then Some t else None
           | _ \<Rightarrow> None)
      | _ \<Rightarrow> None)"

text \<open>The message axios gives an answer outside 200 to 299.\<close>

definition axios_status_message :: "nat \<Rightarrow> string" where
  "axios_status_message status = ''Request failed with status code '' @ show_nat status"

definition formatAxiosError :: "ui_answer \<Rightarrow> string" where
  "formatAxiosError a =
     (case a of
        Answered status data \<Rightarrow>
          (let message = (case extractResponseMessage data of Some m \<Rightarrow> m | None \<Rightarrow> axios_status_message status) in
           if status \<noteq> 0 then show_nat status @ '': '' @ message else message)
      | Unanswered message \<Rightarrow> message)"

text \<open>The headers after the interceptor of requests.\<close>

definition base_headers :: "'s ui_env \<Rightarrow> obj" where
  "base_headers ue = (''Content-Type'', Str ''application/json'') #
     (if ue_apiKey ue \<noteq> [] then [(''X-API-Key'', Str (ue_apiKey ue))] else [])"

definition request_headers :: "'s ui_env \<Rightarrow> js \<Rightarrow> string \<Rightarrow> obj" where
  "request_headers ue csrf verb =
     (if truthy csrf \<and> verb \<noteq> [] \<and> to_upper verb \<noteq> ''GET'' then obj_set (base_headers ue) ''X-CSRF-Token'' csrf
      else base_headers ue)"

definition ui_request_for :: "'s ui_env \<Rightarrow> js \<Rightarrow> string \<Rightarrow> string \<Rightarrow> js \<Rightarrow> js \<Rightarrow> ui_request" where
  "ui_request_for ue csrf verb path params body =
     \<lparr>uq_method = verb, uq_url = ue_apiUrl ue @ path, uq_headers = request_headers ue csrf verb, uq_params = params, uq_body = body\<rparr>"

definition apiClient :: "'s ui_env \<Rightarrow> string \<Rightarrow> string \<Rightarrow> js \<Rightarrow> js \<Rightarrow> ('s ui_state, js) io" where
  "apiClient ue verb path params body = (\<lambda>(csrf, s).
     case ue_send ue (ui_request_for ue csrf verb path params body) s of
       (answer, s') \<Rightarrow>
         ((case answer of
             Answered status data \<Rightarrow> if 200 \<le> status \<and> status < 300 then Inr data else Inl (Error (formatAxiosError answer))
           | _ \<Rightarrow> Inl (Error (formatAxiosError answer))), (csrf, s')))"

definition ui_get :: "'s ui_env \<Rightarrow> string \<Rightarrow> js \<Rightarrow> ('s ui_state, js) io" where
  "ui_get ue path params = apiClient ue ''get'' path params Undef"

definition ui_post :: "'s ui_env \<Rightarrow> string \<Rightarrow> js \<Rightarrow> ('s ui_state, js) io" where
  "ui_post ue path body = apiClient ue ''post'' path Undef body"

section \<open>The session\<close>

definition setCsrfToken :: "js \<Rightarrow> ('s ui_state, unit) io" where
  "setCsrfToken v = io_modify (\<lambda>(csrf, s). (v, s))"

text \<open>\<open>setCsrfToken(session.csrfToken ?? '')\<close>, and the session is the result.\<close>

definition keep_session :: "js \<Rightarrow> ('s ui_state, js) io" where
  "keep_session session =
     io_bind (io_of_sum (js_read session ''csrfToken'')) (\<lambda>token.
     io_seq (setCsrfToken (coalesce token (Str []))) (io_return session))"

definition fetchAuthSession :: "'s ui_env \<Rightarrow> ('s ui_state, js) io" where
  "fetchAuthSession ue = io_bind (ui_get ue ''/auth/session'' Undef) keep_session"

definition ui_loginLocal :: "'s ui_env \<Rightarrow> string \<Rightarrow> string \<Rightarrow> ('s ui_state, js) io" where
  "ui_loginLocal ue username password =
     io_bind (ui_post ue ''/auth/login'' (Obj [(''username'', Str username), (''password'', Str password)])) keep_session"

definition ui_loginSso :: "'s ui_env \<Rightarrow> ('s ui_state, js) io" where
  "ui_loginSso ue = io_bind (ui_post ue ''/auth/sso-login'' Undef) keep_session"

definition ui_logout :: "'s ui_env \<Rightarrow> ('s ui_state, unit) io" where
  "ui_logout ue = io_seq (ui_post ue ''/auth/logout'' Undef) (setCsrfToken (Str []))"

section \<open>The queue\<close>

definition fetchDlqItems :: "'s ui_env \<Rightarrow> js \<Rightarrow> ('s ui_state, js) io" where
  "fetchDlqItems ue params = ui_get ue ''/admin/dlq'' params"

definition retryDlqItem :: "'s ui_env \<Rightarrow> js \<Rightarrow> ('s ui_state, unit) io" where
  "retryDlqItem ue i = io_seq (ui_post ue (''/admin/dlq/'' @ js_string i @ ''/retry'') Undef) (io_return ())"

definition retryDlqItems :: "'s ui_env \<Rightarrow> js \<Rightarrow> ('s ui_state, js) io" where
  "retryDlqItems ue data = ui_post ue ''/admin/dlq/retry'' data"

definition skipDlqItem :: "'s ui_env \<Rightarrow> js \<Rightarrow> ('s ui_state, unit) io" where
  "skipDlqItem ue i = io_seq (ui_post ue (''/admin/dlq/'' @ js_string i @ ''/skip'') Undef) (io_return ())"

definition fetchAdminStats :: "'s ui_env \<Rightarrow> ('s ui_state, js) io" where
  "fetchAdminStats ue = ui_get ue ''/admin/stats'' Undef"

section \<open>The target systems\<close>

definition fetchTargetSystems :: "'s ui_env \<Rightarrow> js \<Rightarrow> ('s ui_state, js) io" where
  "fetchTargetSystems ue params = ui_get ue ''/admin/target-systems'' params"

definition createTargetSystem :: "'s ui_env \<Rightarrow> js \<Rightarrow> ('s ui_state, js) io" where
  "createTargetSystem ue data = ui_post ue ''/admin/target-systems'' data"

definition updateTargetSystem :: "'s ui_env \<Rightarrow> js \<Rightarrow> js \<Rightarrow> ('s ui_state, js) io" where
  "updateTargetSystem ue i data = apiClient ue ''patch'' (''/admin/target-systems/'' @ js_string i) Undef data"

definition deleteTargetSystem :: "'s ui_env \<Rightarrow> js \<Rightarrow> ('s ui_state, unit) io" where
  "deleteTargetSystem ue i =
     io_seq (apiClient ue ''delete'' (''/admin/target-systems/'' @ js_string i) Undef Undef) (io_return ())"

definition testTargetSystemConnection :: "'s ui_env \<Rightarrow> js \<Rightarrow> ('s ui_state, js) io" where
  "testTargetSystemConnection ue i = ui_post ue (''/admin/target-systems/'' @ js_string i @ ''/test'') Undef"

section \<open>The application\<close>

text \<open>
  The state of \<open>App\<close> (\<open>session\<close> is null before the first answer) and of its login screen, beside the client's;
  \<open>onSession\<close> of the screen is \<open>setSession\<close> of the application.
\<close>

record app_page =
  ap_session :: js
  ap_loading :: bool
  ap_username :: string
  ap_password :: string
  ap_message :: string
  ap_busy :: bool

type_synonym 's app_state = "app_page \<times> 's ui_state"

definition on_client :: "('c, 'a) io \<Rightarrow> ('p \<times> 'c, 'a) io" where
  "on_client m = (\<lambda>(p, c). case m c of (r, c') \<Rightarrow> (r, (p, c')))"

definition on_page :: "('p \<Rightarrow> 'p) \<Rightarrow> ('p \<times> 'c, unit) io" where
  "on_page f = io_modify (\<lambda>(p, c). (f p, c))"

lemma page_run [simp]:
  "on_page f (p, c) = (Inr (), (f p, c))"
  "on_client m (p, c) = (case m c of (r, c') \<Rightarrow> (r, (p, c')))"
  by (simp_all add: on_page_def on_client_def io_modify_def)

definition fallback_session :: js where
  "fallback_session = Obj [(''authEnabled'', Bool True), (''authenticated'', Bool False), (''mode'', Str ''local'')]"

definition app_start :: "'s ui_env \<Rightarrow> ('s app_state, unit) io" where
  "app_start ue =
     io_finally
       (io_catch (io_bind (on_client (fetchAuthSession ue)) (\<lambda>session. on_page (ap_session_update (\<lambda>_. session))))
         (\<lambda>_. on_page (ap_session_update (\<lambda>_. fallback_session))))
       (on_page (ap_loading_update (\<lambda>_. False)))"

definition handleLogout :: "'s ui_env \<Rightarrow> ('s app_state, unit) io" where
  "handleLogout ue =
     io_seq (on_client (ui_logout ue))
       (io_bind (on_client (fetchAuthSession ue)) (\<lambda>session. on_page (ap_session_update (\<lambda>_. session))))"

definition submit :: "('s ui_state, js) io \<Rightarrow> ('s app_state, unit) io" where
  "submit login =
     io_seq (on_page (\<lambda>p. p\<lparr>ap_busy := True, ap_message := []\<rparr>))
       (io_finally
         (io_catch (io_bind (on_client login) (\<lambda>session. on_page (ap_session_update (\<lambda>_. session))))
           (\<lambda>e. on_page (ap_message_update (\<lambda>_. exn_message e))))
         (on_page (ap_busy_update (\<lambda>_. False))))"

definition submitLocal :: "'s ui_env \<Rightarrow> ('s app_state, unit) io" where
  "submitLocal ue = io_bind (io_get (\<lambda>(p, c). (ap_username p, ap_password p))) (\<lambda>(username, password).
     submit (ui_loginLocal ue username password))"

definition submitSso :: "'s ui_env \<Rightarrow> ('s app_state, unit) io" where
  "submitSso ue = submit (ui_loginSso ue)"

text \<open>What is shown, and the ways to sign in that the login screen offers.\<close>

datatype screen = LoadingScreen | LoginScreen bool bool | Pages

definition app_screen :: "app_page \<Rightarrow> screen" where
  "app_screen p =
     (if ap_loading p \<or> \<not> truthy (ap_session p) then LoadingScreen
      else if truthy (js_prop (ap_session p) ''authEnabled'') \<and> \<not> truthy (js_prop (ap_session p) ''authenticated'')
      then LoginScreen (js_prop (ap_session p) ''mode'' \<noteq> Str ''sso'') (js_prop (ap_session p) ''mode'' \<noteq> Str ''local'')
      else Pages)"

end
