(* ===== verification/Ui_Target_Form.thy ===== *)
theory Ui_Target_Form
  imports Ui_Client Target_Systems
begin

text \<open>
  \<^verbatim>\<open>ui/src/pages/TargetSystemsPage.tsx\<close>: the form in which administrators create and edit target systems. It is
  filled from the masked configuration the server shows, and what it saves is merged into the stored
  configuration by the server. Texts shown beside a field (labels, help, placeholders) are left out.
\<close>

section \<open>The form\<close>

record retry_form =
  rf_maxRetries :: string
  rf_baseDelayMs :: string
  rf_maxDelayMs :: string
  rf_dlqLeaseSeconds :: string
  rf_jitter :: bool

record target_form =
  tf_id :: js
  tf_name :: js
  tf_type :: js
  tf_label :: js
  tf_configValues :: obj
  tf_retryPolicy :: retry_form
  tf_extraConfig :: obj
  tf_enabled :: js

definition TYPE_OPTIONS :: "string list" where
  "TYPE_OPTIONS = [''zabbix'', ''cmdbuild'', ''passwork'', ''rest'', ''db'', ''fake'']"

definition DEFAULT_RETRY_POLICY_FORM :: retry_form where
  "DEFAULT_RETRY_POLICY_FORM = \<lparr>rf_maxRetries = [], rf_baseDelayMs = [], rf_maxDelayMs = [], rf_dlqLeaseSeconds = [], rf_jitter = True\<rparr>"

definition EMPTY_FORM :: target_form where
  "EMPTY_FORM = \<lparr>tf_id = Undef, tf_name = Str [], tf_type = Str ''zabbix'', tf_label = Str [], tf_configValues = [],
     tf_retryPolicy = DEFAULT_RETRY_POLICY_FORM, tf_extraConfig = [], tf_enabled = Bool True\<rparr>"

text \<open>The fields of each type, and whether the input hides what is typed.\<close>

definition TYPE_FIELDS :: "(string \<times> (string \<times> bool) list) list" where
  "TYPE_FIELDS =
    [(''zabbix'', [(''baseUrl'', False), (''apiToken'', True), (''username'', False), (''password'', True),
       (''apiVersion'', False), (''enableGroupId'', False), (''disableGroupId'', False)]),
     (''cmdbuild'', [(''baseUrl'', False), (''apiPath'', False), (''username'', False), (''password'', True),
       (''defaultUserGroupId'', False)]),
     (''passwork'', [(''baseUrl'', False), (''accessToken'', True), (''masterKeyHash'', True), (''timeout'', False),
       (''responseFormat'', False)]),
     (''rest'', [(''baseUrl'', False)]),
     (''db'', [(''client'', False), (''connection'', False), (''username'', False), (''password'', True)]),
     (''fake'', [(''baseUrl'', False), (''apiKey'', True), (''timeout'', False)])]"

definition type_fields :: "js \<Rightarrow> string list" where
  "type_fields type =
     (case type of
        Str t \<Rightarrow> (case map_of TYPE_FIELDS t of Some fs \<Rightarrow> map fst fs | None \<Rightarrow> [])
      | _ \<Rightarrow> [])"

definition newForm :: target_form where
  "newForm = EMPTY_FORM\<lparr>tf_configValues := [], tf_retryPolicy := DEFAULT_RETRY_POLICY_FORM, tf_extraConfig := []\<rparr>"

section \<open>Secrets in the form\<close>

text \<open>\<open>SECRET_CONFIG_KEY_PATTERN\<close> ignores case and matches anywhere in the key.\<close>

definition isSecretConfigKey :: "string \<Rightarrow> bool" where
  "isSecretConfigKey key =
     list_ex (str_includes (to_lower key)) [''pass'', ''token'', ''secret'', ''key'', ''code'', ''credential'']"

definition isMaskedSecretPlaceholder :: "js \<Rightarrow> bool" where
  "isMaskedSecretPlaceholder v = (case v of Str s \<Rightarrow> starts_with (trim s) ''***'' | _ \<Rightarrow> False)"

definition formatExtraConfigValue :: "string \<Rightarrow> js \<Rightarrow> string" where
  "formatExtraConfigValue key v =
     (if isSecretConfigKey key then (if nullish v \<or> v = Str [] then [] else ''*** preserved ***'')
      else case v of Str s \<Rightarrow> s | Undef \<Rightarrow> ''undefined'' | _ \<Rightarrow> json_text v)"

section \<open>From the form to a configuration\<close>

definition ui_positiveInteger :: "string \<Rightarrow> int option" where
  "ui_positiveInteger v = positive_integer (Str v)"

definition numeric_fields :: "(string \<times> (retry_form \<Rightarrow> string)) list" where
  "numeric_fields = [(''maxRetries'', rf_maxRetries), (''baseDelayMs'', rf_baseDelayMs), (''maxDelayMs'', rf_maxDelayMs),
     (''dlqLeaseSeconds'', rf_dlqLeaseSeconds)]"

fun numeric_values :: "retry_form \<Rightarrow> (string \<times> (retry_form \<Rightarrow> string)) list \<Rightarrow> obj \<Rightarrow> obj" where
  "numeric_values form [] policy = policy"
| "numeric_values form ((field, read) # fs) policy =
     numeric_values form fs
       (case ui_positiveInteger (read form) of None \<Rightarrow> policy | Some n \<Rightarrow> obj_set policy field (JInt n))"

definition buildRetryPolicy :: "retry_form \<Rightarrow> obj option" where
  "buildRetryPolicy form =
     (let numbers = numeric_values form numeric_fields [];
          policy = (if numbers \<noteq> [] \<or> \<not> rf_jitter form then obj_set numbers ''jitter'' (Bool (rf_jitter form)) else numbers) in
      if policy \<noteq> [] then Some policy else None)"

definition field_saved :: "string \<Rightarrow> js \<Rightarrow> bool" where
  "field_saved field v \<longleftrightarrow>
     \<not> (isSecretConfigKey field \<and> isMaskedSecretPlaceholder v) \<and> v \<noteq> Undef \<and> v \<noteq> Str []"

fun set_fields :: "obj \<Rightarrow> string list \<Rightarrow> obj \<Rightarrow> obj" where
  "set_fields values [] cfg = cfg"
| "set_fields values (field # fs) cfg =
     set_fields values fs
       (if field_saved field (obj_get values field) then obj_set cfg field (obj_get values field) else cfg)"

definition buildConfig :: "target_form \<Rightarrow> obj" where
  "buildConfig form =
     (let cfg = set_fields (tf_configValues form) (type_fields (tf_type form)) (tf_extraConfig form) in
      case buildRetryPolicy (tf_retryPolicy form) of None \<Rightarrow> cfg | Some p \<Rightarrow> obj_set cfg ''retryPolicy'' (Obj p))"

section \<open>From a target system to the form\<close>

definition policy_text :: "obj \<Rightarrow> string \<Rightarrow> string" where
  "policy_text policy field = (if obj_get policy field = Undef then [] else js_string (obj_get policy field))"

definition retryPolicyFromConfig :: "obj \<Rightarrow> retry_form" where
  "retryPolicyFromConfig config =
     (case obj_get config ''retryPolicy'' of
        Obj policy \<Rightarrow>
          \<lparr>rf_maxRetries = policy_text policy ''maxRetries'', rf_baseDelayMs = policy_text policy ''baseDelayMs'',
           rf_maxDelayMs = policy_text policy ''maxDelayMs'', rf_dlqLeaseSeconds = policy_text policy ''dlqLeaseSeconds'',
           rf_jitter = (case obj_get policy ''jitter'' of Bool b \<Rightarrow> b | _ \<Rightarrow> rf_jitter DEFAULT_RETRY_POLICY_FORM)\<rparr>
      | _ \<Rightarrow> DEFAULT_RETRY_POLICY_FORM)"

definition shown_value :: "string \<Rightarrow> js \<Rightarrow> js" where
  "shown_value key v =
     (if isSecretConfigKey key \<and> isMaskedSecretPlaceholder v then Str [] else Str (js_string (coalesce v (Str []))))"

text \<open>The loop over the entries of the configuration: the values of the fields, and the other keys.\<close>

fun split_config :: "string list \<Rightarrow> obj \<Rightarrow> obj \<times> obj \<Rightarrow> obj \<times> obj" where
  "split_config names [] acc = acc"
| "split_config names ((key, v) # rest) (shown, extra) =
     split_config names rest
       (if key = ''retryPolicy'' then (shown, extra)
        else if key \<in> set names then (obj_set shown key (shown_value key v), extra)
        else (shown, obj_set extra key v))"

definition edit_form :: "js \<Rightarrow> target_form" where
  "edit_form item =
     (let rawConfig = as_record (coalesce (js_prop item ''config'') (Obj []));
          parts = split_config (type_fields (js_prop item ''type'')) rawConfig ([], []) in
      \<lparr>tf_id = js_prop item ''id'', tf_name = js_prop item ''name'', tf_type = js_prop item ''type'',
       tf_label = js_prop item ''label'', tf_configValues = fst parts, tf_retryPolicy = retryPolicyFromConfig rawConfig,
       tf_extraConfig = snd parts, tf_enabled = js_prop item ''enabled''\<rparr>)"

text \<open>What a save sends.\<close>

definition save_body :: "target_form \<Rightarrow> js" where
  "save_body form =
     Obj [(''name'', tf_name form), (''type'', tf_type form), (''label'', tf_label form),
       (''config'', Obj (buildConfig form)), (''enabled'', tf_enabled form)]"

section \<open>Inputs\<close>

definition input_type :: "string \<Rightarrow> target_form \<Rightarrow> target_form" where
  "input_type v form = form\<lparr>tf_type := Str v, tf_configValues := [], tf_extraConfig := []\<rparr>"

definition input_field :: "string \<Rightarrow> string \<Rightarrow> target_form \<Rightarrow> target_form" where
  "input_field field v form = form\<lparr>tf_configValues := obj_set (tf_configValues form) field (Str v)\<rparr>"

definition input_retry :: "(retry_form \<Rightarrow> retry_form) \<Rightarrow> target_form \<Rightarrow> target_form" where
  "input_retry f form = form\<lparr>tf_retryPolicy := f (tf_retryPolicy form)\<rparr>"

text \<open>The summary of a row of the table.\<close>

definition retrySummary :: "js \<Rightarrow> string" where
  "retrySummary item =
     (let p = retryPolicyFromConfig (as_record (coalesce (js_prop item ''config'') (Obj [])));
          s = join '', '' (filter (\<lambda>t. t \<noteq> [])
            [if rf_maxRetries p \<noteq> [] then rf_maxRetries p @ '' retries'' else [],
             if rf_dlqLeaseSeconds p \<noteq> [] then rf_dlqLeaseSeconds p @ ''s lease'' else []]) in
      if s \<noteq> [] then s else ''default'')"

section \<open>The page\<close>

record targets_page =
  pg_items :: js
  pg_loading :: bool
  pg_saving :: bool
  pg_testingId :: js
  pg_deletingId :: js
  pg_form :: target_form
  pg_editing :: bool
  pg_message :: js

type_synonym 's targets_state = "targets_page \<times> 's ui_state"

definition say_error :: "exn \<Rightarrow> ('s targets_state, unit) io" where
  "say_error e = on_page (pg_message_update (\<lambda>_. Str (''Error: '' @ exn_message e)))"

definition all_targets :: js where
  "all_targets = Obj [(''limit'', JInt 200)]"

definition load_targets :: "'s ui_env \<Rightarrow> ('s targets_state, unit) io" where
  "load_targets ue =
     io_seq (on_page (pg_loading_update (\<lambda>_. True)))
       (io_finally
         (io_catch (io_bind (on_client (fetchTargetSystems ue all_targets)) (\<lambda>items.
            on_page (pg_items_update (\<lambda>_. items)))) say_error)
         (on_page (pg_loading_update (\<lambda>_. False))))"

definition resetForm :: "('s targets_state, unit) io" where
  "resetForm = on_page (\<lambda>p. p\<lparr>pg_form := newForm, pg_editing := False, pg_message := Str []\<rparr>)"

definition send_form :: "'s ui_env \<Rightarrow> target_form \<Rightarrow> bool \<Rightarrow> ('s targets_state, unit) io" where
  "send_form ue form editing =
     (if editing \<and> truthy (tf_id form)
      then io_seq (on_client (updateTargetSystem ue (tf_id form) (save_body form)))
             (on_page (pg_message_update (\<lambda>_. Str ''Updated successfully'')))
      else io_seq (on_client (createTargetSystem ue (save_body form)))
             (on_page (pg_message_update (\<lambda>_. Str ''Created successfully''))))"

definition handleSave :: "'s ui_env \<Rightarrow> ('s targets_state, unit) io" where
  "handleSave ue =
     io_bind (io_get (\<lambda>(p, c). (pg_form p, pg_editing p))) (\<lambda>(form, editing).
     io_seq (on_page (pg_saving_update (\<lambda>_. True)))
       (io_finally
         (io_catch (io_seq (send_form ue form editing) (io_seq resetForm (load_targets ue))) say_error)
         (on_page (pg_saving_update (\<lambda>_. False)))))"

definition handleEdit :: "js \<Rightarrow> ('s targets_state, unit) io" where
  "handleEdit item = on_page (\<lambda>p. p\<lparr>pg_form := edit_form item, pg_editing := True, pg_message := Str []\<rparr>)"

text \<open>\<open>confirmed\<close> is the answer to the question asked before.\<close>

definition handleDelete :: "'s ui_env \<Rightarrow> bool \<Rightarrow> js \<Rightarrow> ('s targets_state, unit) io" where
  "handleDelete ue confirmed i =
     (if \<not> confirmed then io_return ()
      else io_seq (on_page (pg_deletingId_update (\<lambda>_. i)))
        (io_finally
          (io_catch (io_seq (on_client (deleteTargetSystem ue i))
             (io_seq (on_page (pg_message_update (\<lambda>_. Str ''Deleted successfully''))) (load_targets ue))) say_error)
          (on_page (pg_deletingId_update (\<lambda>_. Null)))))"

definition handleTest :: "'s ui_env \<Rightarrow> js \<Rightarrow> ('s targets_state, unit) io" where
  "handleTest ue i =
     io_seq (on_page (pg_testingId_update (\<lambda>_. i)))
       (io_finally
         (io_catch (io_bind (on_client (testTargetSystemConnection ue i)) (\<lambda>result.
            io_bind (io_of_sum (js_read result ''message'')) (\<lambda>m. on_page (pg_message_update (\<lambda>_. m))))) say_error)
         (on_page (pg_testingId_update (\<lambda>_. Null))))"

section \<open>What the parts of a configuration become\<close>

lemma split_config_get:
  assumes "distinct (map fst ob)"
  shows "map_of (fst (split_config names ob (a, b))) k =
      (if k \<noteq> ''retryPolicy'' \<and> k \<in> set names \<and> map_of ob k \<noteq> None then Some (shown_value k (obj_get ob k)) else map_of a k) \<and>
    map_of (snd (split_config names ob (a, b))) k =
      (if k \<noteq> ''retryPolicy'' \<and> k \<notin> set names \<and> map_of ob k \<noteq> None then map_of ob k else map_of b k)"
  using assms
proof (induction ob arbitrary: a b)
  case (Cons kv ob)
  obtain key v where kv: "kv = (key, v)" by (cases kv)
  have fresh: "map_of ob key = None" using Cons.prems by (simp add: kv map_of_eq_None_iff)
  have IH: "\<And>a b. map_of (fst (split_config names ob (a, b))) k =
      (if k \<noteq> ''retryPolicy'' \<and> k \<in> set names \<and> map_of ob k \<noteq> None then Some (shown_value k (obj_get ob k)) else map_of a k) \<and>
    map_of (snd (split_config names ob (a, b))) k =
      (if k \<noteq> ''retryPolicy'' \<and> k \<notin> set names \<and> map_of ob k \<noteq> None then map_of ob k else map_of b k)"
    using Cons by simp
  show ?case
  proof (cases "k = key")
    case True
    then have key: "key = k" by simp
    show ?thesis
      using fresh IH [of a b] IH [of "obj_set a k (shown_value k v)" b] IH [of a "obj_set b k v"]
      unfolding kv key by (auto simp: map_of_obj_set obj_get_def)
  next
    case False
    then show ?thesis
      using IH [of a b] IH [of "obj_set a key (shown_value key v)" b] IH [of a "obj_set b key v"]
      unfolding kv by (auto simp: map_of_obj_set obj_get_def)
  qed
qed simp

lemma split_config_ok:
  "obj_ok b \<Longrightarrow> obj_ok (snd (split_config names ob (a, b)))"
  by (induction names ob "(a, b)" arbitrary: a b rule: split_config.induct) (simp_all add: obj_ok_set)

lemma set_fields_get:
  "map_of (set_fields vals fs cfg) k =
     (if k \<in> set fs \<and> field_saved k (obj_get vals k) then Some (obj_get vals k) else map_of cfg k)"
  by (induction vals fs cfg rule: set_fields.induct) (auto simp: map_of_obj_set)

lemma set_fields_ok: "obj_ok cfg \<Longrightarrow> obj_ok (set_fields vals fs cfg)"
  by (induction vals fs cfg rule: set_fields.induct) (simp_all add: obj_ok_set)

lemma buildConfig_ok: "obj_ok (tf_extraConfig form) \<Longrightarrow> obj_ok (buildConfig form)"
  by (simp add: buildConfig_def Let_def set_fields_ok obj_ok_set split: option.split)

lemma edit_form_fields [simp]:
  "tf_type (edit_form item) = js_prop item ''type''"
  "obj_ok (tf_extraConfig (edit_form item))"
  by (simp_all add: edit_form_def Let_def split_config_ok obj_ok_def [of "[]"])

text \<open>No type has a field for the retry policy, and the server's secrets among the fields are the page's.\<close>

lemma all_fields_facts:
  "list_all (\<lambda>(t, fs). list_all (\<lambda>(field, hidden). field \<noteq> ''retryPolicy'' \<and> isSecretConfigKey field = isSecretKey field \<and>
     hidden = isSecretKey field) fs) TYPE_FIELDS"
  by code_simp

lemma type_fields_facts:
  assumes "field \<in> set (type_fields type)"
  shows "field \<noteq> ''retryPolicy''" "isSecretConfigKey field \<longleftrightarrow> isSecretKey field"
proof -
  from assms obtain t where t: "type = Str t" by (cases type) (simp_all add: type_fields_def)
  with assms obtain fs hidden where "map_of TYPE_FIELDS t = Some fs" "(field, hidden) \<in> set fs"
    by (cases "map_of TYPE_FIELDS t") (auto simp: type_fields_def)
  then have "(t, fs) \<in> set TYPE_FIELDS" "(field, hidden) \<in> set fs" by (auto dest: map_of_SomeD)
  with all_fields_facts have "field \<noteq> ''retryPolicy'' \<and> isSecretConfigKey field = isSecretKey field"
    unfolding list_all_iff by fast
  then show "field \<noteq> ''retryPolicy''" "isSecretConfigKey field \<longleftrightarrow> isSecretKey field" by simp_all
qed

lemma buildConfig_get:
  assumes "k \<noteq> ''retryPolicy''" "distinct (map fst raw)" "js_prop item ''config'' = Obj raw"
  shows "map_of (buildConfig (edit_form item)) k =
    (if k \<in> set (type_fields (js_prop item ''type''))
     then (if has_own raw k \<and> field_saved k (shown_value k (obj_get raw k)) then Some (shown_value k (obj_get raw k)) else None)
     else map_of raw k)"
proof -
  let ?names = "type_fields (js_prop item ''type'')"
  have parts: "tf_configValues (edit_form item) = fst (split_config ?names raw ([], []))"
    "tf_extraConfig (edit_form item) = snd (split_config ?names raw ([], []))"
    by (simp_all add: edit_form_def assms(3) as_record_Obj Let_def)
  have "map_of (buildConfig (edit_form item)) k =
      map_of (set_fields (tf_configValues (edit_form item)) ?names (tf_extraConfig (edit_form item))) k"
    using assms(1) by (simp add: buildConfig_def Let_def map_of_obj_set split: option.split)
  moreover have "\<not> field_saved k Undef" by (simp add: field_saved_def)
  ultimately show ?thesis
    using assms(1) unfolding parts set_fields_get
    by (auto simp: split_config_get [OF assms(2)] obj_get_def has_own_def split: option.split)
qed

section \<open>The retry policy\<close>

lemma numeric_values_get:
  assumes "distinct (map fst fs)"
  shows "map_of (numeric_values form fs p) k =
    (case map_of fs k of
       Some read \<Rightarrow> (case ui_positiveInteger (read form) of Some n \<Rightarrow> Some (JInt n) | None \<Rightarrow> map_of p k)
     | None \<Rightarrow> map_of p k)"
  using assms
proof (induction form fs p rule: numeric_values.induct)
  case (2 form field read fs policy)
  have fresh: "map_of fs field = None" using "2.prems" by (simp add: map_of_eq_None_iff)
  have IH: "map_of (numeric_values form fs q) k = (case map_of fs k of
       Some read \<Rightarrow> (case ui_positiveInteger (read form) of Some n \<Rightarrow> Some (JInt n) | None \<Rightarrow> map_of q k) | None \<Rightarrow> map_of q k)"
    if "q = (case ui_positiveInteger (read form) of None \<Rightarrow> policy | Some n \<Rightarrow> obj_set policy field (JInt n))" for q
    using "2.IH" "2.prems" unfolding that by simp
  show ?case
  proof (cases "k = field")
    case True
    then have field: "field = k" by simp
    show ?thesis
      using IH [OF refl] fresh unfolding field by (simp add: map_of_obj_set split: option.split)
  next
    case False
    then show ?thesis
      using IH [OF refl]
      by (cases "ui_positiveInteger (read form)"; cases "map_of fs k") (simp_all add: map_of_obj_set split: option.split)
  qed
qed simp

lemma numeric_values_ok: "obj_ok p \<Longrightarrow> obj_ok (numeric_values form fs p)"
  by (induction form fs p rule: numeric_values.induct) (auto simp: obj_ok_set split: option.split)

text \<open>The settings the page shows as they are stored: absent, empty, a text or a whole number.\<close>

definition plain_setting :: "js \<Rightarrow> bool" where
  "plain_setting v =
     (case v of Num n \<Rightarrow> num_int n \<noteq> None | Arr xs \<Rightarrow> False | Obj ob \<Rightarrow> False | _ \<Rightarrow> True)"

lemma plain_redacted: "plain_setting v \<Longrightarrow> redactSecrets v = v"
  by (cases v) (simp_all add: plain_setting_def)

lemma shown_number:
  assumes "plain_setting v" "ui_positiveInteger (if v = Undef then [] else js_string v) = Some n"
  shows "positive_integer v = Some n"
proof (cases v)
  case (Num m)
  with assms(1) obtain i where m: "m = Fin (of_int i)" by (auto simp: plain_setting_def dest: num_int_Some)
  have "js_string v = show_int i" by (simp add: Num m json_number_int)
  with assms(2) Num m show ?thesis by (simp add: ui_positiveInteger_def positive_integer_def string_to_number_show)
next
  case (Bool b)
  with assms(2) show ?thesis
    by (cases b) (simp_all add: ui_positiveInteger_def positive_integer_def num_int_def string_to_number_def unsigned_decimal_def
        decimal_mantissa_def decimal_exponent_def is_exp_char_def is_digit_def trim_def is_space_def to_lower_def to_lower_char_def
        upper_letters_def lower_letters_def digits_nat_def)
qed (use assms in \<open>simp_all add: ui_positiveInteger_def positive_integer_def num_int_def string_to_number_def unsigned_decimal_def
        decimal_mantissa_def decimal_exponent_def is_exp_char_def is_digit_def trim_def is_space_def to_lower_def to_lower_char_def
        upper_letters_def lower_letters_def digits_nat_def plain_setting_def\<close>)

section \<open>Opening and saving a target system\<close>

text \<open>The rows of the server as the page gets them (the times, which it does not read, are left out).\<close>

definition target_json :: "target_system \<Rightarrow> js" where
  "target_json t = Obj [(''id'', Str (ts_id t)), (''name'', Str (ts_name t)), (''type'', Str (ts_type t)), (''label'', Str (ts_label t)),
     (''config'', ts_config t), (''enabled'', Bool (ts_enabled t))]"

text \<open>What a field that is no secret is stored as after a save that did not touch it: a text.\<close>

definition saved_text :: "js \<Rightarrow> js" where
  "saved_text v = (let s = js_string (coalesce (redactSecrets v) (Str [])) in if s = [] then v else Str s)"

lemma saved_text_Str [simp]: "saved_text (Str s) = Str s" "saved_text Undef = Undef" "saved_text Null = Null"
  by (simp_all add: saved_text_def)

text \<open>What the page gets for a key of the stored configuration.\<close>

definition shown_config :: "obj \<Rightarrow> obj" where
  "shown_config config = as_record (redactSecrets (Obj config))"

lemma shown_config_get:
  "map_of (shown_config config) k =
     map_option (\<lambda>v. if isSecretKey k then Str MASKED_SECRET_VALUE else redactSecrets v) (map_of config k)"
  by (induction config) (auto simp: shown_config_def as_record_def)

lemma shown_config_keys: "map fst (shown_config config) = map fst config"
  by (auto simp: shown_config_def as_record_def)

lemma merged_value_shown:
  assumes "js_ok (Obj config)" "arrays_masked (Obj config)" "map_of config k = Some v"
  shows "merged_value config k (if isSecretKey k then Str MASKED_SECRET_VALUE else redactSecrets v) = v"
proof -
  have kv: "(k, v) \<in> set config" using assms(3) by (rule map_of_SomeD)
  have "Obj (mergeConfigPreservingSecrets b (as_record (redactSecrets (Obj b)))) = returned_config (Obj b)" if "v = Obj b" for b
    using assms(1) kv that by (intro merge_redacted) (force simp: list_all_iff)+
  then have "merged_value config k (if isSecretKey k then Str MASKED_SECRET_VALUE else redactSecrets v) =
      (if isSecretKey k then v else returned_config v)" by (rule merged_value_redacted [OF assms(3)])
  moreover have "isSecretKey k \<or> arrays_masked v" using assms(2) kv by (force simp: list_all_iff)
  ultimately show ?thesis by (auto simp: returned_config_id)
qed

lemma saved_key:
  assumes "js_ok (Obj config)" "arrays_masked (Obj config)" "k \<noteq> ''retryPolicy''" "js_prop item ''config'' = Obj (shown_config config)"
  shows "obj_get (mergeConfigPreservingSecrets config (buildConfig (edit_form item))) k =
    (if k \<in> set (type_fields (js_prop item ''type'')) \<and> \<not> isSecretKey k then saved_text (obj_get config k) else obj_get config k)"
proof -
  let ?built = "buildConfig (edit_form item)" and ?names = "type_fields (js_prop item ''type'')"
  have ok: "obj_ok ?built" by (rule buildConfig_ok) simp
  have "distinct (map fst (shown_config config))" using assms(1) by (simp add: shown_config_keys)
  note built = buildConfig_get [OF assms(3) this assms(4)]
  note merged = merge_value_of_key [OF ok, of config k]
  show ?thesis
  proof (cases "map_of config k")
    case None
    with built merged show ?thesis by (simp add: shown_config_get has_own_def obj_get_def)
  next
    case (Some v)
    show ?thesis
    proof (cases "k \<in> set ?names")
      case False
      with built merged Some merged_value_shown [OF assms(1,2) Some] show ?thesis
        by (simp add: shown_config_get has_own_def obj_get_def)
    next
      case True
      note secret = type_fields_facts(2) [OF True]
      show ?thesis
      proof (cases "isSecretKey k")
        case True
        then have "shown_value k (Str MASKED_SECRET_VALUE) = Str []"
          by (simp add: shown_value_def secret isMaskedSecretPlaceholder_def MASKED_SECRET_VALUE_def trim_def is_space_def)
        with True \<open>k \<in> set ?names\<close> built merged Some show ?thesis
          by (simp add: shown_config_get has_own_def obj_get_def field_saved_def)
      next
        case False
        then have "shown_value k (redactSecrets v) = Str (js_string (coalesce (redactSecrets v) (Str [])))"
          by (simp add: shown_value_def secret)
        with False \<open>k \<in> set ?names\<close> built merged Some secret show ?thesis
          by (simp add: shown_config_get has_own_def obj_get_def field_saved_def merged_value_def saved_text_def Let_def)
      qed
    qed
  qed
qed

section \<open>The retry policy of a saved form\<close>

definition plain_policy :: "obj \<Rightarrow> bool" where
  "plain_policy policy \<longleftrightarrow> (\<forall>field \<in> fst ` set numeric_fields. plain_setting (obj_get policy field))"

lemma policy_keys: "\<not> isSecretKey ''retryPolicy''" "\<not> isSecretKey ''jitter''"
  "\<forall>field \<in> fst ` set numeric_fields. \<not> isSecretKey field \<and> field \<noteq> ''jitter''"
  by (simp_all add: numeric_fields_def secret_key_eval)

lemma shown_policy_get:
  "\<not> isSecretKey k \<Longrightarrow> obj_get (shown_config policy) k = redactSecrets (obj_get policy k)"
  by (simp add: obj_get_def shown_config_get split: option.split)

lemma form_of_policy:
  assumes "obj_get raw ''retryPolicy'' = Obj (shown_config policy)" "plain_policy policy" "map_of numeric_fields field = Some read"
    and "ui_positiveInteger (read (retryPolicyFromConfig raw)) = Some n"
  shows "positive_integer (obj_get policy field) = Some n"
proof -
  from assms(3) have field: "field \<in> fst ` set numeric_fields" by (force dest: map_of_SomeD)
  then have plain: "plain_setting (obj_get policy field)" using assms(2) unfolding plain_policy_def by blast
  have get: "obj_get (shown_config policy) field = obj_get policy field"
    using shown_policy_get [OF bspec [OF policy_keys(3) field, THEN conjunct1]] plain_redacted [OF plain] by simp
  have "read (retryPolicyFromConfig raw) = policy_text (shown_config policy) field"
    using assms(1,3) by (auto simp: numeric_fields_def retryPolicyFromConfig_def split: if_splits)
  also have "\<dots> = (if obj_get policy field = Undef then [] else js_string (obj_get policy field))"
    unfolding policy_text_def get ..
  finally show ?thesis using assms(4) by (intro shown_number [OF plain]) (simp only:)
qed

lemma buildRetryPolicy_get:
  assumes "buildRetryPolicy form = Some p"
  shows "obj_ok p" "map_of numeric_fields field = Some read \<Longrightarrow> map_of p field = map_option JInt (ui_positiveInteger (read form))"
    "map_of p ''jitter'' \<in> {None, Some (Bool (rf_jitter form))}"
proof -
  let ?n = "numeric_values form numeric_fields []"
  have d: "distinct (map fst numeric_fields)" by (simp add: numeric_fields_def)
  have p: "p = (if ?n \<noteq> [] \<or> \<not> rf_jitter form then obj_set ?n ''jitter'' (Bool (rf_jitter form)) else ?n)"
    using assms by (auto simp: buildRetryPolicy_def Let_def split: if_splits)
  have n: "map_of ?n k = (case map_of numeric_fields k of None \<Rightarrow> None | Some read \<Rightarrow> map_option JInt (ui_positiveInteger (read form)))" for k
    unfolding numeric_values_get [OF d] by (simp split: option.split)
  show "obj_ok p" by (simp add: p obj_ok_set numeric_values_ok obj_ok_def [of "[]"])
  show "map_of p field = map_option JInt (ui_positiveInteger (read form))" if "map_of numeric_fields field = Some read"
  proof -
    from that have "field \<noteq> ''jitter''" by (auto simp: numeric_fields_def)
    with that n [of field] show ?thesis by (auto simp: p map_of_obj_set)
  qed
  have "map_of numeric_fields ''jitter'' = None" by (simp add: numeric_fields_def)
  then show "map_of p ''jitter'' \<in> {None, Some (Bool (rf_jitter form))}" by (simp add: p map_of_obj_set n)
qed

lemma default_form_no_policy: "buildRetryPolicy DEFAULT_RETRY_POLICY_FORM = None"
  by (simp add: buildRetryPolicy_def numeric_fields_def DEFAULT_RETRY_POLICY_FORM_def ui_positiveInteger_def positive_integer_def
      string_to_number_def trim_def num_int_def)

lemma merged_policy:
  assumes "obj_get raw ''retryPolicy'' = Obj (shown_config policy)" "plain_policy policy"
    and "buildRetryPolicy (retryPolicyFromConfig raw) = Some p"
  shows "spread_policy lease (normalizePolicy (Obj (mergeConfigPreservingSecrets policy p))) = spread_policy lease (normalizePolicy (Obj policy))"
proof -
  note p = buildRetryPolicy_get [OF assms(3)]
  let ?m = "mergeConfigPreservingSecrets policy p"
  have number: "positive_integer (obj_get ?m field) = positive_integer (obj_get policy field)"
    if read: "map_of numeric_fields field = Some read" for field read
  proof (cases "ui_positiveInteger (read (retryPolicyFromConfig raw))")
    case None
    with p(2) [OF read] show ?thesis by (simp add: merge_value_of_key [OF p(1)] has_own_def)
  next
    case (Some n)
    with p(2) [OF read] have "has_own p field" "obj_get p field = JInt n" by (simp_all add: has_own_def obj_get_Some)
    then have "obj_get ?m field = JInt n"
      by (simp add: merge_value_of_key [OF p(1)] merged_value_def isMaskedSecretValue_def)
    moreover have "positive_integer (obj_get policy field) = Some n" by (rule form_of_policy [OF assms(1,2) read Some])
    ultimately show ?thesis using positive_integer_pos by simp
  qed
  have form_jitter: "rf_jitter (retryPolicyFromConfig raw) = (case obj_get policy ''jitter'' of Bool b \<Rightarrow> b | _ \<Rightarrow> True)"
    using policy_keys(2) assms(1)
    by (simp add: retryPolicyFromConfig_def shown_policy_get DEFAULT_RETRY_POLICY_FORM_def split: js.split)
  have "obj_get ?m ''jitter'' = obj_get policy ''jitter'' \<or> obj_get ?m ''jitter'' = Bool (rf_jitter (retryPolicyFromConfig raw))"
    using p(3) by (auto simp: merge_value_of_key [OF p(1)] has_own_def obj_get_Some merged_value_def isMaskedSecretValue_def)
  with form_jitter show ?thesis
    by (auto simp: normalizePolicy_def spread_policy_def number numeric_fields_def or_default_def DEFAULT_RETRY_POLICY_def Let_def
        split: js.split)
qed

lemma saved_policy:
  assumes "js_ok (Obj config)" "\<And>policy. obj_get config ''retryPolicy'' = Obj policy \<Longrightarrow> plain_policy policy"
    and "js_prop item ''config'' = Obj (shown_config config)"
  shows "spread_policy lease (normalizePolicy (obj_get (mergeConfigPreservingSecrets config (buildConfig (edit_form item))) ''retryPolicy'')) =
    spread_policy lease (normalizePolicy (obj_get config ''retryPolicy''))"
proof -
  let ?form = "retryPolicyFromConfig (shown_config config)"
  let ?built = "buildConfig (edit_form item)"
  have ok: "obj_ok ?built" by (rule buildConfig_ok) simp
  have form: "tf_retryPolicy (edit_form item) = ?form" by (simp add: edit_form_def Let_def assms(3) as_record_Obj)
  have d: "distinct (map fst (shown_config config))" using assms(1) by (simp add: shown_config_keys)
  have none: "map_of (snd (split_config names (shown_config config) ([], []))) ''retryPolicy'' = None" for names
    using split_config_get [OF d, of names "[]" "[]" "''retryPolicy''"] by simp
  have fields: "''retryPolicy'' \<notin> set (type_fields t)" for t using type_fields_facts(1) by blast
  have built: "map_of ?built ''retryPolicy'' = map_option Obj (buildRetryPolicy ?form)"
    using none fields
    by (simp add: buildConfig_def Let_def form map_of_obj_set set_fields_get edit_form_def assms(3) as_record_Obj split: option.split)
  have raw: "obj_get (shown_config config) ''retryPolicy'' = redactSecrets (obj_get config ''retryPolicy'')"
    using policy_keys(1) by (rule shown_policy_get)
  show ?thesis
  proof (cases "buildRetryPolicy ?form")
    case None
    with built show ?thesis by (simp add: merge_value_of_key [OF ok] has_own_def)
  next
    case (Some p)
    obtain policy where policy: "obj_get config ''retryPolicy'' = Obj policy"
      using Some raw default_form_no_policy
      by (cases "obj_get config ''retryPolicy''") (simp_all add: retryPolicyFromConfig_def)
    have raw': "obj_get (shown_config config) ''retryPolicy'' = Obj (shown_config policy)"
      using raw policy by (simp add: shown_config_def as_record_def)
    have "has_own ?built ''retryPolicy''" "obj_get ?built ''retryPolicy'' = Obj p"
      using built Some by (simp_all add: has_own_def obj_get_Some)
    then have "obj_get (mergeConfigPreservingSecrets config ?built) ''retryPolicy'' = Obj (mergeConfigPreservingSecrets policy p)"
      using policy policy_keys(1) by (simp add: merge_value_of_key [OF ok] merged_value_def)
    with merged_policy [OF raw' assms(2) [OF policy] Some] policy show ?thesis by simp
  qed
qed


definition demo_shown :: obj where
  "demo_shown = [(''baseUrl'', Str ''u''), (''apiToken'', Str ''t''), (''apiVersion'', JInt 7), (''note'', Str ''n'')]"


section \<open>Saving\<close>

lemma load_targets_run:
  "load_targets ue (p, c) =
     (case fetchTargetSystems ue all_targets c of
        (Inr items, c') \<Rightarrow> (Inr (), (p\<lparr>pg_items := items, pg_loading := False\<rparr>, c'))
      | (Inl e, c') \<Rightarrow> (Inr (), (p\<lparr>pg_message := Str (''Error: '' @ exn_message e), pg_loading := False\<rparr>, c')))"
  by (cases "fetchTargetSystems ue all_targets c"; cases "fst (fetchTargetSystems ue all_targets c)")
    (auto simp: load_targets_def io_bind_run io_finally_def say_error_def)

text \<open>The request a save makes.\<close>

definition save_request :: "'s ui_env \<Rightarrow> targets_page \<Rightarrow> ('s ui_state, js) io" where
  "save_request ue p =
     (if pg_editing p \<and> truthy (tf_id (pg_form p)) then updateTargetSystem ue (tf_id (pg_form p)) (save_body (pg_form p))
      else createTargetSystem ue (save_body (pg_form p)))"

text \<open>
  C36: what a click on Save does to the page: it makes one request, and never leaves the page busy; when the
  request is refused the form stays as typed, in the same mode, with the error shown; when it is accepted
  the form is emptied and the list loaded again, and the message is then empty (or the error of the loading):
  the message of success that was set before is gone.
\<close>

theorem save_outcome:
  assumes "handleSave ue (p, c) = (r, (p', c'))" "\<not> pg_loading p"
  shows "r = Inr () \<and> \<not> pg_saving p' \<and> \<not> pg_loading p' \<and>
    (case save_request ue p c of
       (Inl e, c1) \<Rightarrow> c' = c1 \<and> pg_form p' = pg_form p \<and> pg_editing p' = pg_editing p \<and> pg_items p' = pg_items p \<and>
         pg_message p' = Str (''Error: '' @ exn_message e)
     | (Inr saved, c1) \<Rightarrow> pg_form p' = newForm \<and> \<not> pg_editing p' \<and>
         (case fetchTargetSystems ue all_targets c1 of
            (Inr items, c2) \<Rightarrow> c' = c2 \<and> pg_items p' = items \<and> pg_message p' = Str []
          | (Inl e, c2) \<Rightarrow> c' = c2 \<and> pg_items p' = pg_items p \<and> pg_message p' = Str (''Error: '' @ exn_message e)))"
proof -
  obtain q c1 where req: "save_request ue p c = (q, c1)" by (cases "save_request ue p c")
  obtain q2 c2 where load: "fetchTargetSystems ue all_targets c1 = (q2, c2)"
    by (cases "fetchTargetSystems ue all_targets c1")
  have send: "send_form ue (pg_form p) (pg_editing p) (p\<lparr>pg_saving := True\<rparr>, c) =
      (case q of Inl e \<Rightarrow> (Inl e, (p\<lparr>pg_saving := True\<rparr>, c1))
       | Inr _ \<Rightarrow> (Inr (), (p\<lparr>pg_saving := True, pg_message := Str (if pg_editing p \<and> truthy (tf_id (pg_form p))
           then ''Updated successfully'' else ''Created successfully'')\<rparr>, c1)))"
    using req by (auto simp: send_form_def save_request_def io_bind_run split: sum.splits)
  from assms show ?thesis
    unfolding req
    by (cases q; cases q2)
      (auto simp: handleSave_def io_bind_run io_run io_finally_def send load load_targets_run resetForm_def say_error_def)
qed

definition demo_ui :: "unit ui_env" where
  "demo_ui = \<lparr>ue_apiUrl = [], ue_apiKey = [], ue_send = (\<lambda>rq s. (Answered 200 (Arr []), s))\<rparr>"

definition demo_page :: targets_page where
  "demo_page = \<lparr>pg_items = Arr [], pg_loading = False, pg_saving = False, pg_testingId = Null, pg_deletingId = Null,
     pg_form = newForm\<lparr>tf_name := Str ''z1''\<rparr>, pg_editing = False, pg_message = Str []\<rparr>"

theorem save_outcome_witness:
  "\<exists>p' c'. handleSave demo_ui (demo_page, (Str [], ())) = (Inr (), (p', c')) \<and> pg_form p' = newForm \<and> pg_message p' = Str []"
proof -
  obtain r p' c' where run: "handleSave demo_ui (demo_page, (Str [], ())) = (r, (p', c'))" by (rule prod_cases3)
  have idle: "\<not> pg_loading demo_page" by (simp add: demo_page_def)
  have req: "save_request demo_ui demo_page (Str [], ()) = (Inr (Arr []), (Str [], ()))"
    "fetchTargetSystems demo_ui all_targets (Str [], ()) = (Inr (Arr []), (Str [], ()))"
    by (simp_all add: save_request_def demo_page_def createTargetSystem_def ui_post_def fetchTargetSystems_def ui_get_def
        apiClient_def demo_ui_def)
  from save_outcome [OF run idle] run show ?thesis by (simp add: req)
qed

end
