(* ===== verification/Ui_Session.thy ===== *)
theory Ui_Session
  imports Ui_Client Admin_Auth
begin

text \<open>
  The administration interface against the server's authentication: \<^verbatim>\<open>ui/src/api/client.ts\<close> talks to
  \<^verbatim>\<open>src/auth\<close>. The browser sends the cookie of the session back and nothing else is between them.
\<close>

section \<open>From the browser to the server\<close>

text \<open>The answer to a login, as it travels; an undefined field is left out.\<close>

definition status_json :: "session_status \<Rightarrow> js" where
  "status_json st =
     Obj (filter (\<lambda>kv. snd kv \<noteq> Undef)
       [(''authEnabled'', Bool (ss_authEnabled st)), (''authenticated'', Bool (ss_authenticated st)),
        (''user'', case ss_user st of None \<Rightarrow> Undef
           | Some (s, n, p) \<Rightarrow> Obj (filter (\<lambda>kv. snd kv \<noteq> Undef) [(''sub'', s), (''name'', n), (''provider'', p)])),
        (''csrfToken'', ss_csrfToken st), (''mode'', Str (ss_mode st))])"

text \<open>The value of a header as text; header names are compared without case.\<close>

definition browser_request :: "string option \<Rightarrow> ui_request \<Rightarrow> request" where
  "browser_request cookie rq =
     \<lparr>rq_method = to_upper (uq_method rq), rq_path = uq_url rq, rq_url = uq_url rq, rq_originalUrl = None,
      rq_headers = (\<lambda>h. if h = ''cookie'' then (case cookie of None \<Rightarrow> NoHeader | Some c \<Rightarrow> OneHeader c)
        else (case find (\<lambda>kv. to_lower (fst kv) = h) (uq_headers rq) of
            None \<Rightarrow> NoHeader | Some kv \<Rightarrow> OneHeader (js_string (snd kv)))),
      rq_body = uq_body rq, rq_ip = None, rq_remote = None\<rparr>"

text \<open>The methods of the client's calls that change something.\<close>

definition changing_methods :: "string list" where
  "changing_methods = [''post'', ''patch'', ''delete'']"

lemma csrf_header_sent:
  assumes "verb \<in> set changing_methods" "token \<noteq> []"
  shows "req_header (browser_request cookie (ui_request_for ue (Str token) verb path params body)) ''x-csrf-token'' = Some token"
    "rq_method (browser_request cookie (ui_request_for ue (Str token) verb path params body)) \<notin> set SAFE_METHODS"
  using assms
  by (auto simp: changing_methods_def browser_request_def ui_request_for_def request_headers_def base_headers_def req_header_def
      obj_set_def SAFE_METHODS_def to_lower_def to_lower_char_def to_upper_def to_upper_char_def upper_letters_def lower_letters_def)

lemma csrf_header_missing:
  assumes "verb \<in> set changing_methods"
  shows "req_header (browser_request cookie (ui_request_for ue (Str []) verb path params body)) ''x-csrf-token'' = None"
    "rq_method (browser_request cookie (ui_request_for ue (Str []) verb path params body)) \<notin> set SAFE_METHODS"
  using assms
  by (auto simp: changing_methods_def browser_request_def ui_request_for_def request_headers_def base_headers_def req_header_def
      SAFE_METHODS_def to_lower_def to_lower_char_def to_upper_def to_upper_char_def upper_letters_def lower_letters_def)

lemma keep_session_token:
  "ss_csrfToken st = Str token \<Longrightarrow> keep_session (status_json st) (csrf, x) = (Inr (status_json st), (Str token, x))"
  by (simp add: keep_session_def status_json_def js_read_def nullish_def js_prop_def obj_get_def setCsrfToken_def io_bind_run
      io_run)

lemma csrf_decides:
  assumes "authenticateRequest ae rq True now = (Inr (Some session), now)" "requiresAdminAuth (rq_path rq)"
    and "rq_method rq \<notin> set SAFE_METHODS" "auth_isEnabled (au_cfg ae)" "js_prop session ''csrfToken'' = Str token"
  shows "admin_middleware ae rq now = (Inr (case req_header rq ''x-csrf-token'' of
      None \<Rightarrow> Reject 403 ''Invalid CSRF token''
    | Some v \<Rightarrow> if v \<noteq> [] \<and> safeEqual (au_digests ae) v token then Next else Reject 403 ''Invalid CSRF token''), now)"
  using assms by (simp add: admin_middleware_def io_bind_run io_run verifyCsrf_def split: option.split)

section \<open>Signing in and changing something\<close>

text \<open>
  C18: the two halves of the protection against cross-site requests fit together: after a local login whose
  answer the interface has taken in, every change it sends to \<open>/admin\<close> with the cookie of that login passes
  the middleware up to the end of the session's time to live, while the same request without the token
  (sent before the answer is known, or by another site) is refused with status 403.
\<close>

theorem ui_changes_accepted:
  assumes "digests_ok (au_digests ae)" "auth_isEnabled (au_cfg ae)" "cookie_name_ok (cookieName (au_cfg ae))"
    and "to_number (ttlSeconds (au_cfg ae)) = Fin (of_int ttl)" "0 < ws_now s + ttl * 1000"
    and "dg_bytes (au_digests ae) (ws_draws s) \<noteq> []"
    and "loginLocal ae (Str u) password s = (Inr st, s')"
    and "keep_session (status_json st) (Str [], x) = (r, (csrf, x'))"
    and "ue_apiUrl ue = []" "requiresAdminAuth path" "verb \<in> set changing_methods"
    and "ws_now now \<le> ws_now s + ttl * 1000"
  shows "\<exists>value. ws_cookie s' = Some (cookieName (au_cfg ae) @ ''='' @ value @ ''; '' @ cookieAttributes (au_cfg ae)) \<and>
    admin_middleware ae (browser_request (Some (cookieName (au_cfg ae) @ ''='' @ value))
      (ui_request_for ue csrf verb path params body)) now = (Inr Next, now) \<and>
    admin_middleware ae (browser_request (Some (cookieName (au_cfg ae) @ ''='' @ value))
      (ui_request_for ue (Str []) verb path params body)) now = (Inr (Reject 403 ''Invalid CSRF token''), now)"
proof -
  obtain v token where cookie: "ws_cookie s' = Some (cookieName (au_cfg ae) @ ''='' @ v @ ''; '' @ cookieAttributes (au_cfg ae))"
    and token: "ss_csrfToken st = Str token" "token \<noteq> []"
    and again: "\<And>req now. rq_headers req ''cookie'' = OneHeader (cookieName (au_cfg ae) @ ''='' @ v) \<Longrightarrow>
      readSession ae req now = Inr (if ws_now s + ttl * 1000 < now then None
        else Some (session_object u u ''local'' token (Fin (of_int (ws_now s + ttl * 1000)))))"
    using login_opens [OF assms(1-5,7)] assms(6) by (metis base64url_Nil)
  from assms(8) keep_session_token [OF token(1), of "Str []" x] have csrf: "csrf = Str token" by simp
  let ?rq = "\<lambda>t. browser_request (Some (cookieName (au_cfg ae) @ ''='' @ v)) (ui_request_for ue t verb path params body)"
  let ?session = "session_object u u ''local'' token (Fin (of_int (ws_now s + ttl * 1000)))"
  have rq: "rq_headers (?rq t) ''cookie'' = OneHeader (cookieName (au_cfg ae) @ ''='' @ v)" "rq_path (?rq t) = path" for t :: js
    by (simp_all add: browser_request_def ui_request_for_def assms(9))
  have session: "authenticateRequest ae (?rq t) True now = (Inr (Some ?session), now)" for t
    using again [where now = "ws_now now", OF rq(1) [where t = t]] assms(2,12)
    by (simp add: authenticateRequest_def io_bind_run io_run)
  have field: "js_prop ?session ''csrfToken'' = Str token"
    by (simp add: session_object_def js_prop_def obj_get_def)
  note decide = csrf_decides [OF session _ _ assms(2) field, unfolded rq(2), OF assms(10)]
  have "admin_middleware ae (?rq csrf) now = (Inr Next, now)"
    using decide [OF csrf_header_sent(2) [OF assms(11) token(2)]] token(2)
    unfolding csrf csrf_header_sent(1) [OF assms(11) token(2)] by (simp add: safeEqual_def)
  moreover have "admin_middleware ae (?rq (Str [])) now = (Inr (Reject 403 ''Invalid CSRF token''), now)"
    using decide [OF csrf_header_missing(2) [OF assms(11)]] unfolding csrf_header_missing(1) [OF assms(11)] by simp
  ultimately show ?thesis using cookie by blast
qed

theorem ui_changes_accepted_witness:
  "\<exists>st s' csrf value. loginLocal demo_auth (Str ''root'') (Str ''pw'') demo_web = (Inr st, s') \<and>
     fst (snd (keep_session (status_json st) (Str [], ()))) = csrf \<and>
     admin_middleware demo_auth (browser_request (Some (''idmmw_admin_session='' @ value))
       (ui_request_for \<lparr>ue_apiUrl = [], ue_apiKey = [], ue_send = (\<lambda>rq s. (Unanswered [], s :: unit))\<rparr> csrf ''post'' ''/admin/dlq/retry'' Undef Undef)) demo_web =
       (Inr Next, demo_web)"
proof -
  let ?ue = "\<lparr>ue_apiUrl = [], ue_apiKey = [], ue_send = (\<lambda>rq s. (Unanswered [], s))\<rparr> :: unit ui_env"
  have name: "cookie_name_ok (cookieName (au_cfg demo_auth))"
    by (simp add: demo_auth_facts cookie_name_ok_def is_space_def)
  have ttl: "to_number (ttlSeconds (au_cfg demo_auth)) = Fin (of_int 28800)" by (simp add: demo_auth_facts)
  have time: "0 < ws_now demo_web + 28800 * 1000" "ws_now demo_web \<le> ws_now demo_web + 28800 * 1000" by (simp_all add: demo_web_def)
  have bytes: "dg_bytes (au_digests demo_auth) (ws_draws demo_web) \<noteq> []" by (simp add: demo_auth_def)
  obtain st s' where run: "loginLocal demo_auth (Str ''root'') (Str ''pw'') demo_web = (Inr st, s')"
    by (simp add: loginLocal_def open_session_def createSession_def writeSessionCookie_def sign_payload_def demo_auth_facts io_simps)
  obtain r csrf x' where keep: "keep_session (status_json st) (Str [], ()) = (r, (csrf, x'))" by (rule prod_cases3)
  have route: "ue_apiUrl ?ue = []" "requiresAdminAuth ''/admin/dlq/retry''" "''post'' \<in> set changing_methods"
    by (simp_all add: requiresAdminAuth_def changing_methods_def)
  from ui_changes_accepted [OF demo_auth_facts(1,2) name ttl time(1) bytes run keep route time(2), of Undef Undef]
  show ?thesis using run keep by (auto simp: demo_auth_facts(3))
qed

end
