(* ===== verification/Ui_Dlq.thy ===== *)
theory Ui_Dlq
  imports Ui_Client
begin

text \<open>
  \<^verbatim>\<open>ui/src/pages/DlqPage.tsx\<close> and \<^verbatim>\<open>ui/src/components/DlqTable.tsx\<close>: the page of the queue of failed events,
  its filters, retries and the export of the shown items as comma-separated values.
\<close>

section \<open>Export\<close>

definition newline :: char where
  "newline = CHR 0x0A"

definition quote_mark :: char where
  "quote_mark = CHR 0x22"

definition csv_text :: "string \<Rightarrow> string" where
  "csv_text t =
     (if CHR '','' \<in> set t \<or> quote_mark \<in> set t \<or> newline \<in> set t
      then quote_mark # concat (map (\<lambda>c. if c = quote_mark then [quote_mark, quote_mark] else [c]) t) @ [quote_mark]
      else t)"

definition csvValue :: "js \<Rightarrow> string" where
  "csvValue v = csv_text (js_string (coalesce v (Str [])))"

definition export_headers :: "string list" where
  "export_headers = [''id'', ''eventId'', ''operation'', ''targetSystem'', ''status'', ''error'', ''retryCount'', ''createdAt'']"

definition export_values :: "js \<Rightarrow> js list" where
  "export_values i =
     [js_prop i ''id'', js_prop i ''eventId'', js_prop i ''operation'', js_prop i ''targetSystem'', js_prop i ''status'',
      js_prop i ''error'', Str (js_string (js_prop i ''retryCount'')), js_prop i ''createdAt'']"

definition exportCsv :: "js list \<Rightarrow> string" where
  "exportCsv items =
     join [newline] (join '','' export_headers # map (\<lambda>i. join '','' (map csvValue (export_values i))) items)"

section \<open>The page\<close>

definition STATUS_OPTIONS :: "string list" where
  "STATUS_OPTIONS = [''pending'', ''retrying'', ''skipped'', ''resolved'']"

record queue_page =
  dp_items :: js
  dp_targetSystems :: js
  dp_stats :: js
  dp_statusFilter :: string
  dp_targetFilter :: string
  dp_retryLimit :: string
  dp_loading :: bool
  dp_retrying :: bool
  dp_error :: string
  dp_message :: string

type_synonym 's dlq_state = "queue_page \<times> 's ui_state"

definition initial_queue_page :: queue_page where
  "initial_queue_page = \<lparr>dp_items = Arr [], dp_targetSystems = Arr [], dp_stats = Null, dp_statusFilter = [], dp_targetFilter = [],
     dp_retryLimit = ''25'', dp_loading = False, dp_retrying = False, dp_error = [], dp_message = []\<rparr>"

text \<open>\<open>filter || undefined\<close>.\<close>

definition or_undefined :: "string \<Rightarrow> js" where
  "or_undefined f = (if f \<noteq> [] then Str f else Undef)"

definition queue_query :: "queue_page \<Rightarrow> js" where
  "queue_query p = Obj [(''status'', or_undefined (dp_statusFilter p)), (''targetSystem'', or_undefined (dp_targetFilter p)),
     (''limit'', JInt 50)]"

definition load_dlq :: "'s ui_env \<Rightarrow> ('s dlq_state, unit) io" where
  "load_dlq ue =
     io_bind (io_get (\<lambda>(p, c). queue_query p)) (\<lambda>query.
     io_seq (on_page (\<lambda>p. p\<lparr>dp_loading := True, dp_error := []\<rparr>))
       (io_finally
         (io_catch
           (io_bind (on_client (io_both (fetchDlqItems ue query)
               (io_both (fetchAdminStats ue) (fetchTargetSystems ue (Obj [(''limit'', JInt 200)])))))
             (\<lambda>(items, stats, targets). on_page (\<lambda>p. p\<lparr>dp_items := items, dp_stats := stats, dp_targetSystems := targets\<rparr>)))
           (\<lambda>e. on_page (dp_error_update (\<lambda>_. exn_message e))))
         (on_page (dp_loading_update (\<lambda>_. False)))))"

definition handleRetry :: "'s ui_env \<Rightarrow> js \<Rightarrow> ('s dlq_state, unit) io" where
  "handleRetry ue i = io_seq (on_page (dp_message_update (\<lambda>_. []))) (io_seq (on_client (retryDlqItem ue i)) (load_dlq ue))"

definition handleSkip :: "'s ui_env \<Rightarrow> js \<Rightarrow> ('s dlq_state, unit) io" where
  "handleSkip ue i = io_seq (on_page (dp_message_update (\<lambda>_. []))) (io_seq (on_client (skipDlqItem ue i)) (load_dlq ue))"

definition bulk_body :: "queue_page \<Rightarrow> js" where
  "bulk_body p =
     Obj [(''status'', js_or (Str (dp_statusFilter p)) (Str ''pending'')), (''targetSystem'', or_undefined (dp_targetFilter p)),
       (''limit'', js_or (Num (to_number (Str (dp_retryLimit p)))) (JInt 25))]"

text \<open>\<open>result.errors.length\<close> of a missing field throws.\<close>

definition bulk_message :: "js \<Rightarrow> exn + string" where
  "bulk_message result =
     res_bind (js_read result ''requested'') (\<lambda>requested.
     res_bind (js_read (js_prop result ''errors'') ''length'') (\<lambda>_.
     Inr (''Retry requested: '' @ js_string requested @ '', queued: '' @ js_string (js_prop result ''queued'') @
       '', skipped: '' @ js_string (js_prop result ''skipped'') @ '', errors: '' @
       (case js_prop result ''errors'' of Arr xs \<Rightarrow> show_nat (length xs) | Str s \<Rightarrow> show_nat (length s)
         | v \<Rightarrow> js_string (js_prop v ''length'')))))"

definition handleBulkRetry :: "'s ui_env \<Rightarrow> ('s dlq_state, unit) io" where
  "handleBulkRetry ue =
     io_bind (io_get (\<lambda>(p, c). bulk_body p)) (\<lambda>body.
     io_seq (on_page (\<lambda>p. p\<lparr>dp_retrying := True, dp_error := [], dp_message := []\<rparr>))
       (io_finally
         (io_catch
           (io_bind (on_client (retryDlqItems ue body)) (\<lambda>result.
            io_bind (io_of_sum (bulk_message result)) (\<lambda>message.
            io_seq (on_page (dp_message_update (\<lambda>_. message))) (load_dlq ue))))
           (\<lambda>e. on_page (dp_error_update (\<lambda>_. exn_message e))))
         (on_page (dp_retrying_update (\<lambda>_. False)))))"

text \<open>The numbers above the table, and the rows that offer a retry and a skip.\<close>

definition stats_strip :: "queue_page \<Rightarrow> js list" where
  "stats_strip p =
     map (\<lambda>s. coalesce (js_prop (js_prop (dp_stats p) ''dlq'') s) (JInt 0)) STATUS_OPTIONS @
     [coalesce (js_prop (js_prop (dp_stats p) ''processedLast5Minutes'') ''total'') (JInt 0)]"

definition offers_actions :: "js \<Rightarrow> bool" where
  "offers_actions item \<longleftrightarrow> js_prop item ''status'' = Str ''pending'' \<or> js_prop item ''status'' = Str ''retrying''"

section \<open>Reading an export back\<close>

text \<open>
  How a reader of comma-separated values takes them: a field is quoted, where a doubled quote stands for one,
  or ends at the next comma or line break.
\<close>

fun read_quoted :: "string \<Rightarrow> string \<times> string" where
  "read_quoted [] = ([], [])"
| "read_quoted (c # s) =
     (if c \<noteq> quote_mark then (case read_quoted s of (f, r) \<Rightarrow> (c # f, r))
      else (case s of
          d # s' \<Rightarrow> if d = quote_mark then (case read_quoted s' of (f, r) \<Rightarrow> (quote_mark # f, r)) else ([], s)
        | [] \<Rightarrow> ([], [])))"

definition csv_field :: "string \<Rightarrow> string \<times> string" where
  "csv_field s =
     (case s of
        c # t \<Rightarrow> if c = quote_mark then read_quoted t
          else (takeWhile (\<lambda>d. d \<noteq> CHR '','' \<and> d \<noteq> newline) s, dropWhile (\<lambda>d. d \<noteq> CHR '','' \<and> d \<noteq> newline) s)
      | [] \<Rightarrow> ([], []))"

lemma read_quoted_rules:
  "read_quoted [] = ([], [])"
  "c \<noteq> quote_mark \<Longrightarrow> read_quoted (c # s) = (c # fst (read_quoted s), snd (read_quoted s))"
  "read_quoted (quote_mark # quote_mark # s) = (quote_mark # fst (read_quoted s), snd (read_quoted s))"
  "s = [] \<or> hd s \<noteq> quote_mark \<Longrightarrow> read_quoted (quote_mark # s) = ([], s)"
  by (auto simp: case_prod_unfold split: list.split)

declare read_quoted.simps [simp del]

lemma read_quoted_shorter: "length (snd (read_quoted s)) \<le> length s"
proof (induction s rule: read_quoted.induct)
  case (2 c s)
  consider (plain) "c \<noteq> quote_mark" | (double) s' where "c = quote_mark" "s = quote_mark # s'"
    | (stop) "c = quote_mark" "s = [] \<or> hd s \<noteq> quote_mark" by (cases s) auto
  then show ?case
  proof cases
    case plain
    then show ?thesis using "2.IH"(1) by (simp add: read_quoted_rules le_SucI)
  next
    case double
    then show ?thesis using "2.IH"(2) by (simp add: read_quoted_rules le_SucI)
  next
    case stop
    then show ?thesis by (simp add: read_quoted_rules)
  qed
qed (simp add: read_quoted_rules)

lemma csv_field_shorter: "length (snd (csv_field s)) \<le> length s"
  using read_quoted_shorter [of "tl s"]
  by (cases s) (auto simp: csv_field_def length_dropWhile_le le_SucI)

lemma csv_field_less: "(f, c # r) = csv_field s \<Longrightarrow> length r < length s"
  using csv_field_shorter [of s] by (metis length_Cons less_eq_Suc_le snd_conv)

function read_csv :: "string \<Rightarrow> string list list" where
  "read_csv s =
     (case csv_field s of (f, r) \<Rightarrow>
       (case r of
          [] \<Rightarrow> [[f]]
        | c # r' \<Rightarrow>
            if c = CHR '','' then (case read_csv r' of row # rows \<Rightarrow> (f # row) # rows | [] \<Rightarrow> [[f]])
            else [f] # read_csv r'))"
  by pat_completeness auto
termination
  by (relation "measure length") (auto dest!: csv_field_less)

declare read_csv.simps [simp del]

lemma read_escaped:
  assumes "r = [] \<or> hd r \<noteq> quote_mark"
  shows "read_quoted (concat (map (\<lambda>c. if c = quote_mark then [quote_mark, quote_mark] else [c]) t) @ quote_mark # r) = (t, r)"
proof (induction t)
  case Nil
  with assms show ?case by (simp add: read_quoted_rules)
next
  case (Cons c t)
  then show ?case by (cases "c = quote_mark") (simp_all add: read_quoted_rules)
qed

text \<open>What may follow a field.\<close>

definition field_end :: "string \<Rightarrow> bool" where
  "field_end r \<longleftrightarrow> r = [] \<or> hd r = CHR '','' \<or> hd r = newline"

lemma marks_differ: "newline \<noteq> CHR '',''" "quote_mark \<noteq> CHR '',''" "newline \<noteq> quote_mark"
  by (simp_all add: newline_def quote_mark_def)

lemma read_csv_text:
  assumes "field_end r"
  shows "csv_field (csv_text t @ r) = (t, r)"
proof (cases "CHR '','' \<in> set t \<or> quote_mark \<in> set t \<or> newline \<in> set t")
  case True
  have "r = [] \<or> hd r \<noteq> quote_mark" using assms marks_differ by (auto simp: field_end_def)
  with True read_escaped [of r t] show ?thesis by (simp add: csv_text_def csv_field_def)
next
  case False
  then have plain: "\<forall>d \<in> set t. d \<noteq> CHR '','' \<and> d \<noteq> newline" by auto
  have stop: "takeWhile (\<lambda>d. d \<noteq> CHR '','' \<and> d \<noteq> newline) r = []" "dropWhile (\<lambda>d. d \<noteq> CHR '','' \<and> d \<noteq> newline) r = r"
    using assms by (cases r; auto simp: field_end_def)+
  have start: "hd (t @ r) \<noteq> quote_mark" if "t @ r \<noteq> []"
    using that False assms marks_differ by (cases t) (auto simp: field_end_def)
  have "csv_field (t @ r) = (takeWhile (\<lambda>d. d \<noteq> CHR '','' \<and> d \<noteq> newline) (t @ r), dropWhile (\<lambda>d. d \<noteq> CHR '','' \<and> d \<noteq> newline) (t @ r))"
    using start by (cases "t @ r") (simp_all add: csv_field_def)
  with plain stop show ?thesis using False by (simp add: csv_text_def takeWhile_append2 dropWhile_append2)
qed

lemma read_row:
  assumes "ts \<noteq> []" "r = [] \<or> hd r = newline"
  shows "read_csv (join '','' (map csv_text ts) @ r) = ts # (case r of [] \<Rightarrow> [] | _ # r' \<Rightarrow> read_csv r')"
  using assms(1)
proof (induction ts rule: induct_list012)
  case (2 t)
  have "field_end r" using assms(2) by (auto simp: field_end_def)
  from read_csv_text [OF this, of t] assms(2) marks_differ show ?case
    by (subst read_csv.simps) (auto split: list.split)
next
  case (3 t u ts)
  have "field_end (CHR '','' # join '','' (map csv_text (u # ts)) @ r)" by (simp add: field_end_def)
  from read_csv_text [OF this, of t] "3.IH"(2) show ?case
    by (subst read_csv.simps) simp
qed simp

lemma read_rows:
  assumes "\<forall>ts \<in> set rows. ts \<noteq> []" "rows \<noteq> []"
  shows "read_csv (join [newline] (map (\<lambda>ts. join '','' (map csv_text ts)) rows)) = rows"
  using assms
proof (induction rows rule: induct_list012)
  case (2 ts)
  then show ?case using read_row [of ts "[]"] by simp
next
  case (3 ts us rows)
  then show ?case using read_row [of ts "newline # join [newline] (map (\<lambda>ts. join '','' (map csv_text ts)) (us # rows))"] by simp
qed simp

text \<open>
  C35: the export of the queue loses nothing: read back, it is the line of the headers and one line for each
  shown item with its eight values as texts, whatever commas, quotes and line breaks they contain.
\<close>

theorem export_round_trip:
  "read_csv (exportCsv items) =
     export_headers # map (\<lambda>i. map (\<lambda>v. js_string (coalesce v (Str []))) (export_values i)) items"
proof -
  let ?texts = "\<lambda>i. map (\<lambda>v. js_string (coalesce v (Str []))) (export_values i)"
  have "map csv_text export_headers = export_headers"
    by (simp add: export_headers_def csv_text_def quote_mark_def newline_def)
  then have "exportCsv items = join [newline] (map (\<lambda>ts. join '','' (map csv_text ts)) (export_headers # map ?texts items))"
    by (simp add: exportCsv_def csvValue_def [abs_def] comp_def)
  also have "read_csv \<dots> = export_headers # map ?texts items"
    by (rule read_rows) (auto simp: export_headers_def export_values_def)
  finally show ?thesis .
qed

section \<open>Errors of a single item\<close>

text \<open>A refused retry of one item is not shown: the handler ends with the error, and the page is as it was, its message emptied.\<close>

lemma single_retry_error_silent:
  assumes "retryDlqItem ue i c = (Inl e, c')"
  shows "handleRetry ue i (p, c) = (Inl e, (p\<lparr>dp_message := []\<rparr>, c'))"
  using assms by (simp add: handleRetry_def on_page_def on_client_def io_modify_def io_bind_run)

end
