(* ===== verification/Mock_Idm.thy ===== *)
theory Mock_Idm
  imports Webhook Http_Client
begin

text \<open>
  \<^verbatim>\<open>src/mock-idm\<close>: the simulated identity management system, which sends events of every operation to the
  webhook of the middleware. The HTTP client, the clock and the random text of an identifier are parameters.
\<close>

section \<open>Payload templates\<close>

definition userBase :: obj where
  "userBase = [(''username'', Str ''jdoe''), (''email'', Str ''jdoe@example.com''), (''firstName'', Str ''John''), (''lastName'', Str ''Doe'')]"

definition PAYLOAD_TEMPLATES :: "(string \<times> obj) list" where
  "PAYLOAD_TEMPLATES =
    [(''user.create'', [(''data'', Obj userBase)]),
     (''user.update'', [(''data'', Obj [(''email'', Str ''jdoe-new@example.com'')]), (''params'', Obj [(''id'', Str ''user-1'')])]),
     (''user.delete'', [(''params'', Obj [(''id'', Str ''user-1'')])]),
     (''user.get'', [(''params'', Obj [(''id'', Str ''user-1'')])]),
     (''user.search'', [(''params'', Obj [(''filter'', Str []), (''limit'', JInt 20), (''offset'', JInt 0)])]),
     (''user.enable'', [(''params'', Obj [(''id'', Str ''user-1'')])]),
     (''user.disable'', [(''params'', Obj [(''id'', Str ''user-1'')])]),
     (''user.lock'', [(''params'', Obj [(''id'', Str ''user-1'')])]),
     (''user.unlock'', [(''params'', Obj [(''id'', Str ''user-1'')])]),
     (''user.resolve'', [(''data'', Obj [(''username'', Str ''jdoe'')])]),
     (''user.addAttributes'', [(''data'', Obj [(''groups'', Arr [Str ''group-2''])]), (''params'', Obj [(''id'', Str ''user-1'')])]),
     (''user.removeAttributes'', [(''data'', Obj [(''groups'', Arr [Str ''group-1''])]), (''params'', Obj [(''id'', Str ''user-1'')])]),
     (''group.create'', [(''data'', Obj [(''name'', Str ''Admins''), (''description'', Str ''Administrator group'')])]),
     (''group.update'', [(''data'', Obj [(''description'', Str ''Updated description'')]), (''params'', Obj [(''id'', Str ''group-1'')])]),
     (''group.delete'', [(''params'', Obj [(''id'', Str ''group-1'')])]),
     (''group.get'', [(''params'', Obj [(''id'', Str ''group-1'')])]),
     (''group.search'', [(''params'', Obj [(''filter'', Str []), (''limit'', JInt 20), (''offset'', JInt 0)])]),
     (''group.addMember'', [(''data'', Obj [(''userId'', Str ''user-1'')]), (''params'', Obj [(''id'', Str ''group-1'')])]),
     (''group.removeMember'', [(''data'', Obj [(''userId'', Str ''user-1'')]), (''params'', Obj [(''id'', Str ''group-1'')])]),
     (''system.test'', []), (''schema.get'', []),
     (''sync.full'', [(''params'', Obj [(''objectClass'', Str ''user'')])]),
     (''sync.incremental'', [(''params'', Obj [(''objectClass'', Str ''user''), (''marker'', Str ''last-sync-marker'')])])]"

definition getPayloadTemplate :: "string \<Rightarrow> obj" where
  "getPayloadTemplate operation = (case map_of PAYLOAD_TEMPLATES operation of Some t \<Rightarrow> t | None \<Rightarrow> [])"

section \<open>Events\<close>

record mock_event =
  me_eventId :: string
  me_operation :: string
  me_targetSystem :: string
  me_payload :: obj

definition event_json :: "mock_event \<Rightarrow> js" where
  "event_json ev = Obj [(''eventId'', Str (me_eventId ev)), (''operation'', Str (me_operation ev)),
     (''targetSystem'', Str (me_targetSystem ev)), (''payload'', Obj (me_payload ev))]"

record 's mock_env =
  mi_cfg :: config
  mi_post :: "string \<Rightarrow> js \<Rightarrow> ('s, nat) io"
  mi_now :: "'s \<Rightarrow> int"
  mi_random :: "'s \<Rightarrow> string \<times> 's"

text \<open>The identifier is drawn only when none is given.\<close>

definition generateEvent :: "'s mock_env \<Rightarrow> string \<Rightarrow> string option \<Rightarrow> string \<Rightarrow> bool \<Rightarrow> ('s, mock_event) io" where
  "generateEvent mi operation eventId targetSystem fail = (\<lambda>s.
     let ts = mi_now mi s;
         (i, s') = (case eventId of Some e \<Rightarrow> (e, s)
           | None \<Rightarrow> (case mi_random mi s of (r, s') \<Rightarrow> (''mock-'' @ show_int ts @ ''-'' @ r, s'))) in
     (Inr \<lparr>me_eventId = i, me_operation = operation, me_targetSystem = targetSystem,
        me_payload = obj_set (getPayloadTemplate operation) ''url''
          (Str (if fail then ''http://localhost:9999/fail'' else ''http://localhost:3010/health''))\<rparr>, s'))"

definition generateDuplicateEvent :: "mock_event \<Rightarrow> mock_event" where
  "generateDuplicateEvent baseEvent = baseEvent"

definition generateMalformedPayload :: obj where
  "generateMalformedPayload = [(''invalid'', Bool True), (''missingRequiredField'', Null)]"

text \<open>The status is only logged; an error is logged and thrown on.\<close>

definition sendEventToMiddleware :: "'s mock_env \<Rightarrow> mock_event \<Rightarrow> string \<Rightarrow> ('s, unit) io" where
  "sendEventToMiddleware mi ev middlewareUrl =
     io_seq (mi_post mi (middlewareUrl @ ''/webhooks/avanpost'') (event_json ev)) (io_return ())"

section \<open>Scenarios\<close>

definition SPECIAL_SCENARIOS :: "string list" where
  "SPECIAL_SCENARIOS = [''duplicate'', ''malformed'', ''fail'', ''send-event'']"

definition OP_KEBAB_TO_DOT :: "(string \<times> string) list" where
  "OP_KEBAB_TO_DOT =
    [(''user-create'', ''user.create''), (''user-update'', ''user.update''), (''user-delete'', ''user.delete''),
     (''user-get'', ''user.get''), (''user-search'', ''user.search''), (''user-enable'', ''user.enable''),
     (''user-disable'', ''user.disable''), (''user-lock'', ''user.lock''), (''user-unlock'', ''user.unlock''),
     (''user-resolve'', ''user.resolve''), (''user-add-attributes'', ''user.addAttributes''),
     (''user-remove-attributes'', ''user.removeAttributes''), (''group-create'', ''group.create''),
     (''group-update'', ''group.update''), (''group-delete'', ''group.delete''), (''group-get'', ''group.get''),
     (''group-search'', ''group.search''), (''group-add-member'', ''group.addMember''),
     (''group-remove-member'', ''group.removeMember''), (''system-test'', ''system.test''), (''schema-get'', ''schema.get''),
     (''sync-full'', ''sync.full''), (''sync-incremental'', ''sync.incremental'')]"

text \<open>\<open>op.replace(/\./g, '-')\<close>.\<close>

definition kebab :: "string \<Rightarrow> string" where
  "kebab op = map (\<lambda>c. if c = CHR ''.'' then CHR ''-'' else c) op"

definition kebabToDot :: "string \<Rightarrow> string option" where
  "kebabToDot name =
     (if name \<in> set SPECIAL_SCENARIOS then Some name
      else case map_of OP_KEBAB_TO_DOT name of
        Some direct \<Rightarrow> Some direct
      | None \<Rightarrow> find (\<lambda>op. kebab op = name \<or> to_lower (kebab op) = to_lower name) AVANPOST_OPERATION_VALUES)"

definition resolveOperation :: "string \<Rightarrow> exn + string" where
  "resolveOperation name =
     (case kebabToDot name of
        None \<Rightarrow> Inl (BadRequestException (''Unknown scenario: '' @ name))
      | Some op \<Rightarrow>
          if op = [] then Inl (BadRequestException (''Unknown scenario: '' @ name))
          else if op \<notin> set SPECIAL_SCENARIOS \<and> op \<notin> set AVANPOST_OPERATION_VALUES
          then Inl (BadRequestException (''Unsupported operation: '' @ op))
          else Inr op)"

definition getMiddlewareUrl :: "config \<Rightarrow> string" where
  "getMiddlewareUrl cfg =
     (case cfg ''MOCK_IDM_MIDDLEWARE_URL'' of
        Str u \<Rightarrow> if u \<noteq> [] then u
          else (if cfg_bool cfg ''HTTP_TLS_ENABLED'' then ''https'' else ''http'') @ ''://127.0.0.1:'' @
            js_string (coalesce (cfg ''PORT'') (JInt 3010))
      | _ \<Rightarrow> (if cfg_bool cfg ''HTTP_TLS_ENABLED'' then ''https'' else ''http'') @ ''://127.0.0.1:'' @
            js_string (coalesce (cfg ''PORT'') (JInt 3010)))"

definition runScenario :: "'s mock_env \<Rightarrow> string \<Rightarrow> ('s, mock_event) io" where
  "runScenario mi name =
     io_bind (io_of_sum (resolveOperation name)) (\<lambda>operation.
     let url = getMiddlewareUrl (mi_cfg mi) in
     if operation = ''duplicate'' then
       io_bind (generateEvent mi ''user.create'' None ''fake'' False) (\<lambda>event.
       io_seq (sendEventToMiddleware mi event url)
         (io_seq (sendEventToMiddleware mi (generateDuplicateEvent event) url) (io_return event)))
     else if operation = ''malformed'' then
       io_bind (generateEvent mi ''user.create'' None ''fake'' False) (\<lambda>event.
       let event = event\<lparr>me_payload := generateMalformedPayload\<rparr> in
       io_seq (sendEventToMiddleware mi event url) (io_return event))
     else if operation = ''fail'' then
       io_bind (generateEvent mi ''user.create'' None ''fake'' True) (\<lambda>event.
       io_seq (sendEventToMiddleware mi event url) (io_return event))
     else
       io_bind (generateEvent mi operation None ''fake'' False) (\<lambda>event.
       io_seq (sendEventToMiddleware mi event url) (io_return event)))"

definition mock_sendEvent :: "'s mock_env \<Rightarrow> mock_event \<Rightarrow> ('s, unit) io" where
  "mock_sendEvent mi event = sendEventToMiddleware mi event (getMiddlewareUrl (mi_cfg mi))"

section \<open>Every operation can be played\<close>

lemma operations_resolved:
  "list_all (\<lambda>op. resolveOperation (kebab op) = Inr op) AVANPOST_OPERATION_VALUES"
  by code_simp

lemma table_resolved: "list_all (\<lambda>(name, op). resolveOperation name = Inr op) OP_KEBAB_TO_DOT"
  by code_simp

lemma resolved_known:
  "resolveOperation name = Inr op \<Longrightarrow> op \<in> set SPECIAL_SCENARIOS \<or> op \<in> set AVANPOST_OPERATION_VALUES"
  by (auto simp: resolveOperation_def split: option.splits if_splits)

lemma templates_shaped:
  "list_all (\<lambda>(op, t). payload_shape_ok (Obj t) \<and> map_of t ''url'' = None) PAYLOAD_TEMPLATES"
  by code_simp

lemma template_shape: "payload_shape_ok (Obj (obj_set (getPayloadTemplate op) ''url'' (Str u)))"
proof -
  have "payload_shape_ok (Obj (getPayloadTemplate op))"
  proof (cases "map_of PAYLOAD_TEMPLATES op")
    case None
    then show ?thesis by (simp add: getPayloadTemplate_def payload_shape_ok_def isRecord_def is_record_def js_prop_def obj_get_def)
  next
    case (Some t)
    with templates_shaped show ?thesis by (auto simp: getPayloadTemplate_def list_all_iff dest: map_of_SomeD)
  qed
  then show ?thesis by (simp add: payload_shape_ok_def js_prop_def obj_get_set isRecord_def is_record_def)
qed

text \<open>The event as the webhook takes it.\<close>

definition webhook_event :: "mock_event \<Rightarrow> processing_payload" where
  "webhook_event ev = \<lparr>pr_eventId = me_eventId ev, pr_operation = me_operation ev, pr_targetSystem = me_targetSystem ev,
     pr_payload = me_payload ev\<rparr>"

lemma event_accepted:
  assumes "me_operation ev \<in> set AVANPOST_OPERATION_VALUES" "not_blank (me_eventId ev)" "not_blank (me_targetSystem ev)"
    and "payload_shape_ok (Obj (me_payload ev))"
  shows "validate_dto (event_json ev) = Inr (webhook_event ev)"
  using assms by (simp add: validate_dto_def event_json_def js_prop_def obj_get_def webhook_event_def)

lemma generated_event:
  assumes "generateEvent mi op None ts fail s = (r, s')"
  obtains ev where "r = Inr ev" "not_blank (me_eventId ev)" "me_operation ev = op" "me_targetSystem ev = ts"
    "payload_shape_ok (Obj (me_payload ev))"
proof -
  obtain rnd s1 where rnd: "mi_random mi s = (rnd, s1)" by (rule prod.exhaust)
  let ?u = "Str (if fail then ''http://localhost:9999/fail'' else ''http://localhost:3010/health'')"
  let ?ev = "\<lparr>me_eventId = ''mock-'' @ show_int (mi_now mi s) @ ''-'' @ rnd, me_operation = op, me_targetSystem = ts,
     me_payload = obj_set (getPayloadTemplate op) ''url'' ?u\<rparr>"
  have r: "r = Inr ?ev" using assms rnd by (simp add: generateEvent_def Let_def)
  show ?thesis
    by (rule that [OF r]) (use template_shape in \<open>simp_all add: not_blank_def is_space_def\<close>)
qed

text \<open>The client posts to the webhook of this program, in one process.\<close>

definition posts_to_webhook ::
  "'e world mock_env \<Rightarrow> 'e world store \<Rightarrow> (string \<Rightarrow> exn + string list) \<Rightarrow> 'e registry \<Rightarrow> env \<Rightarrow> bool" where
  "posts_to_webhook mi st keys_of rg env \<longleftrightarrow>
     (\<forall>url body. mi_post mi url body = io_seq (receiveWebhook st keys_of rg env body) (io_return 201))"

lemma sent_to_webhook:
  assumes "posts_to_webhook mi st keys_of rg env" "validate_dto (event_json ev) = Inr dto"
  shows "io_seq (sendEventToMiddleware mi ev url) (io_return ev) s =
    (case processWebhook st keys_of rg env dto (isReadOperation (pr_operation dto)) s of
       (Inl e, s') \<Rightarrow> (Inl e, s') | (Inr res, s') \<Rightarrow> (Inr ev, s'))"
  using assms
  by (simp add: posts_to_webhook_def sendEventToMiddleware_def receiveWebhook_def io_bind_run io_run
      split: prod.split sum.split)

lemma plain_scenario:
  assumes "resolveOperation name = Inr op" "op \<notin> set SPECIAL_SCENARIOS"
  shows "runScenario mi name = io_bind (generateEvent mi op None ''fake'' False) (\<lambda>event.
    io_seq (sendEventToMiddleware mi event (getMiddlewareUrl (mi_cfg mi))) (io_return event))"
  using assms by (auto simp: runScenario_def SPECIAL_SCENARIOS_def io_bind_value Let_def)

lemma operation_not_special: "op \<in> set AVANPOST_OPERATION_VALUES \<Longrightarrow> op \<notin> set SPECIAL_SCENARIOS"
  by (auto simp: SPECIAL_SCENARIOS_def operation_tables)

text \<open>
  C34: the simulator can play every operation of the vocabulary: the scenario named after an operation (dots
  written as dashes) sends one event of exactly that operation, which the webhook accepts as valid and
  processes on the path of that operation; its outcome is the outcome of that processing.
\<close>

theorem scenario_processed:
  assumes "posts_to_webhook mi st keys_of rg env" "op \<in> set AVANPOST_OPERATION_VALUES"
    and "generateEvent mi op None ''fake'' False s = (r, s1)"
  shows "\<exists>ev. r = Inr ev \<and> me_operation ev = op \<and>
    runScenario mi (kebab op) s =
      (case processWebhook st keys_of rg env (webhook_event ev) (isReadOperation op) s1 of
         (Inl e, s') \<Rightarrow> (Inl e, s') | (Inr res, s') \<Rightarrow> (Inr ev, s'))"
proof -
  from generated_event [OF assms(3)] obtain ev where ev: "r = Inr ev" "not_blank (me_eventId ev)" "me_operation ev = op"
    "me_targetSystem ev = ''fake''" "payload_shape_ok (Obj (me_payload ev))" .
  have "not_blank ''fake''" by (simp add: not_blank_def is_space_def)
  with ev assms(2) have valid: "validate_dto (event_json ev) = Inr (webhook_event ev)" by (intro event_accepted) simp_all
  have "resolveOperation (kebab op) = Inr op" using operations_resolved assms(2) by (simp add: list_all_iff)
  note run = plain_scenario [OF this operation_not_special [OF assms(2)], of mi]
  have "runScenario mi (kebab op) s = io_seq (sendEventToMiddleware mi ev (getMiddlewareUrl (mi_cfg mi))) (io_return ev) s1"
    by (simp add: run io_bind_run assms(3) ev(1))
  with sent_to_webhook [OF assms(1) valid] ev(1,3) show ?thesis by (simp add: webhook_event_def)
qed

text \<open>The scenario of a malformed payload is not refused by the validation: it is processed as a \<open>user.create\<close>.\<close>

lemma malformed_accepted:
  "payload_shape_ok (Obj generateMalformedPayload)"
  by (simp add: payload_shape_ok_def generateMalformedPayload_def isRecord_def is_record_def js_prop_def obj_get_def)

definition demo_mock :: "unit world mock_env" where
  "demo_mock = \<lparr>mi_cfg = (\<lambda>_. Undef),
     mi_post = (\<lambda>url body. io_seq (receiveWebhook (selected_store demo_env) plain_keys (demo_registry (echo_connector ''fake'')) demo_env body) (io_return 201)),
     mi_now = w_now, mi_random = (\<lambda>w. (''abcde'', w))\<rparr>"

theorem scenario_processed_witness:
  "\<exists>ev. me_operation ev = CHANGE_CREDENTIAL_OP \<and>
    runScenario demo_mock (kebab CHANGE_CREDENTIAL_OP) (init_world 0 ()) =
      (case processWebhook (selected_store demo_env) plain_keys (demo_registry (echo_connector ''fake'')) demo_env
           (webhook_event ev) (isReadOperation CHANGE_CREDENTIAL_OP) (init_world 0 ()) of
         (Inl e, s') \<Rightarrow> (Inl e, s') | (Inr res, s') \<Rightarrow> (Inr ev, s'))"
proof -
  have posts: "posts_to_webhook demo_mock (selected_store demo_env) plain_keys (demo_registry (echo_connector ''fake'')) demo_env"
    by (simp add: posts_to_webhook_def demo_mock_def)
  have op: "CHANGE_CREDENTIAL_OP \<in> set AVANPOST_OPERATION_VALUES" by (simp add: operation_tables)
  obtain r where gen: "generateEvent demo_mock CHANGE_CREDENTIAL_OP None ''fake'' False (init_world 0 ()) = (r, init_world 0 ())"
    by (simp add: generateEvent_def demo_mock_def Let_def)
  from scenario_processed [OF posts op gen] show ?thesis by blast
qed

end
