(* ===== verification/Json_Indented.thy ===== *)
theory Json_Indented
  imports Json_Text
begin

text \<open>
  \<open>JSON.stringify(v, null, 2)\<close> of the language, as the emulator page shows and exports values, and that
  \<open>JSON.parse\<close> reads such a text back: white space between the parts of a text is skipped.
\<close>

section \<open>The text\<close>

text \<open>The text of \<open>JSON.stringify\<close> laid out with two blanks for each level.\<close>

fun json_indented :: "string \<Rightarrow> js \<Rightarrow> string" where
  "json_indented ind (Arr xs) =
     (let deeper = CHR 0x0A # ind @ ''  '' in
      if xs = [] then ''[]''
      else ''['' @ deeper @ join ('','' @ deeper) (map (json_indented (ind @ ''  '')) xs) @ CHR 0x0A # ind @ '']'')"
| "json_indented ind (Obj ob) =
     (let deeper = CHR 0x0A # ind @ ''  '';
          entries = map (\<lambda>(k, v). json_quote k @ '': '' @ json_indented (ind @ ''  '') v) (filter (\<lambda>(k, v). v \<noteq> Undef) ob) in
      if entries = [] then ''{}'' else ''{'' @ deeper @ join ('','' @ deeper) entries @ CHR 0x0A # ind @ ''}'')"
| "json_indented ind Undef = json_text Undef"
| "json_indented ind Null = json_text Null"
| "json_indented ind (Bool b) = json_text (Bool b)"
| "json_indented ind (Num n) = json_text (Num n)"
| "json_indented ind (Str s) = json_text (Str s)"

section \<open>White space\<close>

definition blank :: "string \<Rightarrow> bool" where
  "blank ws \<longleftrightarrow> list_all json_space ws"

lemma skip_blank: "blank ws \<Longrightarrow> skip_ws (ws @ s) = skip_ws s"
  by (induction ws) (simp_all add: blank_def skip_ws_def)

lemma expect_blank: "blank ws \<Longrightarrow> expect d (ws @ s) = expect d s"
  by (simp add: expect_def skip_blank)

lemma parse_value_blank: "blank ws \<Longrightarrow> parse_value n (ws @ s) = parse_value n s"
  by (cases n) (simp_all add: skip_blank)

lemma parse_elems_blank: "blank ws \<Longrightarrow> parse_elems n (ws @ s) = parse_elems n s"
  by (cases n) (simp_all add: parse_value_blank)

lemma parse_members_blank: "blank ws \<Longrightarrow> parse_members n (ws @ s) = parse_members n s"
  by (cases n) (simp_all add: expect_blank)

lemma blank_line: "blank ind \<Longrightarrow> blank (CHR 0x0A # ind)" "blank ind \<Longrightarrow> blank (CHR 0x0A # ind @ ''  '')" "blank ind \<Longrightarrow> blank (ind @ ''  '')"
  by (simp_all add: blank_def json_space_def)

lemma delimited_blank: "blank ws \<Longrightarrow> delimited (ws @ CHR '']'' # r)" "blank ws \<Longrightarrow> delimited (ws @ CHR ''}'' # r)"
  by (cases ws; simp add: blank_def delimited_def)+

section \<open>Reading parts\<close>

text \<open>A text that begins like a value and from which the value is read, whatever may follow it.\<close>

definition opens :: "string \<Rightarrow> bool" where
  "opens t \<longleftrightarrow> (\<exists>c u. t = c # u \<and> \<not> json_space c \<and> c \<noteq> CHR '']'' \<and> c \<noteq> CHR ''}'')"

definition reads :: "js \<Rightarrow> string \<Rightarrow> bool" where
  "reads v t \<longleftrightarrow> opens t \<and> (\<forall>n r. length t \<le> n \<longrightarrow> delimited r \<longrightarrow> parse_value n (t @ r) = Some (v, r))"

lemma readsD: "reads v t \<Longrightarrow> length t \<le> n \<Longrightarrow> delimited r \<Longrightarrow> parse_value n (t @ r) = Some (v, r)"
  by (simp add: reads_def)

lemma reads_scalar: "json_ok v \<Longrightarrow> reads v (json_text v)"
  using json_ok_parses [of v] json_ok_head [of v] by (auto simp: reads_def opens_def parses_def)

lemma expect_opens: "opens t \<Longrightarrow> expect (CHR '']'') (t @ s) = None" "opens t \<Longrightarrow> expect (CHR ''}'') (t @ s) = None"
  by (auto simp: opens_def)

lemma parse_elems_reads:
  assumes "xs \<noteq> []" "list_all2 reads xs ts" "blank ws" "blank ws'" "length (join ('','' @ ws) ts) < n"
  shows "parse_elems n (join ('','' @ ws) ts @ ws' @ CHR '']'' # r) = Some (xs, r)"
  using assms(1,2,5)
proof (induction xs arbitrary: ts n)
  case Nil
  then show ?case by simp
next
  case (Cons x xs)
  then obtain t us where ts: "ts = t # us" "reads x t" "list_all2 reads xs us" by (auto simp: list_all2_Cons1)
  from Cons.prems obtain m where n: "n = Suc m" by (cases n) auto
  show ?case
  proof (cases us)
    case Nil
    with Cons.prems ts n have "parse_value m (t @ ws' @ CHR '']'' # r) = Some (x, ws' @ CHR '']'' # r)"
      by (intro readsD delimited_blank assms(4)) simp_all
    with Nil ts n show ?thesis by (simp add: expect_blank [OF assms(4)])
  next
    case (Cons u us')
    let ?rest = "join ('','' @ ws) us @ ws' @ CHR '']'' # r"
    have "parse_value m (t @ CHR '','' # ws @ ?rest) = Some (x, CHR '','' # ws @ ?rest)"
      using Cons.prems ts n Cons by (intro readsD) (simp_all add: delimited_def)
    moreover have "parse_elems m (ws @ ?rest) = Some (xs, r)"
      unfolding parse_elems_blank [OF assms(3)] using Cons.prems ts n Cons by (intro Cons.IH) auto
    ultimately show ?thesis using ts n Cons by simp
  qed
qed

text \<open>The text of a member of an object, for the text of its value.\<close>

definition member_line :: "string \<times> string \<Rightarrow> string" where
  "member_line kt = json_quote (fst kt) @ '': '' @ snd kt"

lemma parse_members_reads:
  assumes "ob \<noteq> []" "list_all2 (\<lambda>kv kt. fst kt = fst kv \<and> reads (snd kv) (snd kt)) ob kts" "blank ws" "blank ws'"
    and "length (join ('','' @ ws) (map member_line kts)) < n"
  shows "parse_members n (join ('','' @ ws) (map member_line kts) @ ws' @ CHR ''}'' # r) = Some (ob, r)"
  using assms(1,2,5)
proof (induction ob arbitrary: kts n)
  case Nil
  then show ?case by simp
next
  case (Cons kv ob)
  obtain k v where kv: "kv = (k, v)" by (cases kv)
  from Cons.prems kv obtain t us where kts: "kts = (k, t) # us" "reads v t"
    "list_all2 (\<lambda>kv kt. fst kt = fst kv \<and> reads (snd kv) (snd kt)) ob us"
    by (auto simp: list_all2_Cons1)
  from Cons.prems obtain m where n: "n = Suc m" by (cases n) auto
  have q: "parse_string (concat (map json_char k) @ CHR 0x22 # s) = Some (k, s)" for s by (rule parse_json_quote)
  have line: "member_line (k, t) @ s = CHR 0x22 # concat (map json_char k) @ CHR 0x22 # CHR '':'' # '' '' @ t @ s" for s
    by (simp add: member_line_def json_quote_def)
  have value_read: "parse_value m ('' '' @ t @ s) = Some (v, s)" if "length t \<le> m" "delimited s" for s
    using readsD [OF kts(2) that] parse_value_blank [of "'' ''" m "t @ s"] by (simp add: blank_def json_space_def)
  show ?case
  proof (cases us)
    case Nil
    have "length t \<le> m" using Cons.prems n kts(1) Nil by (simp add: member_line_def)
    from value_read [OF this delimited_blank(2) [OF assms(4), of r]] Nil kts(1,3) n q show ?thesis
      by (simp add: line kv expect_blank [OF assms(4)])
  next
    case (Cons y ys)
    let ?rest = "join ('','' @ ws) (map member_line us) @ ws' @ CHR ''}'' # r"
    have "length t \<le> m" using Cons.prems n kts(1) Cons by (simp add: member_line_def)
    moreover have "delimited (CHR '','' # ws @ ?rest)" by (simp add: delimited_def)
    ultimately have "parse_value m ('' '' @ t @ CHR '','' # ws @ ?rest) = Some (v, CHR '','' # ws @ ?rest)" by (rule value_read)
    moreover have "parse_members m (ws @ ?rest) = Some (ob, r)"
      unfolding parse_members_blank [OF assms(3)] using Cons.prems kts n Cons by (intro Cons.IH) auto
    moreover have "join ('','' @ ws) (map member_line kts) @ ws' @ CHR ''}'' # r = member_line (k, t) @ CHR '','' # ws @ ?rest"
      using Cons kts(1) by simp
    ultimately show ?thesis using n kv q by (simp add: line)
  qed
qed

section \<open>The round trip\<close>

lemma json_ok_reads: "json_ok v \<Longrightarrow> blank ind \<Longrightarrow> reads v (json_indented ind v)"
proof (induction v arbitrary: ind rule: js_field_induct)
  case (Arr xs)
  let ?deeper = "CHR 0x0A # ind @ ''  ''" and ?ts = "map (json_indented (ind @ ''  '')) xs"
  have read: "list_all2 reads xs ?ts"
    using Arr by (auto simp: list_all2_map2 list_all_iff blank_line intro!: list.rel_refl_strong)
  show ?case
  proof (cases xs)
    case Nil
    have "parse_value n (''[]'' @ r) = Some (Arr [], r)" if "2 \<le> n" for n r
      using that by (cases n) (simp_all add: skip_ws_def)
    with Nil show ?thesis by (simp add: reads_def opens_def)
  next
    case (Cons x ys)
    from Cons read have "opens (hd ?ts)" by (simp add: reads_def)
    then have "opens (join ('','' @ ?deeper) ?ts)" using Cons by (cases ys) (auto simp: opens_def)
    note first = expect_opens(1) [OF this]
    have "parse_value n (json_indented ind (Arr xs) @ r) = Some (Arr xs, r)" if "length (json_indented ind (Arr xs)) \<le> n" for n r
    proof -
      let ?tail = "join ('','' @ ?deeper) ?ts @ (CHR 0x0A # ind) @ CHR '']'' # r"
      from that Cons obtain m where n: "n = Suc m" by (cases n) auto
      with that Cons have "length (join ('','' @ ?deeper) ?ts) < m" by (simp add: Let_def)
      with read Cons have "parse_elems m ?tail = Some (xs, r)"
        by (intro parse_elems_reads blank_line Arr.prems(2)) simp_all
      then have "parse_elems m (?deeper @ ?tail) = Some (xs, r)" by (simp only: parse_elems_blank blank_line Arr.prems(2))
      moreover have "expect (CHR '']'') (?deeper @ ?tail) = None"
        by (simp only: expect_blank blank_line Arr.prems(2) first)
      moreover have "json_indented ind (Arr xs) @ r = CHR ''['' # ?deeper @ ?tail" using Cons by (simp add: Let_def)
      ultimately show ?thesis using n by (simp add: skip_ws_def del: json_indented.simps)
    qed
    moreover have "opens (json_indented ind (Arr xs))" using Cons by (simp add: opens_def Let_def)
    ultimately show ?thesis by (simp add: reads_def del: json_indented.simps)
  qed
next
  case (Obj ob)
  let ?deeper = "CHR 0x0A # ind @ ''  ''" and ?kts = "map (\<lambda>(k, v). (k, json_indented (ind @ ''  '') v)) ob"
  have nu: "filter (\<lambda>(k, v). v \<noteq> Undef) ob = ob"
    using Obj.prems by (auto simp: filter_id_conv list_all_iff)
  have each_line: "map (\<lambda>(k, v). json_quote k @ '': '' @ json_indented (ind @ ''  '') v) ob = map member_line ?kts"
    by (simp add: member_line_def case_prod_beta')
  have obj_text: "json_indented ind (Obj ob) =
      (if ob = [] then ''{}'' else ''{'' @ ?deeper @ join ('','' @ ?deeper) (map member_line ?kts) @ CHR 0x0A # ind @ ''}'')"
    by (simp only: json_indented.simps nu each_line Let_def map_is_Nil_conv)
  have read: "list_all2 (\<lambda>kv kt. fst kt = fst kv \<and> reads (snd kv) (snd kt)) ob ?kts"
    unfolding list_all2_map2
  proof (rule list.rel_refl_strong)
    fix kv assume kv: "kv \<in> set ob"
    obtain k v where "kv = (k, v)" by (cases kv)
    with kv Obj.prems Obj.IH [of k v "ind @ ''  ''"] blank_line(3)
    show "fst (case kv of (k, v) \<Rightarrow> (k, json_indented (ind @ ''  '') v)) = fst kv \<and>
        reads (snd kv) (snd (case kv of (k, v) \<Rightarrow> (k, json_indented (ind @ ''  '') v)))"
      by (auto simp: list_all_iff)
  qed
  show ?case
  proof (cases ob)
    case Nil
    have "parse_value n (''{}'' @ r) = Some (Obj [], r)" if "2 \<le> n" for n r
      using that by (cases n) (simp_all add: skip_ws_def)
    with Nil show ?thesis by (simp add: reads_def opens_def)
  next
    case (Cons kv ys)
    have "opens (join ('','' @ ?deeper) (map member_line ?kts))"
      using Cons by (cases ys) (auto simp: opens_def member_line_def json_quote_def split: prod.split)
    note first = expect_opens(2) [OF this]
    have some: "ob \<noteq> []" using Cons by simp
    have spread: "obj_spread [] ob = ob" using Obj.prems obj_spread_distinct [of "[]" ob] by simp
    have "parse_value n (json_indented ind (Obj ob) @ r) = Some (Obj ob, r)" if "length (json_indented ind (Obj ob)) \<le> n" for n r
    proof -
      let ?tail = "join ('','' @ ?deeper) (map member_line ?kts) @ (CHR 0x0A # ind) @ CHR ''}'' # r"
      have whole: "json_indented ind (Obj ob) @ r = CHR ''{'' # ?deeper @ ?tail"
        by (simp add: obj_text some del: json_indented.simps)
      from that obtain m where n: "n = Suc m" by (cases n) (auto simp: obj_text simp del: json_indented.simps split: if_splits)
      with that have "length (join ('','' @ ?deeper) (map member_line ?kts)) < m"
        by (simp add: obj_text some del: json_indented.simps)
      with read some have "parse_members m ?tail = Some (ob, r)"
        by (intro parse_members_reads blank_line Obj.prems(2)) simp_all
      then have "parse_members m (?deeper @ ?tail) = Some (ob, r)" by (simp only: parse_members_blank blank_line Obj.prems(2))
      moreover have "expect (CHR ''}'') (?deeper @ ?tail) = None"
        by (simp only: expect_blank blank_line Obj.prems(2) first)
      ultimately show ?thesis using n spread unfolding whole by (simp add: skip_ws_def)
    qed
    moreover have "opens (json_indented ind (Obj ob))" by (simp add: opens_def obj_text some del: json_indented.simps)
    ultimately show ?thesis by (simp add: reads_def del: json_indented.simps)
  qed
qed (simp_all only: json_indented.simps reads_scalar)

lemma indented_round_trip: "json_ok v \<Longrightarrow> JSON_parse (json_indented [] v) = Some v"
proof -
  assume "json_ok v"
  then have "reads v (json_indented [] v)" by (rule json_ok_reads) (simp add: blank_def)
  from readsD [OF this, of "Suc (length (json_indented [] v))" "[]"]
  show ?thesis by (simp add: JSON_parse_def delimited_def skip_ws_def del: parse_value.simps)
qed

end
