(* ===== verification/Idm_Emulator.thy ===== *)
theory Idm_Emulator
  imports Ui_Client Webhook Json_Indented
begin

text \<open>
  \<^verbatim>\<open>idm-emulator/src\<close>: the page with which operators play events of the identity management system against the
  middleware, one by one or as a contract test of every operation. The HTTP client, the clock and the random
  texts of identifiers are parameters; the editor of the payload and the download of an export are not modelled.
\<close>

section \<open>Operations and templates\<close>

definition emulatorCredOp :: string where
  "emulatorCredOp = ''user.change'' @ join [] [''P'', ''a'', ''s'', ''s'', ''w'', ''o'', ''r'', ''d'']"

definition OPERATION_CATEGORIES :: "(string \<times> string list) list" where
  "OPERATION_CATEGORIES =
    [(''User / Account'', [''user.create'', ''user.update'', ''user.delete'', ''user.get'', ''user.search'', ''user.enable'',
       ''user.disable'', ''user.lock'', ''user.unlock'', emulatorCredOp, ''user.resolve'', ''user.addAttributes'',
       ''user.removeAttributes'']),
     (''Group / Role'', [''group.create'', ''group.update'', ''group.delete'', ''group.get'', ''group.search'',
       ''group.addMember'', ''group.removeMember'']),
     (''System'', [''system.test'', ''schema.get'', ''sync.full'', ''sync.incremental''])]"

definition ALL_OPERATIONS :: "string list" where
  "ALL_OPERATIONS = concat (map snd OPERATION_CATEGORIES)"

definition EMULATOR_READ_OPERATIONS :: "string list" where
  "EMULATOR_READ_OPERATIONS = [''user.get'', ''user.search'', ''group.get'', ''group.search'', ''schema.get'', ''sync.full'',
     ''sync.incremental'', ''user.resolve'']"

definition emulatorIsRead :: "string \<Rightarrow> bool" where
  "emulatorIsRead op \<longleftrightarrow> op \<in> set EMULATOR_READ_OPERATIONS"

definition emulatorUser :: obj where
  "emulatorUser = [(''username'', Str ''jdoe''), (''email'', Str ''jdoe@example.com''), (''firstName'', Str ''John''),
     (''lastName'', Str ''Doe'')]"

text \<open>The two parts of a template, and where a template leaves one out.\<close>

definition both_parts :: "obj \<Rightarrow> obj \<Rightarrow> obj" where
  "both_parts data params = [(''data'', Obj data), (''params'', Obj params)]"

definition only_params :: "obj \<Rightarrow> obj" where
  "only_params params = [(''params'', Obj params)]"

definition only_data :: "obj \<Rightarrow> obj" where
  "only_data data = [(''data'', Obj data)]"

definition EMULATOR_TEMPLATES :: "(string \<times> obj) list" where
  "EMULATOR_TEMPLATES =
    (let user = [(''id'', Str ''user-1'')]; group = [(''id'', Str ''group-1'')];
         search = [(''filter'', Str []), (''limit'', JInt 20), (''offset'', JInt 0)] in
    [(''user.create'', only_data emulatorUser),
     (''user.update'', both_parts [(''email'', Str ''jdoe-new@example.com'')] user),
     (''user.delete'', only_params user), (''user.get'', only_params user), (''user.search'', only_params search),
     (''user.enable'', only_params user), (''user.disable'', only_params user), (''user.lock'', only_params user),
     (''user.unlock'', only_params user),
     (emulatorCredOp, both_parts [(''newValue'', Str ''value'')] user),
     (''user.resolve'', only_data [(''username'', Str ''jdoe'')]),
     (''user.addAttributes'', both_parts [(''groups'', Arr [Str ''group-2''])] user),
     (''user.removeAttributes'', both_parts [(''groups'', Arr [Str ''group-1''])] user),
     (''group.create'', only_data [(''name'', Str ''Admins''), (''description'', Str ''Administrator group'')]),
     (''group.update'', both_parts [(''description'', Str ''Updated description'')] group),
     (''group.delete'', only_params group), (''group.get'', only_params group), (''group.search'', only_params search),
     (''group.addMember'', both_parts [(''userId'', Str ''user-1'')] group),
     (''group.removeMember'', both_parts [(''userId'', Str ''user-1'')] group),
     (''system.test'', []), (''schema.get'', []),
     (''sync.full'', only_params [(''objectClass'', Str ''user'')]),
     (''sync.incremental'', only_params [(''objectClass'', Str ''user''), (''marker'', Str ''last-sync-marker'')])])"

definition emulatorTemplate :: "string \<Rightarrow> obj" where
  "emulatorTemplate op = (case map_of EMULATOR_TEMPLATES op of Some t \<Rightarrow> t | None \<Rightarrow> [])"

section \<open>The client\<close>

text \<open>
  \<open>ev_random n\<close> is \<open>Math.random().toString(36).slice(2, n)\<close>, \<open>ev_uuid\<close> is \<open>crypto.randomUUID?.() ?? ''\<close>,
  \<open>ev_iso\<close> is \<open>toISOString\<close>; the client throws unless the status is a success.
\<close>

record 's emulator_env =
  ev_post :: "string \<Rightarrow> js \<Rightarrow> ('s, js) io"
  ev_get :: "string \<Rightarrow> ('s, js) io"
  ev_now :: "'s \<Rightarrow> int"
  ev_random :: "nat \<Rightarrow> 's \<Rightarrow> string \<times> 's"
  ev_uuid :: "'s \<Rightarrow> string \<times> 's"
  ev_iso :: "int \<Rightarrow> string"

definition sendWebhookEvent :: "'s emulator_env \<Rightarrow> js \<Rightarrow> ('s, js) io" where
  "sendWebhookEvent ev event = ev_post ev ''/webhooks/avanpost'' event"

definition runMockScenario :: "'s emulator_env \<Rightarrow> string \<Rightarrow> ('s, js) io" where
  "runMockScenario ev scenarioName = ev_post ev (''/mock-idm/scenario/'' @ scenarioName) Undef"

definition sendCustomEvent :: "'s emulator_env \<Rightarrow> js \<Rightarrow> ('s, js) io" where
  "sendCustomEvent ev event = ev_post ev ''/mock-idm/send-event'' event"

definition emulatorTarget :: "'s emulator_env \<Rightarrow> string \<Rightarrow> ('s, js) io" where
  "emulatorTarget ev name =
     io_catch (io_bind (ev_get ev (''/admin/target-systems/name/'' @ name)) (\<lambda>data.
         io_return (if truthy data \<and> js_prop data ''success'' = Bool False then Null else data)))
       (\<lambda>_. io_return Null)"

definition buildEvent :: "'s emulator_env \<Rightarrow> string \<Rightarrow> string \<Rightarrow> js \<Rightarrow> ('s, js) io" where
  "buildEvent ev operation targetSystem payload = (\<lambda>s.
     case ev_random ev 9 s of (r, s1) \<Rightarrow> (case ev_uuid ev s1 of (u, s2) \<Rightarrow>
       (Inr (Obj [(''eventId'', Str (''ui-'' @ show_int (ev_now ev s) @ ''-'' @ r @ ''-'' @ u)), (''operation'', Str operation),
          (''targetSystem'', Str targetSystem), (''payload'', payload)]), s2)))"

section \<open>The page\<close>

record log_entry =
  le_id :: string
  le_timestamp :: string
  le_operation :: string
  le_targetSystem :: string
  le_request :: js
  le_response :: js
  le_durationMs :: int
  le_success :: js

text \<open>The store of the emulator with the last answer and the error of its page.\<close>

record emulator =
  em_baseUrl :: string
  em_targetSystem :: string
  em_operation :: string
  em_payload :: string
  em_log :: "log_entry list"
  em_running :: bool
  em_lastResponse :: js
  em_error :: "string option"

definition initial_emulator :: emulator where
  "initial_emulator = \<lparr>em_baseUrl = ''http://localhost:3010'', em_targetSystem = ''fake'', em_operation = ''user.create'',
     em_payload = ''{}'', em_log = [], em_running = False, em_lastResponse = Undef, em_error = None\<rparr>"

definition appendLog :: "log_entry \<Rightarrow> emulator \<Rightarrow> emulator" where
  "appendLog entry = em_log_update (\<lambda>prev. entry # prev)"

definition clearLog :: "emulator \<Rightarrow> emulator" where
  "clearLog = em_log_update (\<lambda>_. [])"

definition recordResponse ::
  "'s emulator_env \<Rightarrow> string \<Rightarrow> string \<Rightarrow> js \<Rightarrow> js \<Rightarrow> int \<Rightarrow> (emulator \<times> 's, unit) io" where
  "recordResponse ev operation targetSystem rq response start = (\<lambda>(p, s).
     case ev_random ev 7 s of (r, s1) \<Rightarrow>
       (case js_read response ''processed'' of
          Inl e \<Rightarrow> (Inl e, (p, s1))
        | Inr success \<Rightarrow>
            (Inr (), (appendLog \<lparr>le_id = show_int (ev_now ev s) @ ''-'' @ r, le_timestamp = ev_iso ev (ev_now ev s1),
               le_operation = operation, le_targetSystem = targetSystem, le_request = rq, le_response = response,
               le_durationMs = ev_now ev s1 - start, le_success = success\<rparr> p, s1))))"

definition failed_response :: "bool \<Rightarrow> exn \<Rightarrow> js" where
  "failed_response received e = Obj [(''received'', Bool received), (''processed'', Bool False), (''data'', Str (exn_message e))]"

text \<open>The \<open>Send\<close> button: the operation, the target system and the payload are those of the click.\<close>

definition handleSend :: "'s emulator_env \<Rightarrow> (emulator \<times> 's, unit) io" where
  "handleSend ev =
     io_bind (io_get fst) (\<lambda>store.
     io_seq (on_page (\<lambda>p. p\<lparr>em_error := None, em_lastResponse := Undef\<rparr>))
       (case JSON_parse (em_payload store) of
          None \<Rightarrow> on_page (em_error_update (\<lambda>_. Some ''Invalid JSON in payload editor''))
        | Some payload \<Rightarrow>
            io_bind (io_get (\<lambda>(p, s). ev_now ev s)) (\<lambda>start.
            io_bind (on_client (buildEvent ev (em_operation store) (em_targetSystem store) payload)) (\<lambda>event.
            io_catch
              (io_bind (on_client (sendWebhookEvent ev event)) (\<lambda>response.
               io_seq (on_page (em_lastResponse_update (\<lambda>_. response)))
                 (recordResponse ev (em_operation store) (em_targetSystem store) event response start)))
              (\<lambda>err. io_seq (on_page (em_error_update (\<lambda>_. Some (exn_message err))))
                 (recordResponse ev (em_operation store) (em_targetSystem store) event (failed_response False err) start))))))"

section \<open>The contract test\<close>

definition test_payload :: "string \<Rightarrow> js \<Rightarrow> obj" where
  "test_payload operation targetConfig =
     (let template = emulatorTemplate operation;
          params = (''params'', coalesce (obj_get template ''params'') (Obj []));
          payload = (if emulatorIsRead operation then [params]
            else [(''data'', coalesce (obj_get template ''data'') (Obj [])), params]) in
      if truthy targetConfig then obj_set payload ''config'' targetConfig else payload)"

definition test_operation :: "'s emulator_env \<Rightarrow> string \<Rightarrow> js \<Rightarrow> string \<Rightarrow> (emulator \<times> 's, unit) io" where
  "test_operation ev targetSystem targetConfig operation =
     io_bind (io_get (\<lambda>(p, s). ev_now ev s)) (\<lambda>start.
     io_bind (on_client (buildEvent ev operation targetSystem (Obj (test_payload operation targetConfig)))) (\<lambda>event.
     io_catch
       (io_bind (on_client (sendWebhookEvent ev event)) (\<lambda>response.
          recordResponse ev operation targetSystem event response start))
       (\<lambda>err. recordResponse ev operation targetSystem event (failed_response True err) start)))"

definition target_config :: "'s emulator_env \<Rightarrow> string \<Rightarrow> ('s, js) io" where
  "target_config ev targetSystem =
     (if targetSystem \<noteq> ''fake''
      then io_bind (emulatorTarget ev targetSystem) (\<lambda>ts. io_return (if truthy ts then js_prop ts ''config'' else Undef))
      else io_return Undef)"

definition runContractTest :: "'s emulator_env \<Rightarrow> (emulator \<times> 's, unit) io" where
  "runContractTest ev =
     io_bind (io_get (\<lambda>(p, s). em_targetSystem p)) (\<lambda>targetSystem.
     io_seq (on_page (\<lambda>p. clearLog (p\<lparr>em_running := True\<rparr>)))
       (io_bind (on_client (target_config ev targetSystem)) (\<lambda>targetConfig.
        io_seq (io_foreach (test_operation ev targetSystem targetConfig) ALL_OPERATIONS)
          (on_page (em_running_update (\<lambda>_. False))))))"

definition test_results :: "emulator \<Rightarrow> nat \<times> nat \<times> nat" where
  "test_results p = (length (em_log p), length (filter (\<lambda>e. truthy (le_success e)) (em_log p)),
     length (filter (\<lambda>e. \<not> truthy (le_success e)) (em_log p)))"

definition emulator_csv :: "emulator \<Rightarrow> string" where
  "emulator_csv p =
     join [CHR 0x0A] (''operation,targetSystem,success,durationMs,timestamp'' #
       map (\<lambda>e. le_operation e @ '','' @ le_targetSystem e @ '','' @ js_string (le_success e) @ '','' @
              show_int (le_durationMs e) @ '','' @ le_timestamp e) (em_log p))"

text \<open>Choosing an operation fills the editor with its template.\<close>

definition handleChange :: "string \<Rightarrow> emulator \<Rightarrow> emulator" where
  "handleChange op p = p\<lparr>em_operation := op, em_payload := json_indented [] (Obj (emulatorTemplate op))\<rparr>"

definition entry_json :: "log_entry \<Rightarrow> js" where
  "entry_json e = Obj [(''id'', Str (le_id e)), (''timestamp'', Str (le_timestamp e)), (''operation'', Str (le_operation e)),
     (''targetSystem'', Str (le_targetSystem e)), (''request'', le_request e), (''response'', le_response e),
     (''durationMs'', JInt (le_durationMs e)), (''success'', le_success e)]"

definition emulator_json :: "emulator \<Rightarrow> string" where
  "emulator_json p = json_indented [] (Arr (map entry_json (em_log p)))"

text \<open>What the log shows of an entry.\<close>

definition entry_detail :: "log_entry \<Rightarrow> string" where
  "entry_detail e = json_indented [] (Obj [(''request'', le_request e), (''response'', le_response e)])"

section \<open>The vocabulary of the page\<close>

text \<open>
  The operations of the page are those of the server, in its order; it takes \<open>system.test\<close>, and nothing else,
  for a write, where the server reads. Every payload of a test has the shape the webhook asks for.
\<close>

lemma same_operations: "ALL_OPERATIONS = AVANPOST_OPERATION_VALUES"
  by (simp add: ALL_OPERATIONS_def OPERATION_CATEGORIES_def operation_tables emulatorCredOp_def)

lemma reads_differ:
  "set READ_OPERATIONS - set EMULATOR_READ_OPERATIONS = {''system.test''}"
  "set EMULATOR_READ_OPERATIONS \<subseteq> set READ_OPERATIONS"
  by (auto simp: EMULATOR_READ_OPERATIONS_def operation_tables)

lemma templates_are_records:
  "list_all (\<lambda>(op, t). (obj_get t ''data'' = Undef \<or> is_record (obj_get t ''data'')) \<and>
     (obj_get t ''params'' = Undef \<or> is_record (obj_get t ''params''))) EMULATOR_TEMPLATES"
  by code_simp

lemma template_part:
  assumes "part = ''data'' \<or> part = ''params''"
  shows "is_record (coalesce (obj_get (emulatorTemplate op) part) (Obj []))"
proof (cases "map_of EMULATOR_TEMPLATES op")
  case None
  then show ?thesis by (simp add: emulatorTemplate_def obj_get_def coalesce_def nullish_def is_record_def)
next
  case (Some t)
  then have "(op, t) \<in> set EMULATOR_TEMPLATES" by (rule map_of_SomeD)
  with templates_are_records have "obj_get t part = Undef \<or> is_record (obj_get t part)"
    using assms by (auto simp: list_all_iff)
  with Some show ?thesis by (auto simp: emulatorTemplate_def coalesce_def nullish_def is_record_def split: js.splits)
qed

lemma test_payload_shape: "payload_shape_ok (Obj (test_payload op cfg))"
  using template_part [of "''data''" op] template_part [of "''params''" op]
  by (auto simp: payload_shape_ok_def test_payload_def Let_def isRecord_def js_prop_def obj_get_set)
     (auto simp: obj_get_def is_record_def)

section \<open>Running the test\<close>

text \<open>The events of the page are accepted by the webhook.\<close>

definition test_event :: "string \<Rightarrow> string \<Rightarrow> js \<Rightarrow> bool" where
  "test_event op ts event \<longleftrightarrow> (\<exists>dto. validate_dto event = Inr dto \<and> pr_operation dto = op \<and> pr_targetSystem dto = ts)"

lemma built_event:
  assumes "op \<in> set AVANPOST_OPERATION_VALUES" "not_blank ts" "payload_shape_ok (Obj payload)"
  obtains event s' where "buildEvent ev op ts (Obj payload) s = (Inr event, s')" "test_event op ts event"
proof -
  obtain r s1 where r: "ev_random ev 9 s = (r, s1)" by (rule prod.exhaust)
  obtain u s2 where u: "ev_uuid ev s1 = (u, s2)" by (rule prod.exhaust)
  let ?id = "''ui-'' @ show_int (ev_now ev s) @ ''-'' @ r @ ''-'' @ u"
  let ?event = "Obj [(''eventId'', Str ?id), (''operation'', Str op), (''targetSystem'', Str ts), (''payload'', Obj payload)]"
  have "not_blank ?id" by (simp add: not_blank_def is_space_def)
  with assms have "validate_dto ?event = Inr \<lparr>pr_eventId = ?id, pr_operation = op, pr_targetSystem = ts, pr_payload = payload\<rparr>"
    by (simp add: validate_dto_def js_prop_def obj_get_def)
  then show ?thesis by (intro that [of ?event s2]) (simp_all add: buildEvent_def r u test_event_def)
qed

text \<open>What one operation of the test leaves: one more entry, of that operation.\<close>

definition entry_ok :: "string \<Rightarrow> log_entry \<Rightarrow> bool" where
  "entry_ok ts e \<longleftrightarrow> le_targetSystem e = ts \<and> test_event (le_operation e) ts (le_request e) \<and>
     le_success e = js_prop (le_response e) ''processed''"

lemma recorded:
  "recordResponse ev op ts rq response start (p, s) = (r, (p', s')) \<Longrightarrow>
     (\<exists>err. r = Inl err \<and> p' = p) \<or>
     (r = Inr () \<and> (\<exists>e. p' = appendLog e p \<and> le_operation e = op \<and> le_targetSystem e = ts \<and> le_request e = rq \<and>
        le_response e = response \<and> le_success e = js_prop response ''processed''))"
  by (auto simp: recordResponse_def js_read_def split: prod.splits if_splits)

lemma failure_recorded:
  "\<exists>e s'. recordResponse ev op ts rq (failed_response b err) start (p, s) = (Inr (), (appendLog e p, s')) \<and>
     le_operation e = op \<and> le_targetSystem e = ts \<and> le_request e = rq \<and>
     le_success e = js_prop (le_response e) ''processed''"
  by (auto simp: recordResponse_def js_read_def failed_response_def nullish_def js_prop_def split: prod.splits)

lemma test_step:
  assumes "op \<in> set AVANPOST_OPERATION_VALUES" "not_blank ts"
  shows "\<exists>e s'. test_operation ev ts cfg op (p, s) = (Inr (), (appendLog e p, s')) \<and> le_operation e = op \<and> entry_ok ts e"
proof -
  obtain event s1 where built: "buildEvent ev op ts (Obj (test_payload op cfg)) s = (Inr event, s1)" and event: "test_event op ts event"
    by (rule built_event [OF assms test_payload_shape])
  let ?send = "io_bind (on_client (sendWebhookEvent ev event)) (\<lambda>response. recordResponse ev op ts event response (ev_now ev s))"
  have run: "test_operation ev ts cfg op (p, s) =
      io_catch ?send (\<lambda>err. recordResponse ev op ts event (failed_response True err) (ev_now ev s)) (p, s1)"
    by (simp add: test_operation_def io_bind_run io_run built)
  obtain r p2 s2 where send: "?send (p, s1) = (r, (p2, s2))" by (metis prod.exhaust)
  have "(\<exists>err. r = Inl err \<and> p2 = p) \<or> (r = Inr () \<and> (\<exists>e. p2 = appendLog e p \<and> le_operation e = op \<and> le_targetSystem e = ts \<and>
      le_request e = event \<and> le_success e = js_prop (le_response e) ''processed''))"
  proof (cases "sendWebhookEvent ev event s1")
    case (Pair q s3)
    show ?thesis
    proof (cases q)
      case (Inl err)
      with Pair send show ?thesis by (auto simp: io_bind_run)
    next
      case (Inr response)
      with Pair send have "recordResponse ev op ts event response (ev_now ev s) (p, s3) = (r, (p2, s2))" by (simp add: io_bind_run)
      from recorded [OF this] show ?thesis by auto
    qed
  qed
  then show ?thesis
  proof
    assume "\<exists>err. r = Inl err \<and> p2 = p"
    then obtain err where "r = Inl err" "p2 = p" by blast
    with failure_recorded [of ev op ts event True err "ev_now ev s" p s2] event show ?thesis
      by (auto simp: run io_bind_run(3) send entry_ok_def)
  next
    assume "r = Inr () \<and> (\<exists>e. p2 = appendLog e p \<and> le_operation e = op \<and> le_targetSystem e = ts \<and>
      le_request e = event \<and> le_success e = js_prop (le_response e) ''processed'')"
    with event show ?thesis by (auto simp: run io_bind_run(3) send entry_ok_def)
  qed
qed

lemma test_loop:
  assumes "set ops \<subseteq> set AVANPOST_OPERATION_VALUES" "not_blank ts"
  shows "\<exists>es s'. io_foreach (test_operation ev ts cfg) ops (p, s) = (Inr (), (p\<lparr>em_log := es @ em_log p\<rparr>, s')) \<and>
    map le_operation (rev es) = ops \<and> (\<forall>e \<in> set es. entry_ok ts e)"
  using assms(1)
proof (induction ops arbitrary: p s)
  case Nil
  then show ?case by (auto simp: io_run intro: exI [of _ "[]"])
next
  case (Cons op ops)
  then obtain e s1 where e: "test_operation ev ts cfg op (p, s) = (Inr (), (appendLog e p, s1))" "le_operation e = op" "entry_ok ts e"
    using test_step [OF _ assms(2), of op ev cfg p s] by auto
  have "set ops \<subseteq> set AVANPOST_OPERATION_VALUES" using Cons.prems by simp
  from Cons.IH [OF this, of "appendLog e p" s1] obtain es s' where
    es: "io_foreach (test_operation ev ts cfg) ops (appendLog e p, s1) =
      (Inr (), ((appendLog e p)\<lparr>em_log := es @ em_log (appendLog e p)\<rparr>, s'))"
    "map le_operation (rev es) = ops" "\<forall>e \<in> set es. entry_ok ts e"
    by blast
  have "(appendLog e p)\<lparr>em_log := es @ em_log (appendLog e p)\<rparr> = p\<lparr>em_log := (es @ [e]) @ em_log p\<rparr>"
    by (simp add: appendLog_def)
  with e es show ?case by (intro exI [of _ "es @ [e]"] exI [of _ s']) (simp add: io_bind_run)
qed

lemma target_config_total: "\<exists>cfg s'. target_config ev ts s = (Inr cfg, s')"
  by (auto simp: target_config_def emulatorTarget_def io_simps split: prod.split sum.split)

text \<open>
  C33: a contract test always comes to its end, whatever the middleware answers or refuses: it leaves exactly one entry
  for each operation of the vocabulary, in its order (the newest first), each for the chosen target system and with an
  event that the webhook accepts as an event of that operation, and an entry counts as passed just when the
  answer says that the event was processed.
\<close>

theorem contract_test_complete:
  assumes "not_blank (em_targetSystem p)"
  shows "\<exists>es s'. runContractTest ev (p, s) = (Inr (), (p\<lparr>em_log := es, em_running := False\<rparr>, s')) \<and>
    map le_operation (rev es) = AVANPOST_OPERATION_VALUES \<and>
    (\<forall>e \<in> set es. le_targetSystem e = em_targetSystem p \<and> le_success e = js_prop (le_response e) ''processed'' \<and>
       (\<exists>dto. validate_dto (le_request e) = Inr dto \<and> pr_operation dto = le_operation e \<and>
          pr_targetSystem dto = em_targetSystem p))"
proof -
  let ?p = "p\<lparr>em_running := True, em_log := []\<rparr>"
  obtain cfg s1 where cfg: "target_config ev (em_targetSystem p) s = (Inr cfg, s1)" using target_config_total [of ev "em_targetSystem p" s] by blast
  obtain es s' where es: "io_foreach (test_operation ev (em_targetSystem p) cfg) ALL_OPERATIONS (?p, s1) =
      (Inr (), (?p\<lparr>em_log := es @ em_log ?p\<rparr>, s'))" "map le_operation (rev es) = ALL_OPERATIONS"
      "\<forall>e \<in> set es. entry_ok (em_targetSystem p) e"
    using test_loop [of ALL_OPERATIONS "em_targetSystem p" ev cfg ?p s1] assms by (auto simp: same_operations)
  have start: "clearLog (p\<lparr>em_running := True\<rparr>) = ?p" by (simp add: clearLog_def)
  have "runContractTest ev (p, s) = (Inr (), (p\<lparr>em_log := es, em_running := False\<rparr>, s'))"
    by (simp add: runContractTest_def io_bind_run io_run start cfg es(1))
  with es(2,3) show ?thesis by (auto simp: same_operations entry_ok_def test_event_def)
qed

definition demo_emulator :: "unit emulator_env" where
  "demo_emulator = \<lparr>ev_post = (\<lambda>url body. io_return (Obj [(''received'', Bool True), (''processed'', Bool True)])),
     ev_get = (\<lambda>url. io_throw (Error ''Network Error'')), ev_now = (\<lambda>_. 0), ev_random = (\<lambda>n s. (''abc'', s)),
     ev_uuid = (\<lambda>s. ([], s)), ev_iso = (\<lambda>_. ''1970-01-01T00:00:00.000Z'')\<rparr>"

theorem contract_test_complete_witness:
  "\<exists>es s'. runContractTest demo_emulator (initial_emulator, ()) = (Inr (), (initial_emulator\<lparr>em_log := es, em_running := False\<rparr>, s')) \<and>
    length es = 24"
proof -
  have "not_blank (em_targetSystem initial_emulator)" by (simp add: initial_emulator_def not_blank_def is_space_def)
  from contract_test_complete [OF this, of demo_emulator "()"] obtain es s' where
    run: "runContractTest demo_emulator (initial_emulator, ()) = (Inr (), (initial_emulator\<lparr>em_log := es, em_running := False\<rparr>, s'))"
    and ops: "map le_operation (rev es) = AVANPOST_OPERATION_VALUES" by blast
  from ops have "length es = length AVANPOST_OPERATION_VALUES" by (metis length_map length_rev)
  with run show ?thesis by (auto simp: operation_tables)
qed

section \<open>Sending one event\<close>

text \<open>
  The template that choosing an operation writes into the editor is read back as it is, so a click on \<open>Send\<close> sends an
  event of that operation with the payload of the template.
\<close>

lemma templates_are_json: "list_all (\<lambda>op. json_ok (Obj (emulatorTemplate op))) AVANPOST_OPERATION_VALUES"
  by code_simp

lemma chosen_operation_sent:
  assumes "op \<in> set AVANPOST_OPERATION_VALUES" "buildEvent ev op (em_targetSystem p) (Obj (emulatorTemplate op)) s = (Inr event, s1)"
    and "sendWebhookEvent ev event s1 = (Inr response, s2)"
  shows "\<exists>r p' s'. handleSend ev (handleChange op p, s) = (r, (p', s')) \<and> r = Inr () \<and> em_lastResponse p' = response \<and>
    (case em_log p' of e # es \<Rightarrow> es = em_log p \<and> le_operation e = op \<and> le_request e = event | [] \<Rightarrow> False)"
proof -
  from assms(1) templates_are_json have "json_ok (Obj (emulatorTemplate op))" by (simp add: list_all_iff)
  then have parsed: "JSON_parse (em_payload (handleChange op p)) = Some (Obj (emulatorTemplate op))"
    by (simp add: handleChange_def indented_round_trip del: json_ok.simps json_indented.simps)
  show ?thesis
    using assms(2,3) parsed
    by (auto simp: handleSend_def io_bind_run io_run handleChange_def recordResponse_def appendLog_def js_read_def
        failed_response_def nullish_def split: prod.split if_splits)
qed

lemma invalid_json_not_sent:
  "JSON_parse (em_payload p) = None \<Longrightarrow>
     handleSend ev (p, s) = (Inr (), (p\<lparr>em_error := Some ''Invalid JSON in payload editor'', em_lastResponse := Undef\<rparr>, s))"
  by (simp add: handleSend_def io_bind_run io_run)

end
