(* ===== verification/App_Start.thy ===== *)
theory App_Start
  imports Integration_Auth Admin_Auth Observability Tls_Options
begin

text \<open>
  How the program is put together and started: \<^verbatim>\<open>src/main.ts\<close>, \<^verbatim>\<open>src/app.module.ts\<close>,
  \<^verbatim>\<open>src/metrics/http-metrics.middleware.ts\<close> and the start of the two Kafka services
  (\<open>onModuleInit\<close> of \<^verbatim>\<open>src/kafka\<close>). The Kafka client and the router with its controllers are parameters.
\<close>

section \<open>Kafka\<close>

text \<open>What is called of the client: \<open>connect\<close> with its options, \<open>subscribe\<close> to a topic, \<open>run\<close>.\<close>

record 's kafka_client =
  kc_connect :: "obj \<Rightarrow> ('s, unit) io"
  kc_group :: "string \<Rightarrow> ('s, unit) io"
  kc_subscribe :: "string \<Rightarrow> ('s, unit) io"
  kc_run :: "('s, unit) io"
  kc_disconnect :: "('s, unit) io"

definition kafka_brokers :: "env \<Rightarrow> string list" where
  "kafka_brokers env = split_char (CHR '','') (cfg_str (en_cfg env) ''KAFKA_BROKERS'' ''localhost:9092'')"

definition kafka_clientId :: "env \<Rightarrow> string \<Rightarrow> string" where
  "kafka_clientId env role = cfg_str (en_cfg env) ''KAFKA_CLIENT_ID'' ''idmmw'' @ role"

definition kafka_groupId :: "env \<Rightarrow> string" where
  "kafka_groupId env = cfg_str (en_cfg env) ''KAFKA_CONSUMER_GROUP_ID'' ''idmmw-worker-group''"

definition kafka_options :: "tls_env option \<Rightarrow> env \<Rightarrow> string \<Rightarrow> exn + obj" where
  "kafka_options te env role =
     (case te of
        Some t \<Rightarrow> kafkaConfig t (kafka_clientId env role) (kafka_brokers env)
      | None \<Rightarrow> Inr [(''clientId'', Str (kafka_clientId env role)), (''brokers'', Arr (map Str (kafka_brokers env)))])"

definition producer_onModuleInit :: "'s kafka_client \<Rightarrow> tls_env option \<Rightarrow> env \<Rightarrow> ('s, unit) io" where
  "producer_onModuleInit kc te env =
     (if \<not> kafka_enabled env then io_return ()
      else io_bind (io_of_sum (kafka_options te env ''-producer'')) (kc_connect kc))"

definition consumer_onModuleInit :: "'s kafka_client \<Rightarrow> tls_env option \<Rightarrow> env \<Rightarrow> ('s, unit) io" where
  "consumer_onModuleInit kc te env =
     (if \<not> kafka_enabled env then io_return ()
      else io_bind (io_of_sum (kafka_options te env ''-consumer'')) (\<lambda>options.
        io_seq (kc_group kc (kafka_groupId env))
       (io_seq (kc_connect kc options)
       (io_seq (io_foreach (kc_subscribe kc) (subscribed_topics env)) (kc_run kc)))))"

text \<open>\<open>created\<close>: whether the field \<open>producer\<close> or \<open>consumer\<close> was set, which it is just before \<open>connect\<close>.\<close>

definition kafka_onModuleDestroy :: "'s kafka_client \<Rightarrow> bool \<Rightarrow> ('s, unit) io" where
  "kafka_onModuleDestroy kc created = (if created then kc_disconnect kc else io_return ())"

section \<open>The metrics of requests\<close>

record http_metrics =
  hm_requests :: "string \<times> string \<times> string \<Rightarrow> nat"
  hm_durations :: "string \<times> string \<Rightarrow> rat list"

text \<open>\<open>req.route?.path ?? req.path\<close>: a middleware runs before the router, which sets the route.\<close>

definition route_label :: "string option \<Rightarrow> request \<Rightarrow> string" where
  "route_label route req = (case route of Some r \<Rightarrow> r | None \<Rightarrow> rq_path req)"

definition observe_request :: "request \<Rightarrow> string \<Rightarrow> nat \<Rightarrow> int \<Rightarrow> http_metrics \<Rightarrow> http_metrics" where
  "observe_request req route status millis hm =
     hm\<lparr>hm_requests := inc_counter (hm_requests hm) (rq_method req, route, show_nat status),
        hm_durations := (hm_durations hm)((rq_method req, route) :=
          hm_durations hm (rq_method req, route) @ [of_int millis / 1000])\<rparr>"

text \<open>\<open>finished\<close>: the event of this name never comes when the connection breaks before the answer is written.\<close>

definition http_metrics_use ::
  "string option \<Rightarrow> request \<Rightarrow> bool \<Rightarrow> (web_state \<times> 'h \<Rightarrow> nat \<times> (web_state \<times> 'h)) \<Rightarrow>
   http_metrics \<times> (web_state \<times> 'h) \<Rightarrow> nat \<times> (http_metrics \<times> (web_state \<times> 'h))" where
  "http_metrics_use route req finished rest = (\<lambda>(hm, s).
     case rest s of (status, s') \<Rightarrow>
       (status, (if finished then observe_request req (route_label route req) status (ws_now (fst s') - ws_now (fst s)) hm else hm, s')))"

section \<open>The application module\<close>

definition isLightweight :: "process_env \<Rightarrow> bool" where
  "isLightweight process \<longleftrightarrow> process ''LIGHTWEIGHT_MODE'' = Some ''true''"

definition mockIdmEnabled :: "process_env \<Rightarrow> bool" where
  "mockIdmEnabled process \<longleftrightarrow> process ''MOCK_IDM_ENABLED'' = Some ''true'' \<and> process ''NODE_ENV'' \<noteq> Some ''production''"

definition app_modules :: "process_env \<Rightarrow> string list" where
  "app_modules process =
     [''ConfigModule'', ''LoggerModule'', ''DiagnosticsModule'', ''SecretsModule'', ''SecurityModule'', ''AuthModule'',
      ''PrismaModule'', ''HealthModule''] @
     (if mockIdmEnabled process then [''MockIdmModule''] else []) @ [''WebhooksModule''] @
     (if isLightweight process then [] else [''KafkaModule'']) @
     [''AdminModule'', ''AdminUiModule'', ''MetricsModule'', ''ServeStaticModule'']"

text \<open>What the modules import from each other, and the modules that are loaded.\<close>

definition AdminModule_imports :: "string list" where
  "AdminModule_imports = [''CoreModule'', ''KafkaModule'', ''MetricsModule'', ''ConnectorsModule'']"

definition WebhooksModule_imports :: "string list" where
  "WebhooksModule_imports = [''CoreModule'', ''OutboundModule'']"

definition OutboundModule_imports :: "string list" where
  "OutboundModule_imports = [''CoreModule'', ''KafkaModule'']"

definition CoreModule_imports :: "string list" where
  "CoreModule_imports = [''ConnectorsModule'', ''MetricsModule'']"

definition module_imports :: "string \<Rightarrow> string list" where
  "module_imports name =
     (if name = ''AdminModule'' then AdminModule_imports else if name = ''WebhooksModule'' then WebhooksModule_imports
      else if name = ''OutboundModule'' then OutboundModule_imports else if name = ''CoreModule'' then CoreModule_imports
      else if name = ''KafkaModule'' then [''CoreModule''] else if name = ''ConnectorsModule'' then [''HttpModule'', ''PrismaModule'']
      else if name = ''PrismaModule'' then [''SecurityModule'']
      else if name = ''HealthModule'' then [''TerminusModule'', ''PrismaModule'', ''CoreModule'']
      else if name = ''MockIdmModule'' then [''HttpModule''] else [])"

inductive module_loaded :: "process_env \<Rightarrow> string \<Rightarrow> bool" for process where
  listed: "name \<in> set (app_modules process) \<Longrightarrow> module_loaded process name"
| imported: "module_loaded process name \<Longrightarrow> other \<in> set (module_imports name) \<Longrightarrow> module_loaded process other"

text \<open>
  The lightweight mode leaves \<open>KafkaModule\<close> out of the list, but the administration and the dispatcher import it:
  its services are created and started whatever the mode, and only \<open>KAFKA_ENABLED\<close> keeps them from connecting.
\<close>

lemma kafka_always_loaded: "module_loaded process ''KafkaModule''"
proof (rule module_loaded.imported)
  show "module_loaded process ''AdminModule''" by (rule module_loaded.listed) (simp add: app_modules_def)
qed (simp add: module_imports_def AdminModule_imports_def)

text \<open>The simulator is not loaded in production, however it is imported.\<close>

lemma simulator_not_loaded:
  assumes "process ''NODE_ENV'' = Some ''production''"
  shows "\<not> module_loaded process ''MockIdmModule''"
proof
  assume "module_loaded process ''MockIdmModule''"
  then show False
    by cases (use assms in \<open>auto simp: app_modules_def mockIdmEnabled_def module_imports_def AdminModule_imports_def
      WebhooksModule_imports_def OutboundModule_imports_def CoreModule_imports_def split: if_splits\<close>)
qed

definition adminUiApiExcludes :: "string list" where
  "adminUiApiExcludes = [''/admin/{*any}'', ''/api/{*any}'', ''/auth/{*any}'', ''/health/{*any}'', ''/idm/{*any}'',
     ''/idm-emulator/{*any}'', ''/metrics/{*any}'', ''/mock-idm/{*any}'', ''/webhooks/{*any}'', ''/assets/{*any}'',
     ''/favicon.svg'', ''/icons.svg'']"

text \<open>The directories served as files: below the root of the program, where they are mounted, and what they leave out.\<close>

datatype static_root = ServeRoot string string | RenderPath string string "string list"

definition static_roots :: "config \<Rightarrow> static_root list" where
  "static_roots cfg = ServeRoot ''idm-emulator/dist'' ''/idm-emulator'' #
     (if cfg_bool cfg ''ADMIN_UI_ENABLED'' then [RenderPath ''ui/dist'' ''{*any}'' adminUiApiExcludes] else [])"

text \<open>The parts a request meets: the digests, the environment, the configuration, and the router with the controllers.\<close>

record 'h server =
  sp_digests :: digests
  sp_le :: "string \<Rightarrow> string \<Rightarrow> bool"
  sp_process :: process_env
  sp_cfg :: config
  sp_handler :: "request \<Rightarrow> web_state \<times> 'h \<Rightarrow> nat \<times> (web_state \<times> 'h)"

definition sp_auth :: "'h server \<Rightarrow> auth_env" where
  "sp_auth sp = \<lparr>au_cfg = sp_cfg sp, au_digests = sp_digests sp\<rparr>"

text \<open>The status of the answer to an error that no one catches.\<close>

definition http_status :: "exn \<Rightarrow> nat" where
  "http_status e = (case e of HttpException status _ \<Rightarrow> status | _ \<Rightarrow> 500)"

definition after_admin_auth :: "'h server \<Rightarrow> request \<Rightarrow> web_state \<times> 'h \<Rightarrow> nat \<times> (web_state \<times> 'h)" where
  "after_admin_auth sp req = (\<lambda>(web, h).
     case admin_middleware (sp_auth sp) req web of
       (Inl e, web') \<Rightarrow> (http_status e, (web', h))
     | (Inr (Reject status _), web') \<Rightarrow> (status, (web', h))
     | (Inr Next, web') \<Rightarrow> sp_handler sp req (web', h))"

definition after_integration_auth :: "'h server \<Rightarrow> request \<Rightarrow> web_state \<times> 'h \<Rightarrow> nat \<times> (web_state \<times> 'h)" where
  "after_integration_auth sp req = (\<lambda>s.
     case integration_middleware (sp_digests sp) (sp_le sp) (sp_process sp) (sp_cfg sp) (ws_now (fst s)) req of
       Reject status _ \<Rightarrow> (status, s)
     | Next \<Rightarrow> after_admin_auth sp req s)"

text \<open>\<open>configure\<close>: the three middlewares in their order, for every route.\<close>

definition serve ::
  "'h server \<Rightarrow> string option \<Rightarrow> request \<Rightarrow> bool \<Rightarrow> http_metrics \<times> (web_state \<times> 'h) \<Rightarrow> nat \<times> (http_metrics \<times> (web_state \<times> 'h))" where
  "serve sp route req finished = http_metrics_use route req finished (after_integration_auth sp req)"

section \<open>Starting the program\<close>

text \<open>\<open>bootstrapConfig\<close>: the variables of the process in place of the configuration service.\<close>

definition bootstrap_tls :: "process_env \<Rightarrow> (string \<Rightarrow> exn + string) \<Rightarrow> tls_env" where
  "bootstrap_tls process readFile =
     \<lparr>te_env = process, te_cfg = (\<lambda>key. case process key of Some v \<Rightarrow> Str v | None \<Rightarrow> Undef), te_readFile = readFile\<rparr>"

definition app_port :: "config \<Rightarrow> js" where
  "app_port cfg = coalesce (cfg ''PORT'') (JInt 3010)"

definition app_url :: "js \<Rightarrow> config \<Rightarrow> string" where
  "app_url httpsOptions cfg = (if truthy httpsOptions then ''https'' else ''http'') @ ''://localhost:'' @ js_string (app_port cfg)"

definition ui_url :: "js \<Rightarrow> config \<Rightarrow> string" where
  "ui_url httpsOptions cfg = (if cfg_bool cfg ''ADMIN_UI_ENABLED'' then app_url httpsOptions cfg @ ''/'' else ''disabled'')"

definition startupInfo :: "js \<Rightarrow> config \<Rightarrow> obj" where
  "startupInfo httpsOptions cfg =
     [(''app'', Str (app_url httpsOptions cfg)), (''swagger'', Str (app_url httpsOptions cfg @ ''/api'')),
      (''metrics'', Str (app_url httpsOptions cfg @ ''/metrics'')), (''adminUi'', Str (ui_url httpsOptions cfg)),
      (''grafana'', Str ''http://localhost:3000''), (''httpTlsEnabled'', Bool (truthy httpsOptions)),
      (''debugLoggingEnabled'', Bool (diagnostics_enabled cfg)), (''debugLoggingLevel'', Str (diagnostics_level cfg)),
      (''logSink'', coalesce (cfg ''LOG_SINK'') (Str ''stdout''))]"

definition shutdownMsg :: "js \<Rightarrow> config \<Rightarrow> string" where
  "shutdownMsg httpsOptions cfg = join [CHR 0x0A]
     [''Shutting down. Services were available at:'', ''  App:       '' @ app_url httpsOptions cfg,
      ''  Swagger:   '' @ app_url httpsOptions cfg @ ''/api'', ''  Metrics:   '' @ app_url httpsOptions cfg @ ''/metrics'',
      ''  Admin UI:  '' @ ui_url httpsOptions cfg, ''  Grafana:   http://localhost:3000 (login: admin / code: admin)'']"

text \<open>The environment is validated when the modules are created, after the options of HTTPS have been read.\<close>

definition bootstrap :: "process_env \<Rightarrow> (string \<Rightarrow> exn + string) \<Rightarrow> config \<Rightarrow> exn + obj" where
  "bootstrap process readFile cfg =
     res_bind (inboundHttpsOptions (bootstrap_tls process readFile)) (\<lambda>httpsOptions. Inr (startupInfo httpsOptions cfg))"

lemma url_scheme:
  assumes "bootstrap process readFile cfg = Inr info"
  shows "js_prop (Obj info) ''httpTlsEnabled'' = Bool (tls_isEnabled (Obj (fromEnv (bootstrap_tls process readFile) ''HTTP_TLS'')))"
  using assms
  by (auto simp: bootstrap_def res_bind_Inr inboundHttpsOptions_def Let_def startupInfo_def js_prop_def obj_get_def split: if_splits)

section \<open>Kafka starts in order\<close>

text \<open>
  A worker that has started was connected with the options of the configuration before it subscribed, to the
  configured topics only, and with TLS options whenever TLS is enabled for Kafka.
\<close>

lemma consumer_started:
  assumes "kafka_enabled env" "consumer_onModuleInit kc (Some t) env s = (Inr (), s')"
  shows "\<exists>options s1 s2 s3. kafka_options (Some t) env ''-consumer'' = Inr options \<and>
    has_own options ''ssl'' = tls_isEnabled (Obj (fromEnv t ''KAFKA_TLS'')) \<and>
    kc_group kc (kafka_groupId env) s = (Inr (), s1) \<and> kc_connect kc options s1 = (Inr (), s2) \<and>
    io_foreach (kc_subscribe kc) (subscribed_topics env) s2 = (Inr (), s3) \<and> kc_run kc s3 = (Inr (), s')"
proof -
  from assms obtain options where options: "kafka_options (Some t) env ''-consumer'' = Inr options"
    by (cases "kafka_options (Some t) env ''-consumer''") (auto simp: consumer_onModuleInit_def io_simps)
  with assms have "io_seq (kc_group kc (kafka_groupId env)) (io_seq (kc_connect kc options)
      (io_seq (io_foreach (kc_subscribe kc) (subscribed_topics env)) (kc_run kc))) s = (Inr (), s')"
    by (simp add: consumer_onModuleInit_def io_bind_value)
  then obtain s1 s2 s3 where "kc_group kc (kafka_groupId env) s = (Inr (), s1)" "kc_connect kc options s1 = (Inr (), s2)"
    "io_foreach (kc_subscribe kc) (subscribed_topics env) s2 = (Inr (), s3)" "kc_run kc s3 = (Inr (), s')"
    by (auto simp: io_seq_Inr)
  moreover from options have "has_own options ''ssl'' = tls_isEnabled (Obj (fromEnv t ''KAFKA_TLS''))"
    by (auto simp: kafka_options_def kafkaConfig_def Let_def res_bind_Inr has_own_def split: if_splits)
  ultimately show ?thesis using options by blast
qed

section \<open>What reaches the controllers\<close>

lemma served:
  assumes "serve sp route req finished (hm, (web, h)) = (status, (hm', (web', h')))"
  shows "hm_requests hm' = (if finished then inc_counter (hm_requests hm) (rq_method req, route_label route req, show_nat status)
      else hm_requests hm)"
    and "h' \<noteq> h \<Longrightarrow> integration_middleware (sp_digests sp) (sp_le sp) (sp_process sp) (sp_cfg sp) (ws_now web) req = Next \<and>
      (\<exists>w. admin_middleware (sp_auth sp) req web = (Inr Next, w))"
  using assms
  by (auto simp: serve_def http_metrics_use_def observe_request_def after_integration_auth_def after_admin_auth_def
      split: prod.splits sum.splits middleware_outcome.splits if_splits)

text \<open>
  C15: a request changes something in the program only through both guards: signed, when it is for the
  interface of the identity management system and signatures are required, and with a session (and its token,
  when it is no reading request) when it is for the administration and the login is required; and every request whose
  answer was written is counted exactly once, under its method and the status it was answered with, also when a
  guard refused it.
\<close>

theorem changes_pass_guards:
  assumes "digests_ok (sp_digests sp)" "auth_isEnabled (sp_cfg sp)"
    and "serve sp route req True (hm, (web, h)) = (status, (hm', (web', h')))"
  shows "(h' \<noteq> h \<and> requiresAuth (sp_cfg sp) req \<longrightarrow>
       ia_verify (sp_digests sp) (sp_le sp) (sp_process sp) (sp_cfg sp) (ws_now web) req = AuthOk) \<and>
    (h' \<noteq> h \<and> requiresAdminAuth (rq_path req) \<longrightarrow> admin_request (sp_auth sp) req (ws_now web)) \<and>
    hm_requests hm' = inc_counter (hm_requests hm) (rq_method req, route_label route req, show_nat status)"
proof (intro conjI impI)
  assume "h' \<noteq> h \<and> requiresAuth (sp_cfg sp) req"
  with served(2) [OF assms(3)]
  show "ia_verify (sp_digests sp) (sp_le sp) (sp_process sp) (sp_cfg sp) (ws_now web) req = AuthOk"
    by (auto simp: integration_middleware_def split: auth_result.splits)
next
  assume h: "h' \<noteq> h \<and> requiresAdminAuth (rq_path req)"
  with served(2) [OF assms(3)] obtain w where "admin_middleware (sp_auth sp) req web = (Inr Next, w)" by blast
  with h assms(1,2) show "admin_request (sp_auth sp) req (ws_now web)" by (intro admin_passed) (simp_all add: sp_auth_def)
next
  show "hm_requests hm' = inc_counter (hm_requests hm) (rq_method req, route_label route req, show_nat status)"
    using served(1) [OF assms(3)] by simp
qed

text \<open>A change with a session and its token: it reaches the controllers, with both guards met, and is counted.\<close>

definition demo_server :: "nat server" where
  "demo_server = \<lparr>sp_digests = au_digests demo_auth, sp_le = (\<lambda>a b. True), sp_process = (\<lambda>_. None), sp_cfg = au_cfg demo_auth,
     sp_handler = (\<lambda>req (web, n). (200, (web, Suc n)))\<rparr>"

definition no_requests :: http_metrics where
  "no_requests = \<lparr>hm_requests = (\<lambda>_. 0), hm_durations = (\<lambda>_. [])\<rparr>"

theorem changes_pass_guards_witness:
  "\<exists>hm'. serve demo_server None (demo_visit ''POST'' demo_cookie) True (no_requests, (demo_web, 0)) = (200, (hm', (demo_web, 1))) \<and>
    hm_requests hm' (''POST'', ''/admin/dlq'', ''200'') = 1 \<and>
    admin_request demo_auth (demo_visit ''POST'' demo_cookie) 1000"
proof -
  let ?req = "demo_visit ''POST'' demo_cookie"
  let ?hm = "observe_request ?req (route_label None ?req) 200 0 no_requests"
  have auth: "sp_auth demo_server = demo_auth" by (simp add: sp_auth_def demo_server_def)
  have enabled: "digests_ok (sp_digests demo_server)" "auth_isEnabled (sp_cfg demo_server)"
    by (simp_all add: demo_server_def demo_auth_facts)
  have "\<not> requiresAuth (sp_cfg demo_server) ?req"
    by (simp add: requiresAuth_def ia_path_def before_query_def demo_visit_def demo_server_def demo_auth_def demo_auth_cfg_def
        cfg_bool_def Let_def)
  then have run: "serve demo_server None ?req True (no_requests, (demo_web, 0)) = (200, (?hm, (demo_web, 1)))"
    by (simp add: serve_def http_metrics_use_def after_integration_auth_def integration_middleware_def after_admin_auth_def auth
        demo_visit_passes) (simp add: demo_server_def)
  have shown: "rq_method ?req = ''POST''" "route_label None ?req = ''/admin/dlq''" "requiresAdminAuth (rq_path ?req)"
    "ws_now demo_web = 1000" "show_nat 200 = ''200''"
    by (simp_all add: demo_visit_def route_label_def requiresAdminAuth_def demo_web_def) code_simp
  from changes_pass_guards [OF enabled run] show ?thesis
    by (intro exI [of _ ?hm] conjI run) (simp_all add: shown auth inc_counter_def no_requests_def)
qed

end
