(* ===== verification/Spec2Isabelle.thy ===== *)
theory Spec2Isabelle
  imports Avanpost_Ops Secret_Redaction Retry_Service Metrics_Service Json_Text World Retry_Policy Dlq Idempotency
    Connector_Registry Processing Kafka_Messaging Webhook Admin Connector_Client Fake_Connector Zabbix_Connector
    Cmdbuild_Connector Passwork_Connector Ip_Utils Rest_Connector Db_Connector Encrypted_Pipeline Encryption_Rotation
    Integration_Auth Admin_Auth App_Config Target_Systems Idm_Controller Pam_Secrets Observability Pipeline
    Registry_Reload Ui_Client Ui_Target_Form Ui_Session Ui_Dlq Mock_Idm Idm_Emulator App_Start
begin

text \<open>
  A model of idpMw, the middleware between an identity management system (Avanpost IDM) and target systems, written in
  TypeScript on NestJS, with its two browser applications. Names under \<^verbatim>\<open>src/\<close>, \<^verbatim>\<open>ui/\<close> and
  \<^verbatim>\<open>idm-emulator/\<close> are paths of the repository.

  \<^bold>\<open>The program.\<close> A request of the identity management system passes two guards (a signature for its own
  interface, a session for the administration) and is validated by the webhook controller. The webhook service admits each
  event once, by a key in PostgreSQL or Redis. The dispatcher processes it at once or sends it to Kafka, from where a worker
  takes it. The processing service looks up the connector by the name of the target system in the connector registry, calls
  it under a retry policy, and puts an event that failed into the dead letter queue, from which administrators retry or skip
  it. The registry serves static connectors by type (REST, database, Zabbix, CMDBuild, Passwork, a fake one) and a proxy for
  every enabled row of the table of target systems, which injects the stored configuration into each call. Stored
  configurations and payloads, messages and idempotency keys are encrypted or digested when encryption is switched on; the keys
  can be rotated. Administrators edit the target systems and the queue through the browser.

  \<^bold>\<open>How the model is built.\<close> A JavaScript value is the datatype \<open>js\<close>; a method that waits or throws is a
  function from the state to an error or a value, with the state it leaves (\<open>io\<close>, theory \<open>Js_Io\<close>); every
  \<open>throw\<close>, \<open>catch\<close> and \<open>finally\<close> of the source is a branch. The shared state is the record
  \<open>world\<close>: the tables, the Redis server, the topics of Kafka, the metrics, the clock, the external systems of the
  connectors as a type parameter, and a script of the failures of the next calls to the database and the broker, so that
  theorems over all states cover every failure. Names of definitions are those of the source, with a prefix where two
  components or the library use the same name. Code outside the repository is a parameter: HTTP clients and servers, ciphers and
  digests, the class \<open>URL\<close>, knex, the Kafka client, the router, random texts. What is relied on of it is a named
  hypothesis (for instance \<open>digests_ok\<close>), and each theorem with one has a witness in which it holds.

  \<^bold>\<open>Theories.\<close>

  \<^item> Base: \<open>Js_Prelude\<close> (values, texts, numbers, objects as association lists), \<open>Js_Io\<close> (effects, and the
    rules with which frames, \<open>io_keeps\<close>, and invariants, \<open>io_inv\<close>, are proved), \<open>Json_Text\<close> and \<open>Json_Indented\<close> (\<open>JSON\<close>, with
    the round trips), \<open>Base64_Text\<close>, \<open>Http_Client\<close>, \<open>Web_Request\<close>, \<open>World\<close> (the state, the environment and the
    interfaces \<open>json_codec\<close> and \<open>message_codec\<close>).
  \<^item> Events (\<^verbatim>\<open>src/inbound/webhooks\<close>, \<^verbatim>\<open>src/outbound\<close>, \<^verbatim>\<open>src/kafka\<close>, \<^verbatim>\<open>src/core\<close>): \<open>Avanpost_Ops\<close> (the vocabulary
    of operations), \<open>Webhook\<close> (validation, webhook service, dispatcher), \<open>Kafka_Messaging\<close>, \<open>Processing\<close>,
    \<open>Retry_Service\<close>, \<open>Retry_Policy\<close>, \<open>Dlq\<close>, \<open>Idempotency\<close>, \<open>Metrics_Service\<close>.
  \<^item> Connectors (\<^verbatim>\<open>src/connectors\<close>): \<open>Connector_Registry\<close> (the operations, one at a time), \<open>Registry_Reload\<close>
    (the registry as it runs, interleaved with writes and polls), \<open>Connector_Client\<close> (the contract
    \<open>reporting_connector\<close>), \<open>Fake_Connector\<close>, \<open>Zabbix_Connector\<close>, \<open>Cmdbuild_Connector\<close>,
    \<open>Passwork_Connector\<close>, \<open>Rest_Connector\<close>, \<open>Db_Connector\<close>.
  \<^item> Security (\<^verbatim>\<open>src/security\<close>, \<^verbatim>\<open>src/auth\<close>, \<^verbatim>\<open>src/secrets\<close>, \<^verbatim>\<open>src/database\<close>): \<open>Secret_Redaction\<close>, \<open>Tls_Options\<close>,
    \<open>Ip_Utils\<close> (addresses as 32-bit words), \<open>Encryption\<close>, \<open>Encryption_Rotation\<close> (with the check at start of
    \<^verbatim>\<open>prisma.service.ts\<close>), \<open>Encrypted_Pipeline\<close>, \<open>Integration_Auth\<close>, \<open>Admin_Auth\<close>, \<open>Pam_Secrets\<close>.
  \<^item> Administration and operation: \<open>Admin\<close>, \<open>Target_Systems\<close> (\<^verbatim>\<open>src/admin\<close>), \<open>Idm_Controller\<close>
    (\<^verbatim>\<open>src/inbound/idm\<close>), \<open>App_Config\<close>, \<open>Observability\<close> (logging, diagnostics, audit, readiness),
    \<open>App_Start\<close> (modules, middlewares, start of the program and of Kafka).
  \<^item> Browser and simulators: \<open>Ui_Client\<close>, \<open>Ui_Target_Form\<close>, \<open>Ui_Dlq\<close> (\<^verbatim>\<open>ui/src\<close>), \<open>Ui_Session\<close> (the
    client against the server's authentication), \<open>Mock_Idm\<close> (\<^verbatim>\<open>src/mock-idm\<close>), \<open>Idm_Emulator\<close>
    (\<^verbatim>\<open>idm-emulator/src\<close>).
  \<^item> \<open>Pipeline\<close>: properties of the whole path of an event.

  \<^bold>\<open>What the theorems show.\<close>

  \<^item> No event is lost or admitted twice: the two stores implement the interface \<open>idempotency_store\<close> and an abstract
    table of locks (\<open>Pipeline\<close>), with plain and with digested keys, also across a rotation; an event that was
    acknowledged is in the queue when its delivery failed; two workers never hold one item of the queue while the lease
    lasts; a retried item is delivered and resolved; waits are bounded.
  \<^item> Routing: the connector is called with the stored configuration and never with one of the caller; the registry
    serves the table after every interleaving of reloads, writes, polls and failures, with the one exception that is
    stated (a write between the two queries of a reload).
  \<^item> Secrets and access: what passes the guards is signed or has a session, the browser's own requests pass them; answers
    and messages of errors show no secret; editing a target system, also through the browser's form, keeps the stored
    secrets; values and messages are read back after encryption and rotation; only allowed addresses are called.
  \<^item> Configuration and tools: an accepted environment is well typed and has what its features need; the exports,
    the contract test and the simulator do what they say.

  Interfaces are locales, interpreted on the definitions of the providing component: \<open>idempotency_store\<close> for both
  stores and the selected one, \<open>key_scheme\<close> for plain and digested keys, \<open>idempotency_service\<close>, \<open>json_codec\<close> and
  \<open>message_codec\<close> for the encryption service, \<open>reporting_connector\<close> for the connectors that report failures as results,
  \<open>rotated_table\<close> for the three tables a rotation rewrites. Interleavings are inductive relations (\<open>dlq_run\<close>,
  \<open>idem_run\<close>, \<open>reload_run\<close>), over which invariants are proved by rule induction.

  \<^bold>\<open>Bounds and termination.\<close> The retry loop, the merge of configurations, the splitting of texts and the reader of
  exports are total functions with a measure. \<open>JSON_parse\<close> runs on fuel, one more than the length of the text; every
  step of the parser consumes a character, and \<open>json_round_trip\<close> shows that this is enough for every text the program
  writes (\<open>json_ok\<close>). A fraction is printed with at most 1100 digits, more than any number of the language has.
  Nothing else has fuel.

  \<^bold>\<open>Simplifications.\<close> Characters are ASCII except where a component writes UTF-8; numbers are exact rationals
  with NaN and the infinities, without rounding; objects inherit nothing. \<open>Promise.all\<close> runs its parts in order. A
  transaction of PostgreSQL and one command of Redis are atomic. The path of a request in the middlewares is the one the
  framework hands over (\<open>rq_path\<close>); whether the framework shortens it below a mounted middleware is not part of
  the repository. Log lines have no effect on the state.

  \<^bold>\<open>Not modelled.\<close> The framework (routing, dependency injection beyond the imports of modules, the OpenAPI page,
  signals); connecting and disconnecting of PostgreSQL and Redis; markup, style sheets, the editors and downloads of the
  browser applications; the command that starts a key rotation, whose rotation is
  \<open>rotateToActiveKey\<close>; \<^verbatim>\<open>db-connector.config.ts\<close>, a schema used nowhere, \<^verbatim>\<open>app.controller.ts\<close>,
  registered nowhere, and the route that sends the browser application's page; the tests; and what is not TypeScript:
  the scripts, the deployment and monitoring files and the SQL of the migrations.
\<close>

end
